(* ===== verification/Prelude.thy ===== *)
theory Prelude
  imports Main "HOL-Library.Word" "HOL-Library.Sublist"
begin

text \<open>
  Shared by all theories of the development: the ways a C function of the drivers can go
  wrong (\<open>ub\<close>), the functions of \<open><string.h>\<close>, \<open><ctype.h>\<close> and \<open><stdlib.h>\<close> the drivers
  call, and the lemmas about them that the component theories use.

  A C string is the list of its characters before the terminating NUL byte, so a pointer
  into a string is the suffix that starts there, \<open>*p\<close> is its head, and the empty suffix is
  the pointer to the NUL. A character of a string that the code reads byte by byte is a
  \<open>char\<close> of HOL, which is one byte.
\<close>

named_theorems cstr \<open>evaluation of the C string functions\<close>

section \<open>Undefined behaviour as a value\<close>

text \<open>
  What C leaves undefined is a value of the model: a write past the end of a buffer, a read
  past the terminating NUL, a dereferenced null pointer, a read of a variable that was
  never set, a use of freed memory.
\<close>

datatype ub = BufferOverflow | ReadPastEnd | NullDeref | UninitRead | UseAfterFree

type_synonym 'a run = "ub + 'a"

definition run_bind :: "'a run \<Rightarrow> ('a \<Rightarrow> 'b run) \<Rightarrow> 'b run" where
  "run_bind m f = (case m of Inl e \<Rightarrow> Inl e | Inr x \<Rightarrow> f x)"

definition defined :: "'a run \<Rightarrow> bool" where
  "defined m = (case m of Inl e \<Rightarrow> False | Inr x \<Rightarrow> True)"

lemma run_bind_simps [simp]:
  "run_bind (Inl e) f = Inl e"
  "run_bind (Inr x) f = f x"
  by (simp_all add: run_bind_def)

lemma defined_simps [simp]:
  "defined (Inl e) = False"
  "defined (Inr x) = True"
  by (simp_all add: defined_def)

lemma run_bind_cong [fundef_cong]:
  "m = m' \<Longrightarrow> (\<And>x. m' = Inr x \<Longrightarrow> f x = f' x) \<Longrightarrow> run_bind m f = run_bind m' f'"
  by (cases m') auto

lemma run_bind_eq_Inr: "run_bind m f = Inr y \<longleftrightarrow> (\<exists>x. m = Inr x \<and> f x = Inr y)"
  by (cases m) auto

lemma defined_iff: "defined m \<longleftrightarrow> (\<exists>x. m = Inr x)"
  by (cases m) auto

text \<open>Copying a string into an array of \<open>n\<close> bytes: the NUL needs a byte too.\<close>

definition strcpy_buf :: "nat \<Rightarrow> string \<Rightarrow> string run" where
  "strcpy_buf n s = (if length s < n then Inr s else Inl BufferOverflow)"

lemma strcpy_buf_fits [simp]: "length s < n \<Longrightarrow> strcpy_buf n s = Inr s"
  by (simp add: strcpy_buf_def)

lemma strcpy_buf_eq_Inr: "strcpy_buf n s = Inr t \<longleftrightarrow> t = s \<and> length s < n"
  by (auto simp: strcpy_buf_def)

text \<open>Reading an array of known length.\<close>

definition table_entry :: "'a list \<Rightarrow> nat \<Rightarrow> 'a run" where
  "table_entry tbl i = (if i < length tbl then Inr (tbl ! i) else Inl ReadPastEnd)"

section \<open>Characters\<close>

definition uchar :: "char \<Rightarrow> int" where
  "uchar c = int (of_char c)"

text \<open>\<open>char\<close> is signed on the platforms the drivers are built for (x86).\<close>

definition schar :: "char \<Rightarrow> int" where
  "schar c = (if uchar c < 128 then uchar c else uchar c - 256)"

definition ascii :: "char \<Rightarrow> bool" where
  "ascii c = (uchar c < 128)"

definition isdigit :: "char \<Rightarrow> bool" where
  "isdigit c = (48 \<le> uchar c \<and> uchar c \<le> 57)"

definition isspace :: "char \<Rightarrow> bool" where
  "isspace c = (uchar c = 32 \<or> 9 \<le> uchar c \<and> uchar c \<le> 13)"

definition toupper :: "char \<Rightarrow> char" where
  "toupper c = (if 97 \<le> uchar c \<and> uchar c \<le> 122 then char_of (of_char c - (32::nat)) else c)"

definition tolower :: "char \<Rightarrow> char" where
  "tolower c = (if 65 \<le> uchar c \<and> uchar c \<le> 90 then char_of (of_char c + (32::nat)) else c)"

lemma uchar_bounds: "0 \<le> uchar c \<and> uchar c < 256"
  using nat_of_char_less_256 [of c] by (simp add: uchar_def)

lemma uchar_inject [simp]: "uchar c = uchar d \<longleftrightarrow> c = d"
  by (simp add: uchar_def)

lemma schar_eq_uchar: "schar c = uchar d \<longleftrightarrow> c = d \<and> ascii d"
  using uchar_bounds [of c] uchar_bounds [of d] by (auto simp: schar_def ascii_def)

text \<open>The character a string literal of SQL is enclosed in.\<close>

abbreviation quote :: char where "quote \<equiv> CHR 0x27"

section \<open>The string functions\<close>

fun strchr :: "char \<Rightarrow> string \<Rightarrow> string option" where
  "strchr c [] = None"
| "strchr c (x # xs) = (if x = c then Some (x # xs) else strchr c xs)"

fun strstr :: "string \<Rightarrow> string \<Rightarrow> string option" where
  "strstr n [] = (if n = [] then Some [] else None)"
| "strstr n (x # xs) = (if prefix n (x # xs) then Some (x # xs) else strstr n xs)"

definition has_substr :: "string \<Rightarrow> string \<Rightarrow> bool" where
  "has_substr s n = (strstr n s \<noteq> None)"

text \<open>
  \<open>!strncasecmp(statement, keyword, strlen(keyword))\<close>.
\<close>

definition starts_with :: "string \<Rightarrow> string \<Rightarrow> bool" where
  "starts_with statement keyword =
     (map tolower (take (length keyword) statement) = map tolower keyword)"

lemma strchr_None: "strchr c s = None \<longleftrightarrow> c \<notin> set s"
  by (induction s) auto

lemma strchr_Some: "strchr c s = Some t \<Longrightarrow> \<exists>u v. s = u @ t \<and> c \<notin> set u \<and> t = c # v"
proof (induction s)
  case (Cons x xs)
  show ?case
  proof (cases "x = c")
    case True
    with Cons.prems show ?thesis by auto
  next
    case False
    with Cons obtain u v where "xs = u @ t" "c \<notin> set u" "t = c # v" by auto
    with False have "x # xs = (x # u) @ t \<and> c \<notin> set (x # u) \<and> t = c # v" by simp
    then show ?thesis by blast
  qed
qed simp

lemma strchr_append [simp]: "c \<notin> set u \<Longrightarrow> strchr c (u @ c # v) = Some (c # v)"
  by (induction u) auto

lemma strstr_Some: "strstr n s = Some t \<Longrightarrow> prefix n t \<and> suffix t s"
  by (induction s) (auto split: if_splits intro: suffix_ConsI)

lemma strstr_None: "strstr n s = None \<Longrightarrow> \<not> prefix n s"
  by (cases s) (auto split: if_splits)

lemma has_substr_sublist: "has_substr s n \<longleftrightarrow> sublist n s"
proof (induction s)
  case Nil
  then show ?case by (simp add: has_substr_def)
next
  case (Cons x xs)
  then show ?case by (auto simp: has_substr_def sublist_Cons_right)
qed

lemma has_substr_mid [simp]: "has_substr (u @ n @ v) n"
  by (auto simp: has_substr_sublist)

section \<open>Numbers\<close>

definition digit_val :: "char \<Rightarrow> nat" where
  "digit_val c = of_char c - 48"

definition digit_char :: "nat \<Rightarrow> char" where
  "digit_char d = char_of (d + 48)"

fun digits_val :: "nat \<Rightarrow> string \<Rightarrow> nat" where
  "digits_val acc [] = acc"
| "digits_val acc (c # cs) = (if isdigit c then digits_val (10 * acc + digit_val c) cs else acc)"

text \<open>The value \<open>strtol\<close> and \<open>strtoll\<close> read in base 10, before they clamp it.\<close>

definition strtol_val :: "string \<Rightarrow> int" where
  "strtol_val s =
     (case dropWhile isspace s of
        [] \<Rightarrow> 0
      | c # cs \<Rightarrow>
          (if c = CHR ''-'' then - int (digits_val 0 cs)
           else if c = CHR ''+'' then int (digits_val 0 cs)
           else int (digits_val 0 (c # cs))))"

definition LONG_MAX :: int where
  "LONG_MAX = 2 ^ 63 - 1"

definition LONG_MIN :: int where
  "LONG_MIN = - (2 ^ 63)"

text \<open>
  \<open>atol(s)\<close> is \<open>strtol(s, NULL, 10)\<close>, \<open>atoll(s)\<close> is \<open>strtoll(s, NULL, 10)\<close> and both types
  have 64 bits; an out-of-range value is clamped. \<open>atoi\<close> converts the result to 32 bits.
\<close>

definition atol :: "string \<Rightarrow> int" where
  "atol s = max LONG_MIN (min LONG_MAX (strtol_val s))"

definition atoll :: "string \<Rightarrow> int" where
  "atoll s = atol s"

definition atoi :: "string \<Rightarrow> int" where
  "atoi s = signed_take_bit 31 (atol s)"

text \<open>The decimal notation of a number, what \<open>%d\<close> prints and what a server sends.\<close>

fun show_nat :: "nat \<Rightarrow> string" where
  "show_nat n = (if n < 10 then [digit_char n] else show_nat (n div 10) @ [digit_char (n mod 10)])"

declare show_nat.simps [simp del]

definition show_int :: "int \<Rightarrow> string" where
  "show_int i = (if i < 0 then CHR ''-'' # show_nat (nat (- i)) else show_nat (nat i))"

lemma digit_val_char [simp]: "d < 10 \<Longrightarrow> digit_val (digit_char d) = d"
  by (simp add: digit_val_def digit_char_def)

lemma isdigit_digit_char [simp]: "d < 10 \<Longrightarrow> isdigit (digit_char d)"
proof -
  assume "d < 10"
  then have "(of_char (digit_char d) :: nat) = d + 48" by (simp add: digit_char_def)
  moreover have "uchar (digit_char d) = int (of_char (digit_char d))"
    by (simp add: uchar_def)
  ultimately show "isdigit (digit_char d)" using \<open>d < 10\<close> by (simp add: isdigit_def)
qed

lemma digits_val_append:
  "\<forall>c \<in> set u. isdigit c \<Longrightarrow> digits_val a (u @ v) = digits_val (digits_val a u) v"
  by (induction u arbitrary: a) auto

lemma show_nat_digits: "\<forall>c \<in> set (show_nat n). isdigit c"
proof (induction n rule: show_nat.induct)
  case (1 n)
  then show ?case by (subst show_nat.simps) auto
qed

lemma show_nat_nonempty [simp]: "show_nat n \<noteq> []"
  by (subst show_nat.simps) simp

lemma digits_val_show_nat: "digits_val 0 (show_nat n) = n"
proof (induction n rule: show_nat.induct)
  case (1 n)
  show ?case
  proof (cases "n < 10")
    case True
    then show ?thesis by (subst show_nat.simps) simp
  next
    case False
    then have "digits_val 0 (show_nat n)
        = digits_val (digits_val 0 (show_nat (n div 10))) [digit_char (n mod 10)]"
      by (subst show_nat.simps) (simp add: digits_val_append show_nat_digits)
    also have "\<dots> = 10 * (n div 10) + n mod 10" using False 1 by simp
    finally show ?thesis by simp
  qed
qed

lemma isdigit_not_space: "isdigit c \<Longrightarrow> \<not> isspace c \<and> c \<noteq> CHR ''-'' \<and> c \<noteq> CHR ''+''"
  by (auto simp: isdigit_def isspace_def uchar_def)

lemma strtol_val_digits:
  assumes "s \<noteq> []" and "\<forall>c \<in> set s. isdigit c"
  shows "strtol_val s = int (digits_val 0 s)"
  using assms isdigit_not_space by (cases s) (auto simp: strtol_val_def)

lemma strtol_val_show_int [simp]: "strtol_val (show_int i) = i"
proof (cases "i < 0")
  case True
  then show ?thesis
    by (simp add: show_int_def strtol_val_def isspace_def uchar_def digits_val_show_nat)
next
  case False
  then show ?thesis
    by (simp add: show_int_def strtol_val_digits show_nat_digits digits_val_show_nat)
qed

lemma atol_show_int: "LONG_MIN \<le> i \<Longrightarrow> i \<le> LONG_MAX \<Longrightarrow> atol (show_int i) = i"
  by (simp add: atol_def)

section \<open>Lists\<close>

lemma length_dropWhile_le' [simp]: "length (dropWhile P xs) \<le> length xs"
  by (rule length_dropWhile_le)

lemma length_dropWhile_less: "x # xs = dropWhile P ys \<Longrightarrow> length xs < length ys"
  using length_dropWhile_le [of P ys] by (metis length_Cons less_eq_Suc_le)

lemma dropWhile_hd: "dropWhile P xs = y # ys \<Longrightarrow> \<not> P y"
  by (metis dropWhile_eq_Cons_conv)

lemma find_exists: "x \<in> set xs \<Longrightarrow> P x \<Longrightarrow> \<exists>y. find P xs = Some y \<and> y \<in> set xs \<and> P y"
  by (induction xs) auto

lemma find_none: "(\<And>x. x \<in> set xs \<Longrightarrow> \<not> P x) \<Longrightarrow> find P xs = None"
  by (induction xs) auto

lemmas cstr_simps = strchr.simps strstr.simps has_substr_def isdigit_def isspace_def
  uchar_def schar_def tolower_def toupper_def atol_def atoll_def atoi_def strtol_val_def

end
