(* ===== verification/SqlTables.thy ===== *)
theory SqlTables
  imports Prelude
begin

text \<open>
  \<open>getTables\<close> of the SQLite3 driver: the names of the tables in the FROM clauses of a statement.
  A pointer into the statement is the suffix that starts there, so reading behind the empty
  suffix reads past the terminating NUL. \<open>tables\<close> is an array of \<open>MAX_TABLES_IN_QUERY\<close> pointers;
  \<open>index\<close> is the number of those in use, the length of the list here.
\<close>

definition MAX_TABLES_IN_QUERY :: nat where
  "MAX_TABLES_IN_QUERY = 50"

definition endwords :: "string list" where
  "endwords = [''where'', ''group'', ''having'', ''union'', ''intersect'', ''except'', ''order'', ''limit'']"

definition nottables :: "string list" where
  "nottables = [''natural'', ''left'', ''right'', ''full'', ''outer'', ''inner'', ''cross'', ''join'', ''as'']"

section \<open>The function\<close>

text \<open>
  \<open>while (opens > 0) { item++; ... }\<close> from an opening parenthesis on: the suffix at the
  parenthesis that closes the last open one.
\<close>

fun match_paren :: "nat \<Rightarrow> string \<Rightarrow> string run" where
  "match_paren 0 item = Inr item"
| "match_paren (Suc opens) [] = Inl ReadPastEnd"
| "match_paren (Suc opens) [c] = match_paren (Suc opens) []"
| "match_paren (Suc opens) (c # d # item) =
     match_paren (if d = CHR ''('' then Suc (Suc opens) else if d = CHR '')'' then opens else Suc opens)
       (d # item)"

definition word_char :: "char \<Rightarrow> bool" where
  "word_char c \<longleftrightarrow> c \<noteq> CHR '','' \<and> c \<noteq> CHR '' '' \<and> c \<noteq> CHR '')'' \<and> c \<noteq> CHR '';''"

text \<open>\<open>while (*item != ',' && *item != ' ' && *item != '(') item++;\<close> with no test for the NUL.\<close>

fun skip_word :: "string \<Rightarrow> string run" where
  "skip_word [] = Inl ReadPastEnd"
| "skip_word (c # item) =
     (if c = CHR '','' \<or> c = CHR '' '' \<or> c = CHR ''('' then Inr (c # item) else skip_word item)"

lemma match_paren_length: "match_paren n s = Inr t \<Longrightarrow> length t \<le> length s"
proof (induction n s rule: match_paren.induct)
  case (4 opens c d item)
  have "length t \<le> length (d # item)" by (rule 4(1)) (use 4(2) in simp)
  then show ?case by simp
qed auto

lemma skip_word_length: "skip_word s = Inr t \<Longrightarrow> length t \<le> length s"
  by (induction s) (force split: if_splits)+

lemma skip_word_hd:
  "skip_word s = Inr t \<Longrightarrow> t \<noteq> [] \<and> (hd t = CHR '','' \<or> hd t = CHR '' '' \<or> hd t = CHR ''('')"
  by (induction s) (auto split: if_splits)

lemma match_paren_hd:
  "match_paren n s = Inr t \<Longrightarrow> 0 < n \<Longrightarrow> \<exists>u. t = CHR '')'' # u \<and> length t < length s"
proof (induction n s rule: match_paren.induct)
  case (4 opens c d item)
  let ?n = "if d = CHR ''('' then Suc (Suc opens) else if d = CHR '')'' then opens else Suc opens"
  have eq: "match_paren ?n (d # item) = Inr t" using 4 by simp
  show ?case
  proof (cases "0 < ?n")
    case True
    then have "\<exists>u. t = CHR '')'' # u \<and> length t < length (d # item)" using 4(1) eq by blast
    then show ?thesis by auto
  next
    case False
    then show ?thesis using eq by (auto split: if_splits)
  qed
qed auto

text \<open>
  The loop that skips everything behind a joined table, up to the next comma or \<open>join\<close>. \<open>size\<close>
  is the length of the table name: \<open>word_lower\<close> has been declared for that name, one byte
  longer, and is not enlarged (\<open>word_lower[item-start+1];\<close> is an expression without effect).
  The value is the new \<open>join_flag\<close> and the position.
\<close>

function join_skip :: "nat \<Rightarrow> string \<Rightarrow> (bool \<times> string) run" where
  "join_skip sz start =
     (if start \<noteq> [] \<and> hd start = CHR '' '' then join_skip sz (tl start)
      else
        run_bind (if start \<noteq> [] \<and> hd start = CHR ''('' then match_paren 1 start else Inr start) (\<lambda>close.
        run_bind (skip_word close) (\<lambda>item.
          if hd item = CHR '','' then Inr (False, item)
          else
            let word = take (length start - length item) start in
            if length word > sz then Inl BufferOverflow
            else if map tolower word = ''join'' then Inr (True, item)
            else join_skip sz item)))"
  by pat_completeness auto

lemma join_skip_progress:
  assumes "\<not> (start \<noteq> [] \<and> hd start = CHR '' '')"
    and "(if start \<noteq> [] \<and> hd start = CHR ''('' then match_paren 1 start else Inr start) = Inr close"
    and "skip_word close = Inr item" and "hd item \<noteq> CHR '',''"
  shows "length item < length start"
proof (cases "start \<noteq> [] \<and> hd start = CHR ''(''")
  case True
  then have "length close < length start" using assms(2) match_paren_hd [of 1 start close] by auto
  then show ?thesis using skip_word_length [OF assms(3)] by simp
next
  case False
  then have "skip_word start = Inr item" using assms(2,3) by (simp split: if_splits)
  then show ?thesis using assms(1,4) False
    by (cases start) (auto split: if_splits dest: skip_word_length)
qed

termination join_skip
  by (relation "measure (length \<circ> snd)") (use join_skip_progress in \<open>force+\<close>)

declare join_skip.simps [simp del]

definition from_list :: "string \<Rightarrow> string option" where
  "from_list statement =
     (case strstr '' from '' statement of
        Some item \<Rightarrow> Some (drop 6 item)
      | None \<Rightarrow> (case strstr '' FROM '' statement of Some item \<Rightarrow> Some (drop 6 item) | None \<Rightarrow> None))"

lemma from_list_length: "from_list s = Some t \<Longrightarrow> length t \<le> length s"
  by (auto simp: from_list_def split: option.splits dest!: strstr_Some suffix_length_le)

lemma match_paren_suffix: "match_paren n s = Inr t \<Longrightarrow> suffix t s"
proof (induction n s rule: match_paren.induct)
  case (4 opens c d item)
  then show ?case by (auto intro: suffix_ConsI)
qed auto

lemma skip_word_suffix: "skip_word s = Inr t \<Longrightarrow> suffix t s"
  by (induction s) (auto split: if_splits intro: suffix_ConsI)

lemma suffix_take: "suffix t s \<Longrightarrow> take (length s - length t) s @ t = s"
  by (auto simp: suffix_def)

text \<open>
  What one round of the loop finds behind the blanks: a comma, the word \<open>join\<close>, or another word to skip.
\<close>

lemma join_skip_step:
  assumes "join_skip sz s = Inr (j, t)" and "\<not> (s \<noteq> [] \<and> hd s = CHR '' '')"
  obtains (stop) item where "suffix item s" "item \<noteq> []" "t = item"
      "hd item = CHR '','' \<or> map tolower (take (length s - length item) s) = ''join''"
    | (skip) item where "suffix item s" "length item < length s" "join_skip sz item = Inr (j, t)"
proof -
  from assms(1) obtain close item where
    c: "(if s \<noteq> [] \<and> hd s = CHR ''('' then match_paren 1 s else Inr s) = Inr close" and i: "skip_word close = Inr item"
    by (subst (asm) join_skip.simps) (auto simp: assms(2) run_bind_eq_Inr split: if_splits)
  have "suffix close s" using c match_paren_suffix by (auto split: if_splits)
  then have suf: "suffix item s" "item \<noteq> []"
    using skip_word_suffix [OF i] skip_word_hd [OF i] suffix_order.trans by auto
  have step: "(if hd item = CHR '','' then Inr (False, item)
      else if length (take (length s - length item) s) > sz then Inl BufferOverflow
        else if map tolower (take (length s - length item) s) = ''join'' then Inr (True, item)
        else join_skip sz item) = Inr (j, t)"
    using assms(1) by (subst (asm) join_skip.simps) (simp only: assms(2) c i run_bind_simps if_False Let_def)
  show thesis
  proof (cases "hd item = CHR '','' \<or> map tolower (take (length s - length item) s) = ''join''")
    case True
    then show thesis using step suf by (intro stop [of item]) (auto split: if_splits)
  next
    case False
    then show thesis using step suf join_skip_progress [OF assms(2) c i] by (intro skip [of item]) (auto split: if_splits)
  qed
qed

lemma join_skip_length: "join_skip sz s = Inr (j, t) \<Longrightarrow> t \<noteq> [] \<and> length t \<le> length s"
proof (induction "length s" arbitrary: s rule: less_induct)
  case less
  show ?case
  proof (cases "s \<noteq> [] \<and> hd s = CHR '' ''")
    case True
    then have "join_skip sz (tl s) = Inr (j, t)" using less(2) by (subst (asm) join_skip.simps) simp
    then show ?thesis using less(1) [of "tl s"] True by fastforce
  next
    case False
    with less(2) show ?thesis
      by (cases rule: join_skip_step) (use less(1) suffix_length_le in fastforce)+
  qed
qed

text \<open>
  The loop over the FROM clause; \<open>join\<close> and \<open>alias\<close> are \<open>join_flag\<close> and \<open>as_flag\<close>. A sub-select
  in parentheses is copied and searched with a call of \<open>getTables\<close>, whose first step is
  \<open>from_list\<close>.
\<close>

function tables_loop :: "string list \<Rightarrow> bool \<Rightarrow> bool \<Rightarrow> string \<Rightarrow> string list run" where
  "tables_loop tables join alias start =
     (if start = [] then Inr tables
      else if hd start = CHR '' '' \<or> hd start = CHR '','' then tables_loop tables join alias (tl start)
      else if hd start = CHR ''('' then
        run_bind (match_paren 1 start) (\<lambda>item.
          let substatement = take (length start - length item - 1) (tl start) in
          run_bind (case from_list substatement of
                      None \<Rightarrow> Inr tables | Some list \<Rightarrow> tables_loop tables False False list)
            (\<lambda>tables. tables_loop tables join alias (tl item)))
      else
        let word = takeWhile word_char start;
            item = dropWhile word_char start;
            word_lower = map tolower word in
        if word_lower \<in> set endwords then Inr tables
        else if word_lower \<in> set nottables then
          tables_loop tables (join \<or> word_lower = ''join'') (alias \<or> word_lower = ''as'') (tl item)
        else if alias then tables_loop tables join False (tl item)
        else if length tables \<ge> MAX_TABLES_IN_QUERY then Inl BufferOverflow
        else if join then
          run_bind (join_skip (length word) item)
            (\<lambda>(join, item). tables_loop (tables @ [word]) join alias (tl item))
        else tables_loop (tables @ [word]) join alias (tl item))"
  by pat_completeness auto

lemma tl_dropWhile_less: "s \<noteq> [] \<Longrightarrow> length (tl (dropWhile P s)) < length s"
proof -
  assume "s \<noteq> []"
  then have "0 < length s" by simp
  moreover have "length (tl (dropWhile P s)) = length (dropWhile P s) - 1" by simp
  ultimately show ?thesis using length_dropWhile_le [of P s] by linarith
qed

lemma tables_loop_sub_less:
  assumes "match_paren 1 start = Inr item" and "start \<noteq> []"
    and "from_list (take (length start - length item - 1) (tl start)) = Some lst"
  shows "length lst < length start"
proof -
  have "length lst \<le> length (tl start)"
    using from_list_length [OF assms(3)] by simp
  then show ?thesis using assms(2) by (cases start) auto
qed

lemma tables_loop_tl_less:
  assumes "match_paren 1 start = Inr item" and "start \<noteq> []"
  shows "length (tl item) < length start"
  using match_paren_hd [OF assms(1)] by auto

lemma join_skip_tl_less:
  assumes "join_skip n (dropWhile P start) = Inr (j, item)" and "start \<noteq> []"
  shows "length (tl item) < length start"
proof -
  have "item \<noteq> []" "length item \<le> length (dropWhile P start)"
    using join_skip_length [OF assms(1)] by auto
  moreover have "length (tl item) = length item - 1" "0 < length item" using calculation by simp_all
  ultimately show ?thesis using length_dropWhile_le [of P start] by linarith
qed

termination tables_loop
proof (relation "measure (\<lambda>(tables, join, alias, start). length start)", goal_cases)
  case 1
  then show ?case by simp
next
  case (2 tables join al start)
  then show ?case by simp
next
  case (3 tables join al start item sub lst)
  then show ?case using tables_loop_sub_less [of start item lst] by simp
next
  case (4 tables join al start item sub tables')
  then show ?case using tables_loop_tl_less [of start item] by simp
next
  case (5 tables join al start)
  then show ?case using tl_dropWhile_less [of start word_char] by simp
next
  case (6 tables join al start)
  then show ?case using tl_dropWhile_less [of start word_char] by simp
next
  case (7 tables join al start word item lower x j i)
  then show ?case using join_skip_tl_less [of _ word_char start j i] by simp
next
  case (8 tables join al start)
  then show ?case using tl_dropWhile_less [of start word_char] by simp
qed

declare tables_loop.simps [simp del]

definition getTables :: "string list \<Rightarrow> string \<Rightarrow> string list run" where
  "getTables tables statement =
     (case from_list statement of None \<Rightarrow> Inr tables | Some item \<Rightarrow> tables_loop tables False False item)"

section \<open>Lemmas\<close>

lemma tables_loop_nil [simp]: "tables_loop ts j a [] = Inr ts"
  by (simp add: tables_loop.simps)

lemma tables_loop_sep [simp]:
  "c = CHR '' '' \<or> c = CHR '','' \<Longrightarrow> tables_loop ts j a (c # s) = tables_loop ts j a s"
  by (subst tables_loop.simps) auto

text \<open>A word that the loop reads in one piece, and a table name or alias.\<close>

definition plain_word :: "string \<Rightarrow> bool" where
  "plain_word w \<longleftrightarrow> w \<noteq> [] \<and> hd w \<noteq> CHR ''('' \<and> list_all word_char w"

definition table_word :: "string \<Rightarrow> bool" where
  "table_word w \<longleftrightarrow> plain_word w \<and> map tolower w \<notin> set endwords \<and> map tolower w \<notin> set nottables"

definition word_stops :: "string \<Rightarrow> bool" where
  "word_stops s \<longleftrightarrow> s = [] \<or> \<not> word_char (hd s)"

lemma word_split:
  assumes "plain_word w" and "word_stops s"
  shows "takeWhile word_char (w @ s) = w" and "dropWhile word_char (w @ s) = s"
    and "w @ s \<noteq> []" and "hd (w @ s) \<noteq> CHR ''(''" and "word_char (hd (w @ s))"
proof -
  have all: "\<And>c. c \<in> set w \<Longrightarrow> word_char c" and ne: "w \<noteq> []" and hd: "hd w \<noteq> CHR ''(''"
    using assms(1) by (simp_all add: plain_word_def list_all_iff)
  have tw: "takeWhile word_char s = []" and dw: "dropWhile word_char s = s"
    using assms(2) by (cases s; simp add: word_stops_def)+
  show "takeWhile word_char (w @ s) = w" "dropWhile word_char (w @ s) = s"
    using all tw dw by simp_all
  show "w @ s \<noteq> []" "hd (w @ s) \<noteq> CHR ''(''" "word_char (hd (w @ s))"
    using ne hd all by simp_all
qed

lemma tables_loop_word:
  assumes "plain_word w" and "word_stops s"
  shows "tables_loop ts j a (w @ s)
    = (if map tolower w \<in> set endwords then Inr ts
       else if map tolower w \<in> set nottables then
         tables_loop ts (j \<or> map tolower w = ''join'') (a \<or> map tolower w = ''as'') (tl s)
       else if a then tables_loop ts j False (tl s)
       else if length ts \<ge> MAX_TABLES_IN_QUERY then Inl BufferOverflow
       else if j then run_bind (join_skip (length w) s) (\<lambda>(j, item). tables_loop (ts @ [w]) j a (tl item))
       else tables_loop (ts @ [w]) j a (tl s))"
proof -
  have "hd (w @ s) \<noteq> CHR '' '' \<and> hd (w @ s) \<noteq> CHR '',''"
    using word_split(5) [OF assms] by (auto simp: word_char_def)
  then show ?thesis
    by (subst tables_loop.simps)
      (simp only: word_split [OF assms] Let_def if_False simp_thms)
qed

lemma word_stops_simps [simp]:
  "word_stops []" "word_stops (CHR '' '' # s)" "word_stops (CHR '','' # s)" "word_stops (CHR '';'' # s)"
  by (simp_all add: word_stops_def word_char_def)

lemma as_word: "plain_word ''as''" "map tolower ''as'' = ''as''" "''as'' \<notin> set endwords" "''as'' \<in> set nottables"
  "plain_word ''join''" "map tolower ''join'' = ''join''" "''join'' \<notin> set endwords" "''join'' \<in> set nottables"
  by (simp_all add: plain_word_def word_char_def endwords_def nottables_def tolower_def uchar_def)

section \<open>A list of tables\<close>

text \<open>An entry of a FROM clause: a table, with or without an alias; entries are separated by commas.\<close>

fun from_item :: "string \<times> string option \<Rightarrow> string" where
  "from_item (t, None) = t"
| "from_item (t, Some a) = t @ '' as '' @ a"

fun from_items :: "(string \<times> string option) list \<Rightarrow> string" where
  "from_items [] = []"
| "from_items [x] = from_item x"
| "from_items (x # y # xs) = from_item x @ '', '' @ from_items (y # xs)"

definition ends_list :: "string \<Rightarrow> bool" where
  "ends_list tail \<longleftrightarrow> tail = [] \<or> (\<exists>w rest. tail = CHR '' '' # w @ CHR '' '' # rest \<and> plain_word w
     \<and> map tolower w \<in> set endwords)"

lemma tables_loop_item:
  assumes "table_word t" and "\<forall>a. al = Some a \<longrightarrow> table_word a" and "word_stops s"
  shows "tables_loop ts False False (from_item (t, al) @ s)
    = (if length ts \<ge> MAX_TABLES_IN_QUERY then Inl BufferOverflow
       else tables_loop (ts @ [t]) False False (tl s))"
proof (cases al)
  case None
  then show ?thesis
    using assms by (simp add: tables_loop_word table_word_def)
next
  case (Some a)
  have "tables_loop us False False ('' as '' @ a @ s) = tables_loop us False False (tl s)" for us
  proof -
    have "tables_loop us False False ('' as '' @ a @ s) = tables_loop us False False (''as'' @ CHR '' '' # a @ s)"
      by simp
    also have "\<dots> = tables_loop us False True (a @ s)"
      using as_word by (subst tables_loop_word) (simp_all del: append_Cons)
    also have "\<dots> = tables_loop us False False (tl s)"
      using assms Some by (simp add: tables_loop_word table_word_def)
    finally show ?thesis .
  qed
  moreover have "from_item (t, al) @ s = t @ CHR '' '' # (''as '' @ a @ s)" using Some by simp
  moreover have "tables_loop us False False ('' as '' @ a @ s) = tables_loop us False False (''as '' @ a @ s)" for us
    by simp
  ultimately show ?thesis
    using assms(1) by (simp add: tables_loop_word table_word_def)
qed

lemma tables_loop_tail: "ends_list tail \<Longrightarrow> tables_loop ts False False (tl tail) = Inr ts"
  by (auto simp: ends_list_def tables_loop_word)

lemma tables_loop_items:
  assumes "items \<noteq> []" and "\<forall>(t, al) \<in> set items. table_word t \<and> (\<forall>a. al = Some a \<longrightarrow> table_word a)"
    and "ends_list tail" and "length ts \<le> MAX_TABLES_IN_QUERY"
  shows "tables_loop ts False False (from_items items @ tail)
    = (if length ts + length items \<le> MAX_TABLES_IN_QUERY then Inr (ts @ map fst items)
       else Inl BufferOverflow)"
  using assms
proof (induction items arbitrary: ts rule: from_items.induct)
  case (2 x)
  obtain t al where x: "x = (t, al)" by (cases x)
  have "word_stops tail" using 2(3) by (auto simp: ends_list_def)
  then show ?case using 2 tables_loop_item [of t al tail ts] by (auto simp: x tables_loop_tail)
next
  case (3 x y xs)
  obtain t al where x: "x = (t, al)" by (cases x)
  have step: "tables_loop ts False False (from_items (x # y # xs) @ tail)
      = (if length ts \<ge> MAX_TABLES_IN_QUERY then Inl BufferOverflow
         else tables_loop (ts @ [t]) False False (from_items (y # xs) @ tail))"
    using 3(3) tables_loop_item [of t al "'', '' @ from_items (y # xs) @ tail" ts] by (simp add: x)
  show ?case
  proof (cases "length ts < MAX_TABLES_IN_QUERY")
    case True
    then show ?thesis using 3(1) [of "ts @ [t]"] 3(3-) step by (simp add: x)
  next
    case False
    then show ?thesis using step 3(5) by simp
  qed
qed simp

text \<open>
  C15: For a FROM clause that is a list of tables, each with or without an \<open>as\<close> alias, up to the
  end of the statement or one of the words that end the list, \<open>getTables\<close> returns exactly the
  tables in order, without the aliases; the fifty-first one is written behind the array.
\<close>

theorem getTables_list:
  assumes "from_list statement = Some (from_items items @ tail)" and "items \<noteq> []"
    and "\<forall>(t, al) \<in> set items. table_word t \<and> (\<forall>a. al = Some a \<longrightarrow> table_word a)"
    and "ends_list tail"
  shows "getTables [] statement
    = (if length items \<le> MAX_TABLES_IN_QUERY then Inr (map fst items) else Inl BufferOverflow)"
  using assms tables_loop_items [of items tail "[]"] by (simp add: getTables_def)

theorem getTables_list_witness:
  "getTables [] ''select x from t1, t2 as b where 1'' = Inr [''t1'', ''t2'']"
proof -
  have "ends_list '' where 1''"
    unfolding ends_list_def
    by (intro disjI2 exI [where x = "''where''"] exI [where x = "''1''"])
      (simp add: plain_word_def word_char_def endwords_def tolower_def uchar_def)
  moreover have "from_list ''select x from t1, t2 as b where 1''
      = Some (from_items [(''t1'', None), (''t2'', Some ''b'')] @ '' where 1'')"
    by (simp add: from_list_def)
  ultimately show ?thesis
    using getTables_list [of _ "[(''t1'', None), (''t2'', Some ''b'')]" "'' where 1''"]
    by (simp add: table_word_def plain_word_def word_char_def endwords_def nottables_def
        tolower_def uchar_def MAX_TABLES_IN_QUERY_def)
qed

section \<open>Joins\<close>

text \<open>The skipping loop stops at a comma or at the next \<open>join\<close>, and nowhere else.\<close>

lemma join_skip_stop:
  "join_skip sz s = Inr (j, t) \<Longrightarrow> CHR '','' \<in> set s \<or> sublist ''join'' (map tolower s)"
proof (induction "length s" arbitrary: s rule: less_induct)
  case less
  show ?case
  proof (cases "s \<noteq> [] \<and> hd s = CHR '' ''")
    case True
    then obtain u where u: "s = CHR '' '' # u" by (cases s) auto
    then have "join_skip sz u = Inr (j, t)" using less(2) by (subst (asm) join_skip.simps) simp
    then show ?thesis using less(1) [of u] u by (auto simp: sublist_Cons_right)
  next
    case False
    with less(2) show ?thesis
    proof (cases rule: join_skip_step)
      case (stop item)
      have "hd item \<in> set s" using stop(1,2) set_mono_suffix by fastforce
      moreover have "map tolower s = map tolower (take (length s - length item) s) @ map tolower item"
        using suffix_take [OF stop(1)] by (metis map_append)
      then have "sublist (map tolower (take (length s - length item) s)) (map tolower s)"
        by (metis append_Nil sublist_appendI)
      ultimately show ?thesis using stop(4) by auto
    next
      case (skip item)
      have "sublist (map tolower item) (map tolower s)"
        by (rule map_mono_sublist [OF suffix_imp_sublist [OF skip(1)]])
      then show ?thesis
        using less(1) [OF skip(2,3)] set_mono_suffix [OF skip(1)] sublist_order.order.trans by blast
    qed
  qed
qed

text \<open>
  C32: A joined table makes \<open>getTables\<close> run past the end of the statement, or write past a word
  buffer, unless a comma or another \<open>join\<close> follows it. So every statement that ends with
  \<open>a join b on ...\<close> is undefined behaviour, whatever the condition is.
\<close>

theorem getTables_join_undefined:
  assumes "from_list statement = Some (a @ '' join '' @ b @ rest)"
    and "table_word a" and "table_word b" and "word_stops rest"
    and "CHR '','' \<notin> set rest" and "\<not> sublist ''join'' (map tolower rest)"
  shows "\<not> defined (getTables [] statement)"
proof -
  have "tables_loop [] False False (a @ '' join '' @ b @ rest)
      = tables_loop [a] False False (''join'' @ CHR '' '' # b @ rest)"
    using assms(2) by (simp add: tables_loop_word table_word_def MAX_TABLES_IN_QUERY_def)
  also have "\<dots> = tables_loop [a] True False (b @ rest)"
    using as_word by (subst tables_loop_word) (simp_all del: append_Cons)
  also have "\<dots> = run_bind (join_skip (length b) rest)
      (\<lambda>(j, item). tables_loop ([a] @ [b]) j False (tl item))"
    using assms(3,4) by (simp add: tables_loop_word table_word_def MAX_TABLES_IN_QUERY_def)
  finally have "getTables [] statement = run_bind (join_skip (length b) rest)
      (\<lambda>(j, item). tables_loop ([a] @ [b]) j False (tl item))"
    using assms(1) by (simp add: getTables_def)
  moreover obtain e where "join_skip (length b) rest = Inl e"
    using join_skip_stop assms(5,6) by (cases "join_skip (length b) rest") auto
  ultimately show ?thesis by simp
qed

theorem getTables_join_undefined_witness:
  "\<not> defined (getTables [] ''select a.x from a join b on 1'')"
proof -
  have "\<not> sublist ''join'' (map tolower '' on 1'')"
    by (simp add: tolower_def uchar_def sublist_Cons_right)
  then show ?thesis
    using getTables_join_undefined [of _ "''a''" "''b''" "'' on 1''"]
    by (simp add: from_list_def table_word_def plain_word_def word_char_def endwords_def
        nottables_def tolower_def uchar_def)
qed

section \<open>Statements without joins and parentheses\<close>

lemma map_takeWhile_sublist: "sublist (map f (takeWhile P s)) (map f s)"
  by (metis map_mono_sublist sublist_takeWhile)

text \<open>One word of the list of tables, as long as it is neither a parenthesis nor a \<open>join\<close>.\<close>

lemma tables_loop_plain_word:
  assumes "s = c # u" and "\<not> (c = CHR '' '' \<or> c = CHR '','')" and "c \<noteq> CHR ''(''"
    and "w = takeWhile word_char s" and "rest = tl (dropWhile word_char s)" and "map tolower w \<noteq> ''join''"
  shows "tables_loop ts False a s
    = (if map tolower w \<in> set endwords then Inr ts
       else if map tolower w \<in> set nottables then tables_loop ts False (a \<or> map tolower w = ''as'') rest
       else if a then tables_loop ts False False rest
       else if length ts \<ge> MAX_TABLES_IN_QUERY then Inl BufferOverflow
       else tables_loop (ts @ [w]) False a rest)"
  using assms by (subst tables_loop.simps) (simp add: Let_def)

lemma tables_loop_safe:
  assumes "CHR ''('' \<notin> set s" and "\<not> sublist ''join'' (map tolower s)"
  shows "tables_loop ts False a s = Inl BufferOverflow
    \<or> (\<exists>ws. tables_loop ts False a s = Inr (ts @ ws) \<and> (\<forall>w \<in> set ws. list_all word_char w \<and> sublist w s))"
  using assms
proof (induction "length s" arbitrary: ts a s rule: less_induct)
  case less
  show ?case
  proof (cases s)
    case (Cons c u)
    show ?thesis
    proof (cases "c = CHR '' '' \<or> c = CHR '',''")
      case True
      have "\<not> sublist ''join'' (map tolower u)" using less(3) Cons by (auto simp: sublist_Cons_right)
      then have "tables_loop ts False a u = Inl BufferOverflow
          \<or> (\<exists>ws. tables_loop ts False a u = Inr (ts @ ws) \<and> (\<forall>w \<in> set ws. list_all word_char w \<and> sublist w u))"
        using less(1) [of u] less(2) Cons by simp
      then show ?thesis using True Cons by (auto simp: sublist_Cons_right)
    next
      case False
      let ?w = "takeWhile word_char s" and ?i = "dropWhile word_char s"
      have rest: "length (tl ?i) < length s" "suffix (tl ?i) s"
        using Cons by (rule_tac tl_dropWhile_less, simp)
          (rule suffix_order.trans [OF suffix_tl suffix_dropWhile])
      have sub: "sublist (tl ?i) s" using rest(2) by (rule suffix_imp_sublist)
      have IH: "tables_loop us False b (tl ?i) = Inl BufferOverflow
          \<or> (\<exists>ws. tables_loop us False b (tl ?i) = Inr (us @ ws)
            \<and> (\<forall>w \<in> set ws. list_all word_char w \<and> sublist w s))" for us b
      proof -
        have "CHR ''('' \<notin> set (tl ?i)" using less(2) rest(2) set_mono_suffix by blast
        moreover have "\<not> sublist ''join'' (map tolower (tl ?i))"
          using less(3) map_mono_sublist [OF sub] sublist_order.order.trans by blast
        ultimately show ?thesis using less(1) [OF rest(1)] sub sublist_order.order.trans by meson
      qed
      have w: "list_all word_char ?w \<and> sublist ?w s"
        by (auto simp: list_all_iff dest: set_takeWhileD)
      have join: "map tolower ?w \<noteq> ''join''"
        using less(3) map_takeWhile_sublist [of tolower word_char s] by metis
      have "c \<noteq> CHR ''(''" using less(2) Cons by auto
      note word = tables_loop_plain_word [OF Cons False this refl refl join]
      have "tables_loop (ts @ [?w]) False a (tl ?i) = Inl BufferOverflow
          \<or> (\<exists>ws. tables_loop (ts @ [?w]) False a (tl ?i) = Inr (ts @ ws)
            \<and> (\<forall>w \<in> set ws. list_all word_char w \<and> sublist w s))"
        using IH [of "ts @ [?w]" a]
      proof (elim disjE exE conjE)
        fix ws
        assume "tables_loop (ts @ [?w]) False a (tl ?i) = Inr ((ts @ [?w]) @ ws)"
          and "\<forall>w \<in> set ws. list_all word_char w \<and> sublist w s"
        then show ?thesis using w by (intro disjI2 exI [where x = "?w # ws"]) simp
      qed simp
      then show ?thesis using word [of ts a] IH by (simp split: if_splits)
    qed
  qed simp
qed

text \<open>
  C31: For every statement without a parenthesis or a join in its FROM clause, \<open>getTables\<close> comes
  to an end inside the statement: the only error is a table too many, and what it returns are
  pieces of the statement without blanks, commas, semicolons and closing parentheses.
\<close>

theorem getTables_safe:
  assumes "\<And>item. from_list statement = Some item \<Longrightarrow>
      CHR ''('' \<notin> set item \<and> \<not> sublist ''join'' (map tolower item)"
  shows "getTables [] statement = Inl BufferOverflow
    \<or> (\<exists>ws. getTables [] statement = Inr ws \<and> (\<forall>w \<in> set ws. list_all word_char w))"
  using assms tables_loop_safe [of _ "[]" False]
  by (auto simp: getTables_def split: option.split) blast

theorem getTables_safe_witness:
  "getTables [] ''select 1 from t;'' = Inl BufferOverflow
    \<or> (\<exists>ws. getTables [] ''select 1 from t;'' = Inr ws \<and> (\<forall>w \<in> set ws. list_all word_char w))"
  by (rule getTables_safe)
    (simp add: from_list_def tolower_def uchar_def sublist_Cons_right)

section \<open>Keywords are not tables\<close>

text \<open>Whatever the statement, no keyword of \<open>getTables\<close> is ever reported as a table.\<close>

definition no_keyword :: "string list \<Rightarrow> bool" where
  "no_keyword ts \<longleftrightarrow> (\<forall>t \<in> set ts. map tolower t \<notin> set (endwords @ nottables))"

lemma no_keyword_add: "no_keyword (ts @ [w]) \<longleftrightarrow> no_keyword ts \<and> map tolower w \<notin> set endwords \<and> map tolower w \<notin> set nottables"
  by (auto simp: no_keyword_def)

lemma word_step_no_keyword:
  assumes s: "s \<noteq> []" and "hd s \<noteq> CHR ''(''" and "\<not> (hd s = CHR '' '' \<or> hd s = CHR '','')"
    and "no_keyword ts" and "tables_loop ts j a s = Inr us"
    and IH: "\<And>t us vs j a. length t < length s \<Longrightarrow> tables_loop us j a t = Inr vs \<Longrightarrow> no_keyword us \<Longrightarrow> no_keyword vs"
  shows "no_keyword us"
proof -
  let ?w = "takeWhile word_char s" and ?i = "dropWhile word_char s"
  have tl: "length (tl ?i) < length s" using s by (rule tl_dropWhile_less)
  have step: "(if map tolower ?w \<in> set endwords then Inr ts
      else if map tolower ?w \<in> set nottables then
        tables_loop ts (j \<or> map tolower ?w = ''join'') (a \<or> map tolower ?w = ''as'') (tl ?i)
      else if a then tables_loop ts j False (tl ?i)
      else if length ts \<ge> MAX_TABLES_IN_QUERY then Inl BufferOverflow
      else if j then run_bind (join_skip (length ?w) ?i) (\<lambda>(j, item). tables_loop (ts @ [?w]) j a (tl item))
      else tables_loop (ts @ [?w]) j a (tl ?i)) = Inr us"
    using assms(1-3,5) by (subst (asm) tables_loop.simps) (simp add: Let_def)
  show ?thesis
  proof (cases "map tolower ?w \<in> set endwords \<or> map tolower ?w \<in> set nottables \<or> a")
    case True
    then show ?thesis using step IH [OF tl] assms(4) by (auto split: if_splits)
  next
    case word: False
    then have ok: "no_keyword (ts @ [?w])" using assms(4) by (simp add: no_keyword_add)
    show ?thesis
    proof (cases j)
      case True
      then obtain j' item where skip: "join_skip (length ?w) ?i = Inr (j', item)"
        and "tables_loop (ts @ [?w]) j' a (tl item) = Inr us"
        using step word by (auto simp: run_bind_eq_Inr split: if_splits)
      then show ?thesis using IH [OF join_skip_tl_less [OF skip s] _ ok] by blast
    next
      case False
      then show ?thesis using step word IH [OF tl _ ok] by (auto split: if_splits)
    qed
  qed
qed

lemma tables_loop_no_keyword:
  assumes "tables_loop ts j a s = Inr us" and "no_keyword ts"
  shows "no_keyword us"
  using assms
proof (induction "length s" arbitrary: ts j a s us rule: less_induct)
  case less
  note IH = less(1) [OF _ _ less(3)]
  show ?case
  proof (cases "s = [] \<or> hd s = CHR '' '' \<or> hd s = CHR '',''")
    case True
    then show ?thesis using less(2,3) IH [of "tl s" j a us]
      by (subst (asm) tables_loop.simps) (auto split: if_splits)
  next
    case sep: False
    then have s: "s \<noteq> []" by simp
    show ?thesis
    proof (cases "hd s = CHR ''(''")
      case True
      then obtain item mid where m: "match_paren 1 s = Inr item"
        and sub: "(case from_list (take (length s - length item - 1) (tl s)) of
            None \<Rightarrow> Inr ts | Some list \<Rightarrow> tables_loop ts False False list) = Inr mid"
        and rest: "tables_loop mid j a (tl item) = Inr us"
        using less(2) sep by (subst (asm) tables_loop.simps) (auto simp: run_bind_eq_Inr Let_def)
      have "no_keyword mid"
      proof (cases "from_list (take (length s - length item - 1) (tl s))")
        case None
        then show ?thesis using sub less(3) by simp
      next
        case (Some list)
        then show ?thesis using sub IH [OF tables_loop_sub_less [OF m s Some]] by simp
      qed
      then show ?thesis using less(1) [OF tables_loop_tl_less [OF m s] rest] by blast
    next
      case False
      show ?thesis
        by (rule word_step_no_keyword [OF s False _ less(3,2)]) (use sep less(1) in blast)+
    qed
  qed
qed

lemma getTables_no_keyword:
  "getTables [] statement = Inr ts \<Longrightarrow> no_keyword ts"
  by (cases "from_list statement")
    (auto simp: getTables_def no_keyword_def [of "[]"] dest: tables_loop_no_keyword)

end
