(* ===== verification/DbiTypes.thy ===== *)
theory DbiTypes
  imports Prelude
begin

text \<open>
  The libdbi types every driver hands over: the type and attributes of a field, the union
  \<open>dbi_data_t\<close> of a value and a row, and the decoding of a field from text that the drivers
  for MySQL, PostgreSQL, mSQL, SQLite and SQLite3 have in common. The attributes are flags of
  libdbi, kept by name: a field's attributes are the set of its flags.
\<close>

section \<open>Types and attributes\<close>

text \<open>\<open>DBI_TYPE_NONE\<close> is the 0 that \<open>_type\<close> is initialised with.\<close>

datatype dbi_type = DBI_TYPE_NONE | DBI_TYPE_INTEGER | DBI_TYPE_DECIMAL | DBI_TYPE_STRING
  | DBI_TYPE_BINARY | DBI_TYPE_DATETIME

datatype dbi_attrib = DBI_INTEGER_UNSIGNED | DBI_INTEGER_SIZE1 | DBI_INTEGER_SIZE2
  | DBI_INTEGER_SIZE3 | DBI_INTEGER_SIZE4 | DBI_INTEGER_SIZE8 | DBI_DECIMAL_SIZE4
  | DBI_DECIMAL_SIZE8 | DBI_STRING_FIXEDSIZE | DBI_DATETIME_DATE | DBI_DATETIME_TIME

type_synonym attribs = "dbi_attrib set"

type_synonym field_type = "dbi_type \<times> attribs"

definition DBI_INTEGER_SIZEMASK :: attribs where
  "DBI_INTEGER_SIZEMASK = {DBI_INTEGER_SIZE1, DBI_INTEGER_SIZE2, DBI_INTEGER_SIZE3,
     DBI_INTEGER_SIZE4, DBI_INTEGER_SIZE8}"

definition DBI_DECIMAL_SIZEMASK :: attribs where
  "DBI_DECIMAL_SIZEMASK = {DBI_DECIMAL_SIZE4, DBI_DECIMAL_SIZE8}"

definition DBI_DATETIME_MASK :: attribs where
  "DBI_DATETIME_MASK = {DBI_DATETIME_DATE, DBI_DATETIME_TIME}"

record field =
  f_name :: string
  f_type :: dbi_type
  f_attribs :: attribs

definition make_field :: "string \<Rightarrow> field_type \<Rightarrow> field" where
  "make_field name t = \<lparr>f_name = name, f_type = fst t, f_attribs = snd t\<rparr>"

lemma make_field_simps [simp]:
  "f_name (make_field n t) = n" "f_type (make_field n t) = fst t"
  "f_attribs (make_field n t) = snd t"
  by (simp_all add: make_field_def)

section \<open>Values and rows\<close>

text \<open>The broken-down time of \<open><time.h>\<close>.\<close>

record tm =
  tm_sec :: int
  tm_min :: int
  tm_hour :: int
  tm_mday :: int
  tm_mon :: int
  tm_year :: int

text \<open>
  The member of the union that was written last; \<open>D_unset\<close> is the zeroed union of a row that
  \<open>_dbd_row_allocate\<close> has just made. A floating-point value is the numeral \<open>strtod\<close> reads or
  the bits that are copied; a time is the text (\<open>None\<close> for a null pointer) and the parts that
  \<open>_dbd_parse_datetime\<close> of libdbi is called with, or the broken-down time that \<open>mktime\<close> or
  \<open>timegm\<close> converts.
\<close>

datatype dbi_data = D_unset | D_char "8 word" | D_short "16 word" | D_long "32 word"
  | D_longlong "64 word" | D_float string | D_double string | D_float_bits "32 word"
  | D_double_bits "64 word" | D_string string | D_datetime "string option" attribs
  | D_mktime tm | D_timegm tm

record cell =
  c_value :: dbi_data
  c_size :: nat
  c_null :: bool

definition empty_cell :: cell where
  "empty_cell = \<lparr>c_value = D_unset, c_size = 0, c_null = False\<rparr>"

definition value_cell :: "dbi_data \<Rightarrow> cell" where
  "value_cell v = \<lparr>c_value = v, c_size = 0, c_null = False\<rparr>"

definition sized_cell :: "string \<Rightarrow> nat \<Rightarrow> cell" where
  "sized_cell s n = \<lparr>c_value = D_string s, c_size = n, c_null = False\<rparr>"

definition null_cell :: cell where
  "null_cell = \<lparr>c_value = D_unset, c_size = 0, c_null = True\<rparr>"

lemmas cell_defs = empty_cell_def value_cell_def sized_cell_def null_cell_def

section \<open>Numbers from text\<close>

text \<open>
  \<open>switch (attribs & DBI_INTEGER_SIZEMASK)\<close>; the casts to \<open>char\<close>, \<open>short\<close> and \<open>int\<close> keep the
  low bits.
\<close>

definition decode_integer :: "attribs \<Rightarrow> string \<Rightarrow> dbi_data" where
  "decode_integer attribs raw =
     (let size = attribs \<inter> DBI_INTEGER_SIZEMASK in
      if size = {DBI_INTEGER_SIZE1} then D_char (word_of_int (atol raw))
      else if size = {DBI_INTEGER_SIZE2} then D_short (word_of_int (atol raw))
      else if size = {DBI_INTEGER_SIZE3} \<or> size = {DBI_INTEGER_SIZE4}
        then D_long (word_of_int (atol raw))
      else if size = {DBI_INTEGER_SIZE8} then D_longlong (word_of_int (atoll raw))
      else D_unset)"

definition decode_decimal :: "attribs \<Rightarrow> string \<Rightarrow> dbi_data" where
  "decode_decimal attribs raw =
     (let size = attribs \<inter> DBI_DECIMAL_SIZEMASK in
      if size = {DBI_DECIMAL_SIZE4} then D_float raw
      else if size = {DBI_DECIMAL_SIZE8} then D_double raw
      else D_unset)"

definition decode_datetime :: "attribs \<Rightarrow> string option \<Rightarrow> dbi_data" where
  "decode_datetime attribs raw = D_datetime raw (attribs \<inter> DBI_DATETIME_MASK)"

section \<open>The width of a field\<close>

text \<open>What the sizes mean: the number of bits of the integer a field holds.\<close>

definition int_bits :: "attribs \<Rightarrow> nat" where
  "int_bits attribs =
     (if DBI_INTEGER_SIZE1 \<in> attribs then 8 else if DBI_INTEGER_SIZE2 \<in> attribs then 16
      else if DBI_INTEGER_SIZE3 \<in> attribs then 24 else if DBI_INTEGER_SIZE4 \<in> attribs then 32
      else 64)"

definition in_signed_range :: "attribs \<Rightarrow> int \<Rightarrow> bool" where
  "in_signed_range attribs i \<longleftrightarrow> - (2 ^ (int_bits attribs - 1)) \<le> i \<and> i < 2 ^ (int_bits attribs - 1)"

definition in_unsigned_range :: "attribs \<Rightarrow> int \<Rightarrow> bool" where
  "in_unsigned_range attribs i \<longleftrightarrow> 0 \<le> i \<and> i < 2 ^ int_bits attribs"

text \<open>How a program reads the member back, as a signed or an unsigned number.\<close>

fun signed_value :: "dbi_data \<Rightarrow> int option" where
  "signed_value (D_char w) = Some (sint w)"
| "signed_value (D_short w) = Some (sint w)"
| "signed_value (D_long w) = Some (sint w)"
| "signed_value (D_longlong w) = Some (sint w)"
| "signed_value _ = None"

fun unsigned_value :: "dbi_data \<Rightarrow> int option" where
  "unsigned_value (D_char w) = Some (uint w)"
| "unsigned_value (D_short w) = Some (uint w)"
| "unsigned_value (D_long w) = Some (uint w)"
| "unsigned_value (D_longlong w) = Some (uint w)"
| "unsigned_value _ = None"

definition one_int_size :: "attribs \<Rightarrow> bool" where
  "one_int_size a \<longleftrightarrow> (\<exists>s \<in> DBI_INTEGER_SIZEMASK. a \<inter> DBI_INTEGER_SIZEMASK = {s})"

definition one_dec_size :: "attribs \<Rightarrow> bool" where
  "one_dec_size a \<longleftrightarrow> (\<exists>s \<in> DBI_DECIMAL_SIZEMASK. a \<inter> DBI_DECIMAL_SIZEMASK = {s})"

lemma sint_word_of_int_id:
  "- (2 ^ (LENGTH('a) - 1)) \<le> i \<Longrightarrow> i < 2 ^ (LENGTH('a) - 1) \<Longrightarrow>
     sint (word_of_int i :: 'a::len word) = i"
  by (simp add: sint_sbintrunc' signed_take_bit_int_eq_self)

lemma uint_word_of_int_id:
  "0 \<le> i \<Longrightarrow> i < 2 ^ LENGTH('a) \<Longrightarrow> uint (word_of_int i :: 'a::len word) = i"
  by (simp add: uint_word_of_int take_bit_int_eq_self)

lemma one_int_size_cases:
  assumes "one_int_size a"
  obtains (size1) "a \<inter> DBI_INTEGER_SIZEMASK = {DBI_INTEGER_SIZE1}" "int_bits a = 8"
  | (size2) "a \<inter> DBI_INTEGER_SIZEMASK = {DBI_INTEGER_SIZE2}" "int_bits a = 16"
  | (size3) "a \<inter> DBI_INTEGER_SIZEMASK = {DBI_INTEGER_SIZE3}" "int_bits a = 24"
  | (size4) "a \<inter> DBI_INTEGER_SIZEMASK = {DBI_INTEGER_SIZE4}" "int_bits a = 32"
  | (size8) "a \<inter> DBI_INTEGER_SIZEMASK = {DBI_INTEGER_SIZE8}" "int_bits a = 64"
proof -
  from assms obtain s where s: "s \<in> DBI_INTEGER_SIZEMASK" "a \<inter> DBI_INTEGER_SIZEMASK = {s}"
    by (auto simp: one_int_size_def)
  have mem: "x \<in> a \<longleftrightarrow> x = s" if "x \<in> DBI_INTEGER_SIZEMASK" for x
    using s(2) that by blast
  have bits: "int_bits a = (if s = DBI_INTEGER_SIZE1 then 8 else if s = DBI_INTEGER_SIZE2 then 16
      else if s = DBI_INTEGER_SIZE3 then 24 else if s = DBI_INTEGER_SIZE4 then 32 else 64)"
    using mem by (simp add: int_bits_def DBI_INTEGER_SIZEMASK_def)
  have "s = DBI_INTEGER_SIZE1 \<or> s = DBI_INTEGER_SIZE2 \<or> s = DBI_INTEGER_SIZE3
      \<or> s = DBI_INTEGER_SIZE4 \<or> s = DBI_INTEGER_SIZE8"
    using s(1) by (simp add: DBI_INTEGER_SIZEMASK_def)
  then show thesis
  proof (elim disjE)
    assume "s = DBI_INTEGER_SIZE1"
    with s(2) bits show thesis by (intro size1) simp_all
  next
    assume "s = DBI_INTEGER_SIZE2"
    with s(2) bits show thesis by (intro size2) simp_all
  next
    assume "s = DBI_INTEGER_SIZE3"
    with s(2) bits show thesis by (intro size3) simp_all
  next
    assume "s = DBI_INTEGER_SIZE4"
    with s(2) bits show thesis by (intro size4) simp_all
  next
    assume "s = DBI_INTEGER_SIZE8"
    with s(2) bits show thesis by (intro size8) simp_all
  qed
qed

lemma decode_integer_eqs:
  "a \<inter> DBI_INTEGER_SIZEMASK = {DBI_INTEGER_SIZE1} \<Longrightarrow> decode_integer a raw = D_char (word_of_int (atol raw))"
  "a \<inter> DBI_INTEGER_SIZEMASK = {DBI_INTEGER_SIZE2} \<Longrightarrow> decode_integer a raw = D_short (word_of_int (atol raw))"
  "a \<inter> DBI_INTEGER_SIZEMASK = {DBI_INTEGER_SIZE3} \<Longrightarrow> decode_integer a raw = D_long (word_of_int (atol raw))"
  "a \<inter> DBI_INTEGER_SIZEMASK = {DBI_INTEGER_SIZE4} \<Longrightarrow> decode_integer a raw = D_long (word_of_int (atol raw))"
  "a \<inter> DBI_INTEGER_SIZEMASK = {DBI_INTEGER_SIZE8} \<Longrightarrow> decode_integer a raw = D_longlong (word_of_int (atol raw))"
  by (simp_all add: decode_integer_def atoll_def)

lemma in_signed_range_long: "in_signed_range a i \<Longrightarrow> one_int_size a \<Longrightarrow> atol (show_int i) = i"
  by (erule one_int_size_cases)
    (simp_all add: atol_show_int in_signed_range_def LONG_MAX_def LONG_MIN_def)

lemma decode_integer_signed:
  assumes "one_int_size a" and range: "in_signed_range a i"
  shows "signed_value (decode_integer a (show_int i)) = Some i"
  using assms(1) range in_signed_range_long [OF range assms(1)]
  by (cases rule: one_int_size_cases)
    (simp_all add: decode_integer_eqs in_signed_range_def sint_word_of_int_id)

lemma decode_integer_unsigned:
  assumes "one_int_size a" and small: "DBI_INTEGER_SIZE8 \<notin> a" and range: "in_unsigned_range a i"
  shows "unsigned_value (decode_integer a (show_int i)) = Some i"
  using assms(1)
proof (cases rule: one_int_size_cases)
  case size8
  then show ?thesis using small by blast
qed (use range in \<open>simp_all add: decode_integer_eqs in_unsigned_range_def atol_show_int
    LONG_MAX_def LONG_MIN_def uint_word_of_int_id\<close>)

text \<open>
  What a program reads of an unsigned number: \<open>atoll\<close> cuts off everything above the largest signed
  number of eight bytes.
\<close>

definition unsigned_read :: "attribs \<Rightarrow> int \<Rightarrow> int" where
  "unsigned_read attribs i = (if DBI_INTEGER_SIZE8 \<in> attribs then min i (2 ^ 63 - 1) else i)"

lemma decode_integer_unsigned_read:
  assumes "one_int_size a" and range: "in_unsigned_range a i"
  shows "unsigned_value (decode_integer a (show_int i)) = Some (unsigned_read a i)"
proof (cases "DBI_INTEGER_SIZE8 \<in> a")
  case True
  then have size: "a \<inter> DBI_INTEGER_SIZEMASK = {DBI_INTEGER_SIZE8}"
    using assms(1) by (auto simp: one_int_size_def DBI_INTEGER_SIZEMASK_def)
  have i: "0 \<le> i" using range by (simp add: in_unsigned_range_def)
  then have "atol (show_int i) = min i (2 ^ 63 - 1)"
    by (simp add: atol_def LONG_MAX_def LONG_MIN_def)
  moreover have "uint (word_of_int (min i (2 ^ 63 - 1)) :: 64 word) = min i (2 ^ 63 - 1)"
    using i by (intro uint_word_of_int_id) auto
  ultimately show ?thesis using True by (simp only: decode_integer_eqs(5) [OF size] unsigned_value.simps unsigned_read_def if_True)
next
  case False
  then show ?thesis using decode_integer_unsigned [OF assms(1) False range] by (simp add: unsigned_read_def)
qed

text \<open>What is to be read for the number \<open>i\<close> in a column of type \<open>ty\<close>.\<close>

definition integer_read :: "field_type \<Rightarrow> int \<Rightarrow> dbi_data \<Rightarrow> bool" where
  "integer_read ty i v \<longleftrightarrow>
     (in_signed_range (snd ty) i \<longrightarrow> signed_value v = Some i)
     \<and> (DBI_INTEGER_UNSIGNED \<in> snd ty \<and> in_unsigned_range (snd ty) i \<longrightarrow>
          unsigned_value v = Some (unsigned_read (snd ty) i))"

lemma decode_integer_saturates:
  assumes "a \<inter> DBI_INTEGER_SIZEMASK = {DBI_INTEGER_SIZE8}" and "2 ^ 63 \<le> i"
  shows "decode_integer a (show_int i) = D_longlong (word_of_int (2 ^ 63 - 1))"
  using assms by (simp add: decode_integer_def Let_def atoll_def atol_def LONG_MAX_def LONG_MIN_def)

end
