(* ===== verification/TypeTranslation.thy ===== *)
theory TypeTranslation
  imports DbiTypes
begin

text \<open>
  The functions \<open>_translate_*_type\<close> that map a column type of the database to a type and
  attributes of libdbi, one per driver, and \<open>_get_field_info\<close> that registers the columns. The
  interface \<open>type_translation\<close> is what the row readers rely on: an integer has one size, a
  decimal has one size, text has neither. The constants of a client library are the
  constructors of a datatype; a value the code has no \<open>case\<close> for is an \<open>OTHER\<close>.
\<close>

section \<open>SQLite and SQLite3\<close>

datatype enum_field_types = FIELD_TYPE_DECIMAL | FIELD_TYPE_TINY | FIELD_TYPE_SHORT
  | FIELD_TYPE_LONG | FIELD_TYPE_FLOAT | FIELD_TYPE_DOUBLE | FIELD_TYPE_NULL
  | FIELD_TYPE_TIMESTAMP | FIELD_TYPE_LONGLONG | FIELD_TYPE_INT24 | FIELD_TYPE_DATE
  | FIELD_TYPE_TIME | FIELD_TYPE_DATETIME | FIELD_TYPE_YEAR | FIELD_TYPE_NEWDATE
  | FIELD_TYPE_ENUM | FIELD_TYPE_SET | FIELD_TYPE_TINY_BLOB | FIELD_TYPE_MEDIUM_BLOB
  | FIELD_TYPE_LONG_BLOB | FIELD_TYPE_BLOB | FIELD_TYPE_VAR_STRING | FIELD_TYPE_STRING

text \<open>The \<open>case\<close> of \<open>FIELD_TYPE_YEAR\<close> falls through into that of \<open>FIELD_TYPE_SHORT\<close>.\<close>

fun translate_sqlite3_type :: "enum_field_types \<Rightarrow> field_type" where
  "translate_sqlite3_type FIELD_TYPE_TINY = (DBI_TYPE_INTEGER, {DBI_INTEGER_SIZE1})"
| "translate_sqlite3_type FIELD_TYPE_YEAR = (DBI_TYPE_INTEGER, {DBI_INTEGER_UNSIGNED, DBI_INTEGER_SIZE2})"
| "translate_sqlite3_type FIELD_TYPE_SHORT = (DBI_TYPE_INTEGER, {DBI_INTEGER_SIZE2})"
| "translate_sqlite3_type FIELD_TYPE_INT24 = (DBI_TYPE_INTEGER, {DBI_INTEGER_SIZE3})"
| "translate_sqlite3_type FIELD_TYPE_LONG = (DBI_TYPE_INTEGER, {DBI_INTEGER_SIZE4})"
| "translate_sqlite3_type FIELD_TYPE_LONGLONG = (DBI_TYPE_INTEGER, {DBI_INTEGER_SIZE8})"
| "translate_sqlite3_type FIELD_TYPE_FLOAT = (DBI_TYPE_DECIMAL, {DBI_DECIMAL_SIZE4})"
| "translate_sqlite3_type FIELD_TYPE_DOUBLE = (DBI_TYPE_DECIMAL, {DBI_DECIMAL_SIZE8})"
| "translate_sqlite3_type FIELD_TYPE_DATE = (DBI_TYPE_DATETIME, {DBI_DATETIME_DATE})"
| "translate_sqlite3_type FIELD_TYPE_TIME = (DBI_TYPE_DATETIME, {DBI_DATETIME_TIME})"
| "translate_sqlite3_type FIELD_TYPE_DATETIME = (DBI_TYPE_DATETIME, {DBI_DATETIME_DATE, DBI_DATETIME_TIME})"
| "translate_sqlite3_type FIELD_TYPE_TIMESTAMP = (DBI_TYPE_DATETIME, {DBI_DATETIME_DATE, DBI_DATETIME_TIME})"
| "translate_sqlite3_type FIELD_TYPE_DECIMAL = (DBI_TYPE_STRING, {})"
| "translate_sqlite3_type FIELD_TYPE_ENUM = (DBI_TYPE_STRING, {})"
| "translate_sqlite3_type FIELD_TYPE_SET = (DBI_TYPE_STRING, {})"
| "translate_sqlite3_type FIELD_TYPE_VAR_STRING = (DBI_TYPE_STRING, {})"
| "translate_sqlite3_type FIELD_TYPE_STRING = (DBI_TYPE_STRING, {})"
| "translate_sqlite3_type FIELD_TYPE_TINY_BLOB = (DBI_TYPE_BINARY, {})"
| "translate_sqlite3_type FIELD_TYPE_MEDIUM_BLOB = (DBI_TYPE_BINARY, {})"
| "translate_sqlite3_type FIELD_TYPE_LONG_BLOB = (DBI_TYPE_BINARY, {})"
| "translate_sqlite3_type FIELD_TYPE_BLOB = (DBI_TYPE_BINARY, {})"
| "translate_sqlite3_type _ = (DBI_TYPE_STRING, {})"

fun translate_sqlite_type :: "enum_field_types \<Rightarrow> field_type" where
  "translate_sqlite_type FIELD_TYPE_TINY = (DBI_TYPE_INTEGER, {DBI_INTEGER_SIZE1})"
| "translate_sqlite_type FIELD_TYPE_YEAR = (DBI_TYPE_INTEGER, {DBI_INTEGER_UNSIGNED, DBI_INTEGER_SIZE2})"
| "translate_sqlite_type FIELD_TYPE_SHORT = (DBI_TYPE_INTEGER, {DBI_INTEGER_SIZE2})"
| "translate_sqlite_type FIELD_TYPE_INT24 = (DBI_TYPE_INTEGER, {DBI_INTEGER_SIZE3})"
| "translate_sqlite_type FIELD_TYPE_LONG = (DBI_TYPE_INTEGER, {DBI_INTEGER_SIZE4})"
| "translate_sqlite_type FIELD_TYPE_LONGLONG = (DBI_TYPE_INTEGER, {DBI_INTEGER_SIZE8})"
| "translate_sqlite_type FIELD_TYPE_FLOAT = (DBI_TYPE_DECIMAL, {DBI_DECIMAL_SIZE4})"
| "translate_sqlite_type FIELD_TYPE_DOUBLE = (DBI_TYPE_DECIMAL, {DBI_DECIMAL_SIZE8})"
| "translate_sqlite_type FIELD_TYPE_DATE = (DBI_TYPE_DATETIME, {DBI_DATETIME_DATE})"
| "translate_sqlite_type FIELD_TYPE_TIME = (DBI_TYPE_DATETIME, {DBI_DATETIME_TIME})"
| "translate_sqlite_type FIELD_TYPE_DATETIME = (DBI_TYPE_DATETIME, {DBI_DATETIME_DATE, DBI_DATETIME_TIME})"
| "translate_sqlite_type FIELD_TYPE_TIMESTAMP = (DBI_TYPE_DATETIME, {DBI_DATETIME_DATE, DBI_DATETIME_TIME})"
| "translate_sqlite_type FIELD_TYPE_DECIMAL = (DBI_TYPE_STRING, {})"
| "translate_sqlite_type FIELD_TYPE_ENUM = (DBI_TYPE_STRING, {})"
| "translate_sqlite_type FIELD_TYPE_SET = (DBI_TYPE_STRING, {})"
| "translate_sqlite_type FIELD_TYPE_VAR_STRING = (DBI_TYPE_STRING, {})"
| "translate_sqlite_type FIELD_TYPE_STRING = (DBI_TYPE_STRING, {})"
| "translate_sqlite_type FIELD_TYPE_TINY_BLOB = (DBI_TYPE_BINARY, {})"
| "translate_sqlite_type FIELD_TYPE_MEDIUM_BLOB = (DBI_TYPE_BINARY, {})"
| "translate_sqlite_type FIELD_TYPE_LONG_BLOB = (DBI_TYPE_BINARY, {})"
| "translate_sqlite_type FIELD_TYPE_BLOB = (DBI_TYPE_BINARY, {})"
| "translate_sqlite_type _ = (DBI_TYPE_STRING, {})"

section \<open>MySQL\<close>

datatype mysql_type = MYSQL_TINY | MYSQL_YEAR | MYSQL_SHORT | MYSQL_INT24 | MYSQL_LONG | MYSQL_BIT
  | MYSQL_LONGLONG | MYSQL_FLOAT | MYSQL_DOUBLE | MYSQL_DATE | MYSQL_TIME | MYSQL_DATETIME
  | MYSQL_TIMESTAMP | MYSQL_VAR_STRING | MYSQL_STRING | MYSQL_TINY_BLOB | MYSQL_MEDIUM_BLOB
  | MYSQL_LONG_BLOB | MYSQL_BLOB | MYSQL_NEWDECIMAL | MYSQL_DECIMAL | MYSQL_ENUM | MYSQL_SET
  | MYSQL_OTHER nat

record mysql_field =
  my_name :: string
  my_type :: mysql_type
  my_charsetnr :: nat
  my_unsigned :: bool

text \<open>
  Character set 63 is \<open>binary\<close>; any other one falls through into the \<open>case\<close> of the strings, which
  is where \<open>NEWDECIMAL\<close>, \<open>DECIMAL\<close>, \<open>ENUM\<close> and \<open>SET\<close> enter.
\<close>

definition translate_mysql_type :: "mysql_field \<Rightarrow> field_type" where
  "translate_mysql_type field =
     (case my_type field of
        MYSQL_TINY \<Rightarrow> (DBI_TYPE_INTEGER, {DBI_INTEGER_SIZE1})
      | MYSQL_YEAR \<Rightarrow> (DBI_TYPE_INTEGER, {DBI_INTEGER_UNSIGNED, DBI_INTEGER_SIZE2})
      | MYSQL_SHORT \<Rightarrow> (DBI_TYPE_INTEGER, {DBI_INTEGER_SIZE2})
      | MYSQL_INT24 \<Rightarrow> (DBI_TYPE_INTEGER, {DBI_INTEGER_SIZE3})
      | MYSQL_LONG \<Rightarrow> (DBI_TYPE_INTEGER, {DBI_INTEGER_SIZE4})
      | MYSQL_BIT \<Rightarrow> (DBI_TYPE_INTEGER, {DBI_INTEGER_UNSIGNED, DBI_INTEGER_SIZE8})
      | MYSQL_LONGLONG \<Rightarrow> (DBI_TYPE_INTEGER, {DBI_INTEGER_SIZE8})
      | MYSQL_FLOAT \<Rightarrow> (DBI_TYPE_DECIMAL, {DBI_DECIMAL_SIZE4})
      | MYSQL_DOUBLE \<Rightarrow> (DBI_TYPE_DECIMAL, {DBI_DECIMAL_SIZE8})
      | MYSQL_DATE \<Rightarrow> (DBI_TYPE_DATETIME, {DBI_DATETIME_DATE})
      | MYSQL_TIME \<Rightarrow> (DBI_TYPE_DATETIME, {DBI_DATETIME_TIME})
      | MYSQL_DATETIME \<Rightarrow> (DBI_TYPE_DATETIME, {DBI_DATETIME_DATE, DBI_DATETIME_TIME})
      | MYSQL_TIMESTAMP \<Rightarrow> (DBI_TYPE_DATETIME, {DBI_DATETIME_DATE, DBI_DATETIME_TIME})
      | MYSQL_NEWDECIMAL \<Rightarrow> (DBI_TYPE_STRING, {})
      | MYSQL_DECIMAL \<Rightarrow> (DBI_TYPE_STRING, {})
      | MYSQL_ENUM \<Rightarrow> (DBI_TYPE_STRING, {})
      | MYSQL_SET \<Rightarrow> (DBI_TYPE_STRING, {})
      | _ \<Rightarrow> if my_charsetnr field = 63 then (DBI_TYPE_BINARY, {}) else (DBI_TYPE_STRING, {}))"

definition mysql_field_type :: "mysql_field \<Rightarrow> field_type" where
  "mysql_field_type field =
     (let (type, attribs) = translate_mysql_type field in
      if type = DBI_TYPE_INTEGER \<and> my_unsigned field
      then (type, insert DBI_INTEGER_UNSIGNED attribs) else (type, attribs))"

definition mysql_get_field_info :: "mysql_field list \<Rightarrow> field list" where
  "mysql_get_field_info cols = map (\<lambda>f. make_field (my_name f) (mysql_field_type f)) cols"

section \<open>PostgreSQL\<close>

definition translate_postgresql_type :: "nat \<Rightarrow> field_type" where
  "translate_postgresql_type oid =
     (if oid = 18 then (DBI_TYPE_INTEGER, {DBI_INTEGER_SIZE1})
      else if oid = 21 then (DBI_TYPE_INTEGER, {DBI_INTEGER_SIZE2})
      else if oid = 23 then (DBI_TYPE_INTEGER, {DBI_INTEGER_SIZE4})
      else if oid = 20 then (DBI_TYPE_INTEGER, {DBI_INTEGER_SIZE8})
      else if oid = 26 then (DBI_TYPE_INTEGER, {DBI_INTEGER_SIZE8, DBI_INTEGER_UNSIGNED})
      else if oid = 700 then (DBI_TYPE_DECIMAL, {DBI_DECIMAL_SIZE4})
      else if oid = 701 then (DBI_TYPE_DECIMAL, {DBI_DECIMAL_SIZE8})
      else if oid = 1082 then (DBI_TYPE_DATETIME, {DBI_DATETIME_DATE})
      else if oid \<in> {1083, 1266} then (DBI_TYPE_DATETIME, {DBI_DATETIME_TIME})
      else if oid \<in> {1114, 1184} then (DBI_TYPE_DATETIME, {DBI_DATETIME_DATE, DBI_DATETIME_TIME})
      else if oid \<in> {19, 25, 409, 410, 411, 1042, 1043} then (DBI_TYPE_STRING, {})
      else if oid = 17 then (DBI_TYPE_BINARY, {})
      else (DBI_TYPE_STRING, {}))"

text \<open>What \<open>PQfname\<close> and \<open>PQftype\<close> say of the columns.\<close>

definition pgsql_get_field_info :: "(string \<times> nat) list \<Rightarrow> field list" where
  "pgsql_get_field_info cols = map (\<lambda>(name, oid). make_field name (translate_postgresql_type oid)) cols"

section \<open>mSQL\<close>

datatype msql_type = UINT_TYPE | INT_TYPE | UINT64_TYPE | INT64_TYPE | UINT8_TYPE | INT8_TYPE
  | UINT16_TYPE | INT16_TYPE | BYTE_TYPE | MONEY_TYPE | IPV4_TYPE | CIDR4_TYPE | CIDR6_TYPE
  | TEXT_TYPE | CHAR_TYPE | DATE_TYPE | TIME_TYPE | REAL_TYPE | IDENT_TYPE | NULL_TYPE
  | MSQL_OTHER nat

definition translate_msql_type :: "msql_type \<Rightarrow> field_type" where
  "translate_msql_type fieldtype =
     (case fieldtype of
        UINT_TYPE \<Rightarrow> (DBI_TYPE_INTEGER, {DBI_INTEGER_UNSIGNED, DBI_INTEGER_SIZE3})
      | INT_TYPE \<Rightarrow> (DBI_TYPE_INTEGER, {DBI_INTEGER_SIZE3})
      | UINT64_TYPE \<Rightarrow> (DBI_TYPE_INTEGER, {DBI_INTEGER_UNSIGNED, DBI_INTEGER_SIZE8})
      | INT64_TYPE \<Rightarrow> (DBI_TYPE_INTEGER, {DBI_INTEGER_SIZE8})
      | UINT8_TYPE \<Rightarrow> (DBI_TYPE_INTEGER, {DBI_INTEGER_UNSIGNED, DBI_INTEGER_SIZE1})
      | INT8_TYPE \<Rightarrow> (DBI_TYPE_INTEGER, {DBI_INTEGER_SIZE1})
      | UINT16_TYPE \<Rightarrow> (DBI_TYPE_INTEGER, {DBI_INTEGER_UNSIGNED, DBI_INTEGER_SIZE2})
      | INT16_TYPE \<Rightarrow> (DBI_TYPE_INTEGER, {DBI_INTEGER_SIZE2})
      | BYTE_TYPE \<Rightarrow> (DBI_TYPE_INTEGER, {DBI_INTEGER_SIZE1})
      | MONEY_TYPE \<Rightarrow> (DBI_TYPE_STRING, {})
      | IPV4_TYPE \<Rightarrow> (DBI_TYPE_STRING, {})
      | CIDR4_TYPE \<Rightarrow> (DBI_TYPE_STRING, {})
      | CIDR6_TYPE \<Rightarrow> (DBI_TYPE_STRING, {})
      | TEXT_TYPE \<Rightarrow> (DBI_TYPE_STRING, {})
      | CHAR_TYPE \<Rightarrow> (DBI_TYPE_STRING, {})
      | DATE_TYPE \<Rightarrow> (DBI_TYPE_DATETIME, {DBI_DATETIME_DATE})
      | TIME_TYPE \<Rightarrow> (DBI_TYPE_DATETIME, {DBI_DATETIME_TIME})
      | REAL_TYPE \<Rightarrow> (DBI_TYPE_DECIMAL, {DBI_DECIMAL_SIZE4})
      | _ \<Rightarrow> (DBI_TYPE_STRING, {}))"

text \<open>\<open>msqlFetchField\<close> runs through the columns until it returns \<open>NULL\<close>.\<close>

definition msql_get_field_info :: "(string \<times> msql_type) list \<Rightarrow> field list" where
  "msql_get_field_info cols = map (\<lambda>(name, ty). make_field name (translate_msql_type ty)) cols"

section \<open>Firebird\<close>

text \<open>\<open>sqltype & ~1\<close>, the type without the bit that says whether the column can be null.\<close>

datatype fb_sqltype = SQL_TEXT | SQL_VARYING | SQL_SHORT | SQL_LONG | SQL_INT64 | SQL_FLOAT
  | SQL_DOUBLE | SQL_TIMESTAMP | SQL_TYPE_TIME | SQL_TYPE_DATE | SQL_BLOB | SQL_ARRAY | SQL_OTHER nat

fun translate_firebird_type :: "fb_sqltype \<Rightarrow> field_type" where
  "translate_firebird_type SQL_TEXT = (DBI_TYPE_STRING, {DBI_STRING_FIXEDSIZE})"
| "translate_firebird_type SQL_VARYING = (DBI_TYPE_STRING, {})"
| "translate_firebird_type SQL_SHORT = (DBI_TYPE_INTEGER, {DBI_INTEGER_SIZE2})"
| "translate_firebird_type SQL_LONG = (DBI_TYPE_INTEGER, {DBI_INTEGER_SIZE3})"
| "translate_firebird_type SQL_INT64 = (DBI_TYPE_INTEGER, {DBI_INTEGER_SIZE8})"
| "translate_firebird_type SQL_FLOAT = (DBI_TYPE_DECIMAL, {DBI_DECIMAL_SIZE4})"
| "translate_firebird_type SQL_DOUBLE = (DBI_TYPE_DECIMAL, {DBI_DECIMAL_SIZE8})"
| "translate_firebird_type SQL_TIMESTAMP = (DBI_TYPE_DATETIME, {DBI_DATETIME_TIME, DBI_DATETIME_DATE})"
| "translate_firebird_type SQL_TYPE_TIME = (DBI_TYPE_DATETIME, {DBI_DATETIME_TIME})"
| "translate_firebird_type SQL_TYPE_DATE = (DBI_TYPE_DATETIME, {DBI_DATETIME_DATE})"
| "translate_firebird_type SQL_BLOB = (DBI_TYPE_BINARY, {})"
| "translate_firebird_type SQL_ARRAY = (DBI_TYPE_BINARY, {})"
| "translate_firebird_type (SQL_OTHER n) = (DBI_TYPE_NONE, {})"

definition firebird_get_field_info :: "(string \<times> fb_sqltype) list \<Rightarrow> field list" where
  "firebird_get_field_info cols = map (\<lambda>(name, ty). make_field name (translate_firebird_type ty)) cols"

section \<open>Oracle\<close>

datatype oracle_type = SQLT_INT | SQLT_LNG | SQLT_FLT | SQLT_NUM | SQLT_BIN | SQLT_LBI | SQLT_DAT
  | SQLT_AFC | SQLT_STR | SQLT_CHR | SQLT_VNU | SQLT_VCS | SQLT_OTHER nat

text \<open>The parameter \<open>scale\<close> is an unsigned byte.\<close>

definition translate_oracle_type :: "oracle_type \<Rightarrow> 8 word \<Rightarrow> field_type" where
  "translate_oracle_type fieldtype scale =
     (case fieldtype of
        SQLT_INT \<Rightarrow> (DBI_TYPE_INTEGER, {DBI_INTEGER_SIZE8})
      | SQLT_LNG \<Rightarrow> (DBI_TYPE_INTEGER, {DBI_INTEGER_SIZE8})
      | SQLT_FLT \<Rightarrow> (DBI_TYPE_DECIMAL, {DBI_DECIMAL_SIZE8})
      | SQLT_NUM \<Rightarrow> if 0 < scale then (DBI_TYPE_DECIMAL, {DBI_DECIMAL_SIZE8})
                    else (DBI_TYPE_INTEGER, {DBI_INTEGER_SIZE8})
      | SQLT_BIN \<Rightarrow> (DBI_TYPE_BINARY, {})
      | SQLT_LBI \<Rightarrow> (DBI_TYPE_BINARY, {})
      | SQLT_DAT \<Rightarrow> (DBI_TYPE_DATETIME, {})
      | _ \<Rightarrow> (DBI_TYPE_STRING, {}))"

text \<open>
  The scale that OCI reports is a signed byte (\<open>sb1\<close>) and is asked for a \<open>NUMBER\<close> only; the call
  converts it to an unsigned one.
\<close>

definition oracle_get_field_info :: "(string \<times> oracle_type \<times> int) list \<Rightarrow> field list" where
  "oracle_get_field_info cols =
     map (\<lambda>(name, otype, sc).
       let scale = (if otype = SQLT_NUM then sc else 0)
       in make_field name (translate_oracle_type otype (word_of_int scale))) cols"

section \<open>FreeTDS\<close>

datatype cs_type = CS_LONG_TYPE | CS_INT_TYPE | CS_SMALLINT_TYPE | CS_BIT_TYPE | CS_TINYINT_TYPE
  | CS_DATETIME_TYPE | CS_DATETIME4_TYPE | CS_REAL_TYPE | CS_FLOAT_TYPE | CS_CHAR_TYPE
  | CS_TEXT_TYPE | CS_VARCHAR_TYPE | CS_MONEY_TYPE | CS_MONEY4_TYPE | CS_NUMERIC_TYPE
  | CS_DECIMAL_TYPE | CS_UNIQUE_TYPE | CS_IMAGE_TYPE | CS_BINARY_TYPE | CS_VARBINARY_TYPE
  | CS_UNICHAR_TYPE | CS_OTHER nat

datatype cs_format = CS_FMT_UNUSED | CS_FMT_NULLTERM

record cs_datafmt =
  datatype_of :: cs_type
  maxlength :: int
  format_of :: cs_format

definition translate_freetds_type :: "cs_datafmt \<Rightarrow> cs_datafmt \<times> field_type" where
  "translate_freetds_type datafmt =
     (let unused = datafmt\<lparr>format_of := CS_FMT_UNUSED\<rparr>;
          text = datafmt\<lparr>format_of := CS_FMT_NULLTERM, maxlength := maxlength datafmt + 1\<rparr> in
      case datatype_of datafmt of
        CS_LONG_TYPE \<Rightarrow> (unused, (DBI_TYPE_INTEGER, {DBI_INTEGER_SIZE8}))
      | CS_INT_TYPE \<Rightarrow> (unused, (DBI_TYPE_INTEGER, {DBI_INTEGER_SIZE4}))
      | CS_SMALLINT_TYPE \<Rightarrow> (unused, (DBI_TYPE_INTEGER, {DBI_INTEGER_SIZE2}))
      | CS_BIT_TYPE \<Rightarrow> (unused, (DBI_TYPE_INTEGER, {DBI_INTEGER_SIZE1}))
      | CS_TINYINT_TYPE \<Rightarrow> (unused, (DBI_TYPE_INTEGER, {DBI_INTEGER_SIZE1}))
      | CS_DATETIME_TYPE \<Rightarrow> (unused, (DBI_TYPE_DATETIME, {DBI_DATETIME_DATE, DBI_DATETIME_TIME}))
      | CS_DATETIME4_TYPE \<Rightarrow> (unused, (DBI_TYPE_DATETIME, {DBI_DATETIME_DATE, DBI_DATETIME_TIME}))
      | CS_REAL_TYPE \<Rightarrow> (unused, (DBI_TYPE_DECIMAL, {DBI_DECIMAL_SIZE4}))
      | CS_FLOAT_TYPE \<Rightarrow> (unused, (DBI_TYPE_DECIMAL, {DBI_DECIMAL_SIZE8}))
      | CS_CHAR_TYPE \<Rightarrow> (text, (DBI_TYPE_STRING, {}))
      | CS_TEXT_TYPE \<Rightarrow> (text, (DBI_TYPE_STRING, {}))
      | CS_VARCHAR_TYPE \<Rightarrow> (text, (DBI_TYPE_STRING, {}))
      | _ \<Rightarrow> (unused, (DBI_TYPE_BINARY, {})))"

definition freetds_field_type :: "cs_datafmt \<Rightarrow> field_type" where
  "freetds_field_type datafmt = snd (translate_freetds_type datafmt)"

section \<open>Ingres\<close>

datatype ii_type = IIAPI_INT_TYPE | IIAPI_FLT_TYPE | IIAPI_LOGKEY_TYPE | IIAPI_TABKEY_TYPE
  | IIAPI_LBYTE_TYPE | IIAPI_VBYTE_TYPE | IIAPI_BYTE_TYPE | IIAPI_VCH_TYPE | IIAPI_LVCH_TYPE
  | IIAPI_TXT_TYPE | IIAPI_CHR_TYPE | IIAPI_CHA_TYPE | IIAPI_LTXT_TYPE | IIAPI_NCHA_TYPE
  | IIAPI_NVCH_TYPE | IIAPI_LNVCH_TYPE | IIAPI_DEC_TYPE | IIAPI_MNY_TYPE | IIAPI_DTE_TYPE
  | IIAPI_OTHER nat

definition ingres_classify_field :: "ii_type \<Rightarrow> nat \<Rightarrow> field_type" where
  "ingres_classify_field ds_dataType ds_length =
     (case ds_dataType of
        IIAPI_INT_TYPE \<Rightarrow> (DBI_TYPE_INTEGER,
          if ds_length = 1 then {DBI_INTEGER_SIZE1} else if ds_length = 2 then {DBI_INTEGER_SIZE2}
          else if ds_length = 4 then {DBI_INTEGER_SIZE4} else if ds_length = 8 then {DBI_INTEGER_SIZE8}
          else {})
      | IIAPI_FLT_TYPE \<Rightarrow> (DBI_TYPE_DECIMAL,
          if ds_length = 4 then {DBI_DECIMAL_SIZE4} else if ds_length = 8 then {DBI_DECIMAL_SIZE8} else {})
      | IIAPI_LOGKEY_TYPE \<Rightarrow> (DBI_TYPE_BINARY, {})
      | IIAPI_TABKEY_TYPE \<Rightarrow> (DBI_TYPE_BINARY, {})
      | IIAPI_LBYTE_TYPE \<Rightarrow> (DBI_TYPE_BINARY, {})
      | IIAPI_VBYTE_TYPE \<Rightarrow> (DBI_TYPE_BINARY, {})
      | IIAPI_BYTE_TYPE \<Rightarrow> (DBI_TYPE_BINARY, {})
      | IIAPI_DTE_TYPE \<Rightarrow> (DBI_TYPE_DATETIME, {})
      | IIAPI_OTHER n \<Rightarrow> (DBI_TYPE_NONE, {})
      | _ \<Rightarrow> (DBI_TYPE_STRING, {}))"

section \<open>The interface of a translation\<close>

locale type_translation =
  fixes trans :: "'t \<Rightarrow> field_type"
  assumes integer_sized: "fst (trans t) = DBI_TYPE_INTEGER \<Longrightarrow> one_int_size (snd (trans t))"
    and decimal_sized: "fst (trans t) = DBI_TYPE_DECIMAL \<Longrightarrow> one_dec_size (snd (trans t))"
    and text_plain: "fst (trans t) = DBI_TYPE_STRING \<or> fst (trans t) = DBI_TYPE_BINARY \<Longrightarrow>
      snd (trans t) \<subseteq> {DBI_STRING_FIXEDSIZE}"
begin

lemma signed_roundtrip:
  "fst (trans t) = DBI_TYPE_INTEGER \<Longrightarrow> in_signed_range (snd (trans t)) i \<Longrightarrow>
     signed_value (decode_integer (snd (trans t)) (show_int i)) = Some i"
  by (simp add: decode_integer_signed integer_sized)

lemma unsigned_roundtrip:
  "fst (trans t) = DBI_TYPE_INTEGER \<Longrightarrow> DBI_INTEGER_SIZE8 \<notin> snd (trans t) \<Longrightarrow>
     in_unsigned_range (snd (trans t)) i \<Longrightarrow>
     unsigned_value (decode_integer (snd (trans t)) (show_int i)) = Some i"
  by (simp add: decode_integer_unsigned integer_sized)

lemma integer_read:
  "fst (trans t) = DBI_TYPE_INTEGER \<Longrightarrow> integer_read (trans t) i (decode_integer (snd (trans t)) (show_int i))"
  by (simp add: integer_read_def signed_roundtrip decode_integer_unsigned_read integer_sized)

lemma integer_set:
  "fst (trans t) = DBI_TYPE_INTEGER \<Longrightarrow> decode_integer (snd (trans t)) raw \<noteq> D_unset"
  using integer_sized [of t]
  by (auto simp: decode_integer_eqs elim: one_int_size_cases)

lemma decimal_set:
  "fst (trans t) = DBI_TYPE_DECIMAL \<Longrightarrow> decode_decimal (snd (trans t)) raw \<noteq> D_unset"
  using decimal_sized [of t]
  by (auto simp: decode_decimal_def one_dec_size_def DBI_DECIMAL_SIZEMASK_def Let_def)

end

text \<open>A translation that also says which parts a time has; Oracle's does not.\<close>

locale dated_translation = type_translation +
  assumes datetime_parts: "fst (trans t) = DBI_TYPE_DATETIME \<Longrightarrow> snd (trans t) \<inter> DBI_DATETIME_MASK \<noteq> {}"
begin

lemma datetime_set:
  "fst (trans t) = DBI_TYPE_DATETIME \<Longrightarrow>
     \<exists>parts. decode_datetime (snd (trans t)) raw = D_datetime raw parts \<and> parts \<noteq> {}"
  using datetime_parts [of t] by (auto simp: decode_datetime_def)

end

lemmas sized_defs = one_int_size_def one_dec_size_def DBI_INTEGER_SIZEMASK_def
  DBI_DECIMAL_SIZEMASK_def DBI_DATETIME_MASK_def

interpretation sqlite3_types: dated_translation translate_sqlite3_type
  by unfold_locales (case_tac [!] t, auto simp: sized_defs)

interpretation sqlite_types: dated_translation translate_sqlite_type
  by unfold_locales (case_tac [!] t, auto simp: sized_defs)

definition lawful :: "field_type \<Rightarrow> bool" where
  "lawful r \<longleftrightarrow> (fst r = DBI_TYPE_INTEGER \<longrightarrow> one_int_size (snd r))
     \<and> (fst r = DBI_TYPE_DECIMAL \<longrightarrow> one_dec_size (snd r))
     \<and> (fst r = DBI_TYPE_STRING \<or> fst r = DBI_TYPE_BINARY \<longrightarrow> snd r \<subseteq> {DBI_STRING_FIXEDSIZE})
     \<and> (fst r = DBI_TYPE_DATETIME \<longrightarrow> snd r \<inter> DBI_DATETIME_MASK \<noteq> {})"

lemma lawful_dated: "(\<And>t. lawful (tr t)) \<Longrightarrow> dated_translation tr"
  by unfold_locales (auto simp: lawful_def)

lemma lawful_shapes [simp]:
  "lawful (DBI_TYPE_STRING, {})" "lawful (DBI_TYPE_BINARY, {})"
  "lawful (DBI_TYPE_INTEGER, {DBI_INTEGER_SIZE1})" "lawful (DBI_TYPE_INTEGER, {DBI_INTEGER_SIZE2})"
  "lawful (DBI_TYPE_INTEGER, {DBI_INTEGER_SIZE3})" "lawful (DBI_TYPE_INTEGER, {DBI_INTEGER_SIZE4})"
  "lawful (DBI_TYPE_INTEGER, {DBI_INTEGER_SIZE8})"
  "lawful (DBI_TYPE_DECIMAL, {DBI_DECIMAL_SIZE4})" "lawful (DBI_TYPE_DECIMAL, {DBI_DECIMAL_SIZE8})"
  "lawful (DBI_TYPE_DATETIME, {DBI_DATETIME_DATE})" "lawful (DBI_TYPE_DATETIME, {DBI_DATETIME_TIME})"
  "lawful (DBI_TYPE_DATETIME, {DBI_DATETIME_DATE, DBI_DATETIME_TIME})"
  by (simp_all add: lawful_def sized_defs)

lemma lawful_unsigned [simp]:
  "lawful (DBI_TYPE_INTEGER, a) \<Longrightarrow> lawful (DBI_TYPE_INTEGER, insert DBI_INTEGER_UNSIGNED a)"
  by (simp add: lawful_def one_int_size_def DBI_INTEGER_SIZEMASK_def)

lemma lawful_mysql: "lawful (translate_mysql_type field)"
  by (cases "my_type field") (simp_all add: translate_mysql_type_def)

lemma lawful_mysql_field: "lawful (mysql_field_type field)"
proof (cases "translate_mysql_type field")
  case (Pair type attribs)
  then have "lawful (type, attribs)" using lawful_mysql [of field] by simp
  with Pair show ?thesis by (cases "type = DBI_TYPE_INTEGER") (simp_all add: mysql_field_type_def)
qed

lemma lawful_if: "lawful (if c then a else b) = (if c then lawful a else lawful b)"
  by simp

lemma lawful_pgsql: "lawful (translate_postgresql_type oid)"
proof -
  have "lawful (DBI_TYPE_INTEGER, {DBI_INTEGER_SIZE8, DBI_INTEGER_UNSIGNED})"
    using lawful_unsigned [OF lawful_shapes(7)] by (simp add: insert_commute)
  then show ?thesis by (simp only: translate_postgresql_type_def lawful_if lawful_shapes if_cancel)
qed

interpretation mysql_types: dated_translation mysql_field_type
  by (rule lawful_dated) (rule lawful_mysql_field)

interpretation pgsql_types: dated_translation translate_postgresql_type
  by (rule lawful_dated) (rule lawful_pgsql)

interpretation msql_types: dated_translation translate_msql_type
  by unfold_locales (case_tac [!] t, auto simp: sized_defs translate_msql_type_def)

interpretation firebird_types: dated_translation translate_firebird_type
  by unfold_locales (case_tac [!] t, auto simp: sized_defs)

lemma oracle_type_cases:
  obtains "translate_oracle_type ty scale = (DBI_TYPE_INTEGER, {DBI_INTEGER_SIZE8})"
  | "translate_oracle_type ty scale = (DBI_TYPE_DECIMAL, {DBI_DECIMAL_SIZE8})"
  | "translate_oracle_type ty scale = (DBI_TYPE_BINARY, {})"
  | "translate_oracle_type ty scale = (DBI_TYPE_DATETIME, {})"
  | "translate_oracle_type ty scale = (DBI_TYPE_STRING, {})"
  by (cases ty; cases "0 < scale") (simp_all add: translate_oracle_type_def)

interpretation oracle_types: type_translation "\<lambda>t. translate_oracle_type (fst t) (snd t)"
proof unfold_locales
  fix t :: "oracle_type \<times> 8 word"
  show "fst (translate_oracle_type (fst t) (snd t)) = DBI_TYPE_INTEGER \<Longrightarrow>
      one_int_size (snd (translate_oracle_type (fst t) (snd t)))"
    by (rule oracle_type_cases [of "fst t" "snd t"]) (simp_all add: sized_defs)
  show "fst (translate_oracle_type (fst t) (snd t)) = DBI_TYPE_DECIMAL \<Longrightarrow>
      one_dec_size (snd (translate_oracle_type (fst t) (snd t)))"
    by (rule oracle_type_cases [of "fst t" "snd t"]) (simp_all add: sized_defs)
  show "fst (translate_oracle_type (fst t) (snd t)) = DBI_TYPE_STRING \<or>
      fst (translate_oracle_type (fst t) (snd t)) = DBI_TYPE_BINARY \<Longrightarrow>
      snd (translate_oracle_type (fst t) (snd t)) \<subseteq> {DBI_STRING_FIXEDSIZE}"
    by (rule oracle_type_cases [of "fst t" "snd t"]) simp_all
qed

interpretation freetds_types: dated_translation freetds_field_type
  by unfold_locales
    (auto simp: sized_defs freetds_field_type_def translate_freetds_type_def Let_def split: cs_type.splits)

end
