(* ===== verification/SqliteTypes.thy ===== *)
theory SqliteTypes
  imports SqlTables TypeTranslation
begin

text \<open>
  How the SQLite3 driver finds the type of a result column: \<open>find_result_field_types\<close> searches the
  statement for an alias of the column, asks \<open>PRAGMA table_info\<close> for the tables of the statement
  and classifies the declared type by substrings. The SQLite driver classifies the same way
  and takes the declaration from the text of the CREATE TABLE command.
\<close>

definition MAX_IDENT_LENGTH :: nat where
  "MAX_IDENT_LENGTH = 128"

section \<open>Declared types\<close>

definition has_any :: "string \<Rightarrow> string list \<Rightarrow> bool" where
  "has_any s ns = list_ex (has_substr s) ns"

definition classify_sqlite3 :: "string \<Rightarrow> enum_field_types" where
  "classify_sqlite3 curr_type =
     (if has_any curr_type [''CHAR('', ''CLOB'', ''TEXT'', ''VARCHAR'', ''ENUM'', ''SET'', ''YEAR'']
        then FIELD_TYPE_STRING
      else if has_any curr_type [''BLOB'', ''BYTEA''] then FIELD_TYPE_BLOB
      else if has_any curr_type [''CHAR'', ''TINYINT'', ''INT1''] then FIELD_TYPE_TINY
      else if has_any curr_type [''SMALLINT'', ''INT2''] then FIELD_TYPE_SHORT
      else if has_any curr_type [''MEDIUMINT''] then FIELD_TYPE_INT24
      else if has_any curr_type [''BIGINT'', ''INTEGER PRIMARY KEY'', ''INT8''] then FIELD_TYPE_LONGLONG
      else if has_any curr_type [''INTEGER'', ''INT'', ''INT4''] then FIELD_TYPE_LONG
      else if has_any curr_type [''DECIMAL'', ''NUMERIC''] then FIELD_TYPE_DECIMAL
      else if has_any curr_type [''TIMESTAMP'', ''DATETIME''] then FIELD_TYPE_TIMESTAMP
      else if has_any curr_type [''DATE''] then FIELD_TYPE_DATE
      else if has_any curr_type [''TIME''] then FIELD_TYPE_TIME
      else if has_any curr_type [''DOUBLE'', ''FLOAT8''] then FIELD_TYPE_DOUBLE
      else if has_any curr_type [''REAL'', ''FLOAT'', ''FLOAT4''] then FIELD_TYPE_FLOAT
      else FIELD_TYPE_STRING)"

definition classify_sqlite :: "string \<Rightarrow> enum_field_types" where
  "classify_sqlite curr_type =
     (if has_any curr_type [''BLOB'', ''BYTEA''] then FIELD_TYPE_BLOB
      else if has_any curr_type [''CHAR('', ''CLOB'', ''TEXT'', ''VARCHAR'', ''ENUM'', ''SET'', ''YEAR'']
        then FIELD_TYPE_STRING
      else if has_any curr_type [''CHAR'', ''TINYINT'', ''INT1''] then FIELD_TYPE_TINY
      else if has_any curr_type [''SMALLINT'', ''INT2''] then FIELD_TYPE_SHORT
      else if has_any curr_type [''MEDIUMINT''] then FIELD_TYPE_INT24
      else if has_any curr_type [''BIGINT'', ''INT8''] then FIELD_TYPE_LONGLONG
      else if has_any curr_type [''INTEGER'', ''INT'', ''INT4''] then FIELD_TYPE_LONG
      else if has_any curr_type [''DECIMAL'', ''NUMERIC''] then FIELD_TYPE_DECIMAL
      else if has_any curr_type [''TIMESTAMP'', ''DATETIME''] then FIELD_TYPE_TIMESTAMP
      else if has_any curr_type [''DATE''] then FIELD_TYPE_DATE
      else if has_any curr_type [''TIME''] then FIELD_TYPE_TIME
      else if has_any curr_type [''DOUBLE'', ''FLOAT8''] then FIELD_TYPE_DOUBLE
      else if has_any curr_type [''REAL'', ''FLOAT'', ''FLOAT4''] then FIELD_TYPE_FLOAT
      else FIELD_TYPE_STRING)"

text \<open>The type of an aliased function call, from its lower-cased text.\<close>

definition classify_function :: "string \<Rightarrow> enum_field_types" where
  "classify_function lower =
     (if has_any lower [''avg('', ''sum('', ''total('', ''abs('', ''round('']
        then FIELD_TYPE_FLOAT
      else if has_any lower [''julianday('', ''count('', ''max('', ''min('', ''last_insert_rowid('', ''length('']
        then FIELD_TYPE_LONG
      else if has_any lower [''random(''] then FIELD_TYPE_LONGLONG
      else if has_any lower [''randomblob('', ''zeroblob('', ''total('', ''abs('', ''round('']
        then FIELD_TYPE_BLOB
      else if has_any lower [''date('', ''time('', ''datetime('', ''strftime('', ''group_concat('',
          ''coalesce('', ''glob('', ''ifnull('', ''hex('', ''like('', ''lower('', ''ltrim('', ''nullif('',
          ''quote('', ''replace('', ''rtrim('', ''sqlite_version('', ''substr('', ''trim('', ''typeof('',
          ''upper(''] then FIELD_TYPE_STRING
      else FIELD_TYPE_STRING)"

section \<open>The columns of a table\<close>

text \<open>
  \<open>get_field_type\<close>: rows of six entries, the first with the column names of the pragma; entry 1
  of a row is the column's name, entry 2 its type. The last match wins.
\<close>

definition not_null :: "string option \<Rightarrow> string run" where
  "not_null p = (case p of None \<Rightarrow> Inl NullDeref | Some s \<Rightarrow> Inr s)"

fun scan_columns :: "string option list \<Rightarrow> string \<Rightarrow> nat list \<Rightarrow> string option \<Rightarrow> string option run" where
  "scan_columns tbl name [] curr_type = Inr curr_type"
| "scan_columns tbl name (i # is) curr_type =
     run_bind (run_bind (table_entry tbl (i + 1)) not_null) (\<lambda>column.
       if column = name
       then run_bind (run_bind (table_entry tbl (i + 2)) not_null) (\<lambda>ty. scan_columns tbl name is (Some ty))
       else scan_columns tbl name is curr_type)"

definition get_field_type :: "string option list \<Rightarrow> string \<Rightarrow> nat \<Rightarrow> string option run" where
  "get_field_type result_table curr_field_name numrows =
     scan_columns result_table curr_field_name (map (\<lambda>k. 6 * k) [1..<numrows + 1]) None"

section \<open>The alias of a column\<close>

text \<open>\<open>strtok_r(s, " ,;", &saveptr)\<close>: the next token and what is left behind it.\<close>

definition delim :: "char \<Rightarrow> bool" where
  "delim c \<longleftrightarrow> c = CHR '' '' \<or> c = CHR '','' \<or> c = CHR '';''"

definition strtok_r :: "string \<Rightarrow> (string \<times> string) option" where
  "strtok_r s =
     (case dropWhile delim s of [] \<Rightarrow> None
      | c # cs \<Rightarrow> Some (takeWhile (\<lambda>c. \<not> delim c) (c # cs), tl (dropWhile (\<lambda>c. \<not> delim c) (c # cs))))"

text \<open>What follows the first dot, if there is one.\<close>

definition after_dot :: "string \<Rightarrow> string" where
  "after_dot s = (case strchr (CHR ''.'') s of None \<Rightarrow> s | Some item \<Rightarrow> tl item)"

text \<open>The number of parentheses still open behind a token.\<close>

fun count_parens :: "nat \<Rightarrow> string \<Rightarrow> nat" where
  "count_parens 0 s = 0"
| "count_parens opens [] = opens"
| "count_parens (Suc opens) (c # s) =
     count_parens (if c = CHR ''('' then Suc (Suc opens) else if c = CHR '')'' then opens else Suc opens) s"

lemma strtok_r_less: "strtok_r s = Some (t, r) \<Longrightarrow> length r < length s"
proof -
  assume "strtok_r s = Some (t, r)"
  then obtain c cs where d: "dropWhile delim s = c # cs"
    and r: "r = tl (dropWhile (\<lambda>c. \<not> delim c) (c # cs))"
    by (auto simp: strtok_r_def split: list.splits)
  have "length r < length (c # cs)" unfolding r by (rule tl_dropWhile_less) simp
  also have "\<dots> \<le> length s" using length_dropWhile_le [of delim s] by (simp only: d)
  finally show ?thesis .
qed

text \<open>
  Tokens are fetched until the parentheses are closed; behind the last token \<open>strtok_r\<close> returns
  \<open>NULL\<close>, which is dereferenced.
\<close>

function close_parens :: "nat \<Rightarrow> string \<Rightarrow> (string \<times> string) run" where
  "close_parens opens saveptr =
     (case strtok_r saveptr of None \<Rightarrow> Inl NullDeref
      | Some (token, saveptr) \<Rightarrow>
          let opens = count_parens opens token in
          if opens = 0 then Inr (token, saveptr) else close_parens opens saveptr)"
  by pat_completeness auto
termination
  by (relation "measure (length \<circ> snd)") (auto dest: strtok_r_less)

declare close_parens.simps [simp del]

text \<open>The variables of the loop; \<open>itemstore\<close> is \<open>None\<close> before it has been set.\<close>

record scan =
  curr_field :: string
  as_flag :: bool
  function_flag :: bool
  expression_flag :: bool
  from_flag :: bool
  itemstore :: "string option"

definition scan_init :: "string \<Rightarrow> scan" where
  "scan_init field = \<lparr>curr_field = field, as_flag = False, function_flag = False,
     expression_flag = False, from_flag = False, itemstore = None\<rparr>"

definition is_from :: "string \<Rightarrow> bool" where
  "is_from token \<longleftrightarrow> token = ''from'' \<or> token = ''FROM''"

definition is_as :: "string \<Rightarrow> bool" where
  "is_as token \<longleftrightarrow> token = ''as'' \<or> token = ''AS''"

definition is_select :: "string \<Rightarrow> bool" where
  "is_select token \<longleftrightarrow> token \<in> {''(select'', ''(SELECT'', ''select'', ''SELECT''}"

definition note_from :: "string \<Rightarrow> scan \<Rightarrow> scan" where
  "note_from token st = (if is_from token then st\<lparr>from_flag := True\<rparr> else st)"

text \<open>A token that is a column, a function call or a parenthesised expression.\<close>

definition scan_item :: "scan \<Rightarrow> string \<Rightarrow> string \<Rightarrow> (scan \<times> string) run" where
  "scan_item st token saveptr =
     (let st = st\<lparr>function_flag := False, expression_flag := False, itemstore := Some token\<rparr> in
      case strchr (CHR ''('') token of
        None \<Rightarrow> Inr (note_from token st, saveptr)
      | Some item \<Rightarrow>
          let st = (if item = token then st\<lparr>expression_flag := True\<rparr> else st\<lparr>function_flag := True\<rparr>);
              opens = count_parens 1 (tl item) in
          if opens > 0
          then run_bind (close_parens opens saveptr) (\<lambda>(token, saveptr). Inr (note_from token st, saveptr))
          else Inr (note_from token st, saveptr))"

text \<open>
  The copy of the statement is freed before the text of a function call, which is part of it, is
  read. \<open>stale\<close> says what reading a freed string comes to, the error \<open>UseAfterFree\<close> or a string.
\<close>

definition function_type :: "(string \<Rightarrow> string run) \<Rightarrow> string \<Rightarrow> enum_field_types run" where
  "function_type stale item =
     run_bind (stale item) (\<lambda>text. run_bind (strcpy_buf MAX_IDENT_LENGTH text) (\<lambda>text.
       Inr (classify_function (map tolower text))))"

text \<open>
  A token behind \<open>as\<close>: when it is the name we look for, the item before it decides. The value is
  the type, or the state with \<open>curr_field\<close> replaced.
\<close>

definition scan_alias :: "(string \<Rightarrow> string run) \<Rightarrow> scan \<Rightarrow> string \<Rightarrow> (enum_field_types + scan) run" where
  "scan_alias stale st token =
     (if token \<noteq> curr_field st then Inr (Inr (st\<lparr>as_flag := False\<rparr>))
      else if expression_flag st then Inr (Inl FIELD_TYPE_STRING)
      else case itemstore st of None \<Rightarrow> Inl UninitRead
      | Some item \<Rightarrow>
          if function_flag st then run_bind (function_type stale item) (\<lambda>type. Inr (Inl type))
          else run_bind (strcpy_buf MAX_IDENT_LENGTH (after_dot item)) (\<lambda>item.
            Inr (Inr (st\<lparr>curr_field := item, as_flag := False\<rparr>))))"

definition scan_token ::
    "(string \<Rightarrow> string run) \<Rightarrow> scan \<Rightarrow> string \<Rightarrow> string \<Rightarrow> ((enum_field_types + scan) \<times> string) run" where
  "scan_token stale st token saveptr =
     (let token = after_dot token in
      if from_flag st then Inr (Inr (if is_select token then st\<lparr>from_flag := False\<rparr> else st), saveptr)
      else if as_flag st then run_bind (scan_alias stale st token) (\<lambda>r. Inr (r, saveptr))
      else if is_as token then Inr (Inr (st\<lparr>as_flag := True\<rparr>), saveptr)
      else run_bind (scan_item st token saveptr) (\<lambda>(st, saveptr). Inr (Inr st, saveptr)))"

lemma close_parens_less: "close_parens n s = Inr (t, r) \<Longrightarrow> length r < length s"
proof (induction n s rule: close_parens.induct)
  case (1 opens saveptr)
  show ?case
  proof (cases "strtok_r saveptr")
    case None
    then show ?thesis using 1(2) by (subst (asm) close_parens.simps) simp
  next
    case (Some p)
    obtain token rest where p: "p = (token, rest)" by (cases p)
    have less: "length rest < length saveptr" using Some p strtok_r_less by simp
    show ?thesis
    proof (cases "count_parens opens token = 0")
      case True
      then show ?thesis using 1(2) Some p less by (subst (asm) close_parens.simps) simp
    next
      case False
      then have "close_parens (count_parens opens token) rest = Inr (t, r)"
        using 1(2) Some p by (subst (asm) close_parens.simps) simp
      then show ?thesis using 1(1) [OF Some p [symmetric] refl False] less by simp
    qed
  qed
qed

lemma scan_token_le: "scan_token stale st token s = Inr (x, r) \<Longrightarrow> length r \<le> length s"
  by (auto simp: scan_token_def scan_item_def Let_def run_bind_eq_Inr split: if_splits option.splits
      dest!: close_parens_less)

function resolve :: "(string \<Rightarrow> string run) \<Rightarrow> scan \<Rightarrow> string \<Rightarrow> (enum_field_types + string) run" where
  "resolve stale st saveptr =
     (case strtok_r saveptr of None \<Rightarrow> Inr (Inr (curr_field st))
      | Some (token, saveptr) \<Rightarrow>
          run_bind (scan_token stale st token saveptr) (\<lambda>(r, saveptr).
            case r of Inl type \<Rightarrow> Inr (Inl type) | Inr st \<Rightarrow> resolve stale st saveptr))"
  by pat_completeness auto
termination
  by (relation "measure (\<lambda>(stale, st, s). length s)") (auto dest!: strtok_r_less scan_token_le)

declare resolve.simps [simp del]

section \<open>The type of a result column\<close>

definition table_info_command :: "string \<Rightarrow> string" where
  "table_info_command table = take (MAX_IDENT_LENGTH + 79) (''PRAGMA table_info('' @ table @ '')'')"

text \<open>
  \<open>table_info\<close> is \<open>sqlite3_get_table\<close> for these commands: the result code, the number of rows and
  the table. The first table that has the column ends the search.
\<close>

type_synonym table_info = "string \<Rightarrow> int \<times> nat \<times> string option list"

definition column_type :: "table_info \<Rightarrow> string \<Rightarrow> string \<Rightarrow> string option run" where
  "column_type table_info table field =
     (let (query_res, numrows, tbl) = table_info (table_info_command table) in
      if query_res \<noteq> 0 \<or> numrows = 0 then Inr None else get_field_type tbl field numrows)"

fun search_tables :: "table_info \<Rightarrow> string \<Rightarrow> string list \<Rightarrow> string option run" where
  "search_tables table_info field [] = Inr None"
| "search_tables table_info field (t # ts) =
     run_bind (column_type table_info t field) (\<lambda>r.
       case r of Some ty \<Rightarrow> Inr (Some ty) | None \<Rightarrow> search_tables table_info field ts)"

text \<open>The table and the column of \<open>table.column\<close>, copied into arrays of \<open>MAX_IDENT_LENGTH\<close> bytes.\<close>

definition split_field :: "string \<Rightarrow> (string \<times> string) run" where
  "split_field field =
     (case strchr (CHR ''.'') field of
        None \<Rightarrow> run_bind (strcpy_buf MAX_IDENT_LENGTH field) (\<lambda>f. Inr ([], f))
      | Some item \<Rightarrow>
          run_bind (strcpy_buf MAX_IDENT_LENGTH (tl item)) (\<lambda>f.
          run_bind (strcpy_buf MAX_IDENT_LENGTH (take (length field - length item) field)) (\<lambda>t.
            Inr (t, f))))"

definition find_result_field_types ::
    "(string \<Rightarrow> string run) \<Rightarrow> table_info \<Rightarrow> string \<Rightarrow> string \<Rightarrow> enum_field_types run" where
  "find_result_field_types stale table_info field statement =
     run_bind (split_field field) (\<lambda>(curr_table, curr_field).
     run_bind (resolve stale (scan_init curr_field) statement) (\<lambda>r.
       case r of Inl type \<Rightarrow> Inr type
       | Inr curr_field \<Rightarrow>
           run_bind
             (if curr_table \<noteq> [] then column_type table_info curr_table curr_field
              else run_bind (getTables [] statement) (search_tables table_info curr_field))
             (\<lambda>curr_type. Inr (case curr_type of None \<Rightarrow> FIELD_TYPE_STRING
                | Some ty \<Rightarrow> classify_sqlite3 (map toupper ty)))))"

section \<open>Queries\<close>

text \<open>
  \<open>dbd_query\<close>: the result of \<open>sqlite3_get_table\<close> and, for every column, the type found for its
  name and the name without the table.
\<close>

record sqlite_result =
  sr_rows :: nat
  sr_changed :: int
  sr_fields :: "field list"
  sr_table :: "string option list"

fun sqlite3_fields ::
    "(string \<Rightarrow> string run) \<Rightarrow> table_info \<Rightarrow> string option list \<Rightarrow> string \<Rightarrow> nat list \<Rightarrow> field list run" where
  "sqlite3_fields stale table_info result_table statement [] = Inr []"
| "sqlite3_fields stale table_info result_table statement (idx # idxs) =
     run_bind (run_bind (table_entry result_table idx) not_null) (\<lambda>name.
     run_bind (find_result_field_types stale table_info name statement) (\<lambda>type.
     run_bind (sqlite3_fields stale table_info result_table statement idxs) (\<lambda>fs.
       Inr (make_field (after_dot name) (translate_sqlite3_type type) # fs))))"

text \<open>\<open>get_table\<close> is \<open>sqlite3_get_table\<close> for the statement: code, rows, columns, table.\<close>

definition sqlite3_query ::
    "(string \<Rightarrow> string run) \<Rightarrow> table_info \<Rightarrow> (string \<Rightarrow> int \<times> nat \<times> nat \<times> string option list) \<Rightarrow> int \<Rightarrow> string
       \<Rightarrow> sqlite_result option run" where
  "sqlite3_query stale table_info get_table changes statement =
     (let (query_res, numrows, numcols, result_table) = get_table statement in
      if query_res \<noteq> 0 then Inr None
      else run_bind (sqlite3_fields stale table_info result_table statement [0..<numcols]) (\<lambda>fs.
        Inr (Some \<lparr>sr_rows = numrows, sr_changed = changes, sr_fields = fs, sr_table = result_table\<rparr>)))"

text \<open>
  \<open>dbd_query_old\<close>, which is called nowhere, frees the table that comes with an error; the flag says
  whether it does. A null pointer for the table is \<open>None\<close>.
\<close>

definition sqlite3_query_old ::
    "(string \<Rightarrow> string run) \<Rightarrow> table_info \<Rightarrow> (string \<Rightarrow> int \<times> nat \<times> nat \<times> string option list option) \<Rightarrow> int \<Rightarrow> string
       \<Rightarrow> (sqlite_result option \<times> bool) run" where
  "sqlite3_query_old stale table_info get_table changes statement =
     (let (query_res, numrows, numcols, result_table) = get_table statement in
      if query_res \<noteq> 0 then Inr (None, result_table \<noteq> None)
      else case result_table of
          None \<Rightarrow> if numcols = 0
                  then Inr (Some \<lparr>sr_rows = numrows, sr_changed = changes, sr_fields = [], sr_table = []\<rparr>, False)
                  else Inl NullDeref
        | Some table \<Rightarrow>
            run_bind (sqlite3_fields stale table_info table statement [0..<numcols]) (\<lambda>fs.
              Inr (Some \<lparr>sr_rows = numrows, sr_changed = changes, sr_fields = fs, sr_table = table\<rparr>, False)))"

lemma sqlite3_query_old_agrees:
  assumes "get_table_old statement = (code, numrows, numcols, Some table)"
    and "get_table statement = (code, numrows, numcols, table)"
  shows "run_bind (sqlite3_query_old stale table_info get_table_old changes statement) (\<lambda>(r, freed_table). Inr r)
    = sqlite3_query stale table_info get_table changes statement"
  by (cases "sqlite3_fields stale table_info table statement [0..<numcols]")
    (simp_all add: sqlite3_query_old_def sqlite3_query_def assms)

section \<open>Tokens\<close>

function tokens :: "string \<Rightarrow> string list" where
  "tokens s = (case strtok_r s of None \<Rightarrow> [] | Some (t, r) \<Rightarrow> t # tokens r)"
  by pat_completeness auto
termination by (relation "measure length") (auto dest: strtok_r_less)

declare tokens.simps [simp del]

text \<open>A token whose parentheses are closed in the token itself.\<close>

definition closed_token :: "string \<Rightarrow> bool" where
  "closed_token t = (case strchr (CHR ''('') (after_dot t) of None \<Rightarrow> True
     | Some item \<Rightarrow> count_parens 1 (tl item) = 0)"

fun resolve_tokens :: "(string \<Rightarrow> string run) \<Rightarrow> scan \<Rightarrow> string list \<Rightarrow> (enum_field_types + string) run" where
  "resolve_tokens stale st [] = Inr (Inr (curr_field st))"
| "resolve_tokens stale st (t # ts) =
     run_bind (scan_token stale st t []) (\<lambda>(r, s).
       case r of Inl type \<Rightarrow> Inr (Inl type) | Inr st \<Rightarrow> resolve_tokens stale st ts)"

lemma scan_token_closed:
  "closed_token t \<Longrightarrow> scan_token stale st t s = run_bind (scan_token stale st t []) (\<lambda>(r, x). Inr (r, s))"
  by (cases "scan_alias stale st (after_dot t)")
    (auto simp: scan_token_def scan_item_def closed_token_def Let_def split: option.splits)

lemma resolve_closed:
  "list_all closed_token (tokens s) \<Longrightarrow> resolve stale st s = resolve_tokens stale st (tokens s)"
proof (induction s arbitrary: st rule: tokens.induct)
  case (1 s)
  show ?case
  proof (cases "strtok_r s")
    case None
    then show ?thesis by (simp add: resolve.simps tokens.simps)
  next
    case (Some p)
    obtain t r where p: "p = (t, r)" by (cases p)
    have tok: "tokens s = t # tokens r" using Some p by (subst tokens.simps) simp
    have IH: "resolve stale st' r = resolve_tokens stale st' (tokens r)" for st'
      using 1(1) [OF Some p [symmetric]] 1(2) tok by simp
    show ?thesis
      using Some p tok 1(2) IH
      by (cases "scan_token stale st t []")
        (auto simp: resolve.simps [of stale st s] scan_token_closed [of t stale st r] split: sum.split)
  qed
qed

text \<open>Tokens that are neither \<open>as\<close> nor contain a parenthesis leave \<open>curr_field\<close> alone.\<close>

definition plain_token :: "string \<Rightarrow> bool" where
  "plain_token t \<longleftrightarrow> CHR ''('' \<notin> set t \<and> \<not> is_as (after_dot t)"

lemma after_dot_subset: "set (after_dot t) \<subseteq> set t"
  by (auto simp: after_dot_def split: option.splits dest!: strchr_Some)

lemma plain_token_no_paren: "CHR ''('' \<notin> set t \<Longrightarrow> strchr (CHR ''('') (after_dot t) = None"
  using after_dot_subset by (auto simp: strchr_None)

lemma plain_token_closed: "plain_token t \<Longrightarrow> closed_token t"
  by (simp add: closed_token_def plain_token_def plain_token_no_paren)

lemma scan_token_plain:
  assumes "plain_token t" and "\<not> as_flag st"
  shows "\<exists>st'. scan_token stale st t [] = Inr (Inr st', []) \<and> curr_field st' = curr_field st \<and> \<not> as_flag st'
    \<and> (\<not> from_flag st \<longrightarrow> from_flag st' = is_from (after_dot t)
        \<and> itemstore st' = Some (after_dot t) \<and> \<not> function_flag st' \<and> \<not> expression_flag st')"
  using assms plain_token_no_paren [of t]
  by (auto simp: scan_token_def scan_item_def plain_token_def note_from_def Let_def)

lemma resolve_plain_tokens:
  "list_all plain_token ts \<Longrightarrow> \<not> as_flag st \<Longrightarrow> resolve_tokens stale st ts = Inr (Inr (curr_field st))"
proof (induction ts arbitrary: st)
  case (Cons t ts)
  then obtain st' where "scan_token stale st t [] = Inr (Inr st', [])" "curr_field st' = curr_field st" "\<not> as_flag st'"
    using scan_token_plain [of t st stale] by auto
  then show ?case using Cons by simp
qed simp

lemma resolve_plain:
  "list_all plain_token (tokens s) \<Longrightarrow> resolve stale (scan_init f) s = Inr (Inr f)"
  by (subst resolve_closed)
    (auto simp: scan_init_def resolve_plain_tokens plain_token_closed elim: list.pred_mono_strong)

text \<open>The text behind FROM is skipped.\<close>

lemma resolve_from_skip:
  "list_all (\<lambda>t. \<not> is_select (after_dot t)) ts \<Longrightarrow> from_flag st \<Longrightarrow>
     resolve_tokens stale st ts = Inr (Inr (curr_field st))"
  by (induction ts) (simp_all add: scan_token_def)

section \<open>The declared types of the documentation\<close>

text \<open>
  The types that the driver's manual lists, with the libdbi type that its description comes to. Of
  \<open>INTEGER PRIMARY KEY\<close>, which it lists too, more is said below.
\<close>

definition documented_types :: "(string list \<times> field_type) list" where
  "documented_types = [
    ([''TINYBLOB'', ''BLOB'', ''MEDIUMBLOB'', ''LONGBLOB'', ''BYTEA''], (DBI_TYPE_BINARY, {})),
    ([''CHAR()'', ''CHAR(20)'', ''VARCHAR()'', ''VARCHAR(20)'', ''TINYTEXT'', ''TEXT'', ''MEDIUMTEXT'', ''LONGTEXT'',
      ''ENUM'', ''SET'', ''YEAR'', ''DECIMAL'', ''NUMERIC''], (DBI_TYPE_STRING, {})),
    ([''TINYINT'', ''INT1'', ''CHAR''], (DBI_TYPE_INTEGER, {DBI_INTEGER_SIZE1})),
    ([''SMALLINT'', ''INT2''], (DBI_TYPE_INTEGER, {DBI_INTEGER_SIZE2})),
    ([''MEDIUMINT''], (DBI_TYPE_INTEGER, {DBI_INTEGER_SIZE3})),
    ([''INT'', ''INTEGER'', ''INT4''], (DBI_TYPE_INTEGER, {DBI_INTEGER_SIZE4})),
    ([''BIGINT'', ''INT8''], (DBI_TYPE_INTEGER, {DBI_INTEGER_SIZE8})),
    ([''TIMESTAMP'', ''DATETIME''], (DBI_TYPE_DATETIME, {DBI_DATETIME_DATE, DBI_DATETIME_TIME})),
    ([''DATE''], (DBI_TYPE_DATETIME, {DBI_DATETIME_DATE})),
    ([''TIME''], (DBI_TYPE_DATETIME, {DBI_DATETIME_TIME})),
    ([''FLOAT'', ''FLOAT4'', ''REAL''], (DBI_TYPE_DECIMAL, {DBI_DECIMAL_SIZE4})),
    ([''DOUBLE'', ''DOUBLE PRECISION'', ''FLOAT8''], (DBI_TYPE_DECIMAL, {DBI_DECIMAL_SIZE8}))]"

lemma documented_types_check:
  "list_all (\<lambda>(names, t). list_all (\<lambda>n. translate_sqlite3_type (classify_sqlite3 n) = t) names) documented_types"
  by code_simp

lemma has_any_Nil [simp]: "has_any s [] = False"
  by (simp add: has_any_def)

lemma has_any_Cons [simp]: "has_any s (n # ns) = (has_substr s n \<or> has_any s ns)"
  by (simp add: has_any_def)

text \<open>What the SQLite3 driver takes for the type of a column that is declared as \<open>ty\<close>.\<close>

definition declared_type :: "string option \<Rightarrow> enum_field_types" where
  "declared_type ty = (case ty of None \<Rightarrow> FIELD_TYPE_STRING | Some t \<Rightarrow> classify_sqlite3 (map toupper t))"

definition string_keywords :: "string list" where
  "string_keywords = [''CHAR('', ''CLOB'', ''TEXT'', ''VARCHAR'', ''ENUM'', ''SET'', ''YEAR'']"

definition binary_keywords :: "string list" where
  "binary_keywords = [''BLOB'', ''BYTEA'']"

text \<open>The other keywords that make a declaration more than a string.\<close>

definition number_keywords :: "string list" where
  "number_keywords = [''CHAR'', ''TINYINT'', ''INT1'', ''SMALLINT'', ''INT2'', ''MEDIUMINT'', ''BIGINT'', ''INT8'', ''INT'',
     ''DATE'', ''TIME'', ''DOUBLE'', ''FLOAT'', ''REAL'']"

lemmas keyword_defs = string_keywords_def binary_keywords_def number_keywords_def

lemma has_substr_part: "has_substr d n \<Longrightarrow> has_substr n m \<Longrightarrow> has_substr d m"
  unfolding has_substr_sublist by (rule sublist_order.order_trans)

lemma keyword_parts:
  "has_substr d ''INTEGER PRIMARY KEY'' \<Longrightarrow> has_substr d ''INT''"
  "has_substr d ''INTEGER PRIMARY KEY'' \<Longrightarrow> has_substr d ''INTEGER''"
  "has_substr d ''INTEGER'' \<Longrightarrow> has_substr d ''INT''" "has_substr d ''INT4'' \<Longrightarrow> has_substr d ''INT''"
  "has_substr d ''TIMESTAMP'' \<Longrightarrow> has_substr d ''TIME''" "has_substr d ''DATETIME'' \<Longrightarrow> has_substr d ''TIME''"
  "has_substr d ''FLOAT8'' \<Longrightarrow> has_substr d ''FLOAT''" "has_substr d ''FLOAT4'' \<Longrightarrow> has_substr d ''FLOAT''"
  by (erule has_substr_part, code_simp)+

text \<open>The declarations that the two drivers take differently: a binary keyword together with one of a
  string, and a primary key that no keyword tested before it decides.\<close>

definition drivers_differ :: "string \<Rightarrow> bool" where
  "drivers_differ d \<longleftrightarrow> has_any d binary_keywords \<and> has_any d string_keywords
     \<or> has_substr d ''INTEGER PRIMARY KEY''
       \<and> \<not> has_any d (binary_keywords @ string_keywords)
       \<and> \<not> has_any d [''CHAR'', ''TINYINT'', ''INT1'', ''SMALLINT'', ''INT2'', ''MEDIUMINT'', ''BIGINT'', ''INT8'']"

lemma has_any_append [simp]: "has_any s (ns @ ms) = (has_any s ns \<or> has_any s ms)"
  by (simp add: has_any_def)

lemma translations_same: "translate_sqlite_type e = translate_sqlite3_type e"
  by (cases e) simp_all

lemma drivers_agree: "\<not> drivers_differ d \<Longrightarrow> classify_sqlite d = classify_sqlite3 d"
  using keyword_parts(2) [of d] unfolding drivers_differ_def keyword_defs classify_sqlite_def classify_sqlite3_def
  by (cases "has_substr d ''INTEGER PRIMARY KEY''") (auto simp del: has_any_append)

lemma drivers_disagree:
  assumes "drivers_differ d"
  shows "translate_sqlite_type (classify_sqlite d) \<noteq> translate_sqlite3_type (classify_sqlite3 d)"
proof (cases "has_any d binary_keywords \<and> has_any d string_keywords")
  case True
  then show ?thesis
    by (simp add: classify_sqlite_def classify_sqlite3_def flip: string_keywords_def binary_keywords_def)
next
  case False
  with assms have pk: "has_substr d ''INTEGER PRIMARY KEY''" and none: "\<not> has_any d binary_keywords" "\<not> has_any d string_keywords"
    "\<not> has_any d [''CHAR'', ''TINYINT'', ''INT1'', ''SMALLINT'', ''INT2'', ''MEDIUMINT'', ''BIGINT'', ''INT8'']"
    by (auto simp: drivers_differ_def simp del: has_any_Cons)
  from none(3) have small: "\<not> has_any d [''CHAR'', ''TINYINT'', ''INT1'']" "\<not> has_any d [''SMALLINT'', ''INT2'']"
    "\<not> has_any d [''MEDIUMINT'']" "\<not> has_any d [''BIGINT'', ''INT8'']"
    by simp_all
  have large: "has_any d [''BIGINT'', ''INTEGER PRIMARY KEY'', ''INT8'']" "has_any d [''INTEGER'', ''INT'', ''INT4'']"
    using pk keyword_parts(2) [OF pk] by simp_all
  show ?thesis
    by (simp add: classify_sqlite_def classify_sqlite3_def small large none(1,2) [unfolded keyword_defs] del: has_any_Cons)
qed

lemma other_types:
  "\<not> has_any d (binary_keywords @ number_keywords) \<Longrightarrow> translate_sqlite3_type (classify_sqlite3 d) = (DBI_TYPE_STRING, {})"
  using keyword_parts [of d] unfolding keyword_defs by (auto simp: classify_sqlite3_def)



section \<open>The catalog\<close>

text \<open>
  What SQLite documents of \<open>PRAGMA table_info\<close>: a table with the columns \<open>cols\<close> gives a header
  and one row of six entries per column, in which entry 1 is the name and entry 2 the type.
\<close>

definition describes :: "string option list \<Rightarrow> (string \<times> string) list \<Rightarrow> bool" where
  "describes tbl cols \<longleftrightarrow> length tbl = 6 * (length cols + 1)
     \<and> (\<forall>k < length cols. tbl ! (6 * (k + 1) + 1) = Some (fst (cols ! k))
          \<and> tbl ! (6 * (k + 1) + 2) = Some (snd (cols ! k)))"

definition serves :: "table_info \<Rightarrow> (string \<Rightarrow> (string \<times> string) list option) \<Rightarrow> bool" where
  "serves table_info cat \<longleftrightarrow> (\<forall>t. length t < MAX_IDENT_LENGTH \<longrightarrow>
     (case table_info (table_info_command t) of (query_res, numrows, tbl) \<Rightarrow>
       (case cat t of None \<Rightarrow> query_res \<noteq> 0 \<or> numrows = 0
        | Some cols \<Rightarrow> query_res = 0 \<and> cols \<noteq> [] \<and> numrows = length cols \<and> describes tbl cols)))"

text \<open>What the driver is to find: the type of the column in the first table that has it.\<close>

definition catalog_type :: "(string \<Rightarrow> (string \<times> string) list option) \<Rightarrow> string \<Rightarrow> string \<Rightarrow> string option" where
  "catalog_type cat t f = (case cat t of None \<Rightarrow> None | Some cols \<Rightarrow> map_of (rev cols) f)"

fun first_type :: "(string \<Rightarrow> (string \<times> string) list option) \<Rightarrow> string \<Rightarrow> string list \<Rightarrow> string option" where
  "first_type cat f [] = None"
| "first_type cat f (t # ts) =
     (case catalog_type cat t f of Some ty \<Rightarrow> Some ty | None \<Rightarrow> first_type cat f ts)"

lemma scan_columns_describes:
  assumes "describes tbl cols" and "n \<le> length cols"
  shows "scan_columns tbl f (map (\<lambda>k. 6 * k) [length cols - n + 1..<length cols + 1]) cur
    = Inr (case map_of (rev (drop (length cols - n) cols)) f of None \<Rightarrow> cur | Some ty \<Rightarrow> Some ty)"
  using assms(2)
proof (induction n arbitrary: cur)
  case (Suc n)
  let ?k = "length cols - Suc n"
  have k: "?k < length cols" "length cols - n = Suc ?k" using Suc.prems by auto
  have upt: "[?k + 1..<length cols + 1] = (?k + 1) # [length cols - n + 1..<length cols + 1]"
    using k by (simp add: upt_conv_Cons)
  have len: "6 * (?k + 1) + 2 < length tbl" using assms(1) k(1) by (simp add: describes_def)
  have e1: "table_entry tbl (6 * (?k + 1) + 1) = Inr (Some (fst (cols ! ?k)))"
    and e2: "table_entry tbl (6 * (?k + 1) + 2) = Inr (Some (snd (cols ! ?k)))"
    using assms(1) k(1) len by (simp_all add: table_entry_def describes_def)
  have d: "drop ?k cols = cols ! ?k # drop (length cols - n) cols"
    using k by (metis Cons_nth_drop_Suc)
  have step: "scan_columns tbl f (map (\<lambda>k. 6 * k) [?k + 1..<length cols + 1]) cur
      = scan_columns tbl f (map (\<lambda>k. 6 * k) [length cols - n + 1..<length cols + 1])
          (if fst (cols ! ?k) = f then Some (snd (cols ! ?k)) else cur)"
    unfolding upt using e1 e2 by (simp add: not_null_def)
  show ?case
    unfolding step using Suc by (cases "cols ! ?k") (auto simp: d map_add_def split: option.splits)
qed simp

lemma get_field_type_describes:
  "describes tbl cols \<Longrightarrow> get_field_type tbl f (length cols) = Inr (map_of (rev cols) f)"
  using scan_columns_describes [of tbl cols "length cols" f None]
  by (simp add: get_field_type_def option.case_eq_if)

lemma column_type_serves:
  "serves table_info cat \<Longrightarrow> length t < MAX_IDENT_LENGTH \<Longrightarrow>
     column_type table_info t f = Inr (catalog_type cat t f)"
  by (cases "table_info (table_info_command t)"; cases "cat t")
    (force simp: serves_def column_type_def catalog_type_def get_field_type_describes)+

lemma search_tables_serves:
  "serves table_info cat \<Longrightarrow> \<forall>t \<in> set ts. length t < MAX_IDENT_LENGTH \<Longrightarrow>
     search_tables table_info f ts = Inr (first_type cat f ts)"
  by (induction ts) (auto simp: column_type_serves split: option.split)

lemma find_plain:
  assumes "serves table_info cat" and "list_all plain_token (tokens statement)"
    and "getTables [] statement = Inr ts" and "\<forall>t \<in> set ts. length t < MAX_IDENT_LENGTH"
    and "length col < MAX_IDENT_LENGTH" and "length tbl < MAX_IDENT_LENGTH"
    and "CHR ''.'' \<notin> set col" and "CHR ''.'' \<notin> set tbl" and "tbl \<noteq> []"
  shows "find_result_field_types stale table_info col statement = Inr (declared_type (first_type cat col ts))
    \<and> find_result_field_types stale table_info (tbl @ ''.'' @ col) statement
      = Inr (declared_type (catalog_type cat tbl col))"
proof -
  have "strchr (CHR ''.'') (tbl @ ''.'' @ col) = Some (''.'' @ col)"
    using strchr_append [of "CHR ''.''" tbl col] assms(8) by simp
  then have "split_field (tbl @ ''.'' @ col) = Inr (tbl, col)"
    using assms(5,6) by (simp add: split_field_def)
  moreover have "split_field col = Inr ([], col)"
    using assms(5,7) by (simp add: split_field_def strchr_None [THEN iffD2])
  ultimately show ?thesis
    using assms by (auto simp: find_result_field_types_def resolve_plain column_type_serves
        search_tables_serves declared_type_def split: option.split)
qed

text \<open>
  C4: For a statement without aliases and parentheses, the type of a column is the declared
  type of that column in the first table of the statement that has it, or in the table named
  in \<open>table.column\<close>, and string if no table has it: the driver implements the lookup in the
  catalog that \<open>PRAGMA table_info\<close> serves.
\<close>

theorem find_result_field_types_plain:
  assumes "serves table_info cat" and "list_all plain_token (tokens statement)"
    and "getTables [] statement = Inr ts" and "\<forall>t \<in> set ts. length t < MAX_IDENT_LENGTH"
    and "length col < MAX_IDENT_LENGTH" and "length tbl < MAX_IDENT_LENGTH"
    and "CHR ''.'' \<notin> set col" and "CHR ''.'' \<notin> set tbl" and "tbl \<noteq> []"
  shows "find_result_field_types stale table_info col statement = Inr (declared_type (first_type cat col ts))
    \<and> find_result_field_types stale table_info (tbl @ ''.'' @ col) statement
      = Inr (declared_type (catalog_type cat tbl col))"
  by (rule find_plain [OF assms])

text \<open>A catalog with one table, and its answer to the pragma, for the examples.\<close>

definition one_table :: "string \<Rightarrow> (string \<times> string) list \<Rightarrow> string \<Rightarrow> (string \<times> string) list option" where
  "one_table name cols t = (if t = name then Some cols else None)"

definition table_info_of :: "string \<Rightarrow> (string \<times> string) list \<Rightarrow> table_info" where
  "table_info_of name cols command =
     (if command = table_info_command name
      then (0, length cols, replicate 6 (Some ''h'') @
              concat (map (\<lambda>(n, ty). [Some ''0'', Some n, Some ty, None, None, None]) cols))
      else (0, 0, []))"

lemma table_info_command_inject:
  "length s < MAX_IDENT_LENGTH \<Longrightarrow> length t < MAX_IDENT_LENGTH \<Longrightarrow>
     table_info_command s = table_info_command t \<longleftrightarrow> s = t"
  by (simp add: table_info_command_def MAX_IDENT_LENGTH_def)

lemma serves_one_column:
  "length name < MAX_IDENT_LENGTH \<Longrightarrow> serves (table_info_of name [(n, ty)]) (one_table name [(n, ty)])"
  by (auto simp: serves_def table_info_of_def one_table_def table_info_command_inject describes_def
      nth_append)

theorem find_result_field_types_plain_witness:
  "find_result_field_types (\<lambda>item. Inl UseAfterFree) (table_info_of ''t'' [(''a'', ''integer'')]) ''a'' ''select a from t''
    = Inr FIELD_TYPE_LONG"
proof -
  have "find_result_field_types (\<lambda>item. Inl UseAfterFree) (table_info_of ''t'' [(''a'', ''integer'')]) ''a'' ''select a from t''
      = Inr (declared_type (first_type (one_table ''t'' [(''a'', ''integer'')]) ''a'' [''t'']))"
  proof (rule find_result_field_types_plain [where tbl = "''t''", THEN conjunct1])
    show "list_all plain_token (tokens ''select a from t'')" by code_simp
    show "getTables [] ''select a from t'' = Inr [''t'']" by code_simp
    show "serves (table_info_of ''t'' [(''a'', ''integer'')]) (one_table ''t'' [(''a'', ''integer'')])"
      by (rule serves_one_column) (simp add: MAX_IDENT_LENGTH_def)
  qed (simp_all add: MAX_IDENT_LENGTH_def)
  also have "declared_type (first_type (one_table ''t'' [(''a'', ''integer'')]) ''a'' [''t'']) = FIELD_TYPE_LONG"
    by code_simp
  finally show ?thesis .
qed

lemma after_dot_id: "CHR ''.'' \<notin> set s \<Longrightarrow> after_dot s = s"
  by (simp add: after_dot_def strchr_None [THEN iffD2])

lemma resolve_tokens_before:
  assumes "list_all plain_token us" and "list_all (\<lambda>t. \<not> is_from (after_dot t)) us"
    and "\<not> as_flag st" and "\<not> from_flag st"
  obtains st' where "resolve_tokens stale st (us @ ts) = resolve_tokens stale st' ts"
    and "curr_field st' = curr_field st" and "\<not> as_flag st'" and "\<not> from_flag st'"
  using assms
proof (induction us arbitrary: st thesis)
  case (Cons u us)
  then obtain st' where st': "scan_token stale st u [] = Inr (Inr st', [])" "curr_field st' = curr_field st"
    "\<not> as_flag st'" "\<not> from_flag st'"
    using scan_token_plain [of u st stale] by auto
  show ?case by (rule Cons.IH [of st']) (use Cons.prems st' in auto)
qed auto

lemma alias_item:
  assumes "tokens statement = pre @ [c, ''as'', name, ''from''] @ post"
    and "list_all plain_token pre" and "list_all (\<lambda>t. \<not> is_from (after_dot t)) pre"
    and "list_all (\<lambda>t. \<not> is_select (after_dot t) \<and> closed_token t) post"
    and "closed_token c" and "closed_token name" and "CHR ''.'' \<notin> set name" and "CHR ''.'' \<notin> set c"
    and "\<not> is_as c" and "\<not> is_from c" and "length c < MAX_IDENT_LENGTH"
  shows "resolve stale (scan_init name) statement
    = (case strchr (CHR ''('') c of
         None \<Rightarrow> Inr (Inr c)
       | Some item \<Rightarrow> if item = c then Inr (Inl FIELD_TYPE_STRING)
                     else run_bind (function_type stale c) (\<lambda>type. Inr (Inl type)))"
proof -
  note nodot = after_dot_id
  have closed: "closed_token ''as''" "closed_token ''from''"
    by (simp_all add: closed_token_def nodot)
  have "list_all closed_token (tokens statement)"
    using assms closed by (auto simp: list_all_iff plain_token_closed)
  then have start: "resolve stale (scan_init name) statement
      = resolve_tokens stale (scan_init name) (pre @ [c, ''as'', name, ''from''] @ post)"
    by (simp only: resolve_closed assms(1))
  have flags: "\<not> as_flag (scan_init name)" "\<not> from_flag (scan_init name)" "curr_field (scan_init name) = name"
    by (simp_all add: scan_init_def)
  obtain st where "resolve_tokens stale (scan_init name) (pre @ [c, ''as'', name, ''from''] @ post)
      = resolve_tokens stale st ([c, ''as'', name, ''from''] @ post)"
    and "curr_field st = curr_field (scan_init name)" "\<not> as_flag st" "\<not> from_flag st"
    by (rule resolve_tokens_before [OF assms(2,3) flags(1,2)])
  with start flags(3) have st: "resolve stale (scan_init name) statement
      = resolve_tokens stale st ([c, ''as'', name, ''from''] @ post)"
    "curr_field st = name" "\<not> as_flag st" "\<not> from_flag st"
    by simp_all
  have skip: "resolve_tokens stale s (''from'' # post) = Inr (Inr (curr_field s))"
    if clear: "\<not> as_flag s" "\<not> from_flag s" for s
  proof -
    obtain s' where "scan_token stale s ''from'' [] = Inr (Inr s', [])" "curr_field s' = curr_field s" "from_flag s'"
      using scan_token_plain [of "''from''" s stale] clear
      by (auto simp: plain_token_def is_as_def nodot is_from_def)
    then show ?thesis using assms(4) by (simp add: resolve_from_skip list_all_iff)
  qed
  show ?thesis
  proof (cases "strchr (CHR ''('') c")
    case None
    then show ?thesis
      using st assms(7-11) skip
      by (simp add: scan_token_def scan_item_def note_from_def nodot scan_alias_def is_as_def)
  next
    case (Some item)
    then have "count_parens 1 (tl item) = 0"
      using assms(5,8) by (simp add: closed_token_def nodot)
    then show ?thesis
      using st assms(7-11) Some
      by (cases "function_type stale c") (simp_all add: scan_token_def scan_item_def note_from_def nodot scan_alias_def is_as_def Let_def)
  qed
qed

text \<open>
  C22: Aliases: in \<open>... item as name from ...\<close>, a plain item without a parenthesis is looked up
  instead of its alias, without its table, and an expression in parentheses is a string. A
  function call whose parentheses are closed in one token is classified by its name, whatever
  its arguments, if freed memory still holds its text: the copy of the statement that the call is a part of has
  been freed when it is read, so every aliased function call reads freed memory.
\<close>

theorem alias_resolution:
  assumes "tokens statement = pre @ [c, ''as'', name, ''from''] @ post"
    and "list_all plain_token pre" and "list_all (\<lambda>t. \<not> is_from (after_dot t)) pre"
    and "list_all (\<lambda>t. \<not> is_select (after_dot t) \<and> closed_token t) post"
    and "closed_token c" and "closed_token name" and "CHR ''.'' \<notin> set name" and "CHR ''.'' \<notin> set c"
    and "\<not> is_as c" and "\<not> is_from c" and "length c < MAX_IDENT_LENGTH"
  shows "resolve Inr (scan_init name) statement
      = Inr (case strchr (CHR ''('') c of
               None \<Rightarrow> Inr c
             | Some item \<Rightarrow> Inl (if item = c then FIELD_TYPE_STRING else classify_function (map tolower c)))
    \<and> (CHR ''('' \<in> set c \<and> hd c \<noteq> CHR ''('' \<longrightarrow>
        resolve (\<lambda>item. Inl UseAfterFree) (scan_init name) statement = Inl UseAfterFree)"
proof -
  have "item \<noteq> c" if "strchr (CHR ''('') c = Some item" "hd c \<noteq> CHR ''(''" for item
    using that strchr_Some [OF that(1)] by auto
  then show ?thesis
    using alias_item [OF assms, of Inr] alias_item [OF assms, of "\<lambda>item. Inl UseAfterFree"] assms(11)
      strchr_None [of "CHR ''(''" c]
    by (auto simp: function_type_def split: option.split)
qed

theorem alias_resolution_witness:
  "resolve Inr (scan_init ''n'') ''select count(*) as n from t'' = Inr (Inl FIELD_TYPE_LONG)
    \<and> resolve (\<lambda>item. Inl UseAfterFree) (scan_init ''n'') ''select count(*) as n from t'' = Inl UseAfterFree"
proof -
  have t: "tokens ''select count(*) as n from t'' = [''select''] @ [''count(*)'', ''as'', ''n'', ''from''] @ [''t'']"
    by code_simp
  have both: "resolve Inr (scan_init ''n'') ''select count(*) as n from t''
      = Inr (case strchr (CHR ''('') ''count(*)'' of None \<Rightarrow> Inr ''count(*)''
             | Some item \<Rightarrow> Inl (if item = ''count(*)'' then FIELD_TYPE_STRING
                 else classify_function (map tolower ''count(*)'')))
    \<and> (CHR ''('' \<in> set ''count(*)'' \<and> hd ''count(*)'' \<noteq> CHR ''('' \<longrightarrow>
        resolve (\<lambda>item. Inl UseAfterFree) (scan_init ''n'') ''select count(*) as n from t'' = Inl UseAfterFree)"
    by (rule alias_resolution [OF t]) code_simp+
  moreover have "(case strchr (CHR ''('') ''count(*)'' of None \<Rightarrow> Inr ''count(*)''
      | Some item \<Rightarrow> Inl (if item = ''count(*)'' then FIELD_TYPE_STRING
          else classify_function (map tolower ''count(*)''))) = Inl FIELD_TYPE_LONG"
    by code_simp
  ultimately show ?thesis by simp
qed

lemma count_parens_open: "CHR '')'' \<notin> set s \<Longrightarrow> 0 < n \<Longrightarrow> 0 < count_parens n s"
  by (induction n s rule: count_parens.induct) auto

lemma close_parens_never:
  "CHR '')'' \<notin> set s \<Longrightarrow> 0 < n \<Longrightarrow> close_parens n s = Inl NullDeref"
proof (induction n s rule: close_parens.induct)
  case (1 n s)
  show ?case
  proof (cases "strtok_r s")
    case (Some p)
    obtain t r where p: "p = (t, r)" by (cases p)
    obtain c cs where d: "dropWhile delim s = c # cs"
      and t: "t = takeWhile (\<lambda>c. \<not> delim c) (c # cs)" and r: "r = tl (dropWhile (\<lambda>c. \<not> delim c) (c # cs))"
      using Some p by (auto simp: strtok_r_def split: list.splits)
    have "CHR '')'' \<notin> set (c # cs)" using 1(2) d set_dropWhileD by metis
    then have "CHR '')'' \<notin> set t" "CHR '')'' \<notin> set r"
      unfolding t r by (auto dest: set_takeWhileD list.set_sel(2) [rotated] set_dropWhileD)
        (metis list.set_sel(2) set_dropWhileD set_ConsD tl_Nil)
    then show ?thesis
      using 1 Some p count_parens_open [of t n] by (subst close_parens.simps) simp
  qed (subst close_parens.simps, simp)
qed

text \<open>
  A selected item with an opening parenthesis that no later parenthesis closes, as a
  quoted name or literal can have, makes the search dereference the null pointer that \<open>strtok_r\<close>
  returns at the end, for every column of the result.
\<close>

theorem unclosed_paren_crash:
  assumes "strtok_r statement = Some (''select'', s1)" and "strtok_r s1 = Some (c, s2)"
    and "CHR ''.'' \<notin> set c" and "strchr (CHR ''('') c = Some item"
    and "CHR '')'' \<notin> set item" and "CHR '')'' \<notin> set s2"
    and "CHR ''.'' \<notin> set field" and "length field < MAX_IDENT_LENGTH"
  shows "find_result_field_types stale table_info field statement = Inl NullDeref"
proof -
  note nodot = after_dot_id
  have paren: "CHR ''('' \<in> set c"
    using assms(4) strchr_None [of "CHR ''(''" c] by (cases "CHR ''('' \<in> set c") auto
  have c: "\<not> is_as c" using paren by (auto simp: is_as_def)
  have open': "0 < count_parens 1 (tl item)"
    using assms(5) by (intro count_parens_open) (cases item; simp)+
  obtain st where st: "scan_token stale (scan_init field) ''select'' s1 = Inr (Inr st, s1)"
    "\<not> as_flag st" "\<not> from_flag st"
    by (simp add: scan_token_def scan_item_def scan_init_def nodot is_as_def note_from_def is_from_def)
  have "scan_token stale st c s2 = Inl NullDeref"
    using st(2,3) c assms(3,4) open' close_parens_never [OF assms(6) open']
    by (simp add: scan_token_def nodot scan_item_def Let_def)
  then have "resolve stale st s1 = Inl NullDeref"
    by (subst resolve.simps) (simp add: assms(2))
  then have "resolve stale (scan_init field) statement = Inl NullDeref"
    by (subst resolve.simps) (simp add: assms(1) st(1))
  moreover have "split_field field = Inr ([], field)"
    using assms(7,8) by (simp add: split_field_def strchr_None [THEN iffD2])
  ultimately show ?thesis by (simp add: find_result_field_types_def)
qed

theorem unclosed_paren_crash_witness:
  "find_result_field_types (\<lambda>item. Inl UseAfterFree) (table_info_of ''t'' []) ''x'' ''select `(` as x from t'' = Inl NullDeref"
proof -
  have t1: "strtok_r ''select `(` as x from t'' = Some (''select'', ''`(` as x from t'')"
    and t2: "strtok_r ''`(` as x from t'' = Some (''`(`'', ''as x from t'')"
    and t3: "strchr (CHR ''('') ''`(`'' = Some ''(`''"
    by code_simp+
  show ?thesis
    by (rule unclosed_paren_crash [OF t1 t2 _ t3]) (simp_all add: MAX_IDENT_LENGTH_def)
qed

text \<open>
  A column name or table prefix of 128 bytes or more, which a long expression without an
  alias is given by SQLite, is copied behind the end of its array.
\<close>

theorem long_field_overflow:
  assumes "MAX_IDENT_LENGTH \<le> length field" and "CHR ''.'' \<notin> set field"
  shows "find_result_field_types stale table_info field statement = Inl BufferOverflow"
  using assms
  by (simp add: find_result_field_types_def split_field_def strcpy_buf_def strchr_None [THEN iffD2])

theorem long_field_overflow_witness:
  "find_result_field_types (\<lambda>item. Inl UseAfterFree) (table_info_of ''t'' []) (replicate 128 CHR ''x'') ''select 1'' = Inl BufferOverflow"
  by (rule long_field_overflow) (simp_all add: MAX_IDENT_LENGTH_def)

end
