(* ===== verification/Quoting.thy ===== *)
theory Quoting
  imports Prelude
begin

text \<open>
  How the drivers turn a string or a block of bytes into an SQL literal:
  \<open>dbd_quote_string\<close> and \<open>dbd_quote_binary\<close> of every driver and the escape functions under
  them. The interface \<open>sql_escape\<close> says what the drivers that double quotes promise; it is
  interpreted on each of their escape functions.
\<close>

section \<open>Writing into a buffer\<close>

text \<open>
  \<open>strcat\<close> appends at the first NUL of the buffer. A buffer is the list of the bytes
  written so far, NULs included, and the string in it ends at the first NUL.
\<close>

abbreviation NUL :: char where "NUL \<equiv> CHR 0x00"

definition c_string :: "string \<Rightarrow> string" where
  "c_string buf = takeWhile (\<lambda>c. c \<noteq> NUL) buf"

definition c_strcat :: "string \<Rightarrow> string \<Rightarrow> string" where
  "c_strcat buf s = c_string buf @ s @ [NUL]"

lemma c_string_append [simp]: "NUL \<notin> set s \<Longrightarrow> c_string (s @ NUL # t) = s"
  by (induction s) (auto simp: c_string_def)

lemma c_string_id [simp]: "NUL \<notin> set s \<Longrightarrow> c_string s = s"
  by (induction s) (auto simp: c_string_def)

lemma c_string_Cons [simp]: "c \<noteq> NUL \<Longrightarrow> c_string (c # s) = c # c_string s"
  by (simp add: c_string_def)

lemma NUL_notin_concat_map: "(\<And>c. c \<in> set s \<Longrightarrow> NUL \<notin> set (f c)) \<Longrightarrow> NUL \<notin> set (concat (map f s))"
  by auto

section \<open>SQLite and Oracle\<close>

text \<open>
  One round of the loop of \<open>sqlite3_escape_string\<close>; \<open>oracle_escape_string\<close> is a copy of
  it. The case of a zero byte cannot be reached through \<open>dbd_quote_string\<close>, which passes
  \<open>strlen(orig)\<close>.
\<close>

definition sqlite3_escape_char :: "char \<Rightarrow> string" where
  "sqlite3_escape_char c =
     (if c = NUL then [CHR 0x5C, CHR ''0'']
      else if c = quote then [quote, quote]
      else if c = CHR 0x1A then [CHR 0x5C, CHR ''Z'']
      else [c])"

fun sqlite3_escape_string :: "string \<Rightarrow> string" where
  "sqlite3_escape_string [] = []"
| "sqlite3_escape_string (c # from) = sqlite3_escape_char c @ sqlite3_escape_string from"

text \<open>The SQLite driver has a copy.\<close>

definition sqlite_escape_string :: "string \<Rightarrow> string" where
  "sqlite_escape_string from = sqlite3_escape_string from"

text \<open>The bytes of \<open>dest\<close> and the value returned.\<close>

definition sqlite3_quote_string :: "string \<Rightarrow> string \<times> nat" where
  "sqlite3_quote_string orig =
     (let esc = sqlite3_escape_string orig
      in (c_strcat (quote # esc @ [NUL]) [quote], length esc + 2))"

definition sqlite_quote_string :: "string \<Rightarrow> string \<times> nat" where
  "sqlite_quote_string orig =
     (let esc = sqlite_escape_string orig
      in (c_strcat (quote # esc @ [NUL]) [quote], length esc + 2))"

fun oracle_escape_string :: "string \<Rightarrow> string" where
  "oracle_escape_string [] = []"
| "oracle_escape_string (c # from) =
     (if c = NUL then [CHR 0x5C, CHR ''0'']
      else if c = quote then [quote, quote]
      else if c = CHR 0x1A then [CHR 0x5C, CHR ''Z'']
      else [c]) @ oracle_escape_string from"

definition oracle_quote_string :: "string \<Rightarrow> string \<times> nat" where
  "oracle_quote_string orig =
     (let esc = oracle_escape_string orig
      in (c_strcat (quote # esc @ [NUL]) [quote], length esc + 2))"

section \<open>Ingres, Firebird and FreeTDS\<close>

text \<open>Ingres: the loop over \<open>q\<close> copies into \<open>p\<close>; the length is \<open>p-dest\<close>.\<close>

fun ingres_quote_loop :: "string \<Rightarrow> string" where
  "ingres_quote_loop [] = []"
| "ingres_quote_loop (c # q) =
     (if c = quote then quote # quote # ingres_quote_loop q else c # ingres_quote_loop q)"

definition ingres_quote_string :: "string \<Rightarrow> string \<times> nat" where
  "ingres_quote_string orig =
     (let p = quote # ingres_quote_loop orig @ [quote] in (p @ [NUL], length p))"

text \<open>
  Firebird: the loop runs to \<open>i <= length\<close>, so it copies the terminating NUL as well and
  \<open>j\<close> counts it; \<open>strcat\<close> then overwrites that NUL with the closing quote.
\<close>

fun firebird_quote_loop :: "string \<Rightarrow> string" where
  "firebird_quote_loop [] = []"
| "firebird_quote_loop (c # worker) =
     (if c = quote then [quote] else []) @ c # firebird_quote_loop worker"

definition firebird_quote_string :: "string \<Rightarrow> string \<times> nat" where
  "firebird_quote_string orig =
     (let dest = quote # firebird_quote_loop (orig @ [NUL])
      in (c_strcat dest [quote], length dest))"

text \<open>
  FreeTDS: the inner loop looks for the current character in \<open>toescape\<close> and writes a
  quote when it finds it; the function returns the length without the NUL.
\<close>

fun freetds_escape_chars :: "string \<Rightarrow> string \<Rightarrow> string" where
  "freetds_escape_chars toescape [] = []"
| "freetds_escape_chars toescape (c # orig) =
     (if c \<in> set toescape then [quote] else []) @ c # freetds_escape_chars toescape orig"

definition freetds_quote_string :: "string \<Rightarrow> string \<times> nat" where
  "freetds_quote_string orig =
     (let esc = freetds_escape_chars [quote] orig
      in (c_strcat (quote # esc @ [NUL]) [quote], length esc + 2))"

section \<open>MySQL, PostgreSQL and mSQL\<close>

text \<open>
  These drivers call an escape function of their client library (\<open>mysql_escape_string\<close>,
  \<open>mysql_real_escape_string\<close>, \<open>PQescapeString\<close>) or of libdbi (\<open>_dbd_escape_chars\<close>), the
  parameter \<open>esc\<close>. The mSQL driver passes \<open>dest\<close> instead of \<open>dest+1\<close>.
\<close>

definition mysql_quote_string :: "(string \<Rightarrow> string) \<Rightarrow> string \<Rightarrow> string \<times> nat" where
  "mysql_quote_string esc orig =
     (c_strcat (quote # esc orig @ [NUL]) [quote], length (esc orig) + 2)"

definition mysql_conn_quote_string :: "(string \<Rightarrow> string) \<Rightarrow> string \<Rightarrow> string \<times> nat" where
  "mysql_conn_quote_string esc orig =
     (c_strcat (quote # esc orig @ [NUL]) [quote], length (esc orig) + 2)"

definition pgsql_quote_string :: "(string \<Rightarrow> string) \<Rightarrow> string \<Rightarrow> string \<times> nat" where
  "pgsql_quote_string esc orig =
     (c_strcat (quote # esc orig @ [NUL]) [quote], length (esc orig) + 2)"

definition msql_quote_string :: "(string \<Rightarrow> string) \<Rightarrow> string \<Rightarrow> string \<times> nat" where
  "msql_quote_string esc orig =
     (c_strcat (esc orig @ [NUL]) [quote], length (esc orig) + 2)"

section \<open>Binary data\<close>

text \<open>
  A block of memory of \<open>cap\<close> bytes takes a list of bytes or overflows. \<open>alloc n\<close> says
  whether \<open>malloc(n)\<close> succeeds, which is up to the C library.
\<close>

definition store :: "nat \<Rightarrow> string \<Rightarrow> string run" where
  "store cap bytes = (if length bytes \<le> cap then Inr bytes else Inl BufferOverflow)"

text \<open>
  \<open>dbd_quote_binary\<close> of sqlite3 (the drivers sqlite, oracle, firebird, freetds and msql
  have copies): \<open>enc\<close> is libdbi's \<open>_dbd_encode_binary\<close>. The result is the bytes of the new
  block, if one was made, and the length returned. The writes are those of the code: the
  opening quote and a NUL, the encoded bytes behind the quote, the closing quote.
\<close>

definition sqlite3_quote_binary ::
    "(nat \<Rightarrow> bool) \<Rightarrow> (string \<Rightarrow> string) \<Rightarrow> string \<Rightarrow> (string option \<times> nat) run" where
  "sqlite3_quote_binary alloc enc orig =
     (let cap = length orig * 2 in
      if \<not> alloc cap then Inr (None, 0)
      else run_bind (store cap [quote, NUL]) (\<lambda>_.
        let body = (if orig \<noteq> [] then enc orig else []) in
        run_bind (store cap (c_strcat (quote # body @ [NUL]) [quote])) (\<lambda>temp.
          Inr (Some temp, length body + 2))))"

text \<open>The copies.\<close>

definition sqlite_quote_binary ::
    "(nat \<Rightarrow> bool) \<Rightarrow> (string \<Rightarrow> string) \<Rightarrow> string \<Rightarrow> (string option \<times> nat) run" where
  "sqlite_quote_binary alloc enc orig = sqlite3_quote_binary alloc enc orig"

definition msql_quote_binary ::
    "(nat \<Rightarrow> bool) \<Rightarrow> (string \<Rightarrow> string) \<Rightarrow> string \<Rightarrow> (string option \<times> nat) run" where
  "msql_quote_binary alloc enc orig = sqlite3_quote_binary alloc enc orig"

definition oracle_quote_binary ::
    "(nat \<Rightarrow> bool) \<Rightarrow> (string \<Rightarrow> string) \<Rightarrow> string \<Rightarrow> (string option \<times> nat) run" where
  "oracle_quote_binary alloc enc orig = sqlite3_quote_binary alloc enc orig"

definition firebird_quote_binary ::
    "(nat \<Rightarrow> bool) \<Rightarrow> (string \<Rightarrow> string) \<Rightarrow> string \<Rightarrow> (string option \<times> nat) run" where
  "firebird_quote_binary alloc enc orig = sqlite3_quote_binary alloc enc orig"

definition freetds_quote_binary ::
    "(nat \<Rightarrow> bool) \<Rightarrow> (string \<Rightarrow> string) \<Rightarrow> string \<Rightarrow> (string option \<times> nat) run" where
  "freetds_quote_binary alloc enc orig = sqlite3_quote_binary alloc enc orig"

text \<open>Ingres writes a hexadecimal literal \<open>X'...'\<close>.\<close>

definition hex_digit :: "nat \<Rightarrow> char" where
  "hex_digit n = ''0123456789ABCDEF'' ! n"

fun ingres_hex :: "string \<Rightarrow> string" where
  "ingres_hex [] = []"
| "ingres_hex (q # rest) =
     hex_digit (of_char q div 16) # hex_digit (of_char q mod 16) # ingres_hex rest"

text \<open>\<open>None\<close> stands for \<open>DBI_LENGTH_ERROR\<close>.\<close>

definition ingres_quote_binary :: "(nat \<Rightarrow> bool) \<Rightarrow> string \<Rightarrow> (string \<times> nat) option run" where
  "ingres_quote_binary alloc orig =
     (let to_length = length orig * 2 + 4 in
      if alloc to_length then
        run_bind (store to_length (CHR ''X'' # quote # ingres_hex orig @ [quote, NUL])) (\<lambda>p.
          Inr (Some (p, to_length)))
      else Inr None)"

definition mysql_quote_binary ::
    "(nat \<Rightarrow> bool) \<Rightarrow> (string \<Rightarrow> string) \<Rightarrow> string \<Rightarrow> (string \<times> nat) option run" where
  "mysql_quote_binary alloc esc orig =
     (let cap = 2 * length orig + 1 + 2 in
      if \<not> alloc cap then Inr None
      else
        run_bind (store cap (quote # esc orig @ [NUL])) (\<lambda>_.
        run_bind (store cap (quote # esc orig @ [quote, NUL])) (\<lambda>temp.
          Inr (Some (temp, length (esc orig) + 2)))))"

text \<open>
  PostgreSQL: \<open>esc\<close> is \<open>PQescapeBytea\<close>, which returns the escaped string or \<open>NULL\<close>, and
  whose \<open>to_length\<close> counts the NUL.
\<close>

definition pgsql_quote_binary ::
    "(nat \<Rightarrow> bool) \<Rightarrow> (string \<Rightarrow> string option) \<Rightarrow> string \<Rightarrow> (string option \<times> nat) run" where
  "pgsql_quote_binary alloc esc orig =
     (case esc orig of
        None \<Rightarrow> Inr (None, 0)
      | Some temp \<Rightarrow>
          (let to_length = length temp + 1 in
           if \<not> alloc (to_length + 2) then Inr (None, 0)
           else run_bind (store (to_length + 2) (c_strcat (quote # temp @ [NUL]) [quote])) (\<lambda>quoted.
             Inr (Some quoted, to_length + 1))))"

section \<open>What the literal means to the server\<close>

text \<open>
  Reading a literal of the SQL standard: \<open>sql_body\<close> starts behind the opening quote, a
  doubled quote is one quote, a single one ends the literal. The result is the value and
  the text behind the literal.
\<close>

fun sql_body :: "string \<Rightarrow> (string \<times> string) option" where
  "sql_body [] = None"
| "sql_body [c] = (if c = quote then Some ([], []) else None)"
| "sql_body (c # d # cs) =
     (if c \<noteq> quote then map_option (apfst ((#) c)) (sql_body (d # cs))
      else if d = quote then map_option (apfst ((#) quote)) (sql_body cs)
      else Some ([], d # cs))"

definition sql_literal :: "string \<Rightarrow> (string \<times> string) option" where
  "sql_literal txt = (case txt of [] \<Rightarrow> None | c # cs \<Rightarrow> (if c = quote then sql_body cs else None))"

lemma sql_body_plain: "c \<noteq> quote \<Longrightarrow> sql_body (c # t) = map_option (apfst ((#) c)) (sql_body t)"
  by (cases t) auto

lemma sql_body_end: "rest = [] \<or> hd rest \<noteq> quote \<Longrightarrow> sql_body (quote # rest) = Some ([], rest)"
  by (cases rest) auto

section \<open>The interface of the drivers that double quotes\<close>

text \<open>
  \<open>esc1\<close> is what one character becomes, \<open>val1\<close> what the server reads for it.
\<close>

locale sql_escape =
  fixes escape :: "string \<Rightarrow> string"
    and esc1 :: "char \<Rightarrow> string"
    and val1 :: "char \<Rightarrow> string"
  assumes escape_nil: "escape [] = []"
    and escape_cons: "escape (c # s) = esc1 c @ escape s"
    and body1: "sql_body (esc1 c @ t) = map_option (apfst ((@) (val1 c))) (sql_body t)"
    and short1: "length (esc1 c) \<le> 2"
    and no_nul1: "c \<noteq> NUL \<Longrightarrow> NUL \<notin> set (esc1 c)"
begin

lemma body:
  "rest = [] \<or> hd rest \<noteq> quote \<Longrightarrow>
     sql_body (escape s @ quote # rest) = Some (concat (map val1 s), rest)"
  by (induction s) (simp_all add: escape_nil escape_cons body1 sql_body_end)

lemma length_escape: "length (escape s) \<le> 2 * length s"
proof (induction s)
  case (Cons c s)
  then show ?case using short1 [of c] by (simp add: escape_cons)
qed (simp add: escape_nil)

lemma no_nul: "NUL \<notin> set s \<Longrightarrow> NUL \<notin> set (escape s)"
proof (induction s)
  case (Cons c s)
  then show ?case using no_nul1 [of c] by (simp add: escape_cons) metis
qed (simp add: escape_nil)

lemma append: "escape (s @ t) = escape s @ escape t"
  by (induction s) (simp_all add: escape_nil escape_cons)

lemma dest:
  "NUL \<notin> set s \<Longrightarrow>
     c_strcat (quote # escape s @ [NUL]) [quote] = (quote # escape s @ [quote]) @ [NUL]"
  using no_nul [of s] by (simp add: c_strcat_def)

lemma literal:
  assumes "rest = [] \<or> hd rest \<noteq> quote"
  shows "sql_literal ((quote # escape s @ [quote]) @ rest) = Some (concat (map val1 s), rest)"
  using body [OF assms] by (simp add: sql_literal_def)

end

text \<open>The character a server that knows no backslash escapes reads back.\<close>

definition sqlite3_value :: "char \<Rightarrow> string" where
  "sqlite3_value c = (if c = quote then [quote] else sqlite3_escape_char c)"

definition double_quote :: "char \<Rightarrow> string" where
  "double_quote c = (if c = quote then [quote, quote] else [c])"

lemma append_single: "(@) [x] = (#) x"
  by (rule ext) simp

lemma map_body_two:
  "map_option (apfst ((#) a)) (map_option (apfst ((#) b)) m) = map_option (apfst ((@) [a, b])) m"
  by (cases m) (auto simp: apfst_def map_prod_def split: prod.splits)

lemma body_escape_char:
  "sql_body (sqlite3_escape_char c @ t) = map_option (apfst ((@) (sqlite3_value c))) (sql_body t)"
  by (simp add: sqlite3_escape_char_def sqlite3_value_def sql_body_plain map_body_two append_single)

lemma body_double_quote:
  "sql_body (double_quote c @ t) = map_option (apfst ((@) [c])) (sql_body t)"
  by (simp add: double_quote_def sql_body_plain append_single)

interpretation sqlite3_esc: sql_escape sqlite3_escape_string sqlite3_escape_char sqlite3_value
  by unfold_locales (simp_all only: sqlite3_escape_string.simps body_escape_char,
      auto simp: sqlite3_escape_char_def)

interpretation oracle_esc: sql_escape oracle_escape_string sqlite3_escape_char sqlite3_value
  by unfold_locales (simp_all add: body_escape_char, auto simp: sqlite3_escape_char_def)

interpretation ingres_esc: sql_escape ingres_quote_loop double_quote "\<lambda>c. [c]"
  by unfold_locales (simp_all only: body_double_quote, auto simp: double_quote_def)

interpretation firebird_esc: sql_escape firebird_quote_loop double_quote "\<lambda>c. [c]"
  by unfold_locales (simp_all only: body_double_quote, auto simp: double_quote_def)

interpretation freetds_esc: sql_escape "freetds_escape_chars [quote]" double_quote "\<lambda>c. [c]"
  by unfold_locales (simp_all only: body_double_quote, auto simp: double_quote_def)

section \<open>The hexadecimal literal of Ingres\<close>

definition hex_val :: "char \<Rightarrow> nat option" where
  "hex_val c =
     (if isdigit c then Some (of_char c - 48)
      else if 65 \<le> uchar c \<and> uchar c \<le> 70 then Some (of_char c - 55)
      else None)"

fun unhex :: "string \<Rightarrow> string option" where
  "unhex [] = Some []"
| "unhex [c] = None"
| "unhex (c # d # cs) =
     (case (hex_val c, hex_val d, unhex cs) of
        (Some a, Some b, Some s) \<Rightarrow> Some (char_of (16 * a + b) # s)
      | _ \<Rightarrow> None)"

lemma hex_val_digit: "n < 16 \<Longrightarrow> hex_val (hex_digit n) = Some n"
proof -
  have "list_all (\<lambda>n. hex_val (hex_digit n) = Some n) [0..<16]" by code_simp
  moreover assume "n < 16"
  ultimately show ?thesis by (simp add: list_all_iff del: upt_rec_numeral)
qed

lemma unhex_ingres_hex: "unhex (ingres_hex s) = Some s"
proof (induction s)
  case (Cons q s)
  have "of_char q < 16 * (16 :: nat)" using nat_of_char_less_256 [of q] by simp
  then have "of_char q div 16 < (16 :: nat)" by (simp add: less_mult_imp_div_less)
  moreover have "16 * (of_char q div 16) + of_char q mod 16 = (of_char q :: nat)" by simp
  ultimately show ?case using Cons by (simp add: hex_val_digit)
qed simp

lemma length_ingres_hex: "length (ingres_hex s) = 2 * length s"
  by (induction s) auto

section \<open>Properties\<close>

text \<open>
  C5: \<open>dbd_quote_string\<close> of the SQLite3 driver puts one complete literal into \<open>dest\<close>: whatever
  text follows it in the statement stays outside the literal, the returned length is the
  length of the literal and twice the length of the input plus three bytes are enough. A server
  reads the string back, except that a Ctrl-Z byte has become a backslash and a \<open>Z\<close>. This is what the code does; its
  comments say otherwise: no backslash is put before a quote, and a double quote is not doubled.
\<close>

theorem sqlite3_quote_string_literal:
  assumes "NUL \<notin> set orig" and "rest = [] \<or> hd rest \<noteq> quote"
  shows "\<exists>lit. sqlite3_quote_string orig = (lit @ [NUL], length lit)
    \<and> NUL \<notin> set lit \<and> length (lit @ [NUL]) \<le> 2 * length orig + 3
    \<and> sql_literal (lit @ rest) =
        Some (concat (map (\<lambda>c. if c = CHR 0x1A then [CHR 0x5C, CHR ''Z''] else [c]) orig), rest)"
proof -
  let ?lit = "quote # sqlite3_escape_string orig @ [quote]"
  have "concat (map sqlite3_value orig)
      = concat (map (\<lambda>c. if c = CHR 0x1A then [CHR 0x5C, CHR ''Z''] else [c]) orig)"
    using assms(1)
    by (intro arg_cong [where f = concat] map_cong)
       (auto simp: sqlite3_value_def sqlite3_escape_char_def)
  then have "sql_literal (?lit @ rest) =
      Some (concat (map (\<lambda>c. if c = CHR 0x1A then [CHR 0x5C, CHR ''Z''] else [c]) orig), rest)"
    using sqlite3_esc.literal [OF assms(2), of orig] by simp
  moreover have "sqlite3_quote_string orig = (?lit @ [NUL], length ?lit)"
    using sqlite3_esc.dest [OF assms(1)] by (simp add: sqlite3_quote_string_def Let_def)
  moreover have "NUL \<notin> set ?lit" using sqlite3_esc.no_nul [OF assms(1)] by simp
  moreover have "length (?lit @ [NUL]) \<le> 2 * length orig + 3"
    using sqlite3_esc.length_escape [of orig] by simp
  ultimately show ?thesis by blast
qed

theorem sqlite3_quote_string_literal_witness:
  "\<exists>lit. sqlite3_quote_string (''x'' @ [quote] @ '' OR 1'') = (lit @ [NUL], length lit)
    \<and> sql_literal (lit @ '' AND y'') = Some (''x'' @ [quote] @ '' OR 1'', '' AND y'')"
  using sqlite3_quote_string_literal [of "''x'' @ [quote] @ '' OR 1''" "'' AND y''"] by auto

text \<open>
  C17: The Ingres, Firebird and FreeTDS drivers, each with a loop of its own, produce the same
  bytes and the same length, and reading that literal gives back exactly the string.
\<close>

theorem doubling_drivers_agree:
  assumes "NUL \<notin> set orig" and "rest = [] \<or> hd rest \<noteq> quote"
  shows "ingres_quote_string orig = firebird_quote_string orig
    \<and> freetds_quote_string orig = firebird_quote_string orig
    \<and> (\<exists>lit. firebird_quote_string orig = (lit @ [NUL], length lit)
         \<and> length lit \<le> 2 * length orig + 2
         \<and> sql_literal (lit @ rest) = Some (orig, rest))"
proof -
  let ?lit = "quote # ingres_quote_loop orig @ [quote]"
  have eqs: "firebird_quote_loop s = ingres_quote_loop s" "freetds_escape_chars [quote] s = ingres_quote_loop s"
    for s by (induction s) auto
  have "ingres_quote_loop (orig @ [NUL]) = ingres_quote_loop orig @ [NUL]"
    by (simp add: ingres_esc.append)
  then have fb: "firebird_quote_string orig = (?lit @ [NUL], length ?lit)"
    using ingres_esc.dest [OF assms(1)] by (simp add: firebird_quote_string_def eqs Let_def)
  moreover have "ingres_quote_string orig = (?lit @ [NUL], length ?lit)"
    by (simp add: ingres_quote_string_def)
  moreover have "freetds_quote_string orig = (?lit @ [NUL], length ?lit)"
    using ingres_esc.dest [OF assms(1)] by (simp add: freetds_quote_string_def eqs Let_def)
  moreover have "sql_literal (?lit @ rest) = Some (orig, rest)"
    using ingres_esc.literal [OF assms(2), of orig] by simp
  moreover have "length ?lit \<le> 2 * length orig + 2"
    using ingres_esc.length_escape [of orig] by simp
  ultimately show ?thesis by auto
qed

theorem doubling_drivers_agree_witness:
  "freetds_quote_string (''it'' @ [quote]) = ingres_quote_string (''it'' @ [quote])
    \<and> (\<exists>lit. firebird_quote_string (''it'' @ [quote]) = (lit @ [NUL], length lit)
         \<and> sql_literal (lit @ '';'') = Some (''it'' @ [quote], '';''))"
  using doubling_drivers_agree [of "''it'' @ [quote]" "'';''"] by auto

lemma quote_binary_block:
  assumes "alloc (length orig * 2)" and "NUL \<notin> set (enc orig)" and "orig \<noteq> []"
  shows "sqlite3_quote_binary alloc enc orig =
       (if length (enc orig) + 3 \<le> 2 * length orig
        then Inr (Some (quote # enc orig @ [quote, NUL]), length (enc orig) + 2)
        else Inl BufferOverflow)"
    and "alloc 0 \<Longrightarrow> sqlite3_quote_binary alloc enc [] = Inl BufferOverflow"
    and "length orig < 2 \<Longrightarrow> sqlite3_quote_binary alloc enc orig = Inl BufferOverflow"
  using assms by (auto simp: sqlite3_quote_binary_def store_def c_strcat_def Let_def)

lemma quote_binary_copies:
  "q \<in> {sqlite3_quote_binary, sqlite_quote_binary, msql_quote_binary, oracle_quote_binary, firebird_quote_binary,
     freetds_quote_binary} \<Longrightarrow> q = sqlite3_quote_binary"
  by (auto simp: fun_eq_iff sqlite_quote_binary_def msql_quote_binary_def oracle_quote_binary_def
      firebird_quote_binary_def freetds_quote_binary_def)

text \<open>
  C33: \<open>dbd_quote_binary\<close> of the SQLite3 driver and of the five drivers that have a copy of it
  asks for twice the length of the data, but writes three bytes more than the encoded data
  have: it stays inside its block exactly when the encoding is at least three bytes shorter
  than the block, and never for fewer than two bytes of data.
\<close>

theorem sqlite3_quote_binary_overflow:
  assumes "alloc (length orig * 2)" and "NUL \<notin> set (enc orig)" and "orig \<noteq> []"
    and "q \<in> {sqlite3_quote_binary, sqlite_quote_binary, msql_quote_binary, oracle_quote_binary, firebird_quote_binary,
           freetds_quote_binary}"
  shows "(q alloc enc orig =
       (if length (enc orig) + 3 \<le> 2 * length orig
        then Inr (Some (quote # enc orig @ [quote, NUL]), length (enc orig) + 2)
        else Inl BufferOverflow))
    \<and> (alloc 0 \<longrightarrow> q alloc enc [] = Inl BufferOverflow)
    \<and> (length orig < 2 \<longrightarrow> q alloc enc orig = Inl BufferOverflow)"
  using quote_binary_block [of alloc orig enc] quote_binary_copies [OF assms(4)] assms by simp

theorem sqlite3_quote_binary_overflow_witness:
  "freetds_quote_binary (\<lambda>n. True) (\<lambda>s. s) ''ab'' = Inl BufferOverflow
    \<and> sqlite3_quote_binary (\<lambda>n. True) (\<lambda>s. s) ''abc'' =
        Inr (Some (quote # ''abc'' @ [quote, NUL]), 5)"
  using sqlite3_quote_binary_overflow [of "\<lambda>n. True" "''ab''" "\<lambda>s. s" freetds_quote_binary]
    sqlite3_quote_binary_overflow [of "\<lambda>n. True" "''abc''" "\<lambda>s. s" sqlite3_quote_binary] by simp

text \<open>
  The Ingres literal for binary data fills the block it was allocated to the last byte and
  decodes to the data; the length returned counts the terminating NUL.
\<close>

theorem ingres_quote_binary_roundtrip:
  assumes "alloc (length orig * 2 + 4)"
  shows "\<exists>hex. ingres_quote_binary alloc orig =
      Inr (Some (CHR ''X'' # quote # hex @ [quote, NUL], length orig * 2 + 4))
    \<and> length (CHR ''X'' # quote # hex @ [quote, NUL]) = length orig * 2 + 4
    \<and> unhex hex = Some orig"
  using assms
  by (auto simp: ingres_quote_binary_def store_def length_ingres_hex unhex_ingres_hex Let_def)

theorem ingres_quote_binary_roundtrip_witness:
  "\<exists>hex. ingres_quote_binary (\<lambda>n. n < 100) [CHR 0xFF, CHR 0x00] =
      Inr (Some (CHR ''X'' # quote # hex @ [quote, NUL], 8))
    \<and> unhex hex = Some [CHR 0xFF, CHR 0x00]"
  using ingres_quote_binary_roundtrip [of "\<lambda>n. n < 100" "[CHR 0xFF, CHR 0x00]"] by auto

text \<open>
  \<open>dbd_quote_binary\<close> of the MySQL and of the PostgreSQL driver never write outside the block
  they allocate: the first because an escape function of the MySQL client at most doubles the
  data, the second for every result of \<open>PQescapeBytea\<close>. Both return the length of the literal.
\<close>

theorem mysql_pgsql_quote_binary_fits:
  assumes "length (esc orig) \<le> 2 * length orig" and "pgesc orig = Some temp" and "NUL \<notin> set temp"
  shows "mysql_quote_binary (\<lambda>n. True) esc orig =
      Inr (Some (quote # esc orig @ [quote, NUL], length (quote # esc orig @ [quote])))
    \<and> pgsql_quote_binary (\<lambda>n. True) pgesc orig =
      Inr (Some (quote # temp @ [quote, NUL]), length (quote # temp @ [quote]))"
  using assms by (simp add: mysql_quote_binary_def pgsql_quote_binary_def store_def c_strcat_def Let_def)

theorem mysql_pgsql_quote_binary_fits_witness:
  "mysql_quote_binary (\<lambda>n. True) (\<lambda>s. ''ab'' @ s) ''cd'' =
      Inr (Some (quote # ''abcd'' @ [quote, NUL], 6))
    \<and> pgsql_quote_binary (\<lambda>n. True) (\<lambda>s. Some (''e'' @ s)) ''cd'' =
      Inr (Some (quote # ''ecd'' @ [quote, NUL]), 5)"
  using mysql_pgsql_quote_binary_fits [of "\<lambda>s. ''ab'' @ s" "''cd''" "\<lambda>s. Some (''e'' @ s)" "''ecd''"]
  by simp

text \<open>
  The mSQL driver loses the opening quote, because the escape function writes over it, and
  returns a length that is one more than the length of the string it made.
\<close>

theorem msql_quote_string_unopened:
  assumes "NUL \<notin> set (esc orig)" and "esc orig \<noteq> []" and "hd (esc orig) \<noteq> quote"
  shows "\<exists>txt. msql_quote_string esc orig = (txt @ [NUL], length txt + 1) \<and> txt = esc orig @ [quote]
    \<and> sql_literal txt = None"
  using assms by (cases "esc orig") (auto simp: msql_quote_string_def c_strcat_def sql_literal_def)

theorem msql_quote_string_unopened_witness:
  "\<exists>txt. msql_quote_string (\<lambda>s. s) ''abc'' = (txt @ [NUL], length txt + 1) \<and> sql_literal txt = None"
  using msql_quote_string_unopened [of "\<lambda>s. s" "''abc''"] by auto

end
