(* ===== verification/SqliteLegacy.thy ===== *)
theory SqliteLegacy
  imports SqliteTypes Quoting
begin

text \<open>
  How the SQLite (version 2) driver finds the type of a result column: the table from the
  statement, the declaration from the CREATE TABLE command that \<open>sqlite_master\<close> keeps. The
  function that searches the command works on a copy into which it writes NUL bytes, so the
  copy is modelled as memory: a list of bytes that ends with the terminating NUL.
\<close>

section \<open>The column in the CREATE TABLE command\<close>

definition blank :: "char \<Rightarrow> bool" where
  "blank c \<longleftrightarrow> c = CHR '' '' \<or> c = CHR 0x0A"

text \<open>\<open>while (*end_field_name != ' ') end_field_name++;\<close> from index \<open>e\<close>, with no test for the NUL.\<close>

definition find_blank :: "string \<Rightarrow> nat \<Rightarrow> nat run" where
  "find_blank mem e =
     (let n = length (takeWhile (\<lambda>c. c \<noteq> CHR '' '') (drop e mem)) in
      if e + n < length mem then Inr (e + n) else Inl ReadPastEnd)"

text \<open>
  One item of the list that \<open>strtok(..., ",")\<close> splits: \<open>mem\<close> starts at the item, \<open>len\<close> is its
  length, and the byte behind it is NUL. The value is the type, if the item is the column,
  and the memory with the NUL that ends the name.
\<close>

definition create_item :: "string \<Rightarrow> string \<Rightarrow> (string option \<times> string) run" where
  "create_item mem curr_field_name =
     (let f = length (takeWhile blank mem) in
      run_bind (find_blank mem (f + 1)) (\<lambda>e.
        let mem = mem[e := CHR 0x00] in
        if c_string (drop f mem) = curr_field_name
        then Inr (Some (c_string (dropWhile (\<lambda>c. c = CHR '' '') (drop (e + 1) mem))), mem)
        else Inr (None, mem)))"

definition item_char :: "char \<Rightarrow> bool" where
  "item_char c \<longleftrightarrow> c \<noteq> CHR '','' \<and> c \<noteq> CHR 0x00"

text \<open>
  The loop; \<open>mem\<close> starts where \<open>strtok\<close> goes on. A comma behind the item becomes a NUL and the
  next call starts behind it; at the terminating NUL it stays.
\<close>

function create_items :: "string \<Rightarrow> string \<Rightarrow> string option run" where
  "create_items mem curr_field_name =
     (let start = dropWhile (\<lambda>c. c = CHR '','') mem in
      if start = [] \<or> hd start = CHR 0x00 then Inr None
      else
        let item = takeWhile item_char start;
            behind = dropWhile item_char start;
            comma = (behind \<noteq> [] \<and> hd behind = CHR '','');
            mem = (if comma then item @ CHR 0x00 # tl behind else start) in
        run_bind (create_item mem curr_field_name) (\<lambda>(type, mem).
          case type of Some ty \<Rightarrow> Inr (Some ty)
          | None \<Rightarrow> create_items (drop (if comma then length item + 1 else length item) mem)
                      curr_field_name))"
  by pat_completeness auto

lemma create_item_length: "create_item mem n = Inr (t, mem') \<Longrightarrow> length mem' = length mem"
  by (auto simp: create_item_def Let_def run_bind_eq_Inr split: if_splits)

lemma create_items_less:
  assumes "start = dropWhile (\<lambda>c. c = CHR '','') mem" and "\<not> (start = [] \<or> hd start = CHR 0x00)"
    and "item = takeWhile item_char start" and "behind = dropWhile item_char start"
    and "comma = (behind \<noteq> [] \<and> hd behind = CHR '','')"
    and "create_item (if comma then item @ CHR 0x00 # tl behind else start) n = Inr (t, mem')"
  shows "length (drop (if comma then length item + 1 else length item) mem') < length mem"
proof -
  have "length start \<le> length mem" unfolding assms(1) by (rule length_dropWhile_le)
  moreover have "hd start \<noteq> CHR '',''"
    using assms(1,2) hd_dropWhile [of "\<lambda>c. c = CHR '',''" mem] by auto
  then have "0 < length item"
    using assms(2,3) by (cases start) (auto simp: item_char_def)
  moreover have "length item + length behind = length start"
    unfolding assms(3,4) by (metis length_append takeWhile_dropWhile_id)
  moreover have "length mem' = length start"
    using create_item_length [OF assms(6)] calculation(3) assms(5)
    by (cases comma; cases behind) auto
  moreover have "length (drop (if comma then length item + 1 else length item) mem') \<le> length mem' - length item"
    by (simp add: diff_le_mono2)
  ultimately show ?thesis by linarith
qed

termination create_items
proof (relation "measure (length \<circ> fst)", goal_cases)
  case (2 mem n start item behind comma mem2 x type mem3)
  have "create_item (if comma then item @ CHR 0x00 # tl behind else start) n = Inr (None, mem3)"
    using 2(6-) by simp
  from create_items_less [OF 2(1-5) this] show ?case by simp
qed simp

declare create_items.simps [simp del]

definition sqlite_get_field_type :: "string \<Rightarrow> string \<Rightarrow> string option run" where
  "sqlite_get_field_type statement curr_field_name =
     (case strchr (CHR ''('') statement of None \<Rightarrow> Inr None
      | Some item \<Rightarrow> create_items (tl item @ [CHR 0x00]) curr_field_name)"

section \<open>The table in the statement\<close>

definition table_sep :: "char \<Rightarrow> bool" where
  "table_sep c \<longleftrightarrow> c = CHR '' '' \<or> c = CHR '',''"

definition from_position :: "string \<Rightarrow> string option" where
  "from_position s = (case strstr '' from '' s of Some t \<Rightarrow> Some t | None \<Rightarrow> strstr '' FROM '' s)"

text \<open>
  The table before the field in the list of selected items, if the field follows a dot there:
  the dot becomes a NUL and the pointer walks back to the start of the table's name.
\<close>

definition preceding_table :: "string \<Rightarrow> string \<Rightarrow> string option" where
  "preceding_table selected field =
     (case strstr field selected of None \<Rightarrow> None
      | Some t \<Rightarrow>
          let p = length selected - length t in
          if p = 0 \<or> selected ! (p - 1) \<noteq> CHR ''.'' then None
          else if table_sep (hd t) then Some (tl t)
          else Some (rev (takeWhile (\<lambda>c. \<not> table_sep c) (rev (take (p - 1) selected)))))"

definition first_from_table :: "string \<Rightarrow> string" where
  "first_from_table t = takeWhile (\<lambda>c. c \<noteq> CHR '' '' \<and> c \<noteq> CHR '','' \<and> c \<noteq> CHR '';'')
     (dropWhile (\<lambda>c. c = CHR '' '') (drop 6 t))"

text \<open>
  The first part of \<open>find_result_field_types\<close>: a type, or the table and the column to look up.
  A \<open>return 0\<close> is the first constant of the enumeration.
\<close>

definition legacy_table :: "string \<Rightarrow> string \<Rightarrow> (enum_field_types + string \<times> string) run" where
  "legacy_table field statement =
     (case strchr (CHR ''.'') field of
        Some item \<Rightarrow>
          run_bind (strcpy_buf MAX_IDENT_LENGTH (take (length field - length item) field)) (\<lambda>t.
          run_bind (strcpy_buf MAX_IDENT_LENGTH (tl item)) (\<lambda>f. Inr (Inr (t, f))))
      | None \<Rightarrow>
          (case from_position statement of None \<Rightarrow> Inr (Inl FIELD_TYPE_DECIMAL)
           | Some from \<Rightarrow>
               (case preceding_table (take (length statement - length from) statement) field of
                  Some t \<Rightarrow>
                    run_bind (strcpy_buf MAX_IDENT_LENGTH t) (\<lambda>t.
                    run_bind (strcpy_buf MAX_IDENT_LENGTH field) (\<lambda>f. Inr (Inr (t, f))))
                | None \<Rightarrow>
                    run_bind (strcpy_buf MAX_IDENT_LENGTH (first_from_table from)) (\<lambda>t.
                      if t = ''sqlite_master'' \<or> t = ''sqlite_temp_master''
                      then Inr (Inl (if field = ''rootpage'' then FIELD_TYPE_LONG else FIELD_TYPE_STRING))
                      else run_bind (strcpy_buf MAX_IDENT_LENGTH field) (\<lambda>f. Inr (Inr (t, f)))))))"

definition legacy_function :: "string \<Rightarrow> enum_field_types option" where
  "legacy_function up =
     (if has_any up [''ABS('', ''LAST_INSERT_ROWID('', ''LENGTH('', ''MAX('', ''MIN('', ''RANDOM(*)'',
          ''ROUND('', ''AVG('', ''COUNT('', ''SUM(''] then Some FIELD_TYPE_LONG
      else if has_any up [''COALESCE('', ''GLOB('', ''LIKE('', ''LOWER('', ''SUBSTR('', ''UPPER('']
        then Some FIELD_TYPE_STRING
      else None)"

text \<open>\<open>get_table\<close> is \<open>sqlite_get_table_printf\<close>, given the finished command.\<close>

definition master_command :: "string \<Rightarrow> string" where
  "master_command t = ''SELECT tbl_name, sql FROM sqlite_master where tbl_name='' @ CHR 0x27 # t @ [CHR 0x27]"

definition temp_master_command :: "string \<Rightarrow> string" where
  "temp_master_command t =
     ''SELECT tbl_name, sql FROM sqlite_temp_master where tbl_name='' @ CHR 0x27 # t @ [CHR 0x27]"

definition legacy_lookup :: "table_info \<Rightarrow> string \<Rightarrow> string \<Rightarrow> enum_field_types run" where
  "legacy_lookup get_table t f =
     (let found = (\<lambda>tbl. run_bind (run_bind (table_entry tbl 3) not_null) (\<lambda>sql.
            run_bind (sqlite_get_field_type sql f) (\<lambda>ty. Inr (case ty of None \<Rightarrow> FIELD_TYPE_DECIMAL
              | Some ty \<Rightarrow> classify_sqlite (map toupper ty)))));
          (query_res, numrows, tbl) = get_table (master_command t) in
      if query_res \<noteq> 0 \<or> numrows = 0
      then (let (query_res, numrows, tbl) = get_table (temp_master_command t) in
            if query_res \<noteq> 0 \<or> numrows = 0 then Inr FIELD_TYPE_DECIMAL else found tbl)
      else found tbl)"

definition sqlite_find_result_field_types :: "table_info \<Rightarrow> string \<Rightarrow> string \<Rightarrow> enum_field_types run" where
  "sqlite_find_result_field_types get_table field statement =
     run_bind (legacy_table field statement) (\<lambda>r.
       case r of Inl type \<Rightarrow> Inr type
       | Inr (t, f) \<Rightarrow>
           (case legacy_function (map toupper f) of Some type \<Rightarrow> Inr type
            | None \<Rightarrow> legacy_lookup get_table t f))"

fun sqlite_fields :: "table_info \<Rightarrow> string option list \<Rightarrow> string \<Rightarrow> nat list \<Rightarrow> field list run" where
  "sqlite_fields get_table result_table statement [] = Inr []"
| "sqlite_fields get_table result_table statement (idx # idxs) =
     run_bind (run_bind (table_entry result_table idx) not_null) (\<lambda>name.
     run_bind (sqlite_find_result_field_types get_table name statement) (\<lambda>type.
     run_bind (sqlite_fields get_table result_table statement idxs) (\<lambda>fs.
       Inr (make_field (after_dot name) (translate_sqlite_type type) # fs))))"

definition sqlite_query ::
    "table_info \<Rightarrow> (string \<Rightarrow> int \<times> nat \<times> nat \<times> string option list) \<Rightarrow> int \<Rightarrow> string
       \<Rightarrow> sqlite_result option run" where
  "sqlite_query get_info get_table changes statement =
     (let (query_res, numrows, numcols, result_table) = get_table statement in
      if query_res \<noteq> 0 then Inr None
      else run_bind (sqlite_fields get_info result_table statement [0..<numcols]) (\<lambda>fs.
        Inr (Some \<lparr>sr_rows = numrows, sr_changed = changes, sr_fields = fs, sr_table = result_table\<rparr>)))"

section \<open>Properties\<close>

definition name_char :: "char \<Rightarrow> bool" where
  "name_char c \<longleftrightarrow> item_char c \<and> \<not> blank c \<and> c \<noteq> CHR ''(''"

definition column_name :: "string \<Rightarrow> bool" where
  "column_name n \<longleftrightarrow> n \<noteq> [] \<and> list_all name_char n"

definition declared :: "string \<Rightarrow> bool" where
  "declared ty \<longleftrightarrow> list_all item_char ty \<and> (ty = [] \<or> hd ty \<noteq> CHR '' '')"

lemma column_nameD:
  assumes "column_name n" and "c \<in> set n"
  shows "item_char c" "\<not> blank c" "c \<noteq> CHR 0x00" "c \<noteq> CHR '' ''"
  using assms by (auto simp: column_name_def list_all_iff name_char_def item_char_def blank_def)

lemma create_item_named:
  assumes "column_name n" and "lead = [] \<or> lead = '' ''" and "rest \<noteq> []"
  shows "create_item (lead @ n @ CHR '' '' # rest) name
    = Inr (if n = name then Some (c_string (dropWhile (\<lambda>c. c = CHR '' '') rest)) else None,
           lead @ n @ CHR 0x00 # rest)"
proof -
  let ?mem = "lead @ n @ CHR '' '' # rest"
  obtain c cs where n: "n = c # cs" using assms(1) by (cases n) (auto simp: column_name_def)
  have cs: "\<And>x. x \<in> set cs \<Longrightarrow> x \<noteq> CHR '' ''" and c: "\<not> blank c"
    using column_nameD [OF assms(1)] n by auto
  have lead: "takeWhile blank ?mem = lead"
    using assms(2) c n by (auto simp: blank_def)
  have drop1: "drop (length lead + 1) ?mem = cs @ CHR '' '' # rest"
    using n by simp
  have "takeWhile (\<lambda>c. c \<noteq> CHR '' '') (cs @ CHR '' '' # rest) = cs"
    using cs by (simp add: takeWhile_append2)
  then have find: "find_blank ?mem (length lead + 1) = Inr (length lead + length n)"
    unfolding find_blank_def drop1 using n by simp
  have upd: "?mem[length lead + length n := CHR 0x00] = lead @ n @ CHR 0x00 # rest"
    by (simp add: list_update_append)
  have str: "c_string (drop (length lead) (lead @ n @ CHR 0x00 # rest)) = n"
    using column_nameD(3) [OF assms(1)] by simp (intro c_string_append, blast)
  have behind: "drop (length lead + length n + 1) (lead @ n @ CHR 0x00 # rest) = rest"
    by simp
  show ?thesis
    unfolding create_item_def Let_def lead find run_bind_simps upd str behind by simp
qed

text \<open>A column's text between two separators: how the scan finds it, and where the list ends.\<close>

lemma item_split:
  assumes "list_all item_char i" and "i \<noteq> []"
  shows "dropWhile (\<lambda>c. c = CHR '','') (i @ xs) = i @ xs"
    and "\<not> (i @ xs = [] \<or> hd (i @ xs) = CHR 0x00)"
    and "\<not> item_char d \<Longrightarrow> takeWhile item_char (i @ d # xs) = i"
    and "\<not> item_char d \<Longrightarrow> dropWhile item_char (i @ d # xs) = d # xs"
  using assms by (cases i, auto simp: item_char_def takeWhile_append2 dropWhile_append2 list_all_iff)+

lemma item_ends: "\<not> item_char (CHR '','')" "\<not> item_char (CHR 0x00)"
  by (simp_all add: item_char_def)

lemma create_items_nul: "create_items (CHR 0x00 # xs) name = Inr None"
  by (subst create_items.simps) simp

lemma c_string_blanks:
  assumes "CHR 0x00 \<notin> set ty"
  shows "c_string (dropWhile (\<lambda>c. c = CHR '' '') (ty @ CHR 0x00 # xs)) = dropWhile (\<lambda>c. c = CHR '' '') ty"
proof -
  have "dropWhile (\<lambda>c. c = CHR '' '') (ty @ CHR 0x00 # xs) = dropWhile (\<lambda>c. c = CHR '' '') ty @ CHR 0x00 # xs"
    by (induction ty) auto
  moreover have "CHR 0x00 \<notin> set (dropWhile (\<lambda>c. c = CHR '' '') ty)"
    using assms set_dropWhileD by metis
  ultimately show ?thesis by (simp add: c_string_append)
qed

lemma create_items_step:
  assumes "column_name n" and "declared ty" and "lead = [] \<or> lead = '' ''"
  shows "create_items (lead @ n @ CHR '' '' # ty @ CHR '','' # rest) name
    = (if n = name then Inr (Some ty) else create_items rest name)"
    and "create_items (lead @ n @ CHR '' '' # ty @ [CHR 0x00]) name
    = Inr (if n = name then Some ty else None)"
proof -
  let ?item = "lead @ n @ CHR '' '' # ty"
  have blank: "item_char (CHR '' '')" by (simp add: item_char_def)
  have "list_all item_char n" "list_all item_char ty"
    using assms(2) column_nameD(1) [OF assms(1)] by (simp_all add: declared_def list_all_iff)
  then have chars: "list_all item_char ?item" using assms(3) blank by auto
  have ne: "?item \<noteq> []" by simp
  note split = item_split [OF chars ne]
  have "dropWhile (\<lambda>c. c = CHR '' '') ty = ty" "CHR 0x00 \<notin> set ty"
    using assms(2) by (cases ty, auto simp: declared_def list_all_iff item_char_def)+
  then have strip: "c_string (dropWhile (\<lambda>c. c = CHR '' '') (ty @ CHR 0x00 # xs)) = ty" for xs
    using c_string_blanks [of ty xs] by simp
  have item: "create_item (?item @ CHR 0x00 # xs) name
      = Inr (if n = name then Some ty else None, lead @ n @ CHR 0x00 # ty @ CHR 0x00 # xs)" for xs
    using create_item_named [OF assms(1,3), of "ty @ CHR 0x00 # xs" name] strip by simp
  have assoc: "lead @ n @ CHR '' '' # ty @ xs = ?item @ xs" for xs by simp
  have not_comma: "(CHR 0x00 = CHR '','') = False" by simp
  show "create_items (lead @ n @ CHR '' '' # ty @ CHR '','' # rest) name
      = (if n = name then Inr (Some ty) else create_items rest name)"
    unfolding assoc
    by (subst create_items.simps) (simp only: Let_def split(1,2) split(3,4) [OF item_ends(1)] if_False if_True
      list.sel list.distinct simp_thms item run_bind_simps prod.case, simp)
  show "create_items (lead @ n @ CHR '' '' # ty @ [CHR 0x00]) name = Inr (if n = name then Some ty else None)"
    unfolding assoc
    by (subst create_items.simps) (simp only: Let_def split(1,2) split(3,4) [OF item_ends(2)] if_False
      list.sel simp_thms not_comma item run_bind_simps prod.case, simp add: create_items_nul)
qed

text \<open>The column list of a CREATE TABLE command: name, blank, type; a comma and a blank between columns.\<close>

fun column_list :: "(string \<times> string) list \<Rightarrow> string" where
  "column_list [] = []"
| "column_list [(n, ty)] = n @ CHR '' '' # ty @ '')''"
| "column_list ((n, ty) # col # cols) = n @ CHR '' '' # ty @ '', '' @ column_list (col # cols)"

text \<open>The declaration the driver sees: the closing parenthesis stays with the last column.\<close>

fun seen_types :: "(string \<times> string) list \<Rightarrow> (string \<times> string) list" where
  "seen_types [] = []"
| "seen_types [(n, ty)] = [(n, ty @ '')'')]"
| "seen_types (col # col' # cols) = col # seen_types (col' # cols)"

lemma create_items_columns:
  assumes "\<forall>(n, ty) \<in> set cols. column_name n \<and> declared ty \<and> ty \<noteq> []" and "cols \<noteq> []"
    and "lead = [] \<or> lead = '' ''"
  shows "create_items (lead @ column_list cols @ [CHR 0x00]) name = Inr (map_of (seen_types cols) name)"
  using assms
proof (induction cols arbitrary: lead rule: column_list.induct)
  case (2 n ty)
  have "declared (ty @ '')'')" using 2(1) by (auto simp: declared_def item_char_def)
  then show ?case
    using create_items_step(2) [of n "ty @ '')''" lead name] 2 by simp
next
  case (3 n ty col cols)
  have "create_items (lead @ column_list ((n, ty) # col # cols) @ [CHR 0x00]) name
      = (if n = name then Inr (Some ty)
         else create_items ('' '' @ column_list (col # cols) @ [CHR 0x00]) name)"
    using create_items_step(1) [of n ty lead "'' '' @ column_list (col # cols) @ [CHR 0x00]" name] 3(2,4)
    by simp
  then show ?case using 3(1) [of "'' ''"] 3(2) by simp
qed simp

text \<open>
  The SQLite driver finds the type of a column in a CREATE TABLE command whose columns are
  all declared with a type without commas: the declared type of the first column of that name,
  with the closing parenthesis behind the last one, and nothing for a name that is not there.
\<close>

theorem sqlite_field_type_found:
  assumes "CHR ''('' \<notin> set head" and "cols \<noteq> []"
    and "\<forall>(n, ty) \<in> set cols. column_name n \<and> declared ty \<and> ty \<noteq> []"
  shows "sqlite_get_field_type (head @ CHR ''('' # column_list cols) name
    = Inr (map_of (seen_types cols) name)"
  using create_items_columns [OF assms(3,2), of "[]" name] strchr_append [OF assms(1), of "column_list cols"]
  by (simp add: sqlite_get_field_type_def)

theorem sqlite_field_type_found_witness:
  "sqlite_get_field_type ''create table t (a int, b text)'' ''b'' = Inr (Some ''text)'')"
  using sqlite_field_type_found [of "''create table t ''" "[(''a'', ''int''), (''b'', ''text'')]" "''b''"]
  by (simp add: column_name_def name_char_def item_char_def blank_def declared_def)

text \<open>The type of a column that belongs to the first table behind FROM, as the CREATE TABLE command declares it.\<close>

definition legacy_type :: "(string \<times> string) list \<Rightarrow> string \<Rightarrow> enum_field_types" where
  "legacy_type cols name =
     (case map_of (seen_types cols) name of None \<Rightarrow> FIELD_TYPE_DECIMAL
      | Some ty \<Rightarrow> classify_sqlite (map toupper ty))"

lemma has_substr_set: "has_substr s n \<Longrightarrow> set n \<subseteq> set s"
  by (auto simp: has_substr_def dest!: strstr_Some set_mono_prefix set_mono_suffix)

lemma toupper_paren: "toupper c = CHR ''('' \<longleftrightarrow> c = CHR ''(''"
proof -
  have "char_of (of_char c - (32 :: nat)) \<noteq> CHR ''(''" if "97 \<le> uchar c" "uchar c \<le> 122"
  proof
    assume "char_of (of_char c - (32 :: nat)) = CHR ''(''"
    then have "of_char (char_of (of_char c - (32 :: nat)) :: char) = (40 :: nat)" by simp
    then show False using that by (simp add: uchar_def)
  qed
  then show ?thesis by (auto simp: toupper_def uchar_def)
qed

lemma legacy_function_name:
  assumes "CHR ''('' \<notin> set name"
  shows "legacy_function (map toupper name) = None"
proof -
  have "\<not> has_substr (map toupper name) f" if "CHR ''('' \<in> set f" for f
    using assms that has_substr_set [of "map toupper name" f] toupper_paren by force
  then show ?thesis by (simp add: legacy_function_def)
qed

lemma preceding_table_None:
  assumes "CHR ''.'' \<notin> set selected"
  shows "preceding_table selected field = None"
proof (cases "strstr field selected")
  case (Some t)
  have "selected ! (length selected - length t - 1) \<noteq> CHR ''.''" if "length selected - length t \<noteq> 0"
  proof -
    have "length selected - length t - 1 < length selected" using that by simp
    from nth_mem [OF this] assms show ?thesis by metis
  qed
  with Some show ?thesis by (auto simp: preceding_table_def Let_def)
qed (simp add: preceding_table_def)

lemma legacy_found:
  assumes "from_position statement = Some from" and "first_from_table from = t"
    and "length t < MAX_IDENT_LENGTH" and "t \<notin> {''sqlite_master'', ''sqlite_temp_master''}"
    and "CHR ''.'' \<notin> set (take (length statement - length from) statement)"
    and "CHR ''.'' \<notin> set name" and "CHR ''('' \<notin> set name" and "length name < MAX_IDENT_LENGTH"
    and "get_info (master_command t) = (0, Suc k, tbl)" and "3 < length tbl"
    and "tbl ! 3 = Some (head @ CHR ''('' # column_list cols)"
    and "CHR ''('' \<notin> set head" and "cols \<noteq> []"
    and "\<forall>(n, ty) \<in> set cols. column_name n \<and> declared ty \<and> ty \<noteq> []"
  shows "sqlite_find_result_field_types get_info name statement = Inr (legacy_type cols name)"
proof -
  have "legacy_table name statement = Inr (Inr (t, name))"
    using assms(1-6,8) by (simp add: legacy_table_def strchr_None [THEN iffD2] preceding_table_None)
  moreover have "sqlite_get_field_type (head @ CHR ''('' # column_list cols) name = Inr (map_of (seen_types cols) name)"
    by (rule sqlite_field_type_found [OF assms(12-14)])
  ultimately show ?thesis
    using legacy_function_name [OF assms(7)] assms(9-11)
    by (auto simp: sqlite_find_result_field_types_def legacy_lookup_def table_entry_def not_null_def legacy_type_def
        split: option.split)
qed

text \<open>
  A column that is declared without a type, which SQLite allows, and is followed by another
  one gets all the rest of the command as its type, and hides every later column: the search
  for the blank behind its name runs on into the next item and puts the NUL there.
\<close>

theorem sqlite_untyped_column:
  assumes "CHR ''('' \<notin> set head" and "column_name n" and "CHR 0x00 \<notin> set rest"
  shows "sqlite_get_field_type (head @ CHR ''('' # n @ '', '' @ rest) name
    = Inr (if name = n then Some (dropWhile (\<lambda>c. c = CHR '' '') rest) else None)"
proof -
  let ?tail = "rest @ [CHR 0x00]"
  have chars: "list_all item_char n" "n \<noteq> []"
    using column_nameD(1) [OF assms(2)] assms(2) by (auto simp: column_name_def list_all_iff)
  note split = item_split [OF chars(1,2)]
  obtain c cs where n: "n = c # cs" using chars(2) by (cases n) auto
  have lead: "takeWhile blank (n @ xs) = []" for xs
    using column_nameD(2) [OF assms(2)] n by auto
  have "takeWhile (\<lambda>c. c \<noteq> CHR '' '') (cs @ CHR 0x00 # CHR '' '' # ?tail) = cs @ [CHR 0x00]"
    using column_nameD(4) [OF assms(2)] n by (simp add: takeWhile_append2)
  then have find: "find_blank (n @ CHR 0x00 # CHR '' '' # ?tail) (length ([] :: string) + 1) = Inr (length n + 1)"
    unfolding find_blank_def using n by simp
  have upd: "(n @ CHR 0x00 # CHR '' '' # ?tail)[length n + 1 := CHR 0x00] = n @ CHR 0x00 # CHR 0x00 # ?tail"
    by (simp add: list_update_append)
  have str: "c_string (n @ CHR 0x00 # xs) = n" for xs
    using column_nameD(3) [OF assms(2)] by (intro c_string_append) blast
  have behind: "drop (length n + 1 + 1) (n @ CHR 0x00 # CHR 0x00 # ?tail) = ?tail"
    "drop (length ([] :: string)) xs = xs" for xs :: string
    by simp_all
  have item: "create_item (n @ CHR 0x00 # CHR '' '' # ?tail) name
      = Inr (if n = name then Some (dropWhile (\<lambda>c. c = CHR '' '') rest) else None,
             n @ CHR 0x00 # CHR 0x00 # ?tail)"
    unfolding create_item_def Let_def lead find run_bind_simps upd behind str c_string_blanks [OF assms(3)] by simp
  have "create_items (n @ CHR '','' # CHR '' '' # ?tail) name
      = Inr (if n = name then Some (dropWhile (\<lambda>c. c = CHR '' '') rest) else None)"
    by (subst create_items.simps) (simp only: Let_def split(1,2) split(3,4) [OF item_ends(1)] if_False if_True
      list.sel list.distinct simp_thms item run_bind_simps prod.case, simp add: create_items_nul)
  then show ?thesis
    using strchr_append [OF assms(1), of "n @ '', '' @ rest"]
    by (auto simp: sqlite_get_field_type_def)
qed

theorem sqlite_untyped_column_witness:
  "sqlite_get_field_type ''create table t (a, b int)'' ''a'' = Inr (Some ''b int)'')
    \<and> sqlite_get_field_type ''create table t (a, b int)'' ''b'' = Inr None"
  using sqlite_untyped_column [of "''create table t ''" "''a''" "''b int)''"]
  by (simp add: column_name_def name_char_def item_char_def blank_def)

end
