(* ===== verification/Wildcard.thy ===== *)
theory Wildcard
  imports Prelude
begin

text \<open>
  The pattern matcher of the two SQLite drivers (\<open>wild_case_compare\<close> in
  src/drivers/sqlite3/dbd_sqlite3.c), which decides which database files
  \<open>dbd_list_dbs\<close> lists: the C loops as functions, the meaning of a \<open>LIKE\<close> pattern, and
  the proof that the two agree on ASCII patterns.
\<close>

section \<open>The C function\<close>

text \<open>
  Every loop of the C function is a function of its own. A value \<open>Inl v\<close> of a loop is a
  \<^verbatim>\<open>return\<close> from inside it, \<open>Inr\<close> carries the variables on to the code behind it. The
  pointers \<open>str\<close> and \<open>wildstr\<close> are the suffixes they point to, so \<open>str == str_end\<close> is the
  empty string.
\<close>

abbreviation wild_many :: char where "wild_many \<equiv> CHR ''%''"

abbreviation wild_one :: char where "wild_one \<equiv> CHR ''_''"

text \<open>The loop over anchor characters, with the escape character in front of one.\<close>

definition wc_unescape :: "char \<Rightarrow> char \<Rightarrow> string \<Rightarrow> char \<times> string" where
  "wc_unescape escape w ws =
     (case ws of [] \<Rightarrow> (w, ws) | v # vs \<Rightarrow> (if w = escape then (v, vs) else (w, ws)))"

lemma length_wc_unescape: "wc_unescape escape w ws = (v, vs) \<Longrightarrow> length vs \<le> length ws"
  by (auto simp: wc_unescape_def split: list.splits if_splits)

function (sequential) wc_literals ::
    "char \<Rightarrow> int \<Rightarrow> string \<Rightarrow> string \<Rightarrow> int + int \<times> string \<times> string" where
  "wc_literals escape result str [] = Inr (result, str, [])"
| "wc_literals escape result str (w # ws) =
     (if w = wild_many \<or> w = wild_one then Inr (result, str, w # ws)
      else (case wc_unescape escape w ws of (v, vs) \<Rightarrow>
        (case str of
           [] \<Rightarrow> Inl 1
         | c # cs \<Rightarrow>
             (if v \<noteq> c then Inl 1
              else if vs = [] then Inl (if cs \<noteq> [] then 1 else 0)
              else wc_literals escape 1 cs vs))))"
  by pat_completeness auto
termination
  by (relation "measure (\<lambda>(escape, result, str, wild). length str)") auto

text \<open>The \<^verbatim>\<open>do\<close> loop over a run of \<open>_\<close>; \<open>ws\<close> is the pattern behind the current one.\<close>

fun wc_ones :: "int \<Rightarrow> string \<Rightarrow> string \<Rightarrow> int + string \<times> string" where
  "wc_ones result [] ws = Inl result"
| "wc_ones result (c # cs) [] = Inr (cs, [])"
| "wc_ones result (c # cs) (v # vs) =
     (if v = wild_one then wc_ones result cs vs else Inr (cs, v # vs))"

text \<open>The loop that removes further wild cards after a \<open>%\<close>; \<open>None\<close> is its \<open>return (-1)\<close>.\<close>

fun wc_skip :: "string \<Rightarrow> string \<Rightarrow> (string \<times> string) option" where
  "wc_skip str [] = Some (str, [])"
| "wc_skip str (w # ws) =
     (if w = wild_many then wc_skip str ws
      else if w = wild_one then
        (case str of [] \<Rightarrow> None | c # cs \<Rightarrow> wc_skip cs ws)
      else Some (str, w # ws))"

text \<open>
  The character searched for after a \<open>%\<close> is kept in an \<^verbatim>\<open>unsigned char\<close> and compared
  with plain \<^verbatim>\<open>char\<close>s, so both sides are promoted to \<open>int\<close> in their own way.
\<close>

definition wc_cmp :: "char \<Rightarrow> char \<Rightarrow> string \<Rightarrow> char \<times> string" where
  "wc_cmp escape w ws =
     (case ws of [] \<Rightarrow> (w, ws) | v # vs \<Rightarrow> (if uchar w = schar escape then (v, vs) else (w, ws)))"

lemma wc_literals_Inr:
  "wc_literals e r s w = Inr (r1, s1, w1) \<Longrightarrow> w \<noteq> [] \<Longrightarrow>
     w1 \<noteq> [] \<and> (hd w1 = wild_many \<or> hd w1 = wild_one) \<and> length w1 \<le> length w \<and> length s1 \<le> length s"
proof (induction e r s w rule: wc_literals.induct)
  case (2 e r s w ws)
  then show ?case
    by (auto split: if_splits prod.splits list.splits dest!: length_wc_unescape)
qed simp

lemma wc_ones_length: "wc_ones r s ws = Inr (s1, w1) \<Longrightarrow> length w1 \<le> length ws \<and> length s1 < length s"
  by (induction r s ws rule: wc_ones.induct) (auto split: if_splits)

lemma wc_skip_length: "wc_skip s ws = Some (s1, w1) \<Longrightarrow> length w1 \<le> length ws \<and> length s1 \<le> length s"
  by (induction s ws rule: wc_skip.induct) (auto split: if_splits list.splits)

lemma wc_cmp_length: "wc_cmp e w ws = (v, vs) \<Longrightarrow> length vs \<le> length ws"
  by (auto simp: wc_cmp_def split: list.splits if_splits)

function (sequential) wc_loop :: "char \<Rightarrow> int \<Rightarrow> string \<Rightarrow> string \<Rightarrow> int"
  and wc_many :: "char \<Rightarrow> char \<Rightarrow> string \<Rightarrow> string \<Rightarrow> int" where
  "wc_loop escape result str wild =
     (if wild = [] then (if str \<noteq> [] then 1 else 0)
      else (case wc_literals escape result str wild of
        Inl v \<Rightarrow> v
      | Inr (r1, s1, w1) \<Rightarrow>
          (case (if hd w1 = wild_one then wc_ones r1 s1 (tl w1) else Inr (s1, w1)) of
             Inl v \<Rightarrow> v
           | Inr (s2, w2) \<Rightarrow>
               (if w2 = [] then (if s2 \<noteq> [] then 1 else 0)
                else if hd w2 = wild_many then
                  (case wc_skip s2 (tl w2) of
                     None \<Rightarrow> -1
                   | Some (s3, w3) \<Rightarrow>
                       (if w3 = [] then 0
                        else if s3 = [] then -1
                        else (case wc_cmp escape (hd w3) (tl w3) of
                          (cmp, w4) \<Rightarrow> wc_many escape cmp s3 w4)))
                else wc_loop escape r1 s2 w2))))"
| "wc_many escape cmp str wild =
     (case dropWhile (\<lambda>c. schar c \<noteq> uchar cmp) str of
        [] \<Rightarrow> -1
      | c # cs \<Rightarrow>
          (let tmp = wc_loop escape (-1) cs wild in
           if tmp \<le> 0 then tmp
           else if cs \<noteq> [] \<and> \<not> (wild \<noteq> [] \<and> hd wild = wild_many)
           then wc_many escape cmp cs wild
           else -1))"
  by pat_completeness auto
termination
proof (relation "measures
    [\<lambda>x. (case x of Inl (e, r, s, w) \<Rightarrow> length w | Inr (e, c, s, w) \<Rightarrow> length w),
     \<lambda>x. (case x of Inl (e, r, s, w) \<Rightarrow> length s | Inr (e, c, s, w) \<Rightarrow> length s)]", goal_cases)
  case 1
  show ?case by simp
next
  case (2 e r s w b r1 y s1 w1 ba s2 w2 x2 s3 w3 cmp w4)
  then have b: "wc_literals e r s w = Inr (r1, s1, w1)"
    and ba: "(if hd w1 = wild_one then wc_ones r1 s1 (tl w1) else Inr (s1, w1)) = Inr (s2, w2)"
    and x2: "wc_skip s2 (tl w2) = Some (s3, w3)"
    and cmp: "wc_cmp e (hd w3) (tl w3) = (cmp, w4)" by auto
  have "length w1 \<le> length w" using wc_literals_Inr [OF b 2(1)] by simp
  moreover have "length w2 \<le> length w1"
    using ba wc_ones_length [of r1 s1 "tl w1" s2 w2] by (auto split: if_splits)
  moreover have "length w3 \<le> length w2 - 1" using wc_skip_length [OF x2] by simp
  moreover have "length w4 \<le> length w3 - 1" using wc_cmp_length [OF cmp] by simp
  moreover have "0 < length w3" "0 < length w2" using 2 by auto
  ultimately have "length w4 < length w" by linarith
  then show ?case by simp
next
  case (3 e r s w b r1 y s1 w1 ba s2 w2)
  then have b: "wc_literals e r s w = Inr (r1, s1, w1)"
    and ba: "(if hd w1 = wild_one then wc_ones r1 s1 (tl w1) else Inr (s1, w1)) = Inr (s2, w2)"
    by auto
  note w1 = wc_literals_Inr [OF b 3(1)]
  have "hd w1 = wild_one" using w1 ba 3 by (auto split: if_splits)
  then have "length w2 \<le> length w1 - 1"
    using ba wc_ones_length [of r1 s1 "tl w1" s2 w2] by simp
  moreover have "0 < length w1" using w1 by simp
  ultimately have "length w2 < length w" using w1 by linarith
  then show ?case by simp
next
  case (4 e cmp s w c cs)
  then have "length cs < length s" by (metis length_dropWhile_less)
  then show ?case by simp
next
  case (5 e cmp s w c cs)
  then have "length cs < length s" by (metis length_dropWhile_less)
  then show ?case by simp
qed

declare wc_loop.simps [simp del] wc_many.simps [simp del]

definition wild_case_compare :: "string \<Rightarrow> string \<Rightarrow> char \<Rightarrow> int" where
  "wild_case_compare str wildstr escape = wc_loop escape (-1) str wildstr"

text \<open>The copy in the SQLite driver, which differs in its indentation only.\<close>

definition sqlite_wild_case_compare :: "string \<Rightarrow> string \<Rightarrow> char \<Rightarrow> int" where
  "sqlite_wild_case_compare str wildstr escape = wild_case_compare str wildstr escape"

section \<open>What a pattern means\<close>

text \<open>
  A pattern is a list of items: a character, any one character, any sequence. The escape
  character makes the character behind it an ordinary one; at the end of a pattern it
  stands for itself.
\<close>

datatype pat_item = Lit char | AnyOne | AnyMany

fun parse_pattern :: "char \<Rightarrow> string \<Rightarrow> pat_item list" where
  "parse_pattern e [] = []"
| "parse_pattern e [w] =
     [if w = wild_many then AnyMany else if w = wild_one then AnyOne else Lit w]"
| "parse_pattern e (w # v # vs) =
     (if w = wild_many then AnyMany # parse_pattern e (v # vs)
      else if w = wild_one then AnyOne # parse_pattern e (v # vs)
      else if w = e then Lit v # parse_pattern e vs
      else Lit w # parse_pattern e (v # vs))"

fun like :: "pat_item list \<Rightarrow> string \<Rightarrow> bool" where
  "like [] s = (s = [])"
| "like (Lit c # p) s = (case s of [] \<Rightarrow> False | x # xs \<Rightarrow> x = c \<and> like p xs)"
| "like (AnyOne # p) s = (case s of [] \<Rightarrow> False | x # xs \<Rightarrow> like p xs)"
| "like (AnyMany # p) s = (like p s \<or> (case s of [] \<Rightarrow> False | x # xs \<Rightarrow> like (AnyMany # p) xs))"

lemma parse_many: "parse_pattern e (wild_many # ws) = AnyMany # parse_pattern e ws"
  by (cases ws) auto

lemma parse_one: "parse_pattern e (wild_one # ws) = AnyOne # parse_pattern e ws"
  by (cases ws) auto

lemma parse_literal:
  "w \<noteq> wild_many \<Longrightarrow> w \<noteq> wild_one \<Longrightarrow> wc_unescape e w ws = (v, vs) \<Longrightarrow>
     parse_pattern e (w # ws) = Lit v # parse_pattern e vs"
  by (cases ws) (auto simp: wc_unescape_def split: if_splits)

lemmas parse_simps = parse_many parse_one

subsection \<open>Laws of matching\<close>

lemma like_many_iff: "like (AnyMany # p) s \<longleftrightarrow> (\<exists>t. suffix t s \<and> like p t)"
proof (induction s)
  case Nil
  then show ?case by simp
next
  case (Cons x xs)
  then show ?case by (auto simp: suffix_Cons)
qed

lemma like_many_suffix: "like (AnyMany # p) t \<Longrightarrow> suffix t s \<Longrightarrow> like (AnyMany # p) s"
  unfolding like_many_iff by (meson suffix_order.trans)

lemma like_many_many: "like (AnyMany # AnyMany # p) s = like (AnyMany # p) s"
  using like_many_suffix like_many_iff by blast

lemma like_many_one: "like (AnyMany # AnyOne # p) s = like (AnyOne # AnyMany # p) s"
proof (induction s)
  case (Cons x xs)
  then show ?case by (cases xs) auto
qed simp

lemma like_many_nil [simp]: "like [AnyMany] s"
  unfolding like_many_iff by (intro exI [of _ "[]"]) simp

text \<open>Items that stand for exactly one character.\<close>

definition single :: "pat_item list \<Rightarrow> bool" where
  "single q = (AnyMany \<notin> set q)"

lemma single_simps [simp]:
  "single []"
  "single (Lit c # q) = single q"
  "single (AnyOne # q) = single q"
  "single (p @ q) = (single p \<and> single q)"
  by (auto simp: single_def)

lemma like_single_append:
  "single q \<Longrightarrow> like q u \<Longrightarrow> like (q @ p) (u @ s) = like p s"
  by (induction q u rule: like.induct) (auto simp: single_def split: list.splits)

lemma like_single_drop:
  "single q \<Longrightarrow> like (q @ p) s \<Longrightarrow> length q \<le> length s \<and> like p (drop (length q) s)"
  by (induction q s rule: like.induct) (auto simp: single_def split: list.splits)

lemma like_single_length: "single q \<Longrightarrow> like q u \<Longrightarrow> length u = length q"
  by (induction q u rule: like.induct) (auto simp: single_def split: list.splits)

text \<open>No suffix of the string matches: what the code means by returning -1.\<close>

definition hopeless :: "pat_item list \<Rightarrow> string \<Rightarrow> bool" where
  "hopeless p s = (\<forall>t. suffix t s \<longrightarrow> \<not> like p t)"

lemma hopeless_many: "hopeless (AnyMany # p) s \<longleftrightarrow> \<not> like (AnyMany # p) s"
  unfolding hopeless_def using like_many_suffix by blast

lemma hopeless_iff_many: "hopeless p s \<longleftrightarrow> \<not> like (AnyMany # p) s"
  unfolding like_many_iff hopeless_def by blast

lemma hopeless_single_append:
  assumes "single q" and "like q u" and "hopeless p s"
  shows "hopeless (q @ p) (u @ s)"
  unfolding hopeless_def
proof (intro allI impI notI)
  fix t assume t: "suffix t (u @ s)" and "like (q @ p) t"
  then have len: "length q \<le> length t" and p: "like p (drop (length q) t)"
    using like_single_drop [OF assms(1)] by auto
  have "length u = length q" using assms like_single_length by blast
  then have "suffix (drop (length q) t) s"
  proof -
    have "suffix (drop (length q) t) (u @ s)" using t suffix_drop suffix_order.trans by blast
    moreover have "length (drop (length q) t) \<le> length s"
      using t \<open>length u = length q\<close> suffix_length_le [OF t] by simp
    ultimately show ?thesis
      by (meson suffix_def suffix_length_suffix suffixI)
  qed
  with p assms(3) show False by (auto simp: hopeless_def)
qed

lemma hopeless_short:
  assumes "single q" and "length s < length q"
  shows "hopeless (q @ p) s"
  unfolding hopeless_def
  using assms like_single_drop suffix_length_le by (meson leD le_trans)

section \<open>The code matches as the pattern says\<close>

lemma wc_literals_Inl:
  "wc_literals e r s w = Inl v \<Longrightarrow>
     (v = 0 \<or> v = 1) \<and> (v = 0 \<longleftrightarrow> like (parse_pattern e w) s)"
proof (induction e r s w rule: wc_literals.induct)
  case (2 e r s w ws)
  then show ?case
    by (auto simp: parse_literal split: if_splits prod.splits list.splits)
qed simp

lemma wc_literals_consumes:
  "wc_literals e r s w = Inr (r1, s1, w1) \<Longrightarrow>
     \<exists>q u. parse_pattern e w = q @ parse_pattern e w1 \<and> s = u @ s1 \<and> single q \<and> like q u"
proof (induction e r s w rule: wc_literals.induct)
  case (1 e r s)
  then show ?case by (auto intro!: exI [of _ "[]"])
next
  case (2 e r s w ws)
  show ?case
  proof (cases "w = wild_many \<or> w = wild_one")
    case True
    with 2(2) show ?thesis by (auto intro!: exI [of _ "[]"])
  next
    case False
    obtain v vs where v: "wc_unescape e w ws = (v, vs)" by fastforce
    with False 2(2) obtain cs where s: "s = v # cs" and vs: "vs \<noteq> []"
      and rec: "wc_literals e 1 cs vs = Inr (r1, s1, w1)"
      by (auto split: if_splits list.splits)
    from 2(1) [OF False v [symmetric] s _ vs rec] obtain q u where
      "parse_pattern e vs = q @ parse_pattern e w1" "cs = u @ s1" "single q" "like q u" by auto
    then have "parse_pattern e (w # ws) = (Lit v # q) @ parse_pattern e w1 \<and> s = (v # u) @ s1
        \<and> single (Lit v # q) \<and> like (Lit v # q) (v # u)"
      using False v s by (simp add: parse_literal)
    then show ?thesis by blast
  qed
qed

lemma wc_ones_Inl:
  "wc_ones r s ws = Inl v \<Longrightarrow>
     v = r \<and> (\<exists>q p. parse_pattern e (wild_one # ws) = q @ p \<and> single q \<and> length s < length q)"
proof (induction r s ws rule: wc_ones.induct)
  case (1 r ws)
  then have "parse_pattern e (wild_one # ws) = [AnyOne] @ parse_pattern e ws \<and> single [AnyOne]
      \<and> length ([] :: string) < length [AnyOne]" by (simp add: parse_simps)
  with 1 show ?case by (metis wc_ones.simps(1) sum.inject(1))
next
  case (3 r c cs x vs)
  then have x: "x = wild_one" by (auto split: if_splits)
  with 3 obtain q p where "v = r" "parse_pattern e (wild_one # vs) = q @ p" "single q"
      "length cs < length q" by auto
  then have "parse_pattern e (wild_one # x # vs) = (AnyOne # q) @ p \<and> single (AnyOne # q)
      \<and> length (c # cs) < length (AnyOne # q)"
    using x by (simp only: parse_one) simp
  with \<open>v = r\<close> show ?case by blast
qed simp

lemma wc_ones_consumes:
  "wc_ones r s ws = Inr (s1, w1) \<Longrightarrow>
     \<exists>q u. parse_pattern e (wild_one # ws) = q @ parse_pattern e w1 \<and> s = u @ s1
         \<and> single q \<and> like q u"
proof (induction r s ws rule: wc_ones.induct)
  case (2 r c cs)
  then show ?case by (intro exI [of _ "[AnyOne]"] exI [of _ "[c]"]) simp
next
  case (3 r c cs x vs)
  show ?case
  proof (cases "x = wild_one")
    case True
    with 3 obtain q u where "parse_pattern e (wild_one # vs) = q @ parse_pattern e w1"
        "cs = u @ s1" "single q" "like q u" by auto
    with True have "parse_pattern e (wild_one # x # vs) = (AnyOne # q) @ parse_pattern e w1
        \<and> c # cs = (c # u) @ s1 \<and> single (AnyOne # q) \<and> like (AnyOne # q) (c # u)"
      by (simp only: parse_one) simp
    then show ?thesis by blast
  next
    case False
    with 3(2) have "parse_pattern e (wild_one # x # vs) = [AnyOne] @ parse_pattern e w1
        \<and> c # cs = [c] @ s1 \<and> single [AnyOne] \<and> like [AnyOne] [c]"
      by (simp only: parse_one) simp
    then show ?thesis by blast
  qed
qed simp

lemma wc_skip_None:
  "wc_skip s ws = None \<Longrightarrow> \<not> like (AnyMany # parse_pattern e ws) s"
proof (induction s ws rule: wc_skip.induct)
  case (2 s w ws)
  show ?case
  proof (cases "w = wild_many")
    case True
    with 2 show ?thesis by (simp only: parse_many like_many_many) simp
  next
    case False
    with 2(3) have w: "w = wild_one" by (auto split: if_splits)
    show ?thesis
    proof (cases s)
      case Nil
      then show ?thesis using w by (simp only: parse_one like_many_one) simp
    next
      case (Cons c cs)
      with 2 False w show ?thesis by (simp only: parse_one like_many_one) simp
    qed
  qed
qed simp

lemma wc_skip_Some:
  "wc_skip s ws = Some (s1, w1) \<Longrightarrow>
     like (AnyMany # parse_pattern e ws) s = like (AnyMany # parse_pattern e w1) s1
     \<and> (w1 \<noteq> [] \<longrightarrow> hd w1 \<noteq> wild_many \<and> hd w1 \<noteq> wild_one)"
proof (induction s ws rule: wc_skip.induct)
  case (2 s w ws)
  show ?case
  proof (cases "w = wild_many")
    case True
    with 2 show ?thesis by (simp only: parse_many like_many_many) simp
  next
    case many: False
    show ?thesis
    proof (cases "w = wild_one")
      case True
      with 2 many show ?thesis
        by (cases s) (simp_all only: parse_one like_many_one, simp_all)
    next
      case False
      with 2(3) many show ?thesis by auto
    qed
  qed
qed auto

lemma wc_cmp_parse:
  assumes "ascii e" and "w \<noteq> wild_many" and "w \<noteq> wild_one" and "wc_cmp e w ws = (c, cs)"
  shows "parse_pattern e (w # ws) = Lit c # parse_pattern e cs"
proof -
  have "uchar w = schar e \<longleftrightarrow> w = e"
    using assms(1) by (auto simp: schar_def ascii_def)
  then have "wc_cmp e w ws = wc_unescape e w ws"
    by (simp add: wc_cmp_def wc_unescape_def split: list.splits)
  with assms show ?thesis using parse_literal by metis
qed

lemma wc_cmp_set: "wc_cmp e w ws = (c, cs) \<Longrightarrow> insert c (set cs) \<subseteq> insert w (set ws)"
  by (auto simp: wc_cmp_def split: list.splits if_splits)

lemma wc_unescape_set: "wc_unescape e w ws = (v, vs) \<Longrightarrow> set vs \<subseteq> set ws"
  by (auto simp: wc_unescape_def split: list.splits if_splits)

lemma wc_literals_set: "wc_literals e r s w = Inr (r1, s1, w1) \<Longrightarrow> set w1 \<subseteq> set w"
proof (induction e r s w rule: wc_literals.induct)
  case (2 e r s w ws)
  obtain v vs where v: "wc_unescape e w ws = (v, vs)" by fastforce
  show ?case
  proof (cases "w = wild_many \<or> w = wild_one")
    case True
    with 2(2) show ?thesis by simp
  next
    case False
    with 2(2) v obtain cs where s: "s = v # cs" and "vs \<noteq> []"
      and "wc_literals e 1 cs vs = Inr (r1, s1, w1)"
      by (auto split: if_splits list.splits)
    with 2(1) [OF False v [symmetric] s] have "set w1 \<subseteq> set vs" by simp
    then show ?thesis using wc_unescape_set [OF v] by auto
  qed
qed simp

lemma wc_ones_set: "wc_ones r s ws = Inr (s1, w1) \<Longrightarrow> set w1 \<subseteq> set ws"
  by (induction r s ws rule: wc_ones.induct) (auto split: if_splits)

lemma wc_skip_set: "wc_skip s ws = Some (s1, w1) \<Longrightarrow> set w1 \<subseteq> set ws"
  by (induction s ws rule: wc_skip.induct) (auto split: if_splits list.splits)

lemma like_lit_search:
  "like (AnyMany # Lit c # p) s =
     (case dropWhile (\<lambda>x. x \<noteq> c) s of
        [] \<Rightarrow> False
      | x # xs \<Rightarrow> like p xs \<or> like (AnyMany # Lit c # p) xs)"
  by (induction s) auto

lemma like_many_lit: "like (AnyMany # Lit c # p) s \<Longrightarrow> like (AnyMany # p) s"
proof (induction s)
  case (Cons x xs)
  then have "x = c \<and> like p xs \<or> like (AnyMany # Lit c # p) xs" by simp
  then have "like (AnyMany # p) xs" using Cons.IH by auto
  then show ?case by simp
qed simp

text \<open>
  What the two mutually recursive loops return. \<open>wc_sound\<close> collects it for a result \<open>v\<close>:
  0 is a match, -1 says that no later starting position can match either.
\<close>

definition wc_sound :: "pat_item list \<Rightarrow> string \<Rightarrow> int \<Rightarrow> bool" where
  "wc_sound p s v \<longleftrightarrow>
     (v = -1 \<or> v = 0 \<or> v = 1) \<and> (v = 0 \<longleftrightarrow> like p s) \<and> (v = -1 \<longrightarrow> hopeless p s)"

lemma wc_sound_cases:
  "like p s \<Longrightarrow> wc_sound p s 0"
  "\<not> like p s \<Longrightarrow> wc_sound p s 1"
  "hopeless p s \<Longrightarrow> wc_sound p s (-1)"
  by (auto simp: wc_sound_def hopeless_def)

lemma wc_sound_append:
  assumes "single q" and "like q u" and "wc_sound p s v"
  shows "wc_sound (q @ p) (u @ s) v"
  using assms like_single_append hopeless_single_append by (auto simp: wc_sound_def)

lemma wc_sound_many:
  assumes "v = -1 \<or> v = 0" and "v = 0 \<longleftrightarrow> like (AnyMany # p) s"
  shows "wc_sound (AnyMany # p) s v"
  using assms by (auto simp: wc_sound_def hopeless_many)

lemma wc_sound_not_like: "wc_sound p s v \<Longrightarrow> v \<noteq> 0 \<Longrightarrow> \<not> like p s"
  by (simp add: wc_sound_def)

lemma dropWhile_cmp: "ascii cmp \<Longrightarrow> dropWhile (\<lambda>c. schar c \<noteq> uchar cmp) s = dropWhile (\<lambda>c. c \<noteq> cmp) s"
  by (simp add: schar_eq_uchar)

text \<open>Where the loop gives up after a mismatch, a later occurrence of the character cannot help.\<close>

lemma like_no_retry:
  assumes "cs = [] \<or> w \<noteq> [] \<and> hd w = wild_many" and "\<not> like (parse_pattern e w) cs"
  shows "\<not> like (AnyMany # Lit cmp # parse_pattern e w) cs"
proof (cases "cs = []")
  case True
  then show ?thesis by simp
next
  case False
  then obtain ws where "w = wild_many # ws" using assms(1) by (cases w) auto
  then have "parse_pattern e w = AnyMany # parse_pattern e ws" by (simp only: parse_many)
  then show ?thesis using assms(2) like_many_lit like_many_many by metis
qed

lemma wc_many_step:
  assumes "ascii cmp"
    and loop: "\<And>c cs. dropWhile (\<lambda>c. schar c \<noteq> uchar cmp) s = c # cs \<Longrightarrow>
        wc_sound (parse_pattern e w) cs (wc_loop e (-1) cs w)"
    and many: "\<And>c cs. dropWhile (\<lambda>c. schar c \<noteq> uchar cmp) s = c # cs \<Longrightarrow>
        wc_many e cmp cs w = (if like (AnyMany # Lit cmp # parse_pattern e w) cs then 0 else -1)
        \<or> cs = [] \<or> w \<noteq> [] \<and> hd w = wild_many \<or> wc_loop e (-1) cs w \<le> 0"
  shows "wc_many e cmp s w = (if like (AnyMany # Lit cmp # parse_pattern e w) s then 0 else -1)"
proof (cases "dropWhile (\<lambda>c. schar c \<noteq> uchar cmp) s")
  case Nil
  then have "wc_many e cmp s w = -1" by (subst wc_many.simps) (simp only: list.case)
  moreover have "dropWhile (\<lambda>c. c \<noteq> cmp) s = []" using Nil dropWhile_cmp [OF assms(1)] by simp
  then have "\<not> like (AnyMany # Lit cmp # parse_pattern e w) s"
    by (subst like_lit_search) (simp only: list.case simp_thms)
  ultimately show ?thesis by simp
next
  case (Cons c cs)
  let ?p = "parse_pattern e w" and ?v = "wc_loop e (-1) cs w"
  have like: "like (AnyMany # Lit cmp # ?p) s
      \<longleftrightarrow> like ?p cs \<or> like (AnyMany # Lit cmp # ?p) cs"
    using Cons dropWhile_cmp [OF assms(1)] by (subst like_lit_search) simp
  have unfold: "wc_many e cmp s w =
      (if ?v \<le> 0 then ?v
       else if cs \<noteq> [] \<and> \<not> (w \<noteq> [] \<and> hd w = wild_many) then wc_many e cmp cs w else -1)"
    using Cons by (simp add: wc_many.simps [of e cmp s w] Let_def)
  note later = like_many_lit
  note sound = loop [OF Cons]
  consider "?v = 0" | "?v = -1" | "?v = 1" using sound by (auto simp: wc_sound_def)
  then show ?thesis
  proof cases
    case 1
    then show ?thesis using unfold like sound by (simp add: wc_sound_def)
  next
    case 2
    then have "hopeless ?p cs" using sound by (simp add: wc_sound_def)
    then have "\<not> like (AnyMany # ?p) cs" by (simp add: hopeless_iff_many)
    then have "\<not> like (AnyMany # Lit cmp # ?p) s" using like later by auto
    then show ?thesis using unfold 2 by simp
  next
    case 3
    then have no: "\<not> like ?p cs" using sound wc_sound_not_like by fastforce
    show ?thesis
    proof (cases "cs = [] \<or> w \<noteq> [] \<and> hd w = wild_many")
      case True
      have "\<not> like (AnyMany # Lit cmp # ?p) cs" by (rule like_no_retry [OF True no])
      then show ?thesis using unfold like no 3 True by auto
    next
      case False
      then show ?thesis using many [OF Cons] unfold like no 3 by auto
    qed
  qed
qed

lemma wc_literals_result: "wc_literals e r s w = Inr (r1, s1, w1) \<Longrightarrow> r1 = r \<or> r1 = 1"
proof (induction e r s w rule: wc_literals.induct)
  case (2 e r s w ws)
  obtain v vs where v: "wc_unescape e w ws = (v, vs)" by fastforce
  show ?case
  proof (cases "w = wild_many \<or> w = wild_one")
    case False
    with 2(2) v obtain cs where s: "s = v # cs" and "vs \<noteq> []"
      and "wc_literals e 1 cs vs = Inr (r1, s1, w1)"
      by (auto split: if_splits list.splits)
    with 2(1) [OF False v [symmetric] s] show ?thesis by simp
  qed (use 2(2) in simp)
qed simp

text \<open>What happens between the anchor characters and the end of one round of the outer loop.\<close>

lemma wc_round_Inl:
  assumes "wc_literals e r s w = Inr (r1, s1, w1)" and "w \<noteq> []" and "r = -1 \<or> r = 1"
    and "(if hd w1 = wild_one then wc_ones r1 s1 (tl w1) else Inr (s1, w1)) = Inl v"
  shows "wc_sound (parse_pattern e w) s v"
proof -
  obtain q u where q: "parse_pattern e w = q @ parse_pattern e w1" "s = u @ s1" "single q" "like q u"
    using wc_literals_consumes [OF assms(1)] by blast
  have one: "hd w1 = wild_one" "wc_ones r1 s1 (tl w1) = Inl v" using assms(4) by (auto split: if_splits)
  then have "w1 = wild_one # tl w1" using wc_literals_Inr [OF assms(1,2)] by (cases w1) auto
  then obtain q' p where q': "v = r1" "parse_pattern e w1 = q' @ p" "single q'" "length s1 < length q'"
    using wc_ones_Inl [OF one(2)] by metis
  have "hopeless (q' @ p) s1" using q' hopeless_short by blast
  then have "wc_sound (q' @ p) s1 v"
    using q'(1) wc_literals_result [OF assms(1)] assms(3) wc_sound_cases
    by (auto simp: wc_sound_def hopeless_def)
  then show ?thesis using q q' wc_sound_append by simp
qed

lemma wc_round_Inr:
  assumes "wc_literals e r s w = Inr (r1, s1, w1)" and "w \<noteq> []"
    and "(if hd w1 = wild_one then wc_ones r1 s1 (tl w1) else Inr (s1, w1)) = Inr (s2, w2)"
  shows "\<exists>q u. parse_pattern e w = q @ parse_pattern e w2 \<and> s = u @ s2 \<and> single q \<and> like q u"
proof -
  obtain q u where q: "parse_pattern e w = q @ parse_pattern e w1" "s = u @ s1" "single q" "like q u"
    using wc_literals_consumes [OF assms(1)] by blast
  show ?thesis
  proof (cases "hd w1 = wild_one")
    case True
    then have "w1 = wild_one # tl w1" using wc_literals_Inr [OF assms(1,2)] by (cases w1) auto
    moreover have "wc_ones r1 s1 (tl w1) = Inr (s2, w2)" using assms(3) True by simp
    ultimately obtain q' u' where q': "parse_pattern e w1 = q' @ parse_pattern e w2"
        "s1 = u' @ s2" "single q'" "like q' u'"
      using wc_ones_consumes by metis
    have "like (q @ q') (u @ u')" using like_single_append [OF q(3,4)] q'(4) by simp
    then have "parse_pattern e w = (q @ q') @ parse_pattern e w2 \<and> s = (u @ u') @ s2
        \<and> single (q @ q') \<and> like (q @ q') (u @ u')" using q q' by simp
    then show ?thesis by blast
  next
    case False
    then show ?thesis using q assms(3) by auto
  qed
qed

lemma wc_round_set:
  assumes "wc_literals e r s w = Inr (r1, s1, w1)" and "w \<noteq> []"
    and "(if hd w1 = wild_one then wc_ones r1 s1 (tl w1) else Inr (s1, w1)) = Inr (s2, w2)"
  shows "set w2 \<subseteq> set w"
proof -
  have "set w2 \<subseteq> set w1"
    using assms(3) wc_ones_set [of r1 s1 "tl w1" s2 w2]
    by (cases w1) (auto split: if_splits)
  then show ?thesis using wc_literals_set [OF assms(1)] by blast
qed

text \<open>The part of a round behind a \<open>%\<close>, up to the search loop.\<close>

definition wc_percent :: "char \<Rightarrow> string \<Rightarrow> string \<Rightarrow> int" where
  "wc_percent e s2 ws =
     (case wc_skip s2 ws of
        None \<Rightarrow> -1
      | Some (s3, w3) \<Rightarrow>
          (if w3 = [] then 0
           else if s3 = [] then -1
           else (case wc_cmp e (hd w3) (tl w3) of (cmp, w4) \<Rightarrow> wc_many e cmp s3 w4)))"

lemma wc_percent_sound:
  assumes "ascii e"
    and many: "\<And>s3 w3 cmp w4. wc_skip s2 ws = Some (s3, w3) \<Longrightarrow> w3 \<noteq> [] \<Longrightarrow> s3 \<noteq> [] \<Longrightarrow>
        wc_cmp e (hd w3) (tl w3) = (cmp, w4) \<Longrightarrow>
        wc_many e cmp s3 w4 = (if like (AnyMany # Lit cmp # parse_pattern e w4) s3 then 0 else -1)"
  shows "wc_sound (parse_pattern e (wild_many # ws)) s2 (wc_percent e s2 ws)"
proof (cases "wc_skip s2 ws")
  case None
  then have "wc_percent e s2 ws = -1" by (simp add: wc_percent_def)
  then show ?thesis
    unfolding parse_many by (intro wc_sound_many) (simp_all add: wc_skip_None [OF None] del: like.simps)
next
  case (Some sw)
  then obtain s3 w3 where sw: "wc_skip s2 ws = Some (s3, w3)" by fastforce
  note skip = wc_skip_Some [OF sw, of e]
  have "wc_percent e s2 ws = (if like (AnyMany # parse_pattern e w3) s3 then 0 else -1)"
  proof (cases "w3 = []")
    case True
    then show ?thesis using sw by (simp add: wc_percent_def del: like.simps)
  next
    case False
    obtain cmp w4 where cmp: "wc_cmp e (hd w3) (tl w3) = (cmp, w4)" by fastforce
    have "parse_pattern e (hd w3 # tl w3) = Lit cmp # parse_pattern e w4"
      using wc_cmp_parse [OF assms(1) _ _ cmp] skip False by blast
    then have p: "parse_pattern e w3 = Lit cmp # parse_pattern e w4" using False by simp
    show ?thesis
    proof (cases "s3 = []")
      case True
      then show ?thesis using sw False p by (simp add: wc_percent_def)
    next
      case s3: False
      then show ?thesis
        using sw False cmp p many [OF sw False s3 cmp] by (simp add: wc_percent_def del: like.simps)
    qed
  qed
  then show ?thesis unfolding parse_many by (intro wc_sound_many) (use skip in \<open>simp_all del: like.simps\<close>)
qed

lemma wc_loop_round:
  assumes "w \<noteq> []" and "wc_literals e r s w = Inr (r1, s1, w1)"
    and "(if hd w1 = wild_one then wc_ones r1 s1 (tl w1) else Inr (s1, w1)) = Inr (s2, w2)"
  shows "wc_loop e r s w =
    (if w2 = [] then (if s2 \<noteq> [] then 1 else 0)
     else if hd w2 = wild_many then wc_percent e s2 (tl w2)
     else wc_loop e r1 s2 w2)"
  using assms by (subst wc_loop.simps) (simp add: wc_percent_def)

lemma wc_loop_step:
  assumes "ascii e" and "r = -1 \<or> r = 1"
    and loop: "\<And>r1 s1 w1 s2 w2. w \<noteq> [] \<Longrightarrow> wc_literals e r s w = Inr (r1, s1, w1) \<Longrightarrow>
        (if hd w1 = wild_one then wc_ones r1 s1 (tl w1) else Inr (s1, w1)) = Inr (s2, w2) \<Longrightarrow>
        w2 \<noteq> [] \<Longrightarrow> hd w2 \<noteq> wild_many \<Longrightarrow> wc_sound (parse_pattern e w2) s2 (wc_loop e r1 s2 w2)"
    and many: "\<And>r1 s1 w1 s2 w2. w \<noteq> [] \<Longrightarrow> wc_literals e r s w = Inr (r1, s1, w1) \<Longrightarrow>
        (if hd w1 = wild_one then wc_ones r1 s1 (tl w1) else Inr (s1, w1)) = Inr (s2, w2) \<Longrightarrow>
        w2 \<noteq> [] \<Longrightarrow> hd w2 = wild_many \<Longrightarrow>
        wc_sound (parse_pattern e (wild_many # tl w2)) s2 (wc_percent e s2 (tl w2))"
  shows "wc_sound (parse_pattern e w) s (wc_loop e r s w)"
proof (cases "w = []")
  case True
  then have "wc_loop e r s w = (if s \<noteq> [] then 1 else 0)" by (subst wc_loop.simps) simp
  with True show ?thesis by (simp add: wc_sound_def)
next
  case w: False
  show ?thesis
  proof (cases "wc_literals e r s w")
    case (Inl v)
    then have "wc_loop e r s w = v" using w by (subst wc_loop.simps) simp
    then show ?thesis using wc_literals_Inl [OF Inl] by (auto simp: wc_sound_def)
  next
    case (Inr b)
    then obtain r1 s1 w1 where lit: "wc_literals e r s w = Inr (r1, s1, w1)" by (cases b) auto
    show ?thesis
    proof (cases "if hd w1 = wild_one then wc_ones r1 s1 (tl w1) else Inr (s1, w1)")
      case (Inl v)
      then have "wc_loop e r s w = v" using w lit by (subst wc_loop.simps) simp
      then show ?thesis using wc_round_Inl [OF lit w assms(2) Inl] by simp
    next
      case (Inr b2)
      then obtain s2 w2 where
        one: "(if hd w1 = wild_one then wc_ones r1 s1 (tl w1) else Inr (s1, w1)) = Inr (s2, w2)"
        by (cases b2) auto
      have "w2 \<noteq> [] \<Longrightarrow> hd w2 = wild_many \<Longrightarrow> wild_many # tl w2 = w2" by (cases w2) auto
      then have "wc_sound (parse_pattern e w2) s2 (wc_loop e r s w)"
        using wc_loop_round [OF w lit one] loop [OF w lit one] many [OF w lit one] by (auto simp: wc_sound_def)
      then show ?thesis using wc_round_Inr [OF lit w one] wc_sound_append by auto
    qed
  qed
qed

theorem wc_loop_wc_many_sound:
  "ascii e \<Longrightarrow> \<forall>x \<in> set w. ascii x \<Longrightarrow> r = -1 \<or> r = 1 \<Longrightarrow>
     wc_sound (parse_pattern e w) s (wc_loop e r s w)"
  "ascii e \<Longrightarrow> \<forall>x \<in> set w. ascii x \<Longrightarrow> ascii cmp \<Longrightarrow>
     wc_many e cmp s w = (if like (AnyMany # Lit cmp # parse_pattern e w) s then 0 else -1)"
proof (induction e r s w and e cmp s w rule: wc_loop_wc_many.induct)
  case (1 e r s w)
  note IH_many = 1(1) and IH_loop = 1(2) and prems = 1(3-)
  show ?case
  proof (rule wc_loop_step [OF prems(1,3)])
    fix r1 s1 w1 s2 w2
    assume w: "w \<noteq> []" and lit: "wc_literals e r s w = Inr (r1, s1, w1)" and w2: "w2 \<noteq> []"
      and one: "(if hd w1 = wild_one then wc_ones r1 s1 (tl w1) else Inr (s1, w1)) = Inr (s2, w2)"
    have set2: "set w2 \<subseteq> set w" by (rule wc_round_set [OF lit w one])
    {
      assume False: "hd w2 \<noteq> wild_many"
      have "\<forall>x \<in> set w2. ascii x" using set2 prems(2) by auto
      then show "wc_sound (parse_pattern e w2) s2 (wc_loop e r1 s2 w2)"
        using IH_loop [OF w lit refl refl one refl w2 False prems(1)] wc_literals_result [OF lit] prems(3) by blast
    next
      assume True: "hd w2 = wild_many"
      show "wc_sound (parse_pattern e (wild_many # tl w2)) s2 (wc_percent e s2 (tl w2))"
      proof (rule wc_percent_sound [OF prems(1)])
        fix s3 w3 cmp w4
        assume skip: "wc_skip s2 (tl w2) = Some (s3, w3)" and w3: "w3 \<noteq> []" and s3: "s3 \<noteq> []"
          and cmp: "wc_cmp e (hd w3) (tl w3) = (cmp, w4)"
        have "set w3 \<subseteq> set w" using wc_skip_set [OF skip] set2 w2 by (cases w2) auto
        moreover have "insert cmp (set w4) \<subseteq> set w3" using wc_cmp_set [OF cmp] w3 by (cases w3) auto
        ultimately have "ascii cmp" "\<forall>x \<in> set w4. ascii x" using prems(2) by auto
        then show "wc_many e cmp s3 w4 = (if like (AnyMany # Lit cmp # parse_pattern e w4) s3 then 0 else -1)"
          using IH_many [OF w lit refl refl one refl w2 True skip refl w3 s3 cmp [symmetric]] prems(1) by blast
      qed
    }
  qed
next
  case (2 e cmp s w)
  show ?case
  proof (rule wc_many_step [OF 2(5)])
    fix c cs
    assume d: "dropWhile (\<lambda>c. schar c \<noteq> uchar cmp) s = c # cs"
    show "wc_sound (parse_pattern e w) cs (wc_loop e (- 1) cs w)"
      using 2(1) [OF d 2(3,4)] by simp
  next
    fix c cs
    assume d: "dropWhile (\<lambda>c. schar c \<noteq> uchar cmp) s = c # cs"
    show "wc_many e cmp cs w = (if like (AnyMany # Lit cmp # parse_pattern e w) cs then 0 else - 1)
        \<or> cs = [] \<or> w \<noteq> [] \<and> hd w = wild_many \<or> wc_loop e (- 1) cs w \<le> 0"
      using 2(2) [OF d refl] 2(3-5) by blast
  qed
qed

section \<open>Properties\<close>

text \<open>
  C1: On an ASCII pattern \<open>wild_case_compare\<close> returns 0 exactly when the pattern matches the
  whole string.
\<close>

theorem wild_case_compare_correct:
  assumes "\<forall>x \<in> set wildstr. ascii x" and "ascii escape"
  shows "wild_case_compare str wildstr escape = 0 \<longleftrightarrow> like (parse_pattern escape wildstr) str"
  using wc_loop_wc_many_sound(1) [OF assms(2,1), of "-1" str]
  by (simp add: wild_case_compare_def wc_sound_def)

theorem wild_case_compare_correct_witness:
  "wild_case_compare ''my_db.sqlite'' ''my!_%te'' (CHR ''!'') = 0"
proof -
  have "like (parse_pattern (CHR ''!'') ''my!_%te'') ''my_db.sqlite''" by simp
  moreover have "\<forall>x \<in> set ''my!_%te''. ascii x" "ascii (CHR ''!'')"
    by (simp_all add: ascii_def uchar_def)
  ultimately show ?thesis using wild_case_compare_correct by blast
qed

text \<open>
  The character behind a \<open>%\<close> is searched for through an \<^verbatim>\<open>unsigned char\<close>, so a byte
  above 127 there never matches, not even itself.
\<close>

theorem wild_case_compare_high_byte:
  assumes "\<not> ascii c"
  shows "wild_case_compare str [wild_many, c] escape \<noteq> 0"
proof -
  have c: "c \<noteq> wild_many" "c \<noteq> wild_one" using assms by (auto simp: ascii_def uchar_def)
  have "dropWhile (\<lambda>x. schar x \<noteq> uchar c) str = []" using assms by (simp add: schar_eq_uchar)
  then have "wc_many e c str ws = -1" for e ws by (subst wc_many.simps) (simp only: list.case)
  then show ?thesis
    using c by (simp add: wild_case_compare_def wc_loop.simps [of escape "-1" str] wc_cmp_def)
qed

theorem wild_case_compare_high_byte_witness:
  "like (parse_pattern (CHR 0x5C) [wild_many, CHR 0xE9]) [CHR 0xE9]
     \<and> wild_case_compare [CHR 0xE9] [wild_many, CHR 0xE9] (CHR 0x5C) \<noteq> 0"
  using wild_case_compare_high_byte [of "CHR 0xE9" "[CHR 0xE9]" "CHR 0x5C"]
  by (simp add: ascii_def uchar_def)

end
