(* ===== verification/SqliteCatalog.thy ===== *)
theory SqliteCatalog
  imports Wildcard Quoting
begin

text \<open>
  How the two SQLite drivers list databases and tables: they search files, or a second
  connection, for names and insert these into a temporary table of the connection, which is then
  queried. The database is a value of any type; \<open>exec\<close> runs a command on it and says whether
  there is an error message, \<open>query\<close> is \<open>dbd_query\<close>.
\<close>

section \<open>Files\<close>

text \<open>
  An entry of the directory: \<open>st_regular\<close> is \<open>None\<close> if \<open>stat\<close> fails, \<open>contents\<close> if the file cannot be
  opened.
\<close>

record file_entry =
  d_name :: string
  st_regular :: "bool option"
  contents :: "string option"

definition quoted :: "string \<Rightarrow> string" where
  "quoted s = quote # s @ [quote]"

definition sqlite3_magic :: string where
  "sqlite3_magic = ''SQLite format 3''"

definition sqlite_magic :: string where
  "sqlite_magic = ''** This file contains an SQLite 2.1 database **''"

text \<open>\<open>fread\<close> of as many bytes as the magic text has, and \<open>strcmp\<close>.\<close>

definition has_magic :: "string \<Rightarrow> string \<Rightarrow> bool" where
  "has_magic magic bytes \<longleftrightarrow>
     length magic \<le> length bytes \<and> c_string (take (length magic) bytes @ [CHR 0x00]) = magic"

definition name_matches :: "string option \<Rightarrow> string \<Rightarrow> bool" where
  "name_matches pattern name \<longleftrightarrow>
     (case pattern of None \<Rightarrow> True | Some p \<Rightarrow> wild_case_compare name p (CHR 0x5C) = 0)"

definition POSIX_PATH_MAX :: nat where
  "POSIX_PATH_MAX = 256"

definition sqlite3_insert :: "string \<Rightarrow> string" where
  "sqlite3_insert name =
     take (POSIX_PATH_MAX + 63) (''INSERT INTO libdbi_databases VALUES ('' @ quoted name @ '')'')"

definition sqlite_insert :: "string option \<Rightarrow> string \<Rightarrow> string" where
  "sqlite_insert pattern name =
     (if pattern = None then ''INSERT INTO libdbi_databases  VALUES ('' else ''INSERT INTO libdbi_databases VALUES ('')
       @ quoted name @ '')''"

text \<open>
  The loop over the entries: \<open>statbuf\<close> is what the last \<open>stat\<close> that succeeded has left, \<open>command\<close>
  the command for a name. An error message ends the loop.
\<close>

fun list_entries ::
    "('db \<Rightarrow> string \<Rightarrow> bool \<times> 'db) \<Rightarrow> (string \<Rightarrow> string) \<Rightarrow> string \<Rightarrow> string option \<Rightarrow> bool option
       \<Rightarrow> file_entry list \<Rightarrow> 'db \<Rightarrow> 'db run" where
  "list_entries exec command magic pattern statbuf [] db = Inr db"
| "list_entries exec command magic pattern statbuf (entry # entries) db =
     (let statbuf = (case st_regular entry of None \<Rightarrow> statbuf | Some r \<Rightarrow> Some r) in
      case statbuf of None \<Rightarrow> Inl UninitRead
      | Some regular \<Rightarrow>
          (case (if regular then contents entry else None) of
             None \<Rightarrow> list_entries exec command magic pattern statbuf entries db
           | Some bytes \<Rightarrow>
               if has_magic magic bytes \<and> name_matches pattern (d_name entry)
               then (let (err, db) = exec db (command (d_name entry)) in
                     if err then Inr db else list_entries exec command magic pattern statbuf entries db)
               else list_entries exec command magic pattern statbuf entries db))"

text \<open>
  \<open>opendir\<close> gives the entries of the directory, if it can be opened. The value has the result, the
  database and the working directory, which \<open>chdir(old_cwd)\<close> restores if \<open>getcwd\<close> could store it.
\<close>

definition restored_cwd :: "string \<Rightarrow> string \<Rightarrow> string" where
  "restored_cwd cwd sq_datadir = (if length cwd < POSIX_PATH_MAX then cwd else sq_datadir)"

definition sqlite3_list_dbs ::
    "('db \<Rightarrow> string \<Rightarrow> bool \<times> 'db) \<Rightarrow> ('db \<Rightarrow> string \<Rightarrow> 'res option \<times> 'db) \<Rightarrow> (string \<Rightarrow> file_entry list option)
       \<Rightarrow> string \<Rightarrow> string \<Rightarrow> string option \<Rightarrow> 'db \<Rightarrow> ('res option \<times> 'db \<times> string) run" where
  "sqlite3_list_dbs exec query opendir cwd sq_datadir pattern db =
     (let db = snd (query db ''DROP TABLE libdbi_databases'');
          db = snd (query db ''CREATE TEMPORARY TABLE libdbi_databases (dbname VARCHAR(255))'') in
      case opendir sq_datadir of None \<Rightarrow> Inr (None, db, cwd)
      | Some entries \<Rightarrow>
          run_bind (list_entries exec sqlite3_insert sqlite3_magic pattern None entries db) (\<lambda>db.
            let (res, db) = query db ''SELECT dbname FROM libdbi_databases'' in
            Inr (res, db, restored_cwd cwd sq_datadir)))"

definition sqlite_list_dbs ::
    "('db \<Rightarrow> string \<Rightarrow> bool \<times> 'db) \<Rightarrow> ('db \<Rightarrow> string \<Rightarrow> 'res option \<times> 'db) \<Rightarrow> (string \<Rightarrow> file_entry list option)
       \<Rightarrow> string \<Rightarrow> string \<Rightarrow> string option \<Rightarrow> 'db \<Rightarrow> ('res option \<times> 'db \<times> string) run" where
  "sqlite_list_dbs exec query opendir cwd sq_datadir pattern db =
     (let db = snd (query db ''DROP TABLE libdbi_databases'');
          db = snd (query db ''CREATE TEMPORARY TABLE libdbi_databases (dbname VARCHAR(255))'') in
      case opendir sq_datadir of None \<Rightarrow> Inr (None, db, cwd)
      | Some entries \<Rightarrow>
          run_bind (list_entries exec (sqlite_insert pattern) sqlite_magic pattern None entries db) (\<lambda>db.
            let (res, db) = query db ''SELECT dbname FROM libdbi_databases'' in
            Inr (res, db, restored_cwd cwd sq_datadir)))"

section \<open>Tables\<close>

definition tables_select :: "string option \<Rightarrow> string" where
  "tables_select pattern =
     ''SELECT name FROM sqlite_master WHERE type='' @ quoted ''table''
       @ (case pattern of None \<Rightarrow> [] | Some p \<Rightarrow> '' AND name LIKE '' @ quoted p) @ '' ORDER BY name''"

definition table_insert :: "string \<Rightarrow> string" where
  "table_insert name = ''INSERT INTO libdbi_tablenames VALUES ('' @ quoted name @ '')''"

text \<open>
  \<open>other\<close> is the connection to the database \<open>db\<close>, \<open>None\<close> if it cannot be opened: it answers a
  command with the names in the result, \<open>None\<close> for a null result.
\<close>

definition sqlite3_list_tables ::
    "('db \<Rightarrow> string \<Rightarrow> bool \<times> 'db) \<Rightarrow> ('db \<Rightarrow> string \<Rightarrow> 'res option \<times> 'db)
       \<Rightarrow> (string \<Rightarrow> (string \<Rightarrow> string list option) option) \<Rightarrow> string \<Rightarrow> string option \<Rightarrow> 'db \<Rightarrow> 'res option \<times> 'db" where
  "sqlite3_list_tables exec query other dbname pattern db =
     (case other dbname of None \<Rightarrow> (None, db)
      | Some answer \<Rightarrow>
          let db = snd (query db ''DROP TABLE libdbi_tablenames'');
              db = snd (query db ''CREATE TEMPORARY TABLE libdbi_tablenames (tablename VARCHAR(255))'');
              db = (case answer (tables_select pattern) of None \<Rightarrow> db
                    | Some names \<Rightarrow> foldl (\<lambda>db name. snd (exec db (table_insert name))) db names)
          in query db ''SELECT tablename FROM libdbi_tablenames ORDER BY tablename'')"

definition sqlite_list_tables ::
    "('db \<Rightarrow> string \<Rightarrow> bool \<times> 'db) \<Rightarrow> ('db \<Rightarrow> string \<Rightarrow> 'res option \<times> 'db)
       \<Rightarrow> (string \<Rightarrow> (string \<Rightarrow> string list option) option) \<Rightarrow> string \<Rightarrow> string option \<Rightarrow> 'db \<Rightarrow> 'res option \<times> 'db" where
  "sqlite_list_tables exec query other dbname pattern db =
     (case other dbname of None \<Rightarrow> (None, db)
      | Some answer \<Rightarrow>
          let db = snd (query db ''DROP TABLE libdbi_tablenames'');
              db = snd (query db ''CREATE TEMPORARY TABLE libdbi_tablenames (tablename VARCHAR(255))'');
              db = (case answer (tables_select pattern) of None \<Rightarrow> db
                    | Some names \<Rightarrow> foldl (\<lambda>db name. snd (exec db (table_insert name))) db names)
          in query db ''SELECT tablename FROM libdbi_tablenames ORDER BY tablename'')"
section \<open>What is listed\<close>

definition wanted :: "string \<Rightarrow> string option \<Rightarrow> file_entry \<Rightarrow> bool" where
  "wanted magic pattern e \<longleftrightarrow> st_regular e = Some True
     \<and> (case contents e of None \<Rightarrow> False | Some bytes \<Rightarrow> prefix magic bytes)
     \<and> (case pattern of None \<Rightarrow> True | Some p \<Rightarrow> like (parse_pattern (CHR 0x5C) p) (d_name e))"

text \<open>The commands up to the first that the database refuses.\<close>

definition upto_first :: "('a \<Rightarrow> bool) \<Rightarrow> 'a list \<Rightarrow> 'a list" where
  "upto_first bad xs = takeWhile (\<lambda>x. \<not> bad x) xs @ take 1 (dropWhile (\<lambda>x. \<not> bad x) xs)"

lemma upto_first_Cons: "upto_first bad (x # xs) = (if bad x then [x] else x # upto_first bad xs)"
  by (simp add: upto_first_def)

lemma upto_first_all: "\<forall>x \<in> set xs. \<not> bad x \<Longrightarrow> upto_first bad xs = xs"
  by (induction xs) (simp_all add: upto_first_def)

lemma c_string_magic:
  "length magic \<le> length bytes \<Longrightarrow> CHR 0x00 \<notin> set magic \<Longrightarrow>
    c_string (take (length magic) bytes @ [CHR 0x00]) = magic \<longleftrightarrow> prefix magic bytes"
proof (induction magic arbitrary: bytes)
  case (Cons m ms)
  then obtain c cs where "bytes = c # cs" by (cases bytes) auto
  with Cons show ?case by (cases "c = CHR 0x00") (auto simp: c_string_def)
qed (simp add: c_string_def)

lemma has_magic_prefix:
  assumes "CHR 0x00 \<notin> set magic"
  shows "has_magic magic bytes \<longleftrightarrow> prefix magic bytes"
  using c_string_magic [OF _ assms, of bytes] prefix_length_le [of magic bytes]
  by (auto simp: has_magic_def)

lemma name_matches_like:
  assumes "\<forall>p. pattern = Some p \<longrightarrow> (\<forall>x \<in> set p. ascii x)"
  shows "name_matches pattern name
    \<longleftrightarrow> (case pattern of None \<Rightarrow> True | Some p \<Rightarrow> like (parse_pattern (CHR 0x5C) p) name)"
proof -
  have "ascii (CHR 0x5C)" by (simp add: ascii_def uchar_def)
  then show ?thesis
    using assms wc_loop_wc_many_sound(1) [of "CHR 0x5C" _ "-1" name]
    by (auto simp: name_matches_def wild_case_compare_def wc_sound_def split: option.split)
qed

lemma list_entries_wanted:
  assumes "\<forall>e \<in> set entries. st_regular e \<noteq> None" and "CHR 0x00 \<notin> set magic"
    and "\<forall>p. pattern = Some p \<longrightarrow> (\<forall>x \<in> set p. ascii x)" and "\<And>db c. fst (exec db c) = bad c"
  shows "list_entries exec command magic pattern statbuf entries db
    = Inr (foldl (\<lambda>db c. snd (exec db c)) db
        (upto_first bad (map (\<lambda>e. command (d_name e)) (filter (wanted magic pattern) entries))))"
  using assms(1)
proof (induction entries arbitrary: statbuf db)
  case (Cons e es)
  obtain r where r: "st_regular e = Some r" using Cons.prems by auto
  obtain err db' where x: "exec db (command (d_name e)) = (err, db')" by fastforce
  then have err: "err = bad (command (d_name e))" using assms(4) by (metis fst_conv)
  have IH: "list_entries exec command magic pattern sb es db
    = Inr (foldl (\<lambda>db c. snd (exec db c)) db
        (upto_first bad (map (\<lambda>e. command (d_name e)) (filter (wanted magic pattern) es))))" for sb db
    using Cons by simp
  show ?case
    by (cases r; cases "contents e")
      (auto simp: r x err IH wanted_def [of magic pattern e] has_magic_prefix assms(2) name_matches_like assms(3)
        upto_first_Cons Let_def)
qed (simp add: upto_first_def)

definition insert_names :: "string list \<Rightarrow> string list" where
  "insert_names names = map (\<lambda>n. ''INSERT INTO libdbi_databases VALUES ('' @ quoted n @ '')'') names"

lemma sqlite3_insert_short:
  "length name \<le> 255 \<Longrightarrow> sqlite3_insert name = ''INSERT INTO libdbi_databases VALUES ('' @ quoted name @ '')''"
  by (simp add: sqlite3_insert_def quoted_def POSIX_PATH_MAX_def)

section \<open>Properties\<close>

text \<open>
  C21: \<open>dbd_list_dbs\<close> of the SQLite3 driver: the names inserted into the temporary table are, in the
  order of the directory, those of the regular files that start with the magic text and whose
  name matches the pattern as \<open>LIKE\<close> means it, until the database refuses the first command,
  for a name with a quote for one; the names behind it are missing from the result, which is the
  query of the table all the same.
\<close>

theorem sqlite3_list_dbs_files:
  assumes "\<forall>e \<in> set entries. st_regular e \<noteq> None \<and> length (d_name e) \<le> 255"
    and "\<forall>p. pattern = Some p \<longrightarrow> (\<forall>x \<in> set p. ascii x)"
    and "\<And>db c. fst (exec db c) = bad c"
    and "db1 = snd (query (snd (query db ''DROP TABLE libdbi_databases''))
            ''CREATE TEMPORARY TABLE libdbi_databases (dbname VARCHAR(255))'')"
    and "db2 = foldl (\<lambda>db c. snd (exec db c)) db1
            (upto_first bad (insert_names (map d_name (filter (wanted sqlite3_magic pattern) entries))))"
    and "length cwd < 256"
  shows "sqlite3_list_dbs exec query (\<lambda>d. Some entries) cwd dir pattern db
    = Inr (fst (query db2 ''SELECT dbname FROM libdbi_databases''),
           snd (query db2 ''SELECT dbname FROM libdbi_databases''), cwd)"
proof -
  have names: "map (\<lambda>e. sqlite3_insert (d_name e)) (filter (wanted sqlite3_magic pattern) entries)
      = insert_names (map d_name (filter (wanted sqlite3_magic pattern) entries))"
    using assms(1) by (simp add: insert_names_def sqlite3_insert_short)
  have "CHR 0x00 \<notin> set sqlite3_magic" by (simp add: sqlite3_magic_def)
  moreover have "\<forall>e \<in> set entries. st_regular e \<noteq> None" using assms(1) by blast
  ultimately have "list_entries exec sqlite3_insert sqlite3_magic pattern None entries db1 = Inr db2"
    using assms(2,3) by (subst list_entries_wanted [where bad = bad]) (simp_all add: names assms(5))
  then show ?thesis
    by (simp add: sqlite3_list_dbs_def assms(4) [symmetric] assms(6) restored_cwd_def POSIX_PATH_MAX_def
        Let_def split: prod.split)
qed

text \<open>A database here is the list of its commands, and a command with three quotes is refused.\<close>

theorem sqlite3_list_dbs_files_witness:
  "let file = (\<lambda>n c. \<lparr>d_name = n, st_regular = Some True, contents = Some c\<rparr>);
       exec = (\<lambda>cs c. if length (filter (\<lambda>x. x = quote) c) = 3 then (True, cs) else (False, cs @ [c]));
       query = (\<lambda>cs c. (Some cs, cs))
   in sqlite3_list_dbs exec query
        (\<lambda>d. Some [file ''a.db'' ''SQLite format 3'', file ''b.txt'' ''hello'', file ''it'' ''SQLite format 3'',
           file [CHR ''a'', quote] ''SQLite format 3'', file ''ab'' ''SQLite format 3''])
        ''/home'' ''/db'' (Some ''a%'') [] = Inr (Some (insert_names [''a.db'']), insert_names [''a.db''], ''/home'')"
proof -
  let ?file = "\<lambda>n c. \<lparr>d_name = n, st_regular = Some True, contents = Some c\<rparr> :: file_entry"
  let ?exec = "\<lambda>cs c. if length (filter (\<lambda>x. x = quote) c) = 3 then (True, cs) else (False, cs @ [c])"
  let ?query = "\<lambda>cs c. (Some cs, cs :: string list)"
  let ?files = "[?file ''a.db'' ''SQLite format 3'', ?file ''b.txt'' ''hello'', ?file ''it'' ''SQLite format 3'',
           ?file [CHR ''a'', quote] ''SQLite format 3'', ?file ''ab'' ''SQLite format 3'']"
  let ?bad = "\<lambda>c. length (filter (\<lambda>x. x = quote) c) = 3"
  have names: "map d_name (filter (wanted sqlite3_magic (Some ''a%'')) ?files) = [''a.db'', [CHR ''a'', quote], ''ab'']"
    by (simp add: wanted_def sqlite3_magic_def)
  have 1: "\<forall>e \<in> set ?files. st_regular e \<noteq> None \<and> length (d_name e) \<le> 255" by auto
  have 2: "\<forall>p. Some ''a%'' = Some p \<longrightarrow> (\<forall>x \<in> set p. ascii x)" by (simp add: ascii_def uchar_def)
  have 3: "fst (?exec db c) = ?bad c" for db c by simp
  have 5: "insert_names [''a.db''] = foldl (\<lambda>db c. snd (?exec db c)) []
      (upto_first ?bad (insert_names (map d_name (filter (wanted sqlite3_magic (Some ''a%'')) ?files))))"
    unfolding names by (simp add: insert_names_def upto_first_Cons quoted_def)
  have "sqlite3_list_dbs ?exec ?query (\<lambda>d. Some ?files) ''/home'' ''/db'' (Some ''a%'') []
      = Inr (fst (?query (insert_names [''a.db'']) ''SELECT dbname FROM libdbi_databases''),
             snd (?query (insert_names [''a.db'']) ''SELECT dbname FROM libdbi_databases''), ''/home'')"
    by (rule sqlite3_list_dbs_files [OF 1 2 3 _ 5]) simp_all
  then show ?thesis by (simp only: Let_def fst_conv snd_conv)
qed

end
