(* ===== verification/IngresDate.thy ===== *)
theory IngresDate
  imports DbiTypes Quoting
begin

text \<open>
  The date parser of the Ingres driver, \<open>ingres_date\<close>, and the perfect hash of the month names
  in \<open>months.gperf.c\<close> that it uses. A text is memory that ends with a NUL.
\<close>

unbundle bit_operations_syntax

section \<open>The perfect hash of the months\<close>

definition gperf_downcase :: "nat list" where
  "gperf_downcase = [0..<65] @ [97..<123] @ [91..<256]"

definition asso_values :: "nat list" where
  "asso_values = [
    34, 34, 34, 34, 34, 34, 34, 34, 34, 34, 34, 34, 34, 34, 34, 34, 34, 34, 34, 34,
    34, 34, 34, 34, 34, 34, 34, 34, 34, 34, 34, 34, 34, 34, 34, 34, 34, 34, 34, 34,
    34, 34, 34, 34, 34, 34, 34, 34, 34, 34, 34, 34, 34, 34, 34, 34, 34, 34, 34, 34,
    34, 34, 34, 34, 34, 0, 14, 4, 34, 10, 34, 14, 34, 34, 34, 34, 4, 34, 10, 15,
    15, 34, 5, 34, 0, 5, 15, 34, 34, 0, 34, 34, 34, 34, 34, 34, 34, 0, 14, 4,
    34, 10, 34, 14, 34, 34, 34, 34, 4, 34, 10, 15, 15, 34, 5, 34, 0, 5, 15, 34,
    34, 0, 34, 34, 34, 34, 34, 34, 34, 34, 34, 34, 34, 34, 34, 34, 34, 34, 34, 34,
    34, 34, 34, 34, 34, 34, 34, 34, 34, 34, 34, 34, 34, 34, 34, 34, 34, 34, 34, 34,
    34, 34, 34, 34, 34, 34, 34, 34, 34, 34, 34, 34, 34, 34, 34, 34, 34, 34, 34, 34,
    34, 34, 34, 34, 34, 34, 34, 34, 34, 34, 34, 34, 34, 34, 34, 34, 34, 34, 34, 34,
    34, 34, 34, 34, 34, 34, 34, 34, 34, 34, 34, 34, 34, 34, 34, 34, 34, 34, 34, 34,
    34, 34, 34, 34, 34, 34, 34, 34, 34, 34, 34, 34, 34, 34, 34, 34, 34, 34, 34, 34,
    34, 34, 34, 34, 34, 34, 34, 34, 34, 34, 34, 34, 34, 34, 34, 34]"

definition byte :: "char \<Rightarrow> nat" where
  "byte c = of_char c"

text \<open>Comparison of two C strings; 0 when they are equal up to the case of letters.\<close>

fun gperf_case_strcmp :: "string \<Rightarrow> string \<Rightarrow> int" where
  "gperf_case_strcmp [] [] = 0"
| "gperf_case_strcmp [] (d # t) = - int (gperf_downcase ! byte d)"
| "gperf_case_strcmp (c # s) [] = int (gperf_downcase ! byte c)"
| "gperf_case_strcmp (c # s) (d # t) =
     (let c1 = gperf_downcase ! byte c; c2 = gperf_downcase ! byte d in
      if c1 \<noteq> 0 \<and> c1 = c2 then gperf_case_strcmp s t else int c1 - int c2)"

definition wordlist :: "(string \<times> int) list" where
  "wordlist = [([], 0), ([], 0), ([], 0), (''may'', 4), ([], 0), ([], 0), ([], 0), (''oct'', 9), (''mar'', 2),
     ([], 0), ([], 0), ([], 0), (''jul'', 6), (''jan'', 0), ([], 0), ([], 0), ([], 0), (''dec'', 11), (''jun'', 5),
     ([], 0), ([], 0), ([], 0), (''aug'', 7), (''apr'', 3), ([], 0), ([], 0), ([], 0), (''feb'', 1), (''sep'', 8),
     ([], 0), ([], 0), ([], 0), ([], 0), (''nov'', 10)]"

definition hash :: "string \<Rightarrow> nat \<Rightarrow> nat run" where
  "hash str len =
     run_bind (table_entry str 2) (\<lambda>c2. run_bind (table_entry str 1) (\<lambda>c1.
       Inr (len + asso_values ! byte c2 + asso_values ! byte c1)))"

definition first_byte :: "string \<Rightarrow> 8 word" where
  "first_byte s = (case s of [] \<Rightarrow> 0 | c # cs \<Rightarrow> of_nat (byte c))"

text \<open>\<open>str\<close> is the memory from the name on; the value is the \<open>index\<close> of the month found.\<close>

definition in_word_set :: "string \<Rightarrow> nat \<Rightarrow> int option run" where
  "in_word_set str len =
     (if len \<le> 3 \<and> 3 \<le> len then
        run_bind (hash str len) (\<lambda>key.
          if key \<le> 33 then
            let (s, index) = wordlist ! key in
            if (first_byte (c_string str) XOR first_byte s) AND NOT 32 = 0
               \<and> gperf_case_strcmp (c_string str) s = 0
            then Inr (Some index) else Inr None
          else Inr None)
      else Inr None)"

section \<open>The parser\<close>

text \<open>
  The value is the broken-down time that \<open>timegm\<close> converts, or \<open>None\<close> for the error value 0. The
  name of a month ends with the separator, which is overwritten with a NUL; a numeric month is
  not skipped as far as its separator.
\<close>

definition ingres_month :: "char \<Rightarrow> string \<Rightarrow> (int option \<times> string) run" where
  "ingres_month sep p =
     (let behind = dropWhile (\<lambda>c. c \<noteq> sep) p in
      if p \<noteq> [] \<and> isdigit (hd p) then Inr (Some (atoi p - 1), behind)
      else if behind = [] then Inr (None, [])
      else run_bind (in_word_set (takeWhile (\<lambda>c. c \<noteq> sep) p @ CHR 0x00 # tl behind @ [CHR 0x00]) 3)
        (\<lambda>m. case m of None \<Rightarrow> Inl NullDeref | Some index \<Rightarrow> Inr (Some index, tl behind)))"

definition at_digit :: "string \<Rightarrow> bool" where
  "at_digit p \<longleftrightarrow> p \<noteq> [] \<and> isdigit (hd p)"

definition ingres_time :: "tm \<Rightarrow> string \<Rightarrow> tm option" where
  "ingres_time t p =
     (if \<not> at_digit p then Some t
      else
        let p1 = dropWhile isdigit p in
        if p1 = [] then None
        else
          let p2 = dropWhile isdigit (tl p1) in
          if p2 = [] then None
          else Some (t\<lparr>tm_hour := atoi p, tm_min := atoi (tl p1), tm_sec := atoi (tl p2)\<rparr>))"

definition ingres_date :: "string \<Rightarrow> tm option run" where
  "ingres_date p =
     (if \<not> at_digit p then Inr None
      else
        let day = atoi p; p1 = dropWhile isdigit p in
        if p1 = [] then Inr None
        else
          run_bind (ingres_month (hd p1) (tl p1)) (\<lambda>(month, p2).
            case month of None \<Rightarrow> Inr None
            | Some mon \<Rightarrow>
                if p2 = [] then Inr None
                else
                  let t = \<lparr>tm_sec = 0, tm_min = 0, tm_hour = 0, tm_mday = day, tm_mon = mon,
                           tm_year = atoi p2 - 1900\<rparr>;
                      p3 = dropWhile (\<lambda>c. c = CHR '' '') (dropWhile isdigit p2) in
                  Inr (ingres_time t p3)))"

section \<open>The hash\<close>

definition months :: "string list" where
  "months = [''jan'', ''feb'', ''mar'', ''apr'', ''may'', ''jun'', ''jul'', ''aug'', ''sep'', ''oct'', ''nov'', ''dec'']"

definition lower :: "string \<Rightarrow> nat list" where
  "lower s = map (\<lambda>c. gperf_downcase ! byte c) s"

definition month_index :: "string \<Rightarrow> int option" where
  "month_index s = map_option int (find (\<lambda>i. lower s = lower (months ! i)) [0..<12])"

lemma byte_less: "byte c < 256"
  using nat_of_char_less_256 [of c] by (simp add: byte_def)

lemma gperf_downcase_nth:
  "i < 256 \<Longrightarrow> gperf_downcase ! i = (if 65 \<le> i \<and> i \<le> 90 then i + 32 else i)"
  by (auto simp: gperf_downcase_def nth_append simp del: upt_rec_numeral)

lemma asso_values_letters: "list_all (\<lambda>i. asso_values ! (i + 32) = asso_values ! i) [65..<91]"
  by code_simp

lemma asso_values_downcase:
  "i < 256 \<Longrightarrow> asso_values ! (gperf_downcase ! i) = asso_values ! i"
  using asso_values_letters by (auto simp: gperf_downcase_nth list_all_iff simp del: upt_rec_numeral)

lemma gperf_downcase_pos: "0 < i \<Longrightarrow> i < 256 \<Longrightarrow> 0 < gperf_downcase ! i"
  by (simp add: gperf_downcase_nth)

lemma byte_zero: "byte c = 0 \<longleftrightarrow> c = CHR 0x00"
proof -
  have "of_char (CHR 0x00) = (0 :: nat)" by simp
  then show ?thesis unfolding byte_def by (metis of_char_eq_iff)
qed

lemma gperf_case_strcmp_eq:
  assumes "CHR 0x00 \<notin> set s" and "CHR 0x00 \<notin> set t"
  shows "gperf_case_strcmp s t = 0 \<longleftrightarrow> lower s = lower t"
proof -
  have pos: "0 < gperf_downcase ! byte c" if "CHR 0x00 \<noteq> c" for c
    using that byte_zero [of c] byte_less [of c] by (simp add: gperf_downcase_pos)
  show ?thesis using assms
    by (induction s t rule: gperf_case_strcmp.induct)
      (auto simp: lower_def Let_def pos)
qed

lemma asso_values_months:
  "map (\<lambda>c. asso_values ! byte c) ''abceglnoprtuvy'' = [0, 14, 4, 10, 14, 4, 10, 15, 15, 5, 0, 5, 15, 0]"
  by (simp add: asso_values_def byte_def)

lemma twelve: "i < 12 \<longleftrightarrow> i \<in> set [0, 1, 2, 3, 4, 5, 6, 7, 8, 9, 10, 11 :: nat]"
  by (auto simp: numeral_eq_Suc less_Suc_eq)

lemma months_keys:
  "list_all (\<lambda>i. let m = months ! i; key = 3 + asso_values ! byte (m ! 2) + asso_values ! byte (m ! 1) in
     key \<le> 33 \<and> wordlist ! key = (m, int i) \<and> length m = 3 \<and> 97 \<le> byte (m ! 0) \<and> byte (m ! 0) < 123)
   [0, 1, 2, 3, 4, 5, 6, 7, 8, 9, 10, 11]"
  using asso_values_months by (simp add: months_def wordlist_def Let_def byte_def)

lemma months_key:
  assumes "i < 12"
  defines "m \<equiv> months ! i"
  defines "key \<equiv> 3 + asso_values ! byte (m ! 2) + asso_values ! byte (m ! 1)"
  shows "key \<le> 33 \<and> wordlist ! key = (m, int i) \<and> length m = 3 \<and> 97 \<le> byte (m ! 0) \<and> byte (m ! 0) < 123"
  using bspec [OF months_keys [unfolded list_all_iff], of i] twelve [of i] assms(1)
  unfolding m_def key_def Let_def by blast

lemma wordlist_entries:
  "list_all (\<lambda>(n, k). n = [] \<or> 0 \<le> k \<and> k < 12 \<and> months ! nat k = n) wordlist"
  by (simp add: wordlist_def months_def)

lemma months_distinct: "distinct (map lower months)"
  by (simp add: months_def lower_def gperf_downcase_nth byte_def)

lemma case_bit: "list_all (\<lambda>i. (word_of_nat (i - 32) XOR word_of_nat i) AND NOT 32 = (0 :: 8 word)) [97..<123]"
  by simp

lemma first_byte_case:
  assumes "gperf_downcase ! byte c = gperf_downcase ! i" and "97 \<le> i" and "i < 123"
  shows "(word_of_nat (byte c) XOR word_of_nat i) AND NOT 32 = (0 :: 8 word)"
proof -
  have "byte c = i \<or> byte c = i - 32"
    using assms byte_less [of c] by (auto simp: gperf_downcase_nth split: if_splits)
  moreover have "i \<in> set [97..<123]" using assms(2,3) by (simp del: upt_rec_numeral)
  ultimately show ?thesis using case_bit by (auto simp: list_all_iff simp del: upt_rec_numeral)
qed

lemma find_upt_unique:
  "i < n \<Longrightarrow> P i \<Longrightarrow> (\<And>j. j < n \<Longrightarrow> P j \<Longrightarrow> j = i) \<Longrightarrow> find P [0..<n] = Some i"
proof -
  assume i: "i < n" "P i" and unique: "\<And>j. j < n \<Longrightarrow> P j \<Longrightarrow> j = i"
  have "\<not> P j" if "j < i" for j
    using unique [of j] i(1) that by auto
  with i show "find P [0..<n] = Some i"
    unfolding find_Some_iff by (intro exI [of _ i]) simp
qed

lemma month_index_eq: "i < 12 \<Longrightarrow> lower s = lower (months ! i) \<Longrightarrow> month_index s = Some (int i)"
proof -
  assume i: "i < 12" "lower s = lower (months ! i)"
  have "length months = 12" by (simp add: months_def)
  then have "j = i" if "j < 12" "lower s = lower (months ! j)" for j
    using months_distinct i that by (metis distinct_map inj_on_contraD nth_eq_iff_index_eq nth_mem)
  with i show ?thesis unfolding month_index_def
    by (subst find_upt_unique [of i]) auto
qed

lemma hash_key:
  "2 \<le> length s \<Longrightarrow> hash (s @ CHR 0x00 # rest) 3
    = Inr (3 + asso_values ! byte ((s @ [CHR 0x00]) ! 2) + asso_values ! byte (s ! 1))"
  by (cases s) (auto simp: hash_def table_entry_def nth_append)

lemma in_word_set_month:
  assumes "i < 12" and "lower s = lower (months ! i)" and "CHR 0x00 \<notin> set s"
  shows "in_word_set (s @ CHR 0x00 # rest) 3 = Inr (Some (int i))"
proof -
  let ?m = "months ! i"
  have m: "3 + asso_values ! byte (?m ! 2) + asso_values ! byte (?m ! 1) \<le> 33"
    "wordlist ! (3 + asso_values ! byte (?m ! 2) + asso_values ! byte (?m ! 1)) = (?m, int i)"
    "length ?m = 3" "97 \<le> byte (?m ! 0)" "byte (?m ! 0) < 123"
    using months_key [OF assms(1)] by blast+
  have len: "length s = 3" using assms(2) m(3) by (metis length_map lower_def)
  then obtain c u where s: "s = c # u" by (cases s) auto
  have down: "gperf_downcase ! byte (s ! k) = gperf_downcase ! byte (?m ! k)" if "k < 3" for k
    using arg_cong [OF assms(2), of "\<lambda>l. l ! k"] that len m(3) by (simp add: lower_def)
  have asso: "asso_values ! byte (s ! k) = asso_values ! byte (?m ! k)" if "k < 3" for k
    using down [OF that] asso_values_downcase byte_less by metis
  have key: "hash (s @ CHR 0x00 # rest) 3 = Inr (3 + asso_values ! byte (?m ! 2) + asso_values ! byte (?m ! 1))"
    using asso [of 1] asso [of 2] len by (simp add: hash_key nth_append)
  have "(first_byte s XOR first_byte ?m) AND NOT 32 = 0"
    using first_byte_case [OF down [of 0] m(4,5)] s m(3) by (cases ?m) (auto simp: first_byte_def)
  moreover have "CHR 0x00 \<notin> set ?m"
    using assms(1) by (auto simp: months_def less_Suc_eq numeral_eq_Suc)
  then have "gperf_case_strcmp s ?m = 0"
    using gperf_case_strcmp_eq [OF assms(3)] assms(2) by blast
  ultimately show ?thesis
    using key m(1,2) c_string_append [OF assms(3), of rest] by (simp add: in_word_set_def)
qed

lemma wordlist_other:
  assumes "\<forall>i<12. lower s \<noteq> lower (months ! i)" and "s \<noteq> []" and "CHR 0x00 \<notin> set s" and "(n, k) \<in> set wordlist"
  shows "gperf_case_strcmp s n \<noteq> 0"
proof -
  have "n = [] \<or> 0 \<le> k \<and> k < 12 \<and> months ! nat k = n"
    using wordlist_entries assms(4) unfolding list_all_iff by fast
  then consider "n = []" | i where "i < 12" "months ! i = n"
    by (metis nat_less_iff of_nat_numeral)
  then show ?thesis
  proof cases
    case 1
    obtain c u where "s = c # u" using assms(2) by (cases s) auto
    then show ?thesis
      using 1 assms(3) byte_zero [of c] byte_less [of c] gperf_downcase_pos [of "byte c"] by auto
  next
    case (2 i)
    then have "CHR 0x00 \<notin> set n" by (auto simp: months_def less_Suc_eq numeral_eq_Suc)
    then show ?thesis using gperf_case_strcmp_eq [OF assms(3)] assms(1) 2 by auto
  qed
qed

lemma in_word_set_index:
  assumes "2 \<le> length s" and "CHR 0x00 \<notin> set s"
  shows "in_word_set (s @ CHR 0x00 # rest) 3 = Inr (month_index s)"
proof (cases "\<exists>i<12. lower s = lower (months ! i)")
  case True
  then obtain i where i: "i < 12" "lower s = lower (months ! i)" by blast
  show ?thesis using in_word_set_month [OF i assms(2)] month_index_eq [OF i] by simp
next
  case False
  then have none: "month_index s = None" by (auto simp: month_index_def find_None_iff)
  obtain key where key: "hash (s @ CHR 0x00 # rest) 3 = Inr key" using hash_key [OF assms(1)] by blast
  have "gperf_case_strcmp s (fst (wordlist ! key)) \<noteq> 0" if "key \<le> 33"
  proof (rule wordlist_other [OF _ _ assms(2)])
    have "wordlist ! key \<in> set wordlist" using that by (intro nth_mem) (simp add: wordlist_def)
    then show "(fst (wordlist ! key), snd (wordlist ! key)) \<in> set wordlist" by simp
  qed (use False assms(1) in auto)
  then show ?thesis
    using key none c_string_append [OF assms(2), of rest]
    by (cases "wordlist ! key") (simp add: in_word_set_def)
qed

text \<open>
  C27: The perfect hash is right: a name of two or more characters is found exactly when it is,
  up to the case of its letters, one of the twelve three-letter months, and its index is the
  number of the month from 0.
\<close>

theorem in_word_set_months:
  assumes "2 \<le> length s" and "CHR 0x00 \<notin> set s"
  shows "in_word_set (s @ CHR 0x00 # rest) 3 = Inr (month_index s)"
  using assms by (rule in_word_set_index)

theorem in_word_set_months_witness:
  "in_word_set (''Dec'' @ CHR 0x00 # []) 3 = Inr (month_index ''Dec'')"
  by (rule in_word_set_months) simp_all

section \<open>Dates\<close>

text \<open>A number as the server prints it: digits whose value fits an \<open>int\<close>.\<close>

definition number :: "string \<Rightarrow> bool" where
  "number ds \<longleftrightarrow> ds \<noteq> [] \<and> (\<forall>c \<in> set ds. isdigit c) \<and> digits_val 0 ds < 2 ^ 31"

definition no_digit_next :: "string \<Rightarrow> bool" where
  "no_digit_next s \<longleftrightarrow> s = [] \<or> \<not> isdigit (hd s)"

lemma atoi_small: "- (2 ^ 31) \<le> strtol_val s \<Longrightarrow> strtol_val s < 2 ^ 31 \<Longrightarrow> atoi s = strtol_val s"
  by (simp add: atoi_def atol_def LONG_MAX_def LONG_MIN_def signed_take_bit_int_eq_self)

lemma digits_val_stop: "no_digit_next s \<Longrightarrow> digits_val a s = a"
  by (cases s) (auto simp: no_digit_next_def)

lemma strtol_val_number:
  assumes "number ds" and "no_digit_next s"
  shows "strtol_val (ds @ s) = int (digits_val 0 ds)"
    and "strtol_val (CHR ''-'' # ds @ s) = - int (digits_val 0 ds)"
proof -
  obtain c cs where ds: "ds = c # cs" using assms(1) by (cases ds) (auto simp: number_def)
  have all: "\<forall>c \<in> set ds. isdigit c" using assms(1) by (simp add: number_def)
  have val: "digits_val 0 (ds @ s) = digits_val 0 ds"
    by (simp add: digits_val_append all digits_val_stop assms(2))
  have "isdigit c" using all ds by simp
  then show "strtol_val (ds @ s) = int (digits_val 0 ds)"
    using val isdigit_not_space [of c] ds by (auto simp: strtol_val_def)
  show "strtol_val (CHR ''-'' # ds @ s) = - int (digits_val 0 ds)"
    using val by (simp add: strtol_val_def isspace_def uchar_def)
qed

lemma atoi_number:
  assumes "number ds" and "no_digit_next s"
  shows "atoi (ds @ s) = int (digits_val 0 ds)"
    and "atoi (CHR ''-'' # ds @ s) = - int (digits_val 0 ds)"
proof -
  have "digits_val 0 ds < 2 ^ 31" using assms(1) by (simp add: number_def)
  then have "int (digits_val 0 ds) < 2 ^ 31" by simp
  then show "atoi (ds @ s) = int (digits_val 0 ds)" "atoi (CHR ''-'' # ds @ s) = - int (digits_val 0 ds)"
    using strtol_val_number [OF assms] atoi_small by auto
qed

lemma number_simps:
  assumes "number ds" and "no_digit_next s"
  shows "at_digit (ds @ s)" and "dropWhile isdigit (ds @ s) = s"
  using assms by (cases ds; cases s; auto simp: number_def at_digit_def no_digit_next_def dropWhile_append2)+

text \<open>The optional time behind a date.\<close>

fun time_tail :: "(string \<times> string \<times> string) option \<Rightarrow> string" where
  "time_tail None = []"
| "time_tail (Some (h, mi, s)) = CHR '' '' # h @ CHR '':'' # mi @ CHR '':'' # s"

fun with_time :: "(string \<times> string \<times> string) option \<Rightarrow> tm \<Rightarrow> tm" where
  "with_time None t = t"
| "with_time (Some (h, mi, s)) t = t\<lparr>tm_hour := int (digits_val 0 h), tm_min := int (digits_val 0 mi),
     tm_sec := int (digits_val 0 s)\<rparr>"

definition time_ok :: "(string \<times> string \<times> string) option \<Rightarrow> bool" where
  "time_ok t = (case t of None \<Rightarrow> True | Some (h, mi, s) \<Rightarrow> number h \<and> number mi \<and> number s)"

lemma no_digit_next_simps [simp]:
  "no_digit_next []" "no_digit_next (CHR ''-'' # s)" "no_digit_next (CHR '':'' # s)"
  "no_digit_next (CHR '' '' # s)" "no_digit_next (time_tail t)"
  by (cases t; auto simp: no_digit_next_def isdigit_def uchar_def)+

lemma ingres_time_tail:
  assumes "time_ok t"
  shows "ingres_time u (dropWhile (\<lambda>c. c = CHR '' '') (time_tail t)) = Some (with_time t u)"
proof (cases t)
  case (Some x)
  obtain h mi s where x: "x = (h, mi, s)" by (cases x)
  have n: "number h" "number mi" "number s" using assms by (simp_all add: time_ok_def Some x)
  have "dropWhile (\<lambda>c. c = CHR '' '') (time_tail t) = h @ CHR '':'' # mi @ CHR '':'' # s"
    using n(1) by (cases h) (auto simp: Some x number_def isdigit_def uchar_def)
  then show ?thesis
    using number_simps [OF n(1), of "CHR '':'' # mi @ CHR '':'' # s"]
      number_simps [OF n(2), of "CHR '':'' # s"] number_simps [OF n(3), of "[]"]
      atoi_number(1) [OF n(1), of "CHR '':'' # mi @ CHR '':'' # s"]
      atoi_number(1) [OF n(2), of "CHR '':'' # s"] atoi_number(1) [OF n(3), of "[]"]
    by (simp add: ingres_time_def Some x)
qed (simp add: ingres_time_def at_digit_def)

definition month_word :: "string \<Rightarrow> bool" where
  "month_word m \<longleftrightarrow> 2 \<le> length m \<and> CHR 0x00 \<notin> set m \<and> CHR ''-'' \<notin> set m \<and> \<not> isdigit (hd m)"

lemma ingres_month_word:
  assumes "month_word m"
  shows "ingres_month (CHR ''-'') (m @ CHR ''-'' # p)
    = (case month_index m of None \<Rightarrow> Inl NullDeref | Some i \<Rightarrow> Inr (Some i, p))"
proof -
  have nodash: "\<And>c. c \<in> set m \<Longrightarrow> c \<noteq> CHR ''-''" using assms by (auto simp: month_word_def)
  have "dropWhile (\<lambda>c. c \<noteq> CHR ''-'') (m @ CHR ''-'' # p) = CHR ''-'' # p"
    and "takeWhile (\<lambda>c. c \<noteq> CHR ''-'') (m @ CHR ''-'' # p) = m"
    using nodash by (simp_all add: dropWhile_append2 takeWhile_append2)
  moreover have "m \<noteq> []" "\<not> isdigit (hd m)" using assms by (auto simp: month_word_def)
  moreover have "in_word_set (m @ CHR 0x00 # p @ [CHR 0x00]) 3 = Inr (month_index m)"
    by (rule in_word_set_index) (use assms in \<open>auto simp: month_word_def\<close>)
  ultimately show ?thesis
    by (simp add: ingres_month_def split: option.split)
qed

text \<open>
  C16: The date parser reads the Ingres default format \<open>dd-mmm-yyyy\<close>, with or without a time
  \<open>hh:mm:ss\<close> behind it, exactly as it is meant, for every spelling of the month in upper and
  lower case; but any other word for the month, the full name of a month too, makes it
  dereference the null pointer of the failed lookup.
\<close>

theorem ingres_date_parses:
  assumes "number d" and "month_word m" and "number y" and "time_ok t"
  shows "ingres_date (d @ ''-'' @ m @ ''-'' @ y @ time_tail t)
    = (case month_index m of
         None \<Rightarrow> Inl NullDeref
       | Some i \<Rightarrow> Inr (Some (with_time t
           \<lparr>tm_sec = 0, tm_min = 0, tm_hour = 0, tm_mday = int (digits_val 0 d), tm_mon = i,
            tm_year = int (digits_val 0 y) - 1900\<rparr>)))"
proof -
  let ?p = "m @ CHR ''-'' # y @ time_tail t"
  have "y \<noteq> []" using assms(3) by (simp add: number_def)
  then show ?thesis
    using number_simps [OF assms(1), of "CHR ''-'' # ?p"] atoi_number(1) [OF assms(1), of "CHR ''-'' # ?p"]
      ingres_month_word [OF assms(2), of "y @ time_tail t"] atoi_number(1) [OF assms(3), of "time_tail t"]
      number_simps [OF assms(3), of "time_tail t"] ingres_time_tail [OF assms(4)]
    by (simp add: ingres_date_def split: option.split)
qed

theorem ingres_date_parses_witness:
  "ingres_date ''15-JUN-2007 12:30:00''
     = Inr (Some \<lparr>tm_sec = 0, tm_min = 30, tm_hour = 12, tm_mday = 15, tm_mon = 5, tm_year = 107\<rparr>)
   \<and> ingres_date ''1-January-2007'' = Inl NullDeref"
proof -
  have "month_index ''JUN'' = Some (int 5)"
    by (rule month_index_eq) (simp_all add: lower_def months_def gperf_downcase_nth byte_def)
  moreover have "month_index ''January'' = None"
    by (simp add: month_index_def find_None_iff lower_def months_def less_Suc_eq numeral_eq_Suc)
  ultimately show ?thesis
    using ingres_date_parses [of "''15''" "''JUN''" "''2007''" "Some (''12'', ''30'', ''00'')"]
      ingres_date_parses [of "''1''" "''January''" "''2007''" None]
    by (simp add: number_def month_word_def time_ok_def isdigit_def uchar_def digit_val_def)
qed

text \<open>
  A date with a numeric month keeps its separator in front of the year: with the separator
  \<open>-\<close> the year is read as a negative number, and a time behind it is dropped.
\<close>

theorem ingres_date_numeric_month:
  assumes "number d" and "number m" and "number y" and "no_digit_next rest"
  shows "ingres_date (d @ ''-'' @ m @ ''-'' @ y @ rest)
    = Inr (Some \<lparr>tm_sec = 0, tm_min = 0, tm_hour = 0, tm_mday = int (digits_val 0 d),
        tm_mon = int (digits_val 0 m) - 1, tm_year = - int (digits_val 0 y) - 1900\<rparr>)"
proof -
  let ?p = "m @ CHR ''-'' # y @ rest"
  have "\<And>c. c \<in> set m \<Longrightarrow> c \<noteq> CHR ''-''" using assms(2) isdigit_not_space by (auto simp: number_def)
  then have "dropWhile (\<lambda>c. c \<noteq> CHR ''-'') ?p = CHR ''-'' # y @ rest"
    by (simp add: dropWhile_append2)
  moreover have "?p \<noteq> [] \<and> isdigit (hd ?p)"
    using number_simps(1) [OF assms(2), of "CHR ''-'' # y @ rest"] by (simp add: at_digit_def)
  ultimately have "ingres_month (CHR ''-'') ?p = Inr (Some (int (digits_val 0 m) - 1), CHR ''-'' # y @ rest)"
    using atoi_number(1) [OF assms(2), of "CHR ''-'' # y @ rest"] by (simp add: ingres_month_def)
  then show ?thesis
    using number_simps [OF assms(1), of "CHR ''-'' # ?p"] atoi_number(1) [OF assms(1), of "CHR ''-'' # ?p"]
      atoi_number(2) [OF assms(3,4)]
    by (simp add: ingres_date_def ingres_time_def at_digit_def isdigit_def uchar_def)
qed

theorem ingres_date_numeric_month_witness:
  "ingres_date ''15-06-2007'' = Inr (Some \<lparr>tm_sec = 0, tm_min = 0, tm_hour = 0, tm_mday = 15,
     tm_mon = 5, tm_year = - 3907\<rparr>)"
  using ingres_date_numeric_month [of "''15''" "''06''" "''2007''" "[]"]
  by (simp add: number_def isdigit_def uchar_def digit_val_def)

end
