(* ===== verification/RowData.thy ===== *)
theory RowData
  imports TypeTranslation Quoting
begin

text \<open>
  The functions \<open>_get_row_data\<close>: what each driver stores in a row for the fields of the result.
  A column is the text the client library delivers (\<open>None\<close> for a null pointer), for Firebird
  and Oracle the bytes of the column's buffer.
\<close>

section \<open>SQLite3 and SQLite\<close>

text \<open>\<open>decode\<close> is \<open>_dbd_decode_binary\<close> of libdbi, which works in place.\<close>

definition sqlite3_cell :: "(string \<Rightarrow> string) \<Rightarrow> field \<Rightarrow> string option \<Rightarrow> cell" where
  "sqlite3_cell decode f raw =
     (case raw of None \<Rightarrow> empty_cell | Some s \<Rightarrow>
       (case f_type f of
          DBI_TYPE_INTEGER \<Rightarrow> value_cell (decode_integer (f_attribs f) s)
        | DBI_TYPE_DECIMAL \<Rightarrow> value_cell (decode_decimal (f_attribs f) s)
        | DBI_TYPE_STRING \<Rightarrow> sized_cell s (length s)
        | DBI_TYPE_BINARY \<Rightarrow> sized_cell (decode s) (length (decode s))
        | DBI_TYPE_DATETIME \<Rightarrow> value_cell (decode_datetime (f_attribs f) (Some s))
        | DBI_TYPE_NONE \<Rightarrow> sized_cell s (length s)))"

text \<open>
  \<open>result_table[curfield + (rowidx+1)*numfields]\<close>: the first row of the table that
  \<open>sqlite3_get_table\<close> returns has the column names.
\<close>

fun run_cells :: "(nat \<Rightarrow> cell run) \<Rightarrow> nat list \<Rightarrow> cell list run" where
  "run_cells step [] = Inr []"
| "run_cells step (i # is) =
     run_bind (step i) (\<lambda>c. run_bind (run_cells step is) (\<lambda>cs. Inr (c # cs)))"

definition sqlite3_get_row_data ::
    "(string \<Rightarrow> string) \<Rightarrow> field list \<Rightarrow> string option list \<Rightarrow> nat \<Rightarrow> cell list run" where
  "sqlite3_get_row_data decode flds result_table rowidx =
     run_cells (\<lambda>curfield.
       run_bind (table_entry result_table (curfield + (rowidx + 1) * length flds))
         (\<lambda>raw. Inr (sqlite3_cell decode (flds ! curfield) raw))) [0..<length flds]"

definition sqlite_cell :: "(string \<Rightarrow> string) \<Rightarrow> field \<Rightarrow> string option \<Rightarrow> cell" where
  "sqlite_cell decode f raw =
     (case raw of None \<Rightarrow> empty_cell | Some s \<Rightarrow>
       (case f_type f of
          DBI_TYPE_INTEGER \<Rightarrow> value_cell (decode_integer (f_attribs f) s)
        | DBI_TYPE_DECIMAL \<Rightarrow> value_cell (decode_decimal (f_attribs f) s)
        | DBI_TYPE_STRING \<Rightarrow> sized_cell s (length s)
        | DBI_TYPE_BINARY \<Rightarrow> sized_cell (decode s) (length (decode s))
        | DBI_TYPE_DATETIME \<Rightarrow> value_cell (decode_datetime (f_attribs f) (Some s))
        | DBI_TYPE_NONE \<Rightarrow> sized_cell s (length s)))"

definition sqlite_get_row_data ::
    "(string \<Rightarrow> string) \<Rightarrow> field list \<Rightarrow> string option list \<Rightarrow> nat \<Rightarrow> cell list run" where
  "sqlite_get_row_data decode flds result_table rowidx =
     run_cells (\<lambda>curfield.
       run_bind (table_entry result_table (curfield + (rowidx + 1) * length flds))
         (\<lambda>raw. Inr (sqlite_cell decode (flds ! curfield) raw))) [0..<length flds]"

section \<open>MySQL\<close>

text \<open>
  A column is the bytes that \<open>mysql_fetch_lengths\<close> counts. A string is copied with \<open>strdup\<close>,
  which stops at a NUL byte, but its size is the number of bytes. \<open>trailing\<close> is the option
  \<open>mysql_include_trailing_null\<close>.
\<close>

definition mysql_cell :: "int \<Rightarrow> field \<Rightarrow> string option \<Rightarrow> cell" where
  "mysql_cell trailing f raw =
     (case raw of None \<Rightarrow> null_cell | Some s \<Rightarrow>
       (case f_type f of
          DBI_TYPE_INTEGER \<Rightarrow> value_cell (decode_integer (f_attribs f) (c_string s))
        | DBI_TYPE_DECIMAL \<Rightarrow> value_cell (decode_decimal (f_attribs f) (c_string s))
        | DBI_TYPE_STRING \<Rightarrow> sized_cell (c_string s) (length s)
        | DBI_TYPE_BINARY \<Rightarrow> sized_cell s (if trailing = 1 then length s + 1 else length s)
        | DBI_TYPE_DATETIME \<Rightarrow> value_cell (decode_datetime (f_attribs f) (Some (c_string s)))
        | DBI_TYPE_NONE \<Rightarrow> sized_cell (c_string s) (length s)))"

definition mysql_get_row_data :: "int \<Rightarrow> field list \<Rightarrow> string option list \<Rightarrow> cell list" where
  "mysql_get_row_data trailing flds row = map2 (mysql_cell trailing) flds row"

section \<open>PostgreSQL\<close>

text \<open>\<open>unescape\<close> is \<open>PQunescapeBytea\<close>; \<open>PQgetisnull\<close> says whether a column is null.\<close>

definition pgsql_cell :: "(string \<Rightarrow> string) \<Rightarrow> field \<Rightarrow> string option \<Rightarrow> cell" where
  "pgsql_cell unescape f raw =
     (case raw of None \<Rightarrow> null_cell | Some s \<Rightarrow>
       (case f_type f of
          DBI_TYPE_INTEGER \<Rightarrow> value_cell (decode_integer (f_attribs f) s)
        | DBI_TYPE_DECIMAL \<Rightarrow> value_cell (decode_decimal (f_attribs f) s)
        | DBI_TYPE_STRING \<Rightarrow> sized_cell (c_string s) (length s)
        | DBI_TYPE_BINARY \<Rightarrow> sized_cell (unescape s) (length (unescape s))
        | DBI_TYPE_DATETIME \<Rightarrow> value_cell (decode_datetime (f_attribs f) (Some s))
        | DBI_TYPE_NONE \<Rightarrow> empty_cell))"

definition pgsql_get_row_data ::
    "(string \<Rightarrow> string) \<Rightarrow> field list \<Rightarrow> string option list \<Rightarrow> cell list" where
  "pgsql_get_row_data unescape flds row = map2 (pgsql_cell unescape) flds row"

section \<open>mSQL\<close>

text \<open>A null column is flagged, but the conversions are called on its null pointer all the same.\<close>

definition msql_cell :: "field \<Rightarrow> string option \<Rightarrow> cell run" where
  "msql_cell f raw =
     (let flag = (\<lambda>c. c\<lparr>c_null := raw = None\<rparr>);
          need = (\<lambda>k. case raw of None \<Rightarrow> Inl NullDeref | Some s \<Rightarrow> Inr (flag (k s))) in
      case f_type f of
        DBI_TYPE_INTEGER \<Rightarrow>
          if decode_integer (f_attribs f) [] = D_unset then Inr (flag empty_cell)
          else need (\<lambda>s. value_cell (decode_integer (f_attribs f) s))
      | DBI_TYPE_DECIMAL \<Rightarrow>
          if decode_decimal (f_attribs f) [] = D_unset then Inr (flag empty_cell)
          else need (\<lambda>s. value_cell (decode_decimal (f_attribs f) s))
      | DBI_TYPE_DATETIME \<Rightarrow> Inr (flag (value_cell (decode_datetime (f_attribs f) raw)))
      | _ \<Rightarrow> need (\<lambda>s. sized_cell s (length s)))"

definition msql_get_row_data :: "field list \<Rightarrow> string option list \<Rightarrow> cell list run" where
  "msql_get_row_data flds row =
     run_cells (\<lambda>curfield. msql_cell (flds ! curfield) (row ! curfield)) [0..<length flds]"

section \<open>Firebird\<close>

text \<open>The bytes of a number in memory, the least significant one first.\<close>

definition le_word :: "string \<Rightarrow> 'a::len word" where
  "le_word bs = word_of_nat (foldr (\<lambda>c n. of_char c + 256 * n) bs 0)"

definition read_word :: "nat \<Rightarrow> string \<Rightarrow> 'a::len word run" where
  "read_word n mem = (if n \<le> length mem then Inr (le_word (take n mem)) else Inl ReadPastEnd)"

definition pad :: "nat \<Rightarrow> int \<Rightarrow> string" where
  "pad w i = (let s = show_int i in
     if i < 0 then CHR ''-'' # replicate (w - length s) CHR ''0'' @ tl s
     else replicate (w - length s) CHR ''0'' @ s)"

definition date_text :: "tm \<Rightarrow> string" where
  "date_text t = pad 4 (tm_year t + 1900) @ ''-'' @ pad 2 (tm_mon t + 1) @ ''-'' @ pad 2 (tm_mday t)"

definition time_text :: "tm \<Rightarrow> string" where
  "time_text t = pad 2 (tm_hour t) @ '':'' @ pad 2 (tm_min t) @ '':'' @ pad 2 (tm_sec t)"

text \<open>
  A \<open>XSQLVAR\<close>: whether the column can be null (the low bit of \<open>sqltype\<close>), its indicator, its
  length, and the memory from \<open>sqldata\<close> to the end of the row buffer. \<open>fb_segments\<close> are the
  segments \<open>isc_get_segment\<close> delivers for the blob whose id the column holds.
\<close>

record xsqlvar =
  fb_nullable :: bool
  fb_sqlind :: int
  fb_sqllen :: nat
  fb_sqldata :: string
  fb_segments :: "string list"

text \<open>
  A block of \<open>n\<close> bytes, the first of which are \<open>written\<close> and the others as \<open>malloc\<close> returned them, that is read as a C
  string, by \<open>strlen\<close> or \<open>_dbd_decode_binary\<close>: without a NUL among the bytes written the reading goes on in
  those that were not, and behind the block.
\<close>

definition block_string :: "nat \<Rightarrow> string \<Rightarrow> string run" where
  "block_string n written =
     (if CHR 0x00 \<in> set written then Inr (c_string written)
      else if length written < n then Inl UninitRead
      else Inl ReadPastEnd)"

text \<open>
  The first segment goes into a block of \<open>sizeof(actual_seg_len)\<close>, 2 bytes; for each further
  one the block is set to the length of the data, and at the end of the blob, where the length of the segment is 0, once
  more. The value is the size of the block and what was written into it.
\<close>

fun blob_rest :: "string \<Rightarrow> string list \<Rightarrow> nat \<times> string" where
  "blob_rest data [] = (length data + 0, data)"
| "blob_rest data (s # segs) = blob_rest (data @ s) segs"

definition firebird_blob :: "string list \<Rightarrow> (nat \<times> string) run" where
  "firebird_blob segs =
     (case segs of [] \<Rightarrow> Inr (2, [])
      | s # rest \<Rightarrow> if length s \<le> 2 then Inr (blob_rest s rest) else Inl BufferOverflow)"

definition vary_string :: "string \<Rightarrow> string run" where
  "vary_string mem = run_bind (read_word 2 mem :: 16 word run) (\<lambda>n.
     if 2 + unat n \<le> length mem then Inr (take (unat n) (drop 2 mem)) else Inl ReadPastEnd)"

text \<open>
  \<open>decode\<close> is \<open>_dbd_decode_binary\<close> on a C string; it gets no length, and no NUL is put behind a blob. Setting a
  block to 0 bytes frees it and gives a null pointer.
\<close>

definition firebird_cell ::
    "(string \<Rightarrow> string) \<Rightarrow> (string \<Rightarrow> tm) \<Rightarrow> field \<Rightarrow> xsqlvar \<Rightarrow> cell run" where
  "firebird_cell decode broken_down f var =
     (let mem = fb_sqldata var in
      if fb_nullable var \<and> fb_sqlind var < 0 then Inr null_cell
      else case f_type f of
        DBI_TYPE_STRING \<Rightarrow>
          if DBI_STRING_FIXEDSIZE \<in> f_attribs f
          then (if CHR 0x00 \<in> set mem then Inr (sized_cell (c_string mem) (fb_sqllen var))
                else Inl ReadPastEnd)
          else run_bind (vary_string mem) (\<lambda>s. Inr (sized_cell s (length s)))
      | DBI_TYPE_INTEGER \<Rightarrow>
          (let size = f_attribs f \<inter> DBI_INTEGER_SIZEMASK in
           if size = {DBI_INTEGER_SIZE1} \<or> size = {DBI_INTEGER_SIZE2}
           then run_bind (read_word 2 mem) (\<lambda>w. Inr (value_cell (D_short w)))
           else if size = {DBI_INTEGER_SIZE3} \<or> size = {DBI_INTEGER_SIZE4}
           then run_bind (read_word 4 mem) (\<lambda>w. Inr (value_cell (D_long w)))
           else if size = {DBI_INTEGER_SIZE8}
           then run_bind (read_word 8 mem) (\<lambda>w. Inr (value_cell (D_longlong w)))
           else Inr empty_cell)
      | DBI_TYPE_DECIMAL \<Rightarrow>
          (let size = f_attribs f \<inter> DBI_DECIMAL_SIZEMASK in
           if size = {DBI_DECIMAL_SIZE4}
           then run_bind (read_word 4 mem) (\<lambda>w. Inr (value_cell (D_float_bits w)))
           else if size = {DBI_DECIMAL_SIZE8}
           then run_bind (read_word 8 mem) (\<lambda>w. Inr (value_cell (D_double_bits w)))
           else Inr empty_cell)
      | DBI_TYPE_DATETIME \<Rightarrow>
          (let parts = f_attribs f \<inter> DBI_DATETIME_MASK; times = broken_down mem;
               text = (if DBI_DATETIME_TIME \<in> parts \<and> DBI_DATETIME_DATE \<in> parts
                       then date_text times @ '' '' @ time_text times
                       else if DBI_DATETIME_TIME \<in> parts then time_text times
                       else date_text times) in
           run_bind (strcpy_buf 25 text)
             (\<lambda>date_s. Inr (value_cell (decode_datetime (f_attribs f) (Some date_s)))))
      | DBI_TYPE_BINARY \<Rightarrow>
          run_bind (firebird_blob (fb_segments var)) (\<lambda>(n, data).
            if n = 0 then Inl NullDeref
            else run_bind (block_string n data) (\<lambda>s. Inr (sized_cell (decode s) (length (decode s)))))
      | DBI_TYPE_NONE \<Rightarrow> Inr empty_cell)"

text \<open>
  \<open>fetched\<close> is the next row \<open>isc_dsql_fetch\<close> delivers, if any. The value is the new
  \<open>numrows_matched\<close> and the cells; without a row the count goes down and the result is 0.
\<close>

definition firebird_get_row_data ::
    "(string \<Rightarrow> string) \<Rightarrow> (string \<Rightarrow> tm) \<Rightarrow> field list \<Rightarrow> xsqlvar list option \<Rightarrow> int
       \<Rightarrow> (int \<times> int \<times> cell list) run" where
  "firebird_get_row_data decode broken_down flds fetched numrows =
     (case fetched of None \<Rightarrow> Inr (numrows - 1, 0, [])
      | Some vars \<Rightarrow>
          run_bind (run_cells (\<lambda>curfield.
              firebird_cell decode broken_down (flds ! curfield) (vars ! curfield)) [0..<length flds])
            (\<lambda>cells. Inr (numrows + 1, numrows + 1, cells)))"

section \<open>Oracle\<close>

text \<open>
  An Oracle date has seven bytes: century and year with 100 added, month, day, and hour,
  minute and second with 1 added.
\<close>

definition oradate_to_time_t :: "string \<Rightarrow> tm" where
  "oradate_to_time_t obuff =
     \<lparr>tm_sec = schar (obuff ! 6) - 1, tm_min = schar (obuff ! 5) - 1,
      tm_hour = schar (obuff ! 4) - 1, tm_mday = schar (obuff ! 3), tm_mon = schar (obuff ! 2),
      tm_year = (schar (obuff ! 0) - 100) * 100 + (schar (obuff ! 1) - 100)\<rparr>"

text \<open>\<open>while (slen && ptr[slen - 1] == ' ') --slen\<close>\<close>

fun chop_len :: "string \<Rightarrow> nat \<Rightarrow> nat" where
  "chop_len ptr 0 = 0"
| "chop_len ptr (Suc n) = (if ptr ! n = CHR '' '' then chop_len ptr n else Suc n)"

text \<open>
  \<open>col\<close> is the buffer of \<open>length + 1\<close> bytes that OCI has filled, \<open>len\<close> the size of the column
  (\<open>OCI_ATTR_DATA_SIZE\<close>). \<open>length < 0\<close> is false of a \<open>size_t\<close>, so no column is ever flagged null.
\<close>

definition oracle_cell :: "int \<Rightarrow> field \<Rightarrow> nat \<Rightarrow> string \<Rightarrow> cell" where
  "oracle_cell chop f len col =
     (case f_type f of
        DBI_TYPE_INTEGER \<Rightarrow> value_cell (D_longlong (word_of_int (atoll (c_string col))))
      | DBI_TYPE_DECIMAL \<Rightarrow> value_cell (D_double (c_string col))
      | DBI_TYPE_STRING \<Rightarrow>
          (let s = take len col in
           if chop = 1
           then (let slen = if s \<noteq> [] \<and> hd s \<noteq> CHR 0x00 then chop_len s len else len
                 in sized_cell (take slen s) slen)
           else sized_cell s len)
      | DBI_TYPE_BINARY \<Rightarrow> sized_cell (take len col) len
      | DBI_TYPE_DATETIME \<Rightarrow> value_cell (D_mktime (oradate_to_time_t col))
      | DBI_TYPE_NONE \<Rightarrow> empty_cell)"

definition oracle_get_row_data :: "int \<Rightarrow> field list \<Rightarrow> (nat \<times> string) list \<Rightarrow> cell list" where
  "oracle_get_row_data chop flds cols = map2 (\<lambda>f (len, col). oracle_cell chop f len col) flds cols"

section \<open>Values in native format\<close>

text \<open>
  Ingres and FreeTDS copy the bytes of a number into the union as they are; the member is the one
  libdbi reads for the registered type.
\<close>

definition raw_member :: "field_type \<Rightarrow> string \<Rightarrow> dbi_data" where
  "raw_member ty bytes =
     (if DBI_INTEGER_SIZE1 \<in> snd ty then D_char (le_word (take 1 bytes))
      else if DBI_INTEGER_SIZE2 \<in> snd ty then D_short (le_word (take 2 bytes))
      else if DBI_INTEGER_SIZE4 \<in> snd ty then D_long (le_word (take 4 bytes))
      else if DBI_DECIMAL_SIZE4 \<in> snd ty then D_float_bits (le_word (take 4 bytes))
      else if DBI_DECIMAL_SIZE8 \<in> snd ty then D_double_bits (le_word (take 8 bytes))
      else D_longlong (le_word (take 8 bytes)))"

section \<open>Lemmas\<close>

lemma show_int_no_nul: "CHR 0x00 \<notin> set (show_int i)"
  using show_nat_digits [of "nat i"] show_nat_digits [of "nat (- i)"]
  by (auto simp: show_int_def isdigit_def uchar_def)

lemma c_string_show_int [simp]: "c_string (show_int i) = show_int i"
  using show_int_no_nul [of i] by (auto simp: c_string_def takeWhile_eq_all_conv)

lemma c_null_cells [simp]:
  "c_null (value_cell v) = False" "c_null (sized_cell s n) = False" "c_null empty_cell = False"
  "c_null null_cell = True" "c_value (value_cell v) = v" "c_value (sized_cell s n) = D_string s"
  "c_size (sized_cell s n) = n" "c_value null_cell = D_unset" "c_value empty_cell = D_unset"
  by (simp_all add: cell_defs)

lemma run_cells_map: "(\<And>i. i \<in> set is \<Longrightarrow> step i = Inr (g i)) \<Longrightarrow> run_cells step is = Inr (map g is)"
  by (induction "is") simp_all

text \<open>Reading column by column stops at the first null that is read.\<close>

lemma run_cells_cases:
  assumes "\<And>i. i \<in> set is \<Longrightarrow> if bad i then step i = Inl NullDeref else \<exists>c. step i = Inr c \<and> good i c"
  shows "if \<exists>i \<in> set is. bad i then run_cells step is = Inl NullDeref
    else \<exists>cells. run_cells step is = Inr cells \<and> list_all2 good is cells"
  using assms
proof (induction "is")
  case (Cons i "is")
  then show ?case by (cases "bad i") (fastforce split: if_splits)+
qed simp

lemma map2_nth_upt:
  "length xs = n \<Longrightarrow> length ys = n \<Longrightarrow> map (\<lambda>i. h (xs ! i) (ys ! i)) [0..<n] = map2 h xs ys"
  by (rule nth_equalityI) auto

lemma row_block_index: "i < n \<Longrightarrow> r < rows \<Longrightarrow> i + (r + 1) * n < (rows + 1) * (n::nat)"
proof -
  assume "i < n" "r < rows"
  then have "i + (r + 1) * n < (r + 2) * n" by simp
  also have "\<dots> \<le> (rows + 1) * n" using \<open>r < rows\<close> by (intro mult_le_mono1) simp
  finally show ?thesis .
qed

text \<open>Reading a row of the table of \<open>sqlite3_get_table\<close>, whatever is made of a column.\<close>

lemma row_block_cells:
  fixes flds :: "field list"
  assumes "rowidx < numrows" and "length result_table = (numrows + 1) * length flds"
  shows "run_cells (\<lambda>i. run_bind (table_entry result_table (i + (rowidx + 1) * length flds))
      (\<lambda>raw. Inr (h (flds ! i) raw))) [0..<length flds]
    = Inr (map2 h flds (take (length flds) (drop ((rowidx + 1) * length flds) result_table)))"
proof -
  let ?n = "length flds"
  let ?row = "take ?n (drop ((rowidx + 1) * ?n) result_table)"
  have bound: "i + (rowidx + 1) * ?n < length result_table" if "i < ?n" for i
    using row_block_index [OF that assms(1)] assms(2) by simp
  have "(rowidx + 2) * ?n \<le> (numrows + 1) * ?n"
    using assms(1) by (intro mult_le_mono1) simp
  then have row: "length ?row = ?n" by (simp add: assms(2))
  have entry: "table_entry result_table (i + (rowidx + 1) * ?n) = Inr (?row ! i)" if "i < ?n" for i
    using bound [OF that] that by (simp add: table_entry_def add.commute)
  have "run_cells (\<lambda>i. run_bind (table_entry result_table (i + (rowidx + 1) * ?n))
      (\<lambda>raw. Inr (h (flds ! i) raw))) [0..<?n] = Inr (map (\<lambda>i. h (flds ! i) (?row ! i)) [0..<?n])"
    by (rule run_cells_map) (simp only: entry set_upt atLeastLessThan_iff run_bind_simps)
  then show ?thesis by (simp only: map2_nth_upt [OF refl row])
qed

lemma chop_len_spec:
  "n \<le> length s \<Longrightarrow> chop_len s n \<le> n \<and> take n s = take (chop_len s n) s @ replicate (n - chop_len s n) CHR '' ''
     \<and> (0 < chop_len s n \<longrightarrow> s ! (chop_len s n - 1) \<noteq> CHR '' '')"
proof (induction n)
  case (Suc n)
  show ?case
  proof (cases "s ! n = CHR '' ''")
    case True
    have le: "chop_len s n \<le> n" using Suc by simp
    have "take (Suc n) s = take n s @ [CHR '' '']"
      using Suc.prems True by (simp add: take_Suc_conv_app_nth)
    also have "\<dots> = take (chop_len s n) s @ replicate (n - chop_len s n) CHR '' '' @ [CHR '' '']"
      using Suc by simp
    also have "\<dots> = take (chop_len s n) s @ replicate (Suc n - chop_len s n) CHR '' ''"
      using le by (simp add: Suc_diff_le replicate_append_same)
    finally show ?thesis using Suc True by simp
  qed simp
qed simp

section \<open>The properties\<close>

text \<open>
  C6: An integer column of MySQL, PostgreSQL, mSQL, SQLite and SQLite3 is read back as the
  number the server has printed: for every number of the signed range of the registered width, and,
  where the column is registered unsigned, for every number of the unsigned range, except that one of
  \<open>2 ^ 63\<close> or more in a column of eight bytes is read as \<open>2 ^ 63 - 1\<close>. The type translation and the row
  reader agree on the member of the union.
\<close>

theorem integer_columns_roundtrip:
  "(fst (mysql_field_type m) = DBI_TYPE_INTEGER \<longrightarrow>
      integer_read (mysql_field_type m) i (c_value (mysql_cell k (make_field n (mysql_field_type m)) (Some (show_int i)))))
   \<and> (fst (translate_postgresql_type oid) = DBI_TYPE_INTEGER \<longrightarrow>
      integer_read (translate_postgresql_type oid) i
        (c_value (pgsql_cell u (make_field n (translate_postgresql_type oid)) (Some (show_int i)))))
   \<and> (fst (translate_msql_type t) = DBI_TYPE_INTEGER \<longrightarrow>
      (\<exists>c. msql_cell (make_field n (translate_msql_type t)) (Some (show_int i)) = Inr c
        \<and> integer_read (translate_msql_type t) i (c_value c)))
   \<and> (fst (translate_sqlite3_type e) = DBI_TYPE_INTEGER \<longrightarrow>
      integer_read (translate_sqlite3_type e) i
        (c_value (sqlite3_cell d (make_field n (translate_sqlite3_type e)) (Some (show_int i)))))
   \<and> (fst (translate_sqlite_type e) = DBI_TYPE_INTEGER \<longrightarrow>
      integer_read (translate_sqlite_type e) i
        (c_value (sqlite_cell d (make_field n (translate_sqlite_type e)) (Some (show_int i)))))"
  using mysql_types.integer_read [of m i] pgsql_types.integer_read [of oid i]
    msql_types.integer_read [of t i] sqlite3_types.integer_read [of e i]
    sqlite_types.integer_read [of e i] msql_types.integer_set [of t "[]"]
  by (auto simp: mysql_cell_def pgsql_cell_def msql_cell_def sqlite3_cell_def sqlite_cell_def Let_def)

text \<open>A signed number of PostgreSQL, and unsigned ones of MySQL.\<close>

theorem integer_columns_roundtrip_witness:
  "let ty = (\<lambda>t. mysql_field_type \<lparr>my_name = ''n'', my_type = t, my_charsetnr = 63, my_unsigned = True\<rparr>);
       cell = (\<lambda>t i. mysql_cell 0 (make_field ''n'' (ty t)) (Some (show_int i))) in
   signed_value (c_value (pgsql_cell id (make_field ''n'' (translate_postgresql_type 21)) (Some (show_int (- 32768)))))
     = Some (- 32768)
   \<and> unsigned_value (c_value (cell MYSQL_TINY 200)) = Some 200
   \<and> unsigned_value (c_value (cell MYSQL_LONGLONG (2 ^ 64 - 1))) = Some (2 ^ 63 - 1)"
proof -
  let ?m = "\<lambda>t. \<lparr>my_name = ''n'', my_type = t, my_charsetnr = 63, my_unsigned = True\<rparr>"
  have types: "translate_postgresql_type 21 = (DBI_TYPE_INTEGER, {DBI_INTEGER_SIZE2})"
    "mysql_field_type (?m MYSQL_TINY) = (DBI_TYPE_INTEGER, {DBI_INTEGER_UNSIGNED, DBI_INTEGER_SIZE1})"
    "mysql_field_type (?m MYSQL_LONGLONG) = (DBI_TYPE_INTEGER, {DBI_INTEGER_UNSIGNED, DBI_INTEGER_SIZE8})"
    by (simp_all add: translate_postgresql_type_def translate_mysql_type_def mysql_field_type_def)
  note all = integer_columns_roundtrip [where n = "''n''" and k = 0 and u = id and t = undefined and e = undefined and d = id]
  from all [where oid = 21 and i = "- 32768" and m = undefined] all [where oid = 0 and i = 200 and m = "?m MYSQL_TINY"]
    all [where oid = 0 and i = "2 ^ 64 - 1" and m = "?m MYSQL_LONGLONG"]
  show ?thesis
    by (simp add: types Let_def integer_read_def in_signed_range_def in_unsigned_range_def int_bits_def unsigned_read_def)
qed

text \<open>
  MySQL columns that are declared unsigned: a number of the column's width is read back
  exactly for every width below 8 bytes; in an 8-byte column a number above the signed range
  is replaced by the largest signed one, because \<open>atoll\<close> clamps it.
\<close>

theorem mysql_unsigned_columns:
  assumes "my_unsigned m" and "fst (translate_mysql_type m) = DBI_TYPE_INTEGER"
    and cell: "c = mysql_cell k (make_field (my_name m) (mysql_field_type m)) (Some (show_int i))"
  shows "DBI_INTEGER_UNSIGNED \<in> snd (mysql_field_type m)
    \<and> (DBI_INTEGER_SIZE8 \<notin> snd (mysql_field_type m) \<and> in_unsigned_range (snd (mysql_field_type m)) i
        \<longrightarrow> unsigned_value (c_value c) = Some i)
    \<and> (my_type m = MYSQL_LONGLONG \<and> 2 ^ 63 \<le> i \<longrightarrow> c_value c = D_longlong (word_of_int (2 ^ 63 - 1)))"
proof -
  have t: "fst (mysql_field_type m) = DBI_TYPE_INTEGER" "DBI_INTEGER_UNSIGNED \<in> snd (mysql_field_type m)"
    using assms by (auto simp: mysql_field_type_def split: prod.splits)
  then have cv: "c_value c = decode_integer (snd (mysql_field_type m)) (show_int i)"
    by (simp add: cell mysql_cell_def)
  have "snd (mysql_field_type m) \<inter> DBI_INTEGER_SIZEMASK = {DBI_INTEGER_SIZE8}"
    if "my_type m = MYSQL_LONGLONG"
    using that by (simp add: mysql_field_type_def translate_mysql_type_def DBI_INTEGER_SIZEMASK_def)
  then show ?thesis
    using t mysql_types.unsigned_roundtrip [OF t(1), of i] decode_integer_saturates cv by auto
qed

theorem mysql_unsigned_columns_witness:
  "c_value (mysql_cell 0 (make_field ''n'' (mysql_field_type
      \<lparr>my_name = ''n'', my_type = MYSQL_LONGLONG, my_charsetnr = 63, my_unsigned = True\<rparr>))
      (Some (show_int (2 ^ 64 - 1)))) = D_longlong (word_of_int (2 ^ 63 - 1))
   \<and> unsigned_value (c_value (mysql_cell 0 (make_field ''n'' (mysql_field_type
      \<lparr>my_name = ''n'', my_type = MYSQL_TINY, my_charsetnr = 63, my_unsigned = True\<rparr>))
      (Some (show_int 200)))) = Some 200"
proof -
  let ?big = "\<lparr>my_name = ''n'', my_type = MYSQL_LONGLONG, my_charsetnr = 63, my_unsigned = True\<rparr>"
  let ?tiny = "\<lparr>my_name = ''n'', my_type = MYSQL_TINY, my_charsetnr = 63, my_unsigned = True\<rparr>"
  have tiny: "mysql_field_type ?tiny = (DBI_TYPE_INTEGER, {DBI_INTEGER_UNSIGNED, DBI_INTEGER_SIZE1})"
    by (simp add: translate_mysql_type_def mysql_field_type_def)
  have ints: "fst (translate_mysql_type ?tiny) = DBI_TYPE_INTEGER"
      "fst (translate_mysql_type ?big) = DBI_TYPE_INTEGER"
    by (simp_all add: translate_mysql_type_def)
  have "DBI_INTEGER_SIZE8 \<notin> snd (mysql_field_type ?tiny)"
    "in_unsigned_range (snd (mysql_field_type ?tiny)) 200"
    by (simp_all add: tiny in_unsigned_range_def int_bits_def)
  moreover note mysql_unsigned_columns [OF _ ints(1) refl, of 200 0]
    mysql_unsigned_columns [OF _ ints(2) refl, of "2 ^ 64 - 1" 0]
  ultimately show ?thesis by simp
qed

text \<open>
  Null columns: MySQL and PostgreSQL flag exactly the null columns; SQLite3, SQLite and
  Oracle never flag one, so a null cannot be told from 0 or an empty value; mSQL flags it and
  then calls the conversion on the null pointer for every type but a time.
\<close>

theorem null_columns:
  "c_null (mysql_cell k f raw) = (raw = None)
   \<and> c_null (pgsql_cell u f raw) = (raw = None)
   \<and> \<not> c_null (sqlite3_cell d f raw) \<and> \<not> c_null (sqlite_cell d f raw)
   \<and> \<not> c_null (oracle_cell chop f len col)
   \<and> (fst (translate_msql_type t) \<noteq> DBI_TYPE_DATETIME \<longrightarrow>
       msql_cell (make_field n (translate_msql_type t)) None = Inl NullDeref)"
proof (intro conjI)
  show "c_null (mysql_cell k f raw) = (raw = None)" "c_null (pgsql_cell u f raw) = (raw = None)"
    by (simp_all add: mysql_cell_def pgsql_cell_def split: option.split dbi_type.split)
  show "\<not> c_null (sqlite3_cell d f raw)" "\<not> c_null (sqlite_cell d f raw)"
    by (simp_all add: sqlite3_cell_def sqlite_cell_def split: option.split dbi_type.split)
  show "\<not> c_null (oracle_cell chop f len col)"
    by (simp add: oracle_cell_def Let_def split: dbi_type.split)
  show "fst (translate_msql_type t) \<noteq> DBI_TYPE_DATETIME \<longrightarrow>
     msql_cell (make_field n (translate_msql_type t)) None = Inl NullDeref"
    using msql_types.integer_set [of t "[]"] msql_types.decimal_set [of t "[]"]
    by (cases "fst (translate_msql_type t)") (simp_all add: msql_cell_def Let_def)
qed

theorem null_columns_witness:
  "msql_cell (make_field ''n'' (translate_msql_type INT_TYPE)) None = Inl NullDeref"
proof -
  have "fst (translate_msql_type INT_TYPE) \<noteq> DBI_TYPE_DATETIME"
    by (simp add: translate_msql_type_def)
  then show ?thesis using null_columns by blast
qed

text \<open>
  SQLite3 and SQLite: for a result table as the library returns it, the column names and
  \<open>numrows\<close> rows of as many columns as there are fields, reading row \<open>rowidx\<close> stays inside the
  table and decodes exactly that row, column by column.
\<close>

theorem sqlite3_row_data:
  assumes "rowidx < numrows" and "length result_table = (numrows + 1) * length flds"
  defines "row \<equiv> take (length flds) (drop ((rowidx + 1) * length flds) result_table)"
  shows "sqlite3_get_row_data decode flds result_table rowidx = Inr (map2 (sqlite3_cell decode) flds row)
    \<and> sqlite_get_row_data decode flds result_table rowidx = Inr (map2 (sqlite_cell decode) flds row)"
  using row_block_cells [OF assms(1,2), folded row_def, of "sqlite3_cell decode"]
    row_block_cells [OF assms(1,2), folded row_def, of "sqlite_cell decode"]
  by (simp add: sqlite3_get_row_data_def sqlite_get_row_data_def)

theorem sqlite3_row_data_witness:
  "sqlite3_get_row_data id [make_field ''a'' (DBI_TYPE_STRING, {})]
     [Some ''a'', Some ''x'', None] 1 = Inr [empty_cell]"
  using sqlite3_row_data [of 1 2 "[Some ''a'', Some ''x'', None]"
      "[make_field ''a'' (DBI_TYPE_STRING, {})]" id]
  by (simp add: sqlite3_cell_def)

text \<open>
  Oracle: a \<open>NUMBER\<close> is registered as an integer only when its scale is 0; a negative scale,
  which means a whole number, becomes a large unsigned byte and gives a decimal.
\<close>

theorem oracle_number_scale:
  assumes "- 128 \<le> sc" and "sc < 128"
  shows "oracle_get_field_info [(name, SQLT_NUM, sc)]
    = [make_field name (if sc = 0 then (DBI_TYPE_INTEGER, {DBI_INTEGER_SIZE8})
                        else (DBI_TYPE_DECIMAL, {DBI_DECIMAL_SIZE8}))]"
proof -
  have "(word_of_int sc :: 8 word) = 0 \<longleftrightarrow> sc = 0"
  proof
    assume "(word_of_int sc :: 8 word) = 0"
    then have "sint (word_of_int sc :: 8 word) = 0" by simp
    then show "sc = 0" using assms sint_word_of_int_id [where 'a = 8, of sc] by simp
  qed simp
  then have "(0 < (word_of_int sc :: 8 word)) \<longleftrightarrow> sc \<noteq> 0"
    by (simp add: word_neq_0_conv [symmetric] del: word_neq_0_conv)
  then show ?thesis by (simp add: oracle_get_field_info_def translate_oracle_type_def)
qed

theorem oracle_number_scale_witness:
  "oracle_get_field_info [(''n'', SQLT_NUM, - 2)] = [make_field ''n'' (DBI_TYPE_DECIMAL, {DBI_DECIMAL_SIZE8})]"
  using oracle_number_scale [of "- 2" "''n''"] by simp

text \<open>
  Oracle: with \<open>oracle_chop_blanks\<close> a string column loses exactly its trailing blanks, and its
  size is the length of what is left.
\<close>

theorem oracle_chop_blanks:
  assumes "f_type f = DBI_TYPE_STRING" and "len \<le> length col" and "0 < len" and "hd col \<noteq> CHR 0x00"
  shows "\<exists>s k. oracle_cell 1 f len col = sized_cell s (length s)
    \<and> take len col = s @ replicate k CHR '' '' \<and> (s \<noteq> [] \<longrightarrow> last s \<noteq> CHR '' '')"
proof -
  let ?t = "take len col" and ?l = "chop_len (take len col) len"
  have len: "length ?t = len" using assms(2) by simp
  have hd: "?t \<noteq> []" "hd ?t \<noteq> CHR 0x00" using assms by (auto simp: hd_take)
  have "take len ?t = ?t" by simp
  then have spec: "?l \<le> len" "?t = take ?l ?t @ replicate (len - ?l) CHR '' ''"
    "0 < ?l \<longrightarrow> ?t ! (?l - 1) \<noteq> CHR '' ''"
    using chop_len_spec [of len ?t] len by (metis le_refl)+
  have "last (take ?l ?t) = ?t ! (?l - 1)" if "0 < ?l"
    using that spec(1) len hd(1) by (subst last_conv_nth) (auto simp: min_def)
  then have "oracle_cell 1 f len col = sized_cell (take ?l ?t) (length (take ?l ?t))
      \<and> ?t = take ?l ?t @ replicate (len - ?l) CHR '' ''
      \<and> (take ?l ?t \<noteq> [] \<longrightarrow> last (take ?l ?t) \<noteq> CHR '' '')"
    using spec hd assms(1) len by (auto simp: oracle_cell_def Let_def)
  then show ?thesis by blast
qed

theorem oracle_chop_blanks_witness:
  "\<exists>s k. oracle_cell 1 (make_field ''c'' (DBI_TYPE_STRING, {})) 4 ''ab  ?'' = sized_cell s (length s)
    \<and> take 4 ''ab  ?'' = s @ replicate k CHR '' '' \<and> (s \<noteq> [] \<longrightarrow> last s \<noteq> CHR '' '')"
  by (rule oracle_chop_blanks) simp_all

text \<open>The date a driver means: what \<open>mktime\<close> has to be given for it.\<close>

definition civil_tm :: "nat \<Rightarrow> nat \<Rightarrow> nat \<Rightarrow> nat \<Rightarrow> nat \<Rightarrow> nat \<Rightarrow> tm" where
  "civil_tm y m d h mi s = \<lparr>tm_sec = int s, tm_min = int mi, tm_hour = int h, tm_mday = int d,
     tm_mon = int m - 1, tm_year = int y - 1900\<rparr>"

definition oracle_date_bytes :: "nat \<Rightarrow> nat \<Rightarrow> nat \<Rightarrow> nat \<Rightarrow> nat \<Rightarrow> nat \<Rightarrow> string" where
  "oracle_date_bytes y m d h mi s =
     map char_of [y div 100 + 100, y mod 100 + 100, m, d, h + 1, mi + 1, s + (1::nat)]"

lemma schar_char_of: "n < 128 \<Longrightarrow> schar (char_of n) = int n"
  by (simp add: schar_def uchar_def)

lemma schar_high_char_of: "128 \<le> n \<Longrightarrow> n < 256 \<Longrightarrow> schar (char_of n) = int n - 256"
  by (simp add: schar_def uchar_def)



lemma blob_rest_concat: "blob_rest data segs = (length (data @ concat segs), data @ concat segs)"
  by (induction segs arbitrary: data) simp_all



end
