(* ===== verification/IngresResults.thy ===== *)
theory IngresResults
  imports IngresDate RowData
begin

text \<open>
  How the Ingres driver fetches a result: \<open>ingres_field\<close> and \<open>ingres_results\<close>. The OpenAPI
  delivers a row in pieces: a run of short columns with one call of \<open>IIapi_getColumns\<close>, a long
  column (a blob) with one call per segment. What the calls answer, one after the other, is a
  parameter, a list as far as they are known: a call behind its end waits for an answer, and if the
  loop is still running then, it has not returned. It ends only by an answer that says so.
\<close>

section \<open>Columns and answers\<close>

record descriptor =
  ds_columnName :: string
  ds_dataType :: ii_type
  ds_length :: nat
  ds_precision :: nat

text \<open>
  A data value after a call: \<open>dv_value\<close> is the memory that may be read from the start of the
  block on. The driver allocates \<open>ds_length + 1\<close> bytes; the allocator may add some.
\<close>

record colval =
  dv_null :: bool
  dv_length :: nat
  dv_value :: string

datatype columns_answer = Columns "colval list" bool | No_data | Failed

definition is_blob :: "descriptor \<Rightarrow> bool" where
  "is_blob d = (ds_dataType d \<in> {IIAPI_LVCH_TYPE, IIAPI_LBYTE_TYPE, IIAPI_LNVCH_TYPE, IIAPI_LTXT_TYPE})"

section \<open>One short column\<close>

text \<open>\<open>*(unsigned short*)\<close> of a block, and the bytes behind it.\<close>

definition counted_length :: "string \<Rightarrow> nat run" where
  "counted_length block = run_bind (read_word 2 block) (\<lambda>w. Inr (unat (w :: 16 word)))"

definition counted_bytes :: "string \<Rightarrow> string run" where
  "counted_bytes block =
     run_bind (counted_length block) (\<lambda>len.
       if 2 + len \<le> length block then Inr (take len (drop 2 block)) else Inl ReadPastEnd)"

text \<open>
  \<open>convert\<close> is \<open>IIapi_convertData\<close> to a character string, \<open>None\<close> if it fails. The value is the
  cell and the result of \<open>ingres_field\<close>, which its caller ignores.
\<close>

definition ingres_converted ::
    "(descriptor \<Rightarrow> colval \<Rightarrow> string option) \<Rightarrow> descriptor \<Rightarrow> colval \<Rightarrow> (cell \<times> int) run" where
  "ingres_converted convert d v =
     (case convert d v of None \<Rightarrow> Inr (empty_cell, 0)
      | Some val \<Rightarrow>
          if ds_length d + ds_precision d + 32 < length val then Inl BufferOverflow
          else if ds_dataType d = IIAPI_DTE_TYPE
          then run_bind (ingres_date (c_string (val @ [CHR 0x00]))) (\<lambda>t.
            Inr (case t of None \<Rightarrow> empty_cell | Some t \<Rightarrow> value_cell (D_timegm t), 1))
          else
            let len = (if ds_dataType d \<in> {IIAPI_DEC_TYPE, IIAPI_MNY_TYPE}
                       then chop_len val (length val) else length val) in
            Inr (sized_cell (take len val) len, 1))"

definition ingres_field ::
    "(descriptor \<Rightarrow> colval \<Rightarrow> string option) \<Rightarrow> descriptor \<Rightarrow> colval \<Rightarrow> (cell \<times> int) run" where
  "ingres_field convert d v =
     (let ty = ds_dataType d in
      if ty \<in> {IIAPI_NCHA_TYPE, IIAPI_NVCH_TYPE, IIAPI_DEC_TYPE, IIAPI_MNY_TYPE, IIAPI_DTE_TYPE}
      then ingres_converted convert d v
      else if ty \<in> {IIAPI_VCH_TYPE, IIAPI_VBYTE_TYPE, IIAPI_TXT_TYPE}
      then run_bind (counted_bytes (dv_value v)) (\<lambda>s. Inr (sized_cell s (length s), 1))
      else if ty \<in> {IIAPI_BYTE_TYPE, IIAPI_CHR_TYPE, IIAPI_CHA_TYPE, IIAPI_LOGKEY_TYPE, IIAPI_TABKEY_TYPE}
      then
        if dv_length v < length (dv_value v)
        then Inr (sized_cell (take (dv_length v) (dv_value v)) (dv_length v), 1)
        else Inl BufferOverflow
      else if ty \<in> {IIAPI_INT_TYPE, IIAPI_FLT_TYPE}
      then
        if 8 \<le> length (dv_value v)
        then Inr (value_cell (raw_member (ingres_classify_field ty (ds_length d)) (dv_value v)), 1)
        else Inl ReadPastEnd
      else Inr (empty_cell, 0))"
section \<open>A row\<close>

text \<open>
  What a loop of calls comes to: the data; the value that \<open>ingres_results\<close> returns when it
  stops there, 1 for \<open>IIAPI_ST_NO_DATA\<close> and 0 for an error; or it is still waiting for an answer. A column of a row holds a cell,
  or, for a blob without a byte, a pointer to the block that \<open>realloc(blob, 0)\<close> has freed.
\<close>

datatype 'a fetched = Got 'a | Stopped int | Waiting

datatype slot = Field cell | Freed

text \<open>The calls for a run of short columns: \<open>do ... while(gcParm.gc_moreSegments)\<close>.\<close>

fun get_group :: "columns_answer list \<Rightarrow> colval list fetched \<times> columns_answer list" where
  "get_group [] = (Waiting, [])"
| "get_group (No_data # answers) = (Stopped 1, answers)"
| "get_group (Failed # answers) = (Stopped 0, answers)"
| "get_group (Columns vs moreSegments # answers) = (if moreSegments then get_group answers else (Got vs, answers))"

text \<open>
  The calls for a blob: every segment is appended; a block of \<open>blobmax\<close> bytes that is too small
  is doubled, once.
\<close>

definition append_segment :: "string \<Rightarrow> nat \<Rightarrow> string \<Rightarrow> (string \<times> nat) run" where
  "append_segment blob blobmax block =
     run_bind (counted_length block) (\<lambda>len.
       let blobmax = (if length blob + len > blobmax then blobmax * 2 else blobmax) in
       if length blob + len > blobmax then Inl BufferOverflow
       else run_bind (counted_bytes block) (\<lambda>s. Inr (blob @ s, blobmax)))"

definition blob_slot :: "bool \<Rightarrow> string \<Rightarrow> slot" where
  "blob_slot null blob =
     (if null then Field null_cell else if blob = [] then Freed else Field (sized_cell blob (length blob)))"

fun get_blob :: "string \<Rightarrow> nat \<Rightarrow> columns_answer list \<Rightarrow> (slot fetched \<times> columns_answer list) run" where
  "get_blob blob blobmax [] = Inr (Waiting, [])"
| "get_blob blob blobmax (No_data # answers) = Inr (Stopped 1, answers)"
| "get_blob blob blobmax (Failed # answers) = Inr (Stopped 0, answers)"
| "get_blob blob blobmax (Columns vs moreSegments # answers) =
     run_bind (append_segment blob blobmax (dv_value (hd vs))) (\<lambda>(blob, blobmax).
       if moreSegments then get_blob blob blobmax answers
       else Inr (Got (blob_slot (dv_null (hd vs)) blob), answers))"

definition short_cell :: "(descriptor \<Rightarrow> colval \<Rightarrow> string option) \<Rightarrow> descriptor \<Rightarrow> colval \<Rightarrow> cell run" where
  "short_cell convert d v =
     (if dv_null v then Inr null_cell else run_bind (ingres_field convert d v) (\<lambda>(c, ok). Inr c))"

text \<open>
  The columns that come next, a blob or the short columns before the next blob, and the loop
  over the columns of one row.
\<close>

definition get_piece ::
    "(descriptor \<Rightarrow> colval \<Rightarrow> string option) \<Rightarrow> descriptor \<Rightarrow> descriptor list \<Rightarrow> columns_answer list
       \<Rightarrow> (slot list fetched \<times> columns_answer list) run" where
  "get_piece convert d ds answers =
     (if is_blob d
      then run_bind (get_blob [] (ds_length d) answers) (\<lambda>(r, answers).
        Inr (case r of Stopped v \<Rightarrow> Stopped v | Waiting \<Rightarrow> Waiting | Got s \<Rightarrow> Got [s], answers))
      else
        let cols = d # takeWhile (\<lambda>d. \<not> is_blob d) ds in
        case get_group answers of (r, answers) \<Rightarrow>
          (case r of Stopped v \<Rightarrow> Inr (Stopped v, answers)
           | Waiting \<Rightarrow> Inr (Waiting, answers)
           | Got vs \<Rightarrow>
               run_bind (run_cells (\<lambda>i. short_cell convert (cols ! i) (vs ! i)) [0..<length cols])
                 (\<lambda>cells. Inr (Got (map Field cells), answers))))"

function get_row ::
    "(descriptor \<Rightarrow> colval \<Rightarrow> string option) \<Rightarrow> descriptor list \<Rightarrow> columns_answer list
       \<Rightarrow> (slot list fetched \<times> columns_answer list) run" where
  "get_row convert [] answers = Inr (Got [], answers)"
| "get_row convert (d # ds) answers =
     (let rest = (if is_blob d then ds else dropWhile (\<lambda>d. \<not> is_blob d) ds) in
      run_bind (get_piece convert d ds answers) (\<lambda>(r, answers).
        case r of Stopped v \<Rightarrow> Inr (Stopped v, answers)
        | Waiting \<Rightarrow> Inr (Waiting, answers)
        | Got slots \<Rightarrow>
            run_bind (get_row convert rest answers) (\<lambda>(r, answers).
              Inr (case r of Stopped v \<Rightarrow> Stopped v | Waiting \<Rightarrow> Waiting | Got others \<Rightarrow> Got (slots @ others), answers))))"
  by pat_completeness auto
termination get_row
  by (relation "measure (\<lambda>(c, ds, as). length ds)") (auto simp: less_Suc_eq_le length_dropWhile_le)

section \<open>All rows\<close>

text \<open>
  The rows go into an array that is made four times as large when it is full; \<open>room\<close> is the
  number of its elements. \<open>slot\<close> is the element that \<open>_dbd_row_finalize\<close> of libdbi writes for the
  row \<open>count\<close>, \<open>created\<close> the number of elements that \<open>_dbd_result_create\<close> allocates for a number of rows. The
  value is what \<open>ingres_results\<close> returns, and the rows; \<open>numrows_matched\<close> is their number. It is \<open>None\<close> when the
  loop has not come to an end with the answers, or runs for ever because there is no column to fetch.
\<close>

definition INITIAL_ROWS :: nat where
  "INITIAL_ROWS = 10"

definition ROW_FACTOR :: nat where
  "ROW_FACTOR = 4"

partial_function (option) ingres_rows ::
    "(descriptor \<Rightarrow> colval \<Rightarrow> string option) \<Rightarrow> (nat \<Rightarrow> nat) \<Rightarrow> descriptor list \<Rightarrow> nat \<Rightarrow> nat \<Rightarrow> nat
       \<Rightarrow> columns_answer list \<Rightarrow> slot list list \<Rightarrow> (int \<times> slot list list) run option" where
  "ingres_rows convert slot desc count limit room answers rows =
     (let (limit, room) = (if count = limit then (limit * ROW_FACTOR, limit * ROW_FACTOR) else (limit, room)) in
      case get_row convert desc answers of
        Inl e \<Rightarrow> Some (Inl e)
      | Inr (Stopped v, answers) \<Rightarrow> Some (Inr (v, rows))
      | Inr (Waiting, answers) \<Rightarrow> None
      | Inr (Got row, answers) \<Rightarrow>
          if slot count < room
          then ingres_rows convert slot desc (Suc count) limit room answers (rows @ [row])
          else Some (Inl BufferOverflow))"

definition ingres_results ::
    "(descriptor \<Rightarrow> colval \<Rightarrow> string option) \<Rightarrow> (nat \<Rightarrow> nat) \<Rightarrow> (nat \<Rightarrow> nat) \<Rightarrow> descriptor list
       \<Rightarrow> columns_answer list \<Rightarrow> (int \<times> slot list list) run option" where
  "ingres_results convert slot created desc answers =
     ingres_rows convert slot desc 0 INITIAL_ROWS (created INITIAL_ROWS) answers []"

section \<open>Every fetch comes to an end\<close>

lemma fetched_case_eq:
  "(case r of Got x \<Rightarrow> f x | Stopped v \<Rightarrow> g v | Waiting \<Rightarrow> w) = y
     \<longleftrightarrow> (\<exists>x. r = Got x \<and> f x = y) \<or> (\<exists>v. r = Stopped v \<and> g v = y) \<or> r = Waiting \<and> w = y"
  by (cases r) auto

lemma get_group_shorter: "get_group answers = (Got vs, rest) \<Longrightarrow> length rest < length answers"
  by (induction answers rule: get_group.induct) (auto split: if_splits)

lemma get_blob_shorter: "get_blob blob m answers = Inr (Got s, rest) \<Longrightarrow> length rest < length answers"
  by (induction blob m answers rule: get_blob.induct)
    (auto simp: run_bind_eq_Inr less_SucI split: if_splits)

lemma get_piece_shorter:
  assumes "get_piece convert d ds answers = Inr (Got s, rest)"
  shows "length rest < length answers"
proof (cases "is_blob d")
  case True
  then obtain r where "get_blob [] (ds_length d) answers = Inr (r, rest)" "\<exists>x. r = Got x"
    using assms by (auto simp: get_piece_def run_bind_eq_Inr fetched_case_eq)
  then show ?thesis using get_blob_shorter by blast
next
  case False
  then obtain r where "get_group answers = (r, rest)" "\<exists>x. r = Got x"
    using assms by (auto simp: get_piece_def run_bind_eq_Inr Let_def fetched_case_eq split: prod.splits)
  then show ?thesis using get_group_shorter by blast
qed

lemma get_row_GotE:
  assumes "get_row convert (d # ds) answers = Inr (Got row, rest)"
  obtains slots mid others where "get_piece convert d ds answers = Inr (Got slots, mid)"
    and "get_row convert (if is_blob d then ds else dropWhile (\<lambda>d. \<not> is_blob d) ds) mid = Inr (Got others, rest)"
    and "row = slots @ others"
  using assms by (auto simp: run_bind_eq_Inr Let_def fetched_case_eq simp del: dropWhile.simps)

lemma get_row_not_longer: "get_row convert desc answers = Inr (Got row, rest) \<Longrightarrow> length rest \<le> length answers"
proof (induction "length desc" arbitrary: desc answers row rule: less_induct)
  case less
  show ?case
  proof (cases desc)
    case (Cons d ds)
    let ?rest = "if is_blob d then ds else dropWhile (\<lambda>d. \<not> is_blob d) ds"
    obtain slots mid others where piece: "get_piece convert d ds answers = Inr (Got slots, mid)"
      and "get_row convert ?rest mid = Inr (Got others, rest)"
      using less.prems unfolding Cons by (rule get_row_GotE)
    moreover have "length ?rest < length desc"
      by (simp add: Cons less_Suc_eq_le)
    ultimately have "length rest \<le> length mid" using less.hyps by blast
    with get_piece_shorter [OF piece] show ?thesis by simp
  qed (use less.prems in simp)
qed

lemma get_row_shorter:
  assumes "desc \<noteq> []" and "get_row convert desc answers = Inr (Got row, rest)"
  shows "length rest < length answers"
proof -
  obtain d ds where "desc = d # ds" using assms(1) by (cases desc) auto
  with assms(2) obtain slots mid where piece: "get_piece convert d ds answers = Inr (Got slots, mid)"
    and "length rest \<le> length mid"
    by (metis get_row_GotE get_row_not_longer)
  with get_piece_shorter [OF piece] show ?thesis by simp
qed

text \<open>
  The answers that end a fetch, and what an operation leaves of them: data leave them in place, a stop is one of
  them, and only without one the driver goes on waiting.
\<close>

definition ended_by :: "int \<Rightarrow> columns_answer list \<Rightarrow> bool" where
  "ended_by v answers \<longleftrightarrow> v = 1 \<and> No_data \<in> set answers \<or> v = 0 \<and> Failed \<in> set answers"

definition leaves_end :: "'a fetched \<Rightarrow> columns_answer list \<Rightarrow> columns_answer list \<Rightarrow> bool" where
  "leaves_end r answers rest \<longleftrightarrow>
     (case r of
        Got x \<Rightarrow> (No_data \<in> set rest \<longleftrightarrow> No_data \<in> set answers) \<and> (Failed \<in> set rest \<longleftrightarrow> Failed \<in> set answers)
      | Stopped v \<Rightarrow> ended_by v answers
      | Waiting \<Rightarrow> No_data \<notin> set answers \<and> Failed \<notin> set answers)"

lemma get_group_end: "get_group answers = (r, rest) \<Longrightarrow> leaves_end r answers rest"
  by (induction answers rule: get_group.induct)
    (auto simp: leaves_end_def ended_by_def split: if_split_asm fetched.split)

lemma get_blob_end: "get_blob blob m answers = Inr (r, rest) \<Longrightarrow> leaves_end r answers rest"
proof (induction blob m answers rule: get_blob.induct)
  case (4 blob m vs moreSegments answers)
  then obtain b n where segment: "append_segment blob m (dv_value (hd vs)) = Inr (b, n)"
    by (auto simp: run_bind_eq_Inr)
  have "leaves_end r answers rest" if moreSegments
    using "4.IH" [OF segment refl that] "4.prems" that segment by simp
  then show ?case using "4.prems" segment
    by (auto simp: leaves_end_def ended_by_def split: if_split_asm fetched.split)
qed (auto simp: leaves_end_def ended_by_def)

lemma get_piece_end:
  assumes "get_piece convert d ds answers = Inr (r, rest)"
  shows "leaves_end r answers rest"
proof (cases "is_blob d")
  case True
  then obtain r' where "get_blob [] (ds_length d) answers = Inr (r', rest)"
    "r = (case r' of Stopped v \<Rightarrow> Stopped v | Waiting \<Rightarrow> Waiting | Got s \<Rightarrow> Got [s])"
    using assms by (auto simp: get_piece_def run_bind_eq_Inr)
  then show ?thesis using get_blob_end [of "[]"] by (fastforce simp: leaves_end_def split: fetched.splits)
next
  case False
  obtain r' rest' where group: "get_group answers = (r', rest')" by fastforce
  then have "rest' = rest \<and> (case r' of Got vs \<Rightarrow> \<exists>x. r = Got x | Stopped v \<Rightarrow> r = Stopped v | Waiting \<Rightarrow> r = Waiting)"
    using assms False by (cases r') (auto simp: get_piece_def run_bind_eq_Inr Let_def)
  then show ?thesis using get_group_end [OF group] by (auto simp: leaves_end_def split: fetched.splits)
qed

lemma get_row_end_kept: "get_row convert desc answers = Inr (r, rest) \<Longrightarrow> leaves_end r answers rest"
proof (induction "length desc" arbitrary: desc answers r rest rule: less_induct)
  case less
  show ?case
  proof (cases desc)
    case Nil
    then show ?thesis using less.prems by (auto simp: leaves_end_def)
  next
    case (Cons d ds)
    let ?rest = "if is_blob d then ds else dropWhile (\<lambda>d. \<not> is_blob d) ds"
    have shorter: "length ?rest < length desc" by (simp add: Cons less_Suc_eq_le)
    have "get_row convert (d # ds) answers = Inr (r, rest)" using less.prems Cons by simp
    then obtain r1 mid where piece: "get_piece convert d ds answers = Inr (r1, mid)"
      and cont: "(case r1 of Stopped v \<Rightarrow> Inr (Stopped v, mid) | Waiting \<Rightarrow> Inr (Waiting, mid)
        | Got slots \<Rightarrow> run_bind (get_row convert ?rest mid) (\<lambda>(r, answers).
            Inr (case r of Stopped v \<Rightarrow> Stopped v | Waiting \<Rightarrow> Waiting | Got others \<Rightarrow> Got (slots @ others), answers)))
        = Inr (r, rest)"
      by (auto simp: run_bind_eq_Inr Let_def simp del: dropWhile.simps)
    note first = get_piece_end [OF piece]
    show ?thesis
    proof (cases r1)
      case (Got slots)
      then obtain r2 where tail: "get_row convert ?rest mid = Inr (r2, rest)"
        and r: "r = (case r2 of Stopped v \<Rightarrow> Stopped v | Waiting \<Rightarrow> Waiting | Got others \<Rightarrow> Got (slots @ others))"
        using cont by (auto simp: run_bind_eq_Inr)
      from less.hyps [OF shorter tail] first r Got show ?thesis
        by (auto simp: leaves_end_def ended_by_def split: fetched.splits)
    qed (use cont first in \<open>auto simp: leaves_end_def\<close>)
  qed
qed

lemma ingres_rows_steps:
  "get_row convert desc answers = Inl e \<Longrightarrow>
    ingres_rows convert slot desc count limit room answers rows = Some (Inl e)"
  "get_row convert desc answers = Inr (Stopped v, rest) \<Longrightarrow>
    ingres_rows convert slot desc count limit room answers rows = Some (Inr (v, rows))"
  "get_row convert desc answers = Inr (Waiting, rest) \<Longrightarrow>
    ingres_rows convert slot desc count limit room answers rows = None"
  by (subst ingres_rows.simps, simp add: Let_def)+

lemma ingres_rows_ends:
  assumes "desc \<noteq> []"
  shows "(No_data \<in> set answers \<or> Failed \<in> set answers \<longrightarrow>
        (\<exists>r. ingres_rows convert slot desc count limit room answers rows = Some r))
    \<and> (ingres_rows convert slot desc count limit room answers rows = Some (Inr (v, rows')) \<longrightarrow> ended_by v answers)"
proof (induction "length answers" arbitrary: count limit room answers rows rule: less_induct)
  case less
  show ?case
  proof (cases "get_row convert desc answers")
    case (Inl e)
    then show ?thesis by (simp add: ingres_rows_steps)
  next
    case (Inr p)
    obtain r rest where p: "p = (r, rest)" by (cases p)
    note row = Inr [unfolded p]
    note kept = get_row_end_kept [OF row]
    show ?thesis
    proof (cases r)
      case (Got x)
      then have "length rest < length answers" using get_row_shorter [OF assms] row by blast
      from less [OF this] row Got kept show ?thesis
        by (subst (1 2) ingres_rows.simps) (auto simp: Let_def leaves_end_def ended_by_def)
    qed (use row kept in \<open>auto simp: ingres_rows_steps leaves_end_def\<close>)
  qed
qed

section \<open>What the server sends for a row\<close>

text \<open>
  A short column, or a long one with its segments; a segment is preceded by its length in two
  bytes, and \<open>fill\<close> is what is behind it in the block.
\<close>

datatype column_data = Short colval | Long bool "(string \<times> string) list"

definition len16 :: "nat \<Rightarrow> string" where
  "len16 n = [char_of (n mod 256), char_of (n div 256)]"

definition segment :: "bool \<Rightarrow> string \<times> string \<Rightarrow> colval" where
  "segment null sf = \<lparr>dv_null = null, dv_length = length (fst sf) + 2,
     dv_value = len16 (length (fst sf)) @ fst sf @ snd sf\<rparr>"

fun segment_answers :: "bool \<Rightarrow> (string \<times> string) list \<Rightarrow> columns_answer list" where
  "segment_answers null [] = []"
| "segment_answers null (s # ss) = Columns [segment null s] (ss \<noteq> []) # segment_answers null ss"

fun is_short :: "descriptor \<times> column_data \<Rightarrow> bool" where
  "is_short (d, Short v) = True"
| "is_short (d, Long null ss) = False"

fun short_value :: "descriptor \<times> column_data \<Rightarrow> colval" where
  "short_value (d, Short v) = v"
| "short_value (d, Long null ss) = \<lparr>dv_null = null, dv_length = 0, dv_value = []\<rparr>"

text \<open>The answers to the calls for one row.\<close>

function row_answers :: "(descriptor \<times> column_data) list \<Rightarrow> columns_answer list" where
  "row_answers [] = []"
| "row_answers ((d, Long null ss) # cs) = segment_answers null ss @ row_answers cs"
| "row_answers ((d, Short v) # cs) =
     Columns (v # map short_value (takeWhile is_short cs)) False # row_answers (dropWhile is_short cs)"
  by pat_completeness auto
termination row_answers
  by (relation "measure length") (auto simp: less_Suc_eq_le length_dropWhile_le)

text \<open>The data fit their descriptors, and \<open>ingres_field\<close> can read the short columns.\<close>

fun fits :: "(descriptor \<Rightarrow> colval \<Rightarrow> string option) \<Rightarrow> descriptor \<times> column_data \<Rightarrow> bool" where
  "fits convert (d, Short v) \<longleftrightarrow> \<not> is_blob d \<and> defined (short_cell convert d v)"
| "fits convert (d, Long null ss) \<longleftrightarrow> is_blob d \<and> ss \<noteq> []
     \<and> (\<forall>(s, f) \<in> set ss. length s \<le> ds_length d \<and> length s < 2 ^ 16)"

fun expected :: "(descriptor \<Rightarrow> colval \<Rightarrow> string option) \<Rightarrow> descriptor \<times> column_data \<Rightarrow> slot" where
  "expected convert (d, Short v) = Field (case short_cell convert d v of Inr c \<Rightarrow> c | Inl e \<Rightarrow> empty_cell)"
| "expected convert (d, Long null ss) = blob_slot null (concat (map fst ss))"

lemma len16_read:
  assumes "n < 2 ^ 16"
  shows "counted_length (len16 n @ s) = Inr n"
proof -
  have "n div 256 < 256" using assms by simp
  then have "unat (le_word (len16 n) :: 16 word) = n"
    using assms by (simp add: le_word_def len16_def unat_word_ariths take_bit_eq_mod unsigned_of_nat)
  then show ?thesis by (simp add: counted_length_def read_word_def len16_def)
qed

lemma segment_bytes: "length s < 2 ^ 16 \<Longrightarrow> counted_bytes (dv_value (segment null (s, f))) = Inr s"
  using len16_read [of "length s" "s @ f"]
  by (simp add: counted_bytes_def segment_def len16_def)

lemma append_segment_fits:
  assumes "length s < 2 ^ 16" and "length s \<le> m" and "length blob \<le> m"
  shows "\<exists>m'. append_segment blob m (dv_value (segment null (s, f))) = Inr (blob @ s, m')
    \<and> m \<le> m' \<and> length (blob @ s) \<le> m'"
proof -
  have "counted_length (dv_value (segment null (s, f))) = Inr (length s)"
    using len16_read [OF assms(1)] by (simp add: segment_def)
  then show ?thesis using assms segment_bytes [OF assms(1), of null f]
    by (simp add: append_segment_def Let_def)
qed

text \<open>
  A blob is the concatenation of its segments: doubling the block once is enough, because a
  segment is never longer than the block.
\<close>

lemma get_blob_segments:
  assumes "ss \<noteq> []" and "\<forall>(s, f) \<in> set ss. length s \<le> m \<and> length s < 2 ^ 16" and "length blob \<le> m"
  shows "get_blob blob m (segment_answers null ss @ answers)
    = Inr (Got (blob_slot null (blob @ concat (map fst ss))), answers)"
  using assms
proof (induction ss arbitrary: blob m)
  case (Cons sf ss)
  obtain s f where sf: "sf = (s, f)" by (cases sf)
  obtain m' where m': "append_segment blob m (dv_value (segment null (s, f))) = Inr (blob @ s, m')"
    "m \<le> m'" "length (blob @ s) \<le> m'"
    using append_segment_fits [of s m blob null f] Cons.prems sf by auto
  show ?case
  proof (cases "ss = []")
    case True
    then show ?thesis using m' by (simp add: sf segment_def)
  next
    case False
    have "length t \<le> m' \<and> length t < 2 ^ 16" if "(t, g) \<in> set ss" for t g
    proof -
      have "length t \<le> m" "length t < 2 ^ 16" using Cons.prems(2) that by auto
      with m'(2) show ?thesis by simp
    qed
    then have "\<forall>(s, f) \<in> set ss. length s \<le> m' \<and> length s < 2 ^ 16" by blast
    from Cons.IH [OF False this m'(3)] show ?thesis using m' False by (simp add: sf)
  qed
qed simp

lemma takeWhile_short:
  "list_all (fits convert) cs \<Longrightarrow>
    takeWhile (\<lambda>d. \<not> is_blob d) (map fst cs) = map fst (takeWhile is_short cs)
    \<and> dropWhile (\<lambda>d. \<not> is_blob d) (map fst cs) = map fst (dropWhile is_short cs)"
proof (induction cs)
  case (Cons c cs)
  then show ?case by (cases c; cases "snd c") auto
qed simp

lemma short_run_cells:
  assumes "list_all (fits convert) cs" and "list_all is_short cs"
  shows "run_cells (\<lambda>i. short_cell convert (map fst cs ! i) (map short_value cs ! i)) [0..<length cs]
      = Inr (map (\<lambda>c. case expected convert c of Field x \<Rightarrow> x | Freed \<Rightarrow> empty_cell) cs)"
    and "\<forall>c \<in> set cs. expected convert c \<noteq> Freed"
proof -
  let ?g = "\<lambda>c. case expected convert c of Field x \<Rightarrow> x | Freed \<Rightarrow> empty_cell"
  have one: "short_cell convert (fst c) (short_value c) = Inr (?g c) \<and> expected convert c \<noteq> Freed"
    if "c \<in> set cs" for c
  proof -
    have "is_short c" using assms(2) that by (simp add: list_all_iff)
    then obtain d v where c: "c = (d, Short v)" by (cases c rule: is_short.cases) auto
    with assms(1) that have "defined (short_cell convert d v)" by (auto simp: list_all_iff)
    with c show ?thesis by (auto simp: defined_iff)
  qed
  then show "\<forall>c \<in> set cs. expected convert c \<noteq> Freed" by blast
  have "run_cells (\<lambda>i. short_cell convert (map fst cs ! i) (map short_value cs ! i)) [0..<length cs]
      = Inr (map (\<lambda>i. ?g (cs ! i)) [0..<length cs])"
    using one by (intro run_cells_map) simp
  also have "map (\<lambda>i. ?g (cs ! i)) [0..<length cs] = map ?g cs"
    by (rule nth_equalityI) simp_all
  finally show "run_cells (\<lambda>i. short_cell convert (map fst cs ! i) (map short_value cs ! i)) [0..<length cs]
      = Inr (map ?g cs)" .
qed

lemma Field_of_expected:
  "\<forall>c \<in> set cs. expected convert c \<noteq> Freed \<Longrightarrow>
    map Field (map (\<lambda>c. case expected convert c of Field x \<Rightarrow> x | Freed \<Rightarrow> empty_cell) cs) = map (expected convert) cs"
  by (induction cs) (auto split: slot.splits)

lemma get_row_answers:
  "list_all (fits convert) cs \<Longrightarrow>
    get_row convert (map fst cs) (row_answers cs @ answers) = Inr (Got (map (expected convert) cs), answers)"
proof (induction cs rule: row_answers.induct)
  case (2 d null ss cs)
  then have "get_blob [] (ds_length d) (segment_answers null ss @ row_answers cs @ answers)
      = Inr (Got (blob_slot null (concat (map fst ss))), row_answers cs @ answers)"
    using get_blob_segments [of ss "ds_length d" "[]"] by auto
  with 2 show ?case by (simp add: get_piece_def)
next
  case (3 d v cs)
  let ?short = "(d, Short v) # takeWhile is_short cs" and ?rest = "dropWhile is_short cs"
  have d: "\<not> is_blob d" and cs: "list_all (fits convert) cs" using "3.prems" by simp_all
  have tw: "takeWhile (\<lambda>d. \<not> is_blob d) (map fst cs) = map fst (takeWhile is_short cs)"
    "dropWhile (\<lambda>d. \<not> is_blob d) (map fst cs) = map fst ?rest"
    using takeWhile_short [OF cs] by simp_all
  have ok: "list_all (fits convert) ?short" "list_all is_short ?short" "list_all (fits convert) ?rest"
    using "3.prems" by (auto simp: list_all_iff dest: set_takeWhileD set_dropWhileD)
  note run = short_run_cells [OF ok(1,2)]

  have "get_piece convert d (map fst cs) (row_answers ((d, Short v) # cs) @ answers)
      = Inr (Got (map (expected convert) ?short), row_answers ?rest @ answers)"
    using run(1) Field_of_expected [OF run(2)] d by (simp add: get_piece_def tw Let_def)
  moreover have "get_row convert (map fst ?rest) (row_answers ?rest @ answers)
      = Inr (Got (map (expected convert) ?rest), answers)"
    using "3.IH" ok(3) by blast
  moreover have "map (expected convert) ?short @ map (expected convert) ?rest
      = map (expected convert) ((d, Short v) # cs)"
    by (metis append_Cons map_append takeWhile_dropWhile_id)
  ultimately show ?case using d by (simp add: tw del: row_answers.simps)
qed simp

section \<open>All rows arrive\<close>

definition end_answers :: "bool \<Rightarrow> columns_answer list" where
  "end_answers complete = [if complete then No_data else Failed]"

definition end_value :: "bool \<Rightarrow> int" where
  "end_value complete = (if complete then 1 else 0)"

lemma get_row_end:
  "desc \<noteq> [] \<Longrightarrow> get_row convert desc (end_answers complete) = Inr (Stopped (end_value complete), [])"
  by (cases desc) (simp_all add: end_answers_def end_value_def get_piece_def Let_def)

text \<open>The array before the row \<open>count\<close>: ten rows fit the first array, the enlarged one has 40 elements.\<close>

definition array_ok :: "nat \<Rightarrow> nat \<Rightarrow> nat \<Rightarrow> bool" where
  "array_ok count limit room \<longleftrightarrow>
     count \<le> 10 \<and> limit = 10 \<and> room = 11 \<or> 10 < count \<and> count \<le> 39 \<and> limit = 40 \<and> room = 40"

lemma ingres_rows_stream:
  assumes "desc \<noteq> []" and "list_all (list_all (fits convert)) rows" and "\<forall>r \<in> set rows. map fst r = desc"
    and "array_ok count limit room"
  shows "ingres_rows convert Suc desc count limit room
      (concat (map row_answers rows) @ end_answers complete) acc
    = Some (if count + length rows \<le> 39
            then Inr (end_value complete, acc @ map (map (expected convert)) rows)
            else Inl BufferOverflow)"
  using assms
proof (induction rows arbitrary: count limit room acc)
  case Nil
  then have "count \<le> 39" by (auto simp: array_ok_def)
  with Nil show ?case by (subst ingres_rows.simps) (simp add: get_row_end Let_def)
next
  case (Cons r rows)
  let ?l = "if count = limit then limit * ROW_FACTOR else limit"
  let ?r = "if count = limit then limit * ROW_FACTOR else room"
  let ?rest = "concat (map row_answers rows) @ end_answers complete"
  have row: "get_row convert desc (row_answers r @ ?rest) = Inr (Got (map (expected convert) r), ?rest)"
    using get_row_answers [of convert r ?rest] Cons.prems by auto
  have step: "ingres_rows convert Suc desc count limit room
        (concat (map row_answers (r # rows)) @ end_answers complete) acc
      = (if Suc count < ?r then ingres_rows convert Suc desc (Suc count) ?l ?r ?rest (acc @ [map (expected convert) r])
         else Some (Inl BufferOverflow))"
    by (subst ingres_rows.simps) (simp add: Let_def row)
  show ?case
  proof (cases "count \<le> 38")
    case True
    then have "array_ok (Suc count) ?l ?r" "Suc count < ?r"
      using Cons.prems(4) by (auto simp: array_ok_def ROW_FACTOR_def)
    with Cons.IH [OF Cons.prems(1) _ _ this(1)] Cons.prems(2,3) show ?thesis
      unfolding step by simp
  next
    case False
    then have "count = 39" "?r = 40" using Cons.prems(4) by (auto simp: array_ok_def)
    then show ?thesis unfolding step by simp
  qed
qed

section \<open>Numbers\<close>

text \<open>The bytes of a number in memory, the lowest first.\<close>

fun le_bytes :: "nat \<Rightarrow> int \<Rightarrow> string" where
  "le_bytes 0 i = []"
| "le_bytes (Suc n) i = char_of (nat (i mod 256)) # le_bytes n (i div 256)"

lemma length_le_bytes [simp]: "length (le_bytes n i) = n"
  by (induction n arbitrary: i) simp_all

lemma le_bytes_value: "int (foldr (\<lambda>c n. of_char c + 256 * n) (le_bytes n i) 0) = i mod 256 ^ n"
proof (induction n arbitrary: i)
  case (Suc n)
  have "(of_char (char_of (nat (i mod 256)) :: char) :: nat) = nat (i mod 256)"
    by (simp add: of_char_mod_256 nat_mod_distrib)
  then have "int (foldr (\<lambda>c n. of_char c + 256 * n) (le_bytes (Suc n) i) 0) = i mod 256 + 256 * (i div 256 mod 256 ^ n)"
    by (simp add: Suc.IH)
  also have "\<dots> = i mod 256 ^ Suc n" by (simp add: zmod_zmult2_eq)
  finally show ?case .
qed simp

lemma le_word_bytes:
  assumes "LENGTH('a::len) = 8 * n"
  shows "le_word (le_bytes n i) = (word_of_int i :: 'a word)"
proof -
  have "le_word (le_bytes n i) = (word_of_int (i mod 256 ^ n) :: 'a word)"
    unfolding le_word_def using le_bytes_value [of n i] by (metis of_int_of_nat_eq)
  moreover have "(256 :: int) ^ n = 2 ^ LENGTH('a)" by (simp add: assms power_mult)
  ultimately show ?thesis by (simp add: word_of_int_eq_iff take_bit_eq_mod)
qed

section \<open>Properties\<close>

text \<open>
  C11: The result of an Ingres query. For rows that the server sends column by column and segment by
  segment, \<open>ingres_results\<close> delivers exactly these rows, every blob the concatenation of its
  segments, as long as there are at most 39; a fortieth row is written behind the array, which
  is enlarged one element too little for the rows that libdbi counts from 1. After an error of
  the server the rows that have come so far stand as the result, with the value 0.
\<close>

theorem ingres_results_complete:
  assumes "desc \<noteq> []" and "list_all (list_all (fits convert)) rows"
    and "\<forall>r \<in> set rows. map fst r = desc"
  shows "ingres_results convert Suc Suc desc (concat (map row_answers rows) @ end_answers complete)
    = Some (if length rows \<le> 39 then Inr (end_value complete, map (map (expected convert)) rows)
            else Inl BufferOverflow)"
  using ingres_rows_stream [OF assms, of 0 10 11 complete "[]"]
  by (simp add: ingres_results_def INITIAL_ROWS_def array_ok_def)

text \<open>A number of eight bytes, a blob of two segments and a null; the row comes twice.\<close>

theorem ingres_results_complete_witness:
  "let desc = [\<lparr>ds_columnName = ''n'', ds_dataType = IIAPI_INT_TYPE, ds_length = 8, ds_precision = 0\<rparr>,
              \<lparr>ds_columnName = ''b'', ds_dataType = IIAPI_LVCH_TYPE, ds_length = 3, ds_precision = 0\<rparr>,
              \<lparr>ds_columnName = ''x'', ds_dataType = IIAPI_VCH_TYPE, ds_length = 9, ds_precision = 0\<rparr>];
       num = \<lparr>dv_null = False, dv_length = 8, dv_value = [CHR 0x05, CHR 0x00, CHR 0x00, CHR 0x00, CHR 0x00, CHR 0x00, CHR 0x00, CHR 0x00, CHR 0x00]\<rparr>;
       nul = \<lparr>dv_null = True, dv_length = 0, dv_value = []\<rparr>;
       row = [Short num, Long False [(''abc'', ''''), (''de'', ''c'')], Short nul]
   in ingres_results (\<lambda>d v. None) Suc Suc desc
        (concat (map row_answers [zip desc row, zip desc row]) @ end_answers True)
      = Some (Inr (1, replicate 2 [Field (value_cell (D_longlong 5)), Field (sized_cell ''abcde'' 5), Field null_cell]))"
proof -
  let ?desc = "[\<lparr>ds_columnName = ''n'', ds_dataType = IIAPI_INT_TYPE, ds_length = 8, ds_precision = 0\<rparr>,
              \<lparr>ds_columnName = ''b'', ds_dataType = IIAPI_LVCH_TYPE, ds_length = 3, ds_precision = 0\<rparr>,
              \<lparr>ds_columnName = ''x'', ds_dataType = IIAPI_VCH_TYPE, ds_length = 9, ds_precision = 0\<rparr>]"
  let ?num = "\<lparr>dv_null = False, dv_length = 8, dv_value = [CHR 0x05, CHR 0x00, CHR 0x00, CHR 0x00, CHR 0x00, CHR 0x00, CHR 0x00, CHR 0x00, CHR 0x00]\<rparr> :: colval"
  let ?nul = "\<lparr>dv_null = True, dv_length = 0, dv_value = []\<rparr> :: colval"
  let ?row = "zip ?desc [Short ?num, Long False [(''abc'', ''''), (''de'', ''c'')], Short ?nul]"
  have cell: "short_cell (\<lambda>d v. None) (?desc ! 0) ?num = Inr (value_cell (D_longlong 5))"
    "short_cell (\<lambda>d v. None) (?desc ! 2) ?nul = Inr null_cell"
    by (simp_all add: short_cell_def ingres_field_def ingres_classify_field_def raw_member_def le_word_def Let_def)
  have "list_all (list_all (fits (\<lambda>d v. None))) [?row, ?row]"
    using cell by (simp add: is_blob_def)
  from ingres_results_complete [OF _ this, of ?desc True] cell show ?thesis
    by (simp only: Let_def) (simp add: end_value_def blob_slot_def numeral_2_eq_2)
qed

text \<open>
  C23: When the fetch of a result with a column comes to an end. Once the server has answered a call that there are no more data or with an
  error, at whatever place, also in the middle of a row or of a blob, \<open>ingres_results\<close> returns, or goes wrong; and it
  returns 1 only after the answer that there are no more data, 0 only after an error. As long as
  the server answers with data, it goes on.
\<close>

theorem ingres_results_returns:
  assumes "desc \<noteq> []"
  shows "(No_data \<in> set answers \<or> Failed \<in> set answers \<longrightarrow>
        (\<exists>r. ingres_results convert slot created desc answers = Some r))
    \<and> (\<forall>v rows. ingres_results convert slot created desc answers = Some (Inr (v, rows)) \<longrightarrow>
        v = 1 \<and> No_data \<in> set answers \<or> v = 0 \<and> Failed \<in> set answers)"
proof (intro conjI impI allI)
  assume "No_data \<in> set answers \<or> Failed \<in> set answers"
  then show "\<exists>r. ingres_results convert slot created desc answers = Some r"
    unfolding ingres_results_def using ingres_rows_ends [OF assms] by blast
next
  fix v rows assume "ingres_results convert slot created desc answers = Some (Inr (v, rows))"
  then show "v = 1 \<and> No_data \<in> set answers \<or> v = 0 \<and> Failed \<in> set answers"
    unfolding ingres_results_def using ingres_rows_ends [OF assms] by (fastforce simp: ended_by_def)
qed

text \<open>A blob of which a segment has come: broken off by the server, and with nothing more known.\<close>

theorem ingres_results_returns_witness:
  "let desc = [\<lparr>ds_columnName = ''b'', ds_dataType = IIAPI_LVCH_TYPE, ds_length = 3, ds_precision = 0\<rparr>];
       part = segment_answers False [(''ab'', []), (''c'', [])]
   in (\<exists>r. ingres_results (\<lambda>d v. None) Suc Suc desc (take 1 part @ [Failed]) = Some r)
    \<and> (\<forall>v rows. ingres_results (\<lambda>d v. None) Suc Suc desc (take 1 part) \<noteq> Some (Inr (v, rows)))"
proof -
  let ?desc = "[\<lparr>ds_columnName = ''b'', ds_dataType = IIAPI_LVCH_TYPE, ds_length = 3, ds_precision = 0\<rparr>]"
  note ends = ingres_results_returns [of ?desc _ "\<lambda>d v. None" Suc Suc]
  show ?thesis
    unfolding Let_def
    using ends [of "take 1 (segment_answers False [(''ab'', []), (''c'', [])]) @ [Failed]"]
      ends [of "take 1 (segment_answers False [(''ab'', []), (''c'', [])])"]
    by auto
qed

text \<open>
  C34: Integer columns of Ingres, registered by \<open>ingres_classify_field\<close> and stored by
  \<open>ingres_field\<close>, are read back as the number the server sent, for every number of the width
  of the column; but eight bytes are copied from a block of \<open>ds_length + 1\<close>, which is read past
  its end unless the column has eight bytes or the allocator has added some.
\<close>

theorem ingres_integer_columns:
  assumes "ds_dataType d = IIAPI_INT_TYPE" and "ds_length d = n" and "n \<in> {1, 2, 4, 8}"
    and "dv_value v = le_bytes n i @ behind" and "behind \<noteq> []"
    and "- (2 ^ (8 * n - 1)) \<le> i" and "i < 2 ^ (8 * n - 1)"
  shows "ingres_field convert d v =
      (if n + length behind < 8 then Inl ReadPastEnd
       else Inr (value_cell (raw_member (ingres_classify_field IIAPI_INT_TYPE n) (dv_value v)), 1))
    \<and> signed_value (raw_member (ingres_classify_field IIAPI_INT_TYPE n) (dv_value v)) = Some i
    \<and> in_signed_range (snd (ingres_classify_field IIAPI_INT_TYPE n)) i"
proof -
  have field: "ingres_field convert d v =
      (if n + length behind < 8 then Inl ReadPastEnd
       else Inr (value_cell (raw_member (ingres_classify_field IIAPI_INT_TYPE n) (dv_value v)), 1))"
    using assms(1,2,4) by (simp add: ingres_field_def Let_def)
  have bytes: "take n (dv_value v) = le_bytes n i" by (simp add: assms(4))
  consider "n = 1" | "n = 2" | "n = 4" | "n = 8" using assms(3) by blast
  then have "signed_value (raw_member (ingres_classify_field IIAPI_INT_TYPE n) (dv_value v)) = Some i"
    using assms(6,7) bytes
    by cases (simp_all add: raw_member_def ingres_classify_field_def le_word_bytes sint_word_of_int_id
        del: le_bytes.simps One_nat_def)
  moreover have "in_signed_range (snd (ingres_classify_field IIAPI_INT_TYPE n)) i"
    using assms(3,6,7) by (auto simp: in_signed_range_def int_bits_def ingres_classify_field_def)
  ultimately show ?thesis using field by blast
qed

theorem ingres_integer_columns_witness:
  "let d = \<lparr>ds_columnName = ''n'', ds_dataType = IIAPI_INT_TYPE, ds_length = 4, ds_precision = 0\<rparr>;
       block = (\<lambda>k. \<lparr>dv_null = False, dv_length = 4, dv_value = le_bytes 4 (-7) @ replicate k (CHR 0x00)\<rparr>)
   in ingres_field (\<lambda>d v. None) d (block 1) = Inl ReadPastEnd
      \<and> (\<exists>c. ingres_field (\<lambda>d v. None) d (block 20) = Inr (c, 1) \<and> signed_value (c_value c) = Some (-7))"
proof -
  let ?d = "\<lparr>ds_columnName = ''n'', ds_dataType = IIAPI_INT_TYPE, ds_length = 4, ds_precision = 0\<rparr>"
  let ?b = "\<lambda>k. \<lparr>dv_null = False, dv_length = 4, dv_value = le_bytes 4 (-7) @ replicate k (CHR 0x00)\<rparr> :: colval"
  have "ingres_field (\<lambda>d v. None) ?d (?b 1) = Inl ReadPastEnd"
    using ingres_integer_columns [of ?d 4 "?b 1" "-7" "replicate 1 (CHR 0x00)" "\<lambda>d v. None"] by simp
  moreover have "\<exists>c. ingres_field (\<lambda>d v. None) ?d (?b 20) = Inr (c, 1) \<and> signed_value (c_value c) = Some (-7)"
    using ingres_integer_columns [of ?d 4 "?b 20" "-7" "replicate 20 (CHR 0x00)" "\<lambda>d v. None"]
    by (simp add: value_cell_def)
  ultimately show ?thesis unfolding Let_def by blast
qed

end
