(* ===== verification/Encodings.thy ===== *)
theory Encodings
  imports Prelude
begin

text \<open>
  The encoding names: each driver keeps a flat array of strings, name in the database and
  IANA name in turn, ended by an empty string, and two loops that search it. The interface
  \<open>encoding_table\<close> says what such an array has to satisfy for the two directions to be
  inverse to each other; the arrays of MySQL and PostgreSQL satisfy it, those of Firebird
  and FreeTDS do not.
\<close>

section \<open>The arrays\<close>

definition mysql_encoding_hash :: "string list" where
  "mysql_encoding_hash = [
    ''ascii'', ''US-ASCII'', ''ujis'', ''EUC-JP'', ''euc_kr'', ''EUC-KR'', ''euckr'', ''EUC-KR'',
    ''utf8'', ''UTF-8'', ''latin1'', ''ISO-8859-1'', ''latin2'', ''ISO-8859-2'', ''latin5'',
    ''ISO-8859-9'', ''latin7'', ''ISO-8859-13'', ''greek'', ''ISO-8859-7'', ''hebrew'',
    ''ISO-8859-8'', ''koi8_ru'', ''KOI8-R'', ''koi8r'', ''KOI8-R'', ''koi8_ukr'', ''KOI8-U'',
    ''koi8u'', ''KOI8-U'', ''cp1251'', ''windows-1251'', ''win1250'', ''windows-1250'',
    ''cp1250'', ''windows-1250'', ''cp1256'', ''windows-1256'', ''win1257'', ''windows-1257'',
    ''cp1257'', ''windows-1257'', ''cp850'', ''IBM850'', ''cp852'', ''IBM852'', ''dos'',
    ''IBM865'', ''cp866'', ''IBM866'', ''big5'', ''Big5'', ''gb2312'', ''GB2312'', ''sjis'',
    ''Shift_JIS'', ''danish'', ''ISO646-NO'', ''hungarian'', ''ISO646-HU'', ''gbk'', ''GBK'',
    ''ucs2'', ''ISO-10646-UCS-2'', ''dec8'', ''DEC-MCS'', ''tis620'', ''TIS-620'', ''hp8'',
    ''hp-roman8'', '''', '''']"

definition pgsql_encoding_hash :: "string list" where
  "pgsql_encoding_hash = [
    ''SQL_ASCII'', ''US-ASCII'', ''EUC_JP'', ''EUC-JP'', ''EUC_KR'', ''EUC-KR'', ''UNICODE'',
    ''UTF-8'', ''LATIN1'', ''ISO-8859-1'', ''LATIN2'', ''ISO-8859-2'', ''LATIN3'',
    ''ISO-8859-3'', ''LATIN4'', ''ISO-8859-4'', ''LATIN5'', ''ISO-8859-9'', ''LATIN6'',
    ''ISO-8859-10'', ''LATIN7'', ''ISO-8859-13'', ''LATIN8'', ''ISO-8859-14'', ''LATIN9'',
    ''ISO-8859-15'', ''LATIN10'', ''ISO-8859-16'', ''ISO-8859-5'', ''ISO-8859-5'',
    ''ISO-8859-6'', ''ISO-8859-6'', ''ISO-8859-7'', ''ISO-8859-7'', ''ISO-8859-8'',
    ''ISO-8859-8'', ''KOI8'', ''KOI8-R'', ''WIN'', ''windows-1251'', ''ALT'', ''IBM866'', '''',
    '''']"

definition freetds_encoding_hash :: "string list" where
  "freetds_encoding_hash = [
    ''iso_1'', ''ISO-8859-1'', ''ascii_8'', ''ISO-8859-1'', ''utf8'', ''UTF-8'', ''big5'',
    ''BIG-5'', ''cp1250'', ''CP1250'', ''cp1251'', ''CP1251'', ''cp1252'', ''CP1252'',
    ''cp1253'', ''CP1253'', ''cp1254'', ''CP1254'', ''cp1255'', ''CP1255'', ''cp1256'',
    ''CP1256'', ''cp1257'', ''CP1257'', ''cp1258'', ''CP1258'', ''cp437'', ''CP437'', ''cp850'',
    ''CP850'', ''cp862'', ''CP862'', ''cp866'', ''CP866'', ''cp874'', ''CP874'', ''cp932'',
    ''CP932'', ''cp936'', ''CP936'', ''cp949'', ''CP949'', ''cp950'', ''CP950'', ''iso10'',
    ''ISO-8859-10'', ''iso13'', ''ISO-8859-13'', ''iso14'', ''ISO-8859-14'', ''iso15'',
    ''ISO-8859-15'', ''iso88592'', ''ISO-8859-2'', ''iso88595'', ''ISO-8859-5'', ''iso88596'',
    ''ISO-8859-6'', ''iso88597'', ''ISO-8859-7'', ''greek8'', ''ISO-8859-7'', ''iso88598'',
    ''ISO-8859-8'', ''iso88599'', ''ISO-8859-9'', ''tis620'', ''ISO-IR-166'', ''koi8'',
    ''KOI8-R'', ''mac'', ''MAC'', ''mac_cyr'', ''MACCYRILLIC'', ''macgreek'', ''MACGREEK'',
    ''macthai'', ''MACTHAI'', ''macturk'', ''MACTURKISH'', ''roman8'', ''ROMAN8'', ''sjis'',
    ''SJIS'', ''iso646'', ''US-ASCII'', '''', '''']"

definition firebird_encoding_hash :: "string list" where
  "firebird_encoding_hash = [
    ''NONE'', ''US-ASCII'', ''ASCII'', ''US-ASCII'', ''ASCII7'', ''US-ASCII'', ''USASCII'',
    ''US-ASCII'', ''DOS437'', ''US-ASCII'', ''DOS_437'', '''', ''BIG_5'', ''Big5'', ''BIG5, , '',
    ''Big5'', ''WIN_950'', ''Big5'', ''DOS_950'', ''Big5'', ''DOS737'', ''latin-greek'',
    ''DOS_737'', ''latin-greek'', ''DOS775'', ''ISO-8859-7'', ''DOS850'', ''ISO-8859-1'',
    ''LATIN1'', ''ISO-8859-1'', ''DOS_850'', ''ISO-8859-1'', ''DOS852'', ''ISO-8859-2'',
    ''LATIN2'', ''ISO-8859-2'', ''DOS_852'', ''ISO-8859-2'', ''DOS857'', ''IBM857'', ''DOS_857'',
    ''IBM857'', ''DOS858'', '''', ''DOS_858'', '''', ''DOS860'', ''PT'', ''DOS_860'', ''PT'',
    ''DOS861'', ''ISO-8859-1'', ''DOS_861'', ''ISO-8859-1'', ''DOS862'', ''ISO-8859-8'',
    ''DOS_862'', ''ISO-8859-8'', ''DOS863'', ''ISO646-FR'', ''DOS_863'', ''ISO646-FR'',
    ''DOS864'', ''ISO-8859-6'', ''DOS_864'', ''ISO-8859-6'', ''DOS865'', ''ISO_8859-1'',
    ''DOS_865'', ''ISO_8859-1'', ''DOS866'', '''', ''DOS_866'', '''', ''DOS869'', ''ISO-8859-7'',
    ''DOS_869'', ''ISO-8859-7'', ''EUCJ_0208'', '''', ''EUCJ'', ''ISO-10646-J-1'', ''GB_2312'',
    '''', ''DOS_936'', '''', ''WIN_936'', '''', ''GB2312'', '''', ''ISO8859_1'', ''ISO-8859-1'',
    ''ISO8859_2'', ''ISO-8859-2'', ''ISO-8859-2'', ''ISO-8859-2'', ''LATIN2'', ''ISO-8859-2'',
    ''ISO88592'', ''ISO-8859-2'', ''ISO8859_3'', ''ISO-8859-3'', ''ISO-8859-3'', ''ISO-8859-3'',
    ''LATIN3'', ''ISO-8859-3'', ''ISO88593'', ''ISO-8859-3'', ''ISO8859_4'', ''ISO-8859-4'',
    ''ISO-8859-4'', ''ISO-8859-4'', ''LATIN4'', ''ISO-8859-4'', ''ISO88594'', ''ISO-8859-4'',
    ''ISO8859_6'', ''ISO-8859-6'', ''ISO-8859-6'', ''ISO-8859-6'', ''ISO8859_7'', ''ISO-8859-7'',
    ''ISO-8859-7'', ''ISO-8859-7'', ''ISO88597'', ''ISO-8859-7'', ''ISO8859_8'', ''ISO-8859-8'',
    ''ISO-8859-8'', ''ISO-8859-8'', ''ISO88598'', ''ISO-8859-8'', ''ISO8859_9'', ''ISO-8859-9'',
    ''ISO-8859-9'', ''ISO-8859-9'', ''LATIN5'', ''ISO-8859-9'', ''ISO88599'', ''ISO-8859-9'',
    ''ISO8859_13'', ''ISO-8859-13'', ''ISO-8859-13'', ''ISO-8859-13'', ''LATIN7'',
    ''ISO-8859-13'', ''ISO885913'', ''ISO-8859-13'', ''KSC_5601'', ''iso-ir-149'', ''OS_949'',
    ''iso-ir-149'', ''WIN_949'', ''iso-ir-149'', ''KSC5601'', ''iso-ir-149'', ''OCTETS'', '''',
    ''BINARY'', '''', ''SJIS_0208'', ''Shift_JIS'', ''SJIS'', ''Shift_JIS'', ''UNICODE_FSS'',
    ''UTF-8'', ''SQL_TEXT'', ''UTF-8'', ''UTF_FSS'', ''UTF-8'', ''UTF-8'', ''UTF-8'', ''UTF8'',
    ''UTF-8'', ''WIN1250'', ''windows-1250'', ''WIN_1250'', ''windows-1250'', ''WIN1251'',
    ''windows-1251'', ''WIN_1251'', ''windows-1251'', ''WIN1252'', ''windows-1252'',
    ''WIN_1252'', ''windows-1252'', ''WIN1253'', ''windows-1253'', ''WIN_1253'',
    ''windows-1253'', ''WIN1254'', ''windows-1254'', ''WIN_1254'', ''windows-1254'', ''WIN1255'',
    ''windows-1255'', ''WIN_1255'', ''windows-1255'', ''WIN1256'', ''windows-1256'',
    ''WIN_1256'', ''windows-1256'', ''WIN1257'', ''windows-1257'', ''WIN_1257'',
    ''windows-1257'', '''', '''']"

definition oracle_encoding_hash :: "string list" where
  "oracle_encoding_hash = [
    ''EL8DEC'', ''EL8DEC'', ''EL8GCOS7'', ''EL8GCOS7'', ''RU8BESTA'', ''RU8BESTA'', ''SF7ASCII'',
    ''SF7ASCII'', ''TR7DEC'', ''TR7DEC'', ''TR8DEC'', ''TR8DEC'', ''TR8EBCDIC1026'',
    ''TR8EBCDIC1026'', ''TR8EBCDIC1026S'', ''TR8EBCDIC1026'', ''TR8MACTURKISH'',
    ''TR8EBCDIC1026'', ''TR8PC857'', ''IBM857'', ''US7ASCII'', ''US-ASCII'', ''WE8GCOS7'',
    ''WE8GCOS7'', ''YUG7ASCII'', ''YUG7ASCII'', ''AL16UTF16'', ''AL16UTF16'', ''AL32UTF8'',
    ''AL32UTF8'', ''AR8ADOS710'', ''AR8ADOS710'', ''AR8ADOS710T'', ''AR8ADOS710T'',
    ''AR8ADOS720'', ''AR8ADOS720'', ''AR8ADOS720T'', ''AR8ADOS720T'', ''AR8APTEC715'',
    ''AR8APTEC715'', ''AR8APTEC715T'', ''AR8APTEC715T'', ''AR8ARABICMAC'', ''AR8ARABICMAC'',
    ''AR8ARABICMACS'', ''AR8ARABICMACS'', ''AR8ARABICMACT'', ''AR8ARABICMACT'',
    ''AR8ASMO708PLUS'', ''AR8ASMO708PLUS'', ''AR8ASMO8X'', ''AR8ASMO8X'', ''AR8EBCDIC420S'',
    ''AR8EBCDIC420S'', ''AR8EBCDICX'', ''AR8EBCDICX'', ''AR8HPARABIC8T'', ''AR8HPARABIC8T'',
    ''AR8ISO8859P6'', ''ISO-8859-6'', ''AR8MSWIN1256'', ''AR8MSWIN1256'', ''AR8MUSSAD768'',
    ''AR8MUSSAD768'', ''AR8MUSSAD768T'', ''AR8MUSSAD768T'', ''AR8NAFITHA711'', ''AR8NAFITHA711'',
    ''AR8NAFITHA711T'', ''AR8NAFITHA711T'', ''AR8NAFITHA721T'', ''AR8NAFITHA721T'',
    ''AR8SAKHR706'', ''AR8SAKHR706'', ''AR8SAKHR707'', ''AR8SAKHR707'', ''AR8SAKHR707T'',
    ''AR8SAKHR707T'', ''AR8XBASIC'', ''AR8XBASIC'', ''BLT8EBCDIC1112'', ''BLT8EBCDIC1112'',
    ''BLT8EBCDIC1112S'', ''BLT8EBCDIC1112S'', ''BLT8MSWIN1257'', ''BLT8MSWIN1257'', ''BN8BSCII'',
    ''BN8BSCII'', ''CH7DEC'', ''CH7DEC'', ''CL8EBCDIC1025'', ''CL8EBCDIC1025'',
    ''CL8EBCDIC1025C'', ''CL8EBCDIC1025C'', ''CL8EBCDIC1025R'', ''CL8EBCDIC1025R'',
    ''CL8EBCDIC1025S'', ''CL8EBCDIC1025S'', ''CL8EBCDIC1025X'', ''CL8EBCDIC1025X'',
    ''CL8ISOIR111'', ''CL8ISOIR111'', ''CL8KOI8R'', ''CL8KOI8R'', ''CL8KOI8U'', ''CL8KOI8U'',
    ''CL8MSWIN1251'', ''CL8MSWIN1251'', ''D7DEC'', ''D7DEC'', ''D7SIEMENS9780X'',
    ''D7SIEMENS9780X'', ''D8BS2000'', ''D8BS2000'', ''D8EBCDIC1141'', ''D8EBCDIC1141'',
    ''D8EBCDIC273'', ''D8EBCDIC273'', ''DK7SIEMENS9780X'', ''DK7SIEMENS9780X'', ''DK8BS2000'',
    ''DK8BS2000'', ''DK8EBCDIC1142'', ''DK8EBCDIC1142'', ''DK8EBCDIC277'', ''DK8EBCDIC277'',
    ''E7DEC'', ''E7DEC'', ''E7SIEMENS9780X'', ''E7SIEMENS9780X'', ''E8BS2000'', ''E8BS2000'',
    ''EE8EBCDIC870'', ''EE8EBCDIC870'', ''EE8EBCDIC870C'', ''EE8EBCDIC870C'', ''EE8EBCDIC870S'',
    ''EE8EBCDIC870S'', ''EEC8EUROASCI'', ''EEC8EUROASCI'', ''EEC8EUROPA3'', ''EEC8EUROPA3'',
    ''EL8EBCDIC875'', ''EL8EBCDIC875'', ''EL8EBCDIC875R'', ''EL8EBCDIC875R'', ''EL8MSWIN1253'',
    ''EL8MSWIN1253'', ''F7DEC'', ''F7DEC'', ''F7SIEMENS9780X'', ''F7SIEMENS9780X'', ''F8BS2000'',
    ''F8BS2000'', ''F8EBCDIC1147'', ''F8EBCDIC1147'', ''F8EBCDIC297'', ''F8EBCDIC297'',
    ''I7DEC'', ''I7DEC'', ''I8EBCDIC1144'', ''I8EBCDIC1144'', ''I8EBCDIC280'', ''I8EBCDIC280'',
    ''IN8ISCII'', ''IN8ISCII'', ''IW7IS960'', ''IW7IS960'', ''IW8EBCDIC1086'', ''IW8EBCDIC1086'',
    ''IW8EBCDIC424'', ''IW8EBCDIC424'', ''IW8EBCDIC424S'', ''IW8EBCDIC424S'', ''IW8ISO8859P8'',
    ''ISO-8859-8'', ''IW8MACHEBREW'', ''IW8MACHEBREW'', ''IW8MACHEBREWS'', ''IW8MACHEBREWS'',
    ''IW8MSWIN1255'', ''IW8MSWIN1255'', ''IW8PC1507'', ''IW8PC1507'', ''JA16DBCS'', ''JA16DBCS'',
    ''JA16EBCDIC930'', ''JA16EBCDIC930'', ''JA16EUC'', ''EUC-JP'', ''JA16EUCYEN'', ''EUC-JP'',
    ''JA16MACSJIS'', ''JA16MACSJIS'', ''JA16SJIS'', ''JA16SJIS'', ''JA16SJISYEN'',
    ''JA16SJISYEN'', ''JA16VMS'', ''JA16VMS'', ''KO16DBCS'', ''KO16DBCS'', ''KO16KSC5601'',
    ''KO16KSC5601'', ''KO16KSCCS'', ''KO16KSCCS'', ''KO16MSWIN949'', ''KO16MSWIN949'',
    ''LA8ISO6937'', ''LA8ISO6937'', ''LA8PASSPORT'', ''LA8PASSPORT'', ''LV8PC8LR'', ''LV8PC8LR'',
    ''NDK7DEC'', ''NDK7DEC'', ''NL7DEC'', ''NL7DEC'', ''S7DEC'', ''S7DEC'', ''S7SIEMENS9780X'',
    ''S7SIEMENS9780X'', ''S8BS2000'', ''S8BS2000'', ''S8EBCDIC1143'', ''S8EBCDIC1143'',
    ''S8EBCDIC278'', ''S8EBCDIC278'', ''SF7DEC'', ''SF7DEC'', ''TH8MACTHAI'', ''TH8MACTHAI'',
    ''TH8MACTHAIS'', ''TH8MACTHAIS'', ''TH8TISASCII'', ''TH8TISASCII'', ''TH8TISEBCDIC'',
    ''TH8TISEBCDIC'', ''TH8TISEBCDICS'', ''TH8TISEBCDICS'', ''TR7DEC'', ''TR7DEC'', ''TR8DEC'',
    ''TR8DEC'', ''TR8EBCDIC1026'', ''TR8EBCDIC1026'', ''TR8EBCDIC1026S'', ''TR8EBCDIC1026S'',
    ''TR8MACTURKISH'', ''TR8MACTURKISH'', ''TR8MACTURKISHS'', ''TR8MACTURKISHS'',
    ''TR8MSWIN1254'', ''TR8MSWIN1254'', ''TR8PC857'', ''TR8PC857'', ''US8BS2000'', ''US8BS2000'',
    ''US8PC437'', ''US8PC437'', ''UTF8'', ''UTF-8'', ''UTFE'', ''UTFE'', ''VN8MSWIN1258'',
    ''VN8MSWIN1258'', ''VN8VN3VN3'', ''VN8VN3VN3'', ''WE8BS2000L5'', ''WE8BS2000L5'', ''WE8DEC'',
    ''WE8DEC'', ''WE8DG'', ''WE8DG'', ''WE8EBCDIC1047'', ''WE8EBCDIC1047'', ''WE8EBCDIC1047E'',
    ''WE8EBCDIC1047E'', ''WE8EBCDIC1140'', ''WE8EBCDIC1140'', ''WE8EBCDIC1140C'',
    ''WE8EBCDIC1140C'', ''WE8EBCDIC1145'', ''WE8EBCDIC1145'', ''WE8EBCDIC1146'',
    ''WE8EBCDIC1146'', ''WE8EBCDIC1148'', ''WE8EBCDIC1148'', ''WE8EBCDIC1148C'',
    ''WE8EBCDIC1148C'', ''WE8EBCDIC284'', ''WE8EBCDIC284'', ''WE8EBCDIC285'', ''WE8EBCDIC285'',
    ''WE8EBCDIC37'', ''WE8EBCDIC37'', ''WE8EBCDIC37C'', ''WE8EBCDIC37C'', ''WE8EBCDIC500'',
    ''WE8EBCDIC500'', ''WE8EBCDIC500C'', ''WE8EBCDIC500C'', ''WE8EBCDIC871'', ''WE8EBCDIC871'',
    ''WE8EBCDIC924'', ''WE8EBCDIC924'', ''WE8HP'', ''WE8HP'', ''WE8ISO8859P9'', ''ISO-8859-9'',
    ''WE8MSWIN1252'', ''WE8MSWIN1252'', ''WE8NCR4970'', ''WE8NCR4970'', ''WE8NEXTSTEP'',
    ''WE8NEXTSTEP'', ''WE8ROMAN8'', ''WE8ROMAN8'', ''ZHS16CGB231280'', ''ZHS16CGB231280'',
    ''ZHS16DBCS'', ''ZHS16DBCS'', ''ZHS16GBK'', ''ZHS16GBK'', ''ZHS16MACCGB231280'',
    ''ZHS16MACCGB231280'', ''ZHS32GB18030'', ''ZHS32GB18030'', ''ZHT16BIG5'', ''ZHT16BIG5'',
    ''ZHT16CCDC'', ''ZHT16CCDC'', ''ZHT16DBCS'', ''ZHT16DBCS'', ''ZHT16DBT'', ''ZHT16DBT'',
    ''ZHT16HKSCS'', ''ZHT16HKSCS'', ''ZHT16MSWIN950'', ''ZHT16MSWIN950'', ''ZHT32EUC'',
    ''ZHT32EUC'', ''ZHT32SOPS'', ''ZHT32SOPS'', ''ZHT32TRIS'', ''ZHT32TRIS'', '''']"

section \<open>The two loops\<close>

text \<open>
  The loop over the even entries: it stops at the first empty even entry (\<open>None\<close>), and at the
  first one that matches it returns the odd entry behind it. Reading behind the last entry of
  the array is undefined.
\<close>

fun even_entries :: "(string \<Rightarrow> bool) \<Rightarrow> string list \<Rightarrow> string option run" where
  "even_entries hit [] = Inl ReadPastEnd"
| "even_entries hit (k # rest) =
     (if k = [] then Inr None
      else if hit k then (case rest of [] \<Rightarrow> Inl ReadPastEnd | v # tbl \<Rightarrow> Inr (Some v))
      else (case rest of [] \<Rightarrow> Inl ReadPastEnd | v # tbl \<Rightarrow> even_entries hit tbl))"

text \<open>The loop over the odd entries stops at the first empty odd entry.\<close>

fun odd_entries :: "string \<Rightarrow> string list \<Rightarrow> string option run" where
  "odd_entries iana (k # v # tbl) =
     (if v = [] then Inr None
      else if v = iana then Inr (Some k)
      else odd_entries iana tbl)"
| "odd_entries iana tbl = Inl ReadPastEnd"

text \<open>Without a hit the argument is returned.\<close>

definition or_else :: "string option run \<Rightarrow> string \<Rightarrow> string run" where
  "or_else m s = run_bind m (\<lambda>r. Inr (case r of None \<Rightarrow> s | Some v \<Rightarrow> v))"

text \<open>\<open>!strncmp(entry, name, strlen(entry))\<close> and \<open>!strcmp(entry, name)\<close>.\<close>

definition prefix_hit :: "string \<Rightarrow> string \<Rightarrow> bool" where
  "prefix_hit name entry = prefix entry name"

definition exact_hit :: "string \<Rightarrow> string \<Rightarrow> bool" where
  "exact_hit name entry = (entry = name)"

definition mysql_encoding_to_iana :: "string \<Rightarrow> string run" where
  "mysql_encoding_to_iana db_encoding =
     or_else (even_entries (prefix_hit db_encoding) mysql_encoding_hash) db_encoding"

definition mysql_encoding_from_iana :: "string \<Rightarrow> string run" where
  "mysql_encoding_from_iana iana_encoding =
     or_else (odd_entries iana_encoding mysql_encoding_hash) iana_encoding"

definition pgsql_encoding_to_iana :: "string \<Rightarrow> string run" where
  "pgsql_encoding_to_iana db_encoding =
     or_else (even_entries (exact_hit db_encoding) pgsql_encoding_hash) db_encoding"

definition pgsql_encoding_from_iana :: "string \<Rightarrow> string run" where
  "pgsql_encoding_from_iana iana_encoding =
     or_else (odd_entries iana_encoding pgsql_encoding_hash) iana_encoding"

definition freetds_encoding_to_iana :: "string \<Rightarrow> string run" where
  "freetds_encoding_to_iana db_encoding =
     or_else (even_entries (prefix_hit db_encoding) freetds_encoding_hash) db_encoding"

definition freetds_encoding_from_iana :: "string \<Rightarrow> string run" where
  "freetds_encoding_from_iana iana_encoding =
     or_else (odd_entries iana_encoding freetds_encoding_hash) iana_encoding"

definition firebird_encoding_to_iana :: "string \<Rightarrow> string run" where
  "firebird_encoding_to_iana db_encoding =
     or_else (even_entries (prefix_hit db_encoding) firebird_encoding_hash) db_encoding"

definition firebird_encoding_from_iana :: "string \<Rightarrow> string run" where
  "firebird_encoding_from_iana iana_encoding =
     or_else (odd_entries iana_encoding firebird_encoding_hash) iana_encoding"

text \<open>Oracle searches its array in \<open>dbd_get_encoding\<close> only; \<open>buf\<close> is what OCI reports.\<close>

definition oracle_get_encoding :: "string \<Rightarrow> string run" where
  "oracle_get_encoding buf =
     or_else (even_entries (exact_hit buf) oracle_encoding_hash) ''UTF-16''"

text \<open>
  \<open>dbd_get_encoding\<close> of this driver: if OCI reports nothing, the buffer is searched for all the
  same although nothing was written to it.
\<close>

definition oracle_dbd_get_encoding :: "string option \<Rightarrow> string run" where
  "oracle_dbd_get_encoding reported = (case reported of None \<Rightarrow> Inl UninitRead | Some buf \<Rightarrow> oracle_get_encoding buf)"

text \<open>
  \<open>dbd_get_encoding\<close> of the other drivers without a table of the server: the option of the
  connection, what the library was compiled with, a constant, or the character set that was chosen when
  the connection was opened. FreeTDS asks \<open>ct_con_props\<close>, which may fail or give a null pointer.
\<close>

definition sqlite3_get_encoding :: "string option \<Rightarrow> string" where
  "sqlite3_get_encoding option = (case option of None \<Rightarrow> ''UTF-8'' | Some e \<Rightarrow> e)"

definition sqlite_get_encoding :: "string \<Rightarrow> string" where
  "sqlite_get_encoding sqlite_encoding = (if sqlite_encoding = ''UTF-8'' then ''UTF-8'' else ''ISO-8859-1'')"

definition msql_get_encoding :: string where
  "msql_get_encoding = ''ISO-8859-1''"

definition firebird_get_encoding :: "string option \<Rightarrow> string run" where
  "firebird_get_encoding charset =
     (case charset of None \<Rightarrow> Inr ''NONE'' | Some e \<Rightarrow> firebird_encoding_to_iana e)"

definition freetds_get_encoding :: "string option option \<Rightarrow> string option run" where
  "freetds_get_encoding tds_enc =
     (case tds_enc of None \<Rightarrow> Inr None
      | Some None \<Rightarrow> Inr None
      | Some (Some e) \<Rightarrow> run_bind (freetds_encoding_to_iana e) (\<lambda>i. Inr (Some i)))"

text \<open>SQLite3, SQLite, mSQL, Oracle and Ingres do not translate names.\<close>

definition sqlite3_encoding_to_iana :: "string \<Rightarrow> string" where
  "sqlite3_encoding_to_iana db_encoding = db_encoding"

definition sqlite3_encoding_from_iana :: "string \<Rightarrow> string" where
  "sqlite3_encoding_from_iana iana_encoding = iana_encoding"

definition sqlite_encoding_to_iana :: "string \<Rightarrow> string" where
  "sqlite_encoding_to_iana db_encoding = db_encoding"

definition sqlite_encoding_from_iana :: "string \<Rightarrow> string" where
  "sqlite_encoding_from_iana iana_encoding = iana_encoding"

definition msql_encoding_to_iana :: "string \<Rightarrow> string" where
  "msql_encoding_to_iana db_encoding = db_encoding"

definition msql_encoding_from_iana :: "string \<Rightarrow> string" where
  "msql_encoding_from_iana iana_encoding = iana_encoding"

definition oracle_encoding_to_iana :: "string \<Rightarrow> string" where
  "oracle_encoding_to_iana iana_encoding = iana_encoding"

definition oracle_encoding_from_iana :: "string \<Rightarrow> string" where
  "oracle_encoding_from_iana iana_encoding = iana_encoding"

definition ingres_encoding_to_iana :: "string \<Rightarrow> string" where
  "ingres_encoding_to_iana db_encoding = db_encoding"

definition ingres_encoding_from_iana :: "string \<Rightarrow> string" where
  "ingres_encoding_from_iana iana_encoding = iana_encoding"

section \<open>The interface of an array that translates both ways\<close>

fun entry_pairs :: "string list \<Rightarrow> (string \<times> string) list" where
  "entry_pairs (k # v # tbl) = (if k = [] then [] else (k, v) # entry_pairs tbl)"
| "entry_pairs tbl = []"

definition flatten :: "(string \<times> string) list \<Rightarrow> string list" where
  "flatten ps = concat (map (\<lambda>(k, v). [k, v]) ps)"

locale encoding_table =
  fixes tbl :: "string list"
    and ps :: "(string \<times> string) list"
    and hit :: "string \<Rightarrow> string \<Rightarrow> bool"
  assumes layout: "tbl = flatten ps @ [[], []]"
    and filled: "(k, v) \<in> set ps \<Longrightarrow> k \<noteq> [] \<and> v \<noteq> []"
    and hit_refl: "hit k k"
    and unshadowed: "(k, v) \<in> set ps \<Longrightarrow> (k', v') \<in> set ps \<Longrightarrow> hit k k' \<Longrightarrow> v' = v"
begin

lemma even_find:
  "set qs \<subseteq> set ps \<Longrightarrow>
     even_entries (hit s) (flatten qs @ [[], []]) = Inr (map_option snd (find (hit s \<circ> fst) qs))"
proof (induction qs)
  case Nil
  then show ?case by (simp add: flatten_def)
next
  case (Cons q qs)
  then show ?case using filled [of "fst q" "snd q"] by (cases q) (auto simp: flatten_def)
qed

lemma odd_find:
  "set qs \<subseteq> set ps \<Longrightarrow>
     odd_entries s (flatten qs @ [[], []]) = Inr (map_option fst (find (\<lambda>q. snd q = s) qs))"
proof (induction qs)
  case Nil
  then show ?case by (simp add: flatten_def)
next
  case (Cons q qs)
  then show ?case using filled [of "fst q" "snd q"] by (cases q) (auto simp: flatten_def)
qed

lemma even_total: "defined (even_entries (hit s) tbl)"
  by (simp add: layout even_find)

lemma odd_total: "defined (odd_entries s tbl)"
  by (simp add: layout odd_find)

lemma to_known:
  assumes "(k, v) \<in> set ps"
  shows "even_entries (hit k) tbl = Inr (Some v)"
proof -
  obtain q where q: "find (hit k \<circ> fst) ps = Some q" "q \<in> set ps" "hit k (fst q)"
    using find_exists [OF assms, of "hit k \<circ> fst"] hit_refl by auto
  then have "snd q = v" using unshadowed [OF assms] by (cases q) auto
  then show ?thesis using q by (simp add: layout even_find)
qed

lemma from_known:
  assumes "(k, v) \<in> set ps"
  shows "\<exists>k'. odd_entries v tbl = Inr (Some k') \<and> (k', v) \<in> set ps"
proof -
  obtain q where "find (\<lambda>q. snd q = v) ps = Some q" "q \<in> set ps" "snd q = v"
    using find_exists [OF assms, of "\<lambda>q. snd q = v"] by auto
  then show ?thesis by (cases q) (auto simp: layout odd_find)
qed

lemma roundtrip:
  assumes "(k, v) \<in> set ps"
  shows "run_bind (or_else (odd_entries v tbl) v) (\<lambda>s. or_else (even_entries (hit s) tbl) s) = Inr v"
  using from_known [OF assms] to_known by (auto simp: or_else_def)

lemma unknown:
  assumes "v \<notin> snd ` set ps"
  shows "or_else (odd_entries v tbl) v = Inr v"
proof -
  have "find (\<lambda>q. snd q = v) ps = None" using assms by (intro find_none) force
  then show ?thesis by (simp add: layout odd_find or_else_def)
qed

end

lemma unshadowed_check:
  "list_all (\<lambda>(k, v). list_all (\<lambda>(k', v'). hit k k' \<longrightarrow> v' = v) ps) ps \<Longrightarrow>
     (k, v) \<in> set ps \<Longrightarrow> (k', v') \<in> set ps \<Longrightarrow> hit k k' \<Longrightarrow> v' = v"
  by (force simp: list_all_iff)

lemma filled_check:
  "list_all (\<lambda>(k, v). k \<noteq> [] \<and> v \<noteq> []) ps \<Longrightarrow> (k, v) \<in> set ps \<Longrightarrow> k \<noteq> [] \<and> v \<noteq> []"
  by (force simp: list_all_iff)

lemma mysql_table_checks:
  "mysql_encoding_hash = flatten (entry_pairs mysql_encoding_hash) @ [[], []]"
  "list_all (\<lambda>(k, v). k \<noteq> [] \<and> v \<noteq> []) (entry_pairs mysql_encoding_hash)"
  "list_all (\<lambda>(k, v). list_all (\<lambda>(k', v'). prefix_hit k k' \<longrightarrow> v' = v)
     (entry_pairs mysql_encoding_hash)) (entry_pairs mysql_encoding_hash)"
  by code_simp+

lemma pgsql_table_checks:
  "pgsql_encoding_hash = flatten (entry_pairs pgsql_encoding_hash) @ [[], []]"
  "list_all (\<lambda>(k, v). k \<noteq> [] \<and> v \<noteq> []) (entry_pairs pgsql_encoding_hash)"
  "list_all (\<lambda>(k, v). list_all (\<lambda>(k', v'). exact_hit k k' \<longrightarrow> v' = v)
     (entry_pairs pgsql_encoding_hash)) (entry_pairs pgsql_encoding_hash)"
  by code_simp+

interpretation mysql_enc: encoding_table mysql_encoding_hash "entry_pairs mysql_encoding_hash" prefix_hit
proof unfold_locales
  show "mysql_encoding_hash = flatten (entry_pairs mysql_encoding_hash) @ [[], []]"
    by (rule mysql_table_checks(1))
qed (rule filled_check [OF mysql_table_checks(2)], assumption, simp add: prefix_hit_def,
  rule unshadowed_check [OF mysql_table_checks(3)])

interpretation pgsql_enc: encoding_table pgsql_encoding_hash "entry_pairs pgsql_encoding_hash" exact_hit
proof unfold_locales
  show "pgsql_encoding_hash = flatten (entry_pairs pgsql_encoding_hash) @ [[], []]"
    by (rule pgsql_table_checks(1))
qed (rule filled_check [OF pgsql_table_checks(2)], assumption, simp add: exact_hit_def,
  rule unshadowed_check [OF pgsql_table_checks(3)])

section \<open>The properties\<close>

lemma mysql_entries_no_space:
  "list_all (\<lambda>(k, v). CHR '' '' \<notin> set k) (entry_pairs mysql_encoding_hash)"
  by code_simp

lemma prefix_before_space:
  "prefix e (k @ CHR '' '' # rest) \<Longrightarrow> CHR '' '' \<notin> set e \<Longrightarrow> prefix e k"
  by (auto simp: prefix_append prefix_Cons)

lemma even_entries_defined:
  "even_entries (\<lambda>s. False) tbl = Inr None \<Longrightarrow> defined (even_entries h tbl)"
proof (induction h tbl rule: even_entries.induct)
  case (2 hit k rest)
  then show ?case by (cases rest) (auto split: if_splits)
qed simp

lemma even_entries_none:
  "even_entries (\<lambda>s. False) tbl = Inr None \<Longrightarrow> (\<And>k. k \<in> set tbl \<Longrightarrow> \<not> h k) \<Longrightarrow>
     even_entries h tbl = Inr None"
proof (induction h tbl rule: even_entries.induct)
  case (2 hit k rest)
  then show ?case by (cases rest) (auto split: if_splits)
qed simp

text \<open>
  C28: MySQL: a name of the array is translated to the IANA name behind it, also when the
  server's \<open>SHOW CREATE DATABASE\<close> text goes on behind the name with a blank, and an IANA name
  of the array goes to the database and back unchanged, although some are listed twice.
\<close>

theorem mysql_encoding_roundtrip:
  assumes "(k, v) \<in> set (entry_pairs mysql_encoding_hash)"
  shows "mysql_encoding_to_iana k = Inr v
    \<and> mysql_encoding_to_iana (k @ CHR '' '' # rest) = Inr v
    \<and> run_bind (mysql_encoding_from_iana v) mysql_encoding_to_iana = Inr v"
proof -
  let ?s = "k @ CHR '' '' # rest" and ?ps = "entry_pairs mysql_encoding_hash"
  have nospace: "CHR '' '' \<notin> set e" if "(e, w) \<in> set ?ps" for e w
    using mysql_entries_no_space that by (force simp: list_all_iff)
  have "find (prefix_hit ?s \<circ> fst) qs = find (prefix_hit k \<circ> fst) qs" if "set qs \<subseteq> set ?ps" for qs
    using that
  proof (induction qs)
    case (Cons q qs)
    then have "prefix_hit ?s (fst q) = prefix_hit k (fst q)"
      using nospace [of "fst q" "snd q"] prefix_before_space [of "fst q" k rest]
      by (auto simp: prefix_hit_def)
    then show ?case using Cons by simp
  qed simp
  then have "even_entries (prefix_hit ?s) mysql_encoding_hash
      = even_entries (prefix_hit k) mysql_encoding_hash"
    using mysql_enc.even_find [of ?ps] mysql_enc.layout by simp
  then show ?thesis
    using mysql_enc.to_known [OF assms] mysql_enc.roundtrip [OF assms]
    by (simp add: mysql_encoding_to_iana_def [abs_def] mysql_encoding_from_iana_def or_else_def)
qed

theorem mysql_encoding_roundtrip_witness:
  "mysql_encoding_to_iana ''latin1'' = Inr ''ISO-8859-1''
    \<and> mysql_encoding_to_iana ''latin1 COLLATE x'' = Inr ''ISO-8859-1''
    \<and> run_bind (mysql_encoding_from_iana ''ISO-8859-1'') mysql_encoding_to_iana = Inr ''ISO-8859-1''"
proof -
  have "(''latin1'', ''ISO-8859-1'') \<in> set (entry_pairs mysql_encoding_hash)"
    by (simp add: mysql_encoding_hash_def)
  from mysql_encoding_roundtrip [OF this, of "''COLLATE x''"] show ?thesis by simp
qed

text \<open>
  PostgreSQL: the two translations never read behind the array, a name of the array is
  translated to the IANA name behind it and back, and a name the array does not have is
  passed on unchanged.
\<close>

theorem pgsql_encoding_roundtrip:
  "defined (pgsql_encoding_to_iana s) \<and> defined (pgsql_encoding_from_iana s)
    \<and> ((k, v) \<in> set (entry_pairs pgsql_encoding_hash) \<longrightarrow>
         pgsql_encoding_to_iana k = Inr v
         \<and> run_bind (pgsql_encoding_from_iana v) pgsql_encoding_to_iana = Inr v)
    \<and> (s \<notin> snd ` set (entry_pairs pgsql_encoding_hash) \<longrightarrow> pgsql_encoding_from_iana s = Inr s)"
  using pgsql_enc.even_total [of s] pgsql_enc.odd_total [of s] pgsql_enc.to_known [of k v]
    pgsql_enc.roundtrip [of k v] pgsql_enc.unknown [of s]
  by (auto simp: pgsql_encoding_to_iana_def [abs_def] pgsql_encoding_from_iana_def or_else_def
      defined_iff)

theorem pgsql_encoding_roundtrip_witness:
  "run_bind (pgsql_encoding_from_iana ''UTF-8'') pgsql_encoding_to_iana = Inr ''UTF-8''
    \<and> pgsql_encoding_from_iana ''Big5'' = Inr ''Big5''"
proof -
  have "(''UNICODE'', ''UTF-8'') \<in> set (entry_pairs pgsql_encoding_hash)"
    and "''Big5'' \<notin> snd ` set (entry_pairs pgsql_encoding_hash)"
    by (simp_all add: pgsql_encoding_hash_def)
  then show ?thesis using pgsql_encoding_roundtrip [of "''Big5''" "''UNICODE''" "''UTF-8''"] by blast
qed

text \<open>
  Firebird: \<open>dbd_encoding_from_iana\<close> translates one name only. The sixth entry of the array
  has an empty IANA name, which the loop takes for the end.
\<close>

theorem firebird_from_iana_only_ascii:
  "firebird_encoding_from_iana s = Inr (if s = ''US-ASCII'' then ''NONE'' else s)"
  by (simp add: firebird_encoding_from_iana_def or_else_def firebird_encoding_hash_def)

text \<open>
  FreeTDS compares a prefix of the name, so the entry \<open>mac\<close> answers for the four entries
  behind it that begin with it; every other name of the array gets its own IANA name.
\<close>

theorem freetds_to_iana_shadowed:
  assumes "(k, v) \<in> set (entry_pairs freetds_encoding_hash)"
  shows "freetds_encoding_to_iana k
    = Inr (if k \<in> {''mac_cyr'', ''macgreek'', ''macthai'', ''macturk''} then ''MAC'' else v)"
proof -
  have "list_all (\<lambda>(k, v). freetds_encoding_to_iana k
      = Inr (if k = ''mac_cyr'' \<or> k = ''macgreek'' \<or> k = ''macthai'' \<or> k = ''macturk''
             then ''MAC'' else v)) (entry_pairs freetds_encoding_hash)"
    by code_simp
  with assms show ?thesis by (force simp: list_all_iff)
qed

theorem freetds_to_iana_shadowed_witness:
  "freetds_encoding_to_iana ''macthai'' = Inr ''MAC'' \<and> freetds_encoding_to_iana ''sjis'' = Inr ''SJIS''"
proof -
  have "(''macthai'', ''MACTHAI'') \<in> set (entry_pairs freetds_encoding_hash)"
    and "(''sjis'', ''SJIS'') \<in> set (entry_pairs freetds_encoding_hash)"
    by (simp_all add: freetds_encoding_hash_def)
  from freetds_to_iana_shadowed [OF this(1)] freetds_to_iana_shadowed [OF this(2)]
  show ?thesis by simp
qed

text \<open>
  Oracle: the search of the array is defined for every name, although the array ends with
  one empty string only; a name the array does not have is reported as UTF-16, and a name that
  is listed twice gets the first IANA name, so \<open>TR8MACTURKISH\<close> is reported as an EBCDIC code
  page although the second entry is right.
\<close>

theorem oracle_get_encoding_total:
  "defined (oracle_get_encoding buf)
    \<and> (buf \<notin> set oracle_encoding_hash \<longrightarrow> oracle_get_encoding buf = Inr ''UTF-16'')
    \<and> oracle_get_encoding ''TR8MACTURKISH'' = Inr ''TR8EBCDIC1026''
    \<and> oracle_encoding_hash ! 248 = ''TR8MACTURKISH'' \<and> oracle_encoding_hash ! 249 = ''TR8MACTURKISH''"
proof -
  have stop: "even_entries (\<lambda>s. False) oracle_encoding_hash = Inr None"
    by code_simp
  have "defined (even_entries (exact_hit buf) oracle_encoding_hash)"
    by (rule even_entries_defined [OF stop])
  moreover have "even_entries (exact_hit buf) oracle_encoding_hash = Inr None"
    if "buf \<notin> set oracle_encoding_hash"
    using that by (intro even_entries_none [OF stop]) (auto simp: exact_hit_def)
  moreover have "oracle_get_encoding ''TR8MACTURKISH'' = Inr ''TR8EBCDIC1026''"
    by (simp add: oracle_get_encoding_def or_else_def oracle_encoding_hash_def exact_hit_def)
  moreover have "oracle_encoding_hash ! 248 = ''TR8MACTURKISH''"
    and "oracle_encoding_hash ! 249 = ''TR8MACTURKISH''"
    by (simp_all add: oracle_encoding_hash_def)
  ultimately show ?thesis
    by (auto simp: oracle_get_encoding_def or_else_def defined_iff)
qed

theorem oracle_get_encoding_total_witness:
  "oracle_get_encoding ''unlisted'' = Inr ''UTF-16''"
proof -
  have "''unlisted'' \<notin> set oracle_encoding_hash"
    by (simp add: oracle_encoding_hash_def)
  then show ?thesis using oracle_get_encoding_total [of "''unlisted''"] by blast
qed

end
