(* ===== verification/Options.thy ===== *)
theory Options
  imports Encodings
begin

text \<open>
  The connection options, and what the drivers make of them before they open a connection: the
  connection string of PostgreSQL, the paths of SQLite, SQLite3 and Firebird, the flags of MySQL
  and the protocol version of FreeTDS. Options are kept by libdbi, so the three functions that read
  them are a parameter: the names in order, the string of an option (\<open>None\<close> for \<open>NULL\<close>) and its
  number (-1 if there is none).
\<close>

record dbi_options =
  option_names :: "string list"
  get_option :: "string \<Rightarrow> string option"
  get_numeric :: "string \<Rightarrow> int"

text \<open>The database to open: the argument if it is not empty, else the option \<open>dbname\<close>.\<close>

definition chosen_db :: "dbi_options \<Rightarrow> string \<Rightarrow> string option" where
  "chosen_db opts db = (if db \<noteq> [] then Some db else get_option opts ''dbname'')"

section \<open>The connection string of PostgreSQL\<close>

abbreviation backslash :: char where "backslash \<equiv> CHR 0x5C"

text \<open>The keyword for an option; \<open>None\<close> if the option is skipped.\<close>

definition pgsql_key :: "string \<Rightarrow> string option" where
  "pgsql_key pgopt =
     (if pgopt = ''encoding'' \<or> pgopt = ''dbname'' then None
      else if pgopt = ''username'' then Some ''user''
      else if pgopt = ''timeout'' then Some ''connect_timeout''
      else if prefix ''pgsql_'' pgopt then Some (drop 6 pgopt)
      else if pgopt \<noteq> ''password'' \<and> pgopt \<noteq> ''host'' \<and> pgopt \<noteq> ''port'' then None
      else Some pgopt)"

definition conninfo_append :: "string option \<Rightarrow> string \<Rightarrow> string \<Rightarrow> string option" where
  "conninfo_append conninfo key val =
     (let item = key @ ''='' @ [quote] @ val @ [quote] in
      Some (case conninfo of None \<Rightarrow> item | Some tmp \<Rightarrow> tmp @ '' '' @ item))"

text \<open>\<open>escape\<close> is \<open>_dbd_escape_chars\<close> of libdbi, called with a backslash and a single quote.\<close>

definition conninfo_option ::
    "(string \<Rightarrow> string) \<Rightarrow> dbi_options \<Rightarrow> string option \<Rightarrow> string \<Rightarrow> string option" where
  "conninfo_option escape opts conninfo optname =
     (case pgsql_key optname of None \<Rightarrow> conninfo
      | Some pgopt \<Rightarrow>
          (case get_option opts optname of
             Some optval \<Rightarrow> conninfo_append conninfo pgopt (escape optval)
           | None \<Rightarrow> conninfo_append conninfo pgopt (show_int (get_numeric opts optname))))"

definition pgsql_conninfo :: "(string \<Rightarrow> string) \<Rightarrow> dbi_options \<Rightarrow> string \<Rightarrow> string" where
  "pgsql_conninfo escape opts db =
     (let conninfo = foldl (conninfo_option escape opts) None (option_names opts);
          conninfo = (case chosen_db opts db of None \<Rightarrow> conninfo
                      | Some dbname \<Rightarrow> conninfo_append conninfo ''dbname'' (escape dbname))
      in case conninfo of None \<Rightarrow> [] | Some c \<Rightarrow> c)"

section \<open>Paths\<close>

definition default_to :: "string \<Rightarrow> string option \<Rightarrow> string" where
  "default_to d v = (case v of None \<Rightarrow> d | Some s \<Rightarrow> s)"

text \<open>
  \<open>default_dbdir\<close> is set when the drivers are built. With an empty directory the test for the
  separator reads \<open>db_fullpath[-1]\<close>, a byte in front of the block.
\<close>

definition sqlite3_dbdir :: "string \<Rightarrow> dbi_options \<Rightarrow> string" where
  "sqlite3_dbdir default_dbdir opts = default_to default_dbdir (get_option opts ''sqlite3_dbdir'')"

definition sqlite_dbdir :: "string \<Rightarrow> dbi_options \<Rightarrow> string" where
  "sqlite_dbdir default_dbdir opts = default_to default_dbdir (get_option opts ''sqlite_dbdir'')"

definition sqlite3_path :: "string \<Rightarrow> string \<Rightarrow> string run" where
  "sqlite3_path dbdir dbname =
     (if dbdir = [] then Inl ReadPastEnd
      else let db_fullpath = (if last dbdir \<noteq> CHR ''/'' then dbdir @ ''/'' else dbdir)
           in strcpy_buf (length dbname + length dbdir + 2) (db_fullpath @ dbname))"

definition sqlite_path :: "string \<Rightarrow> string \<Rightarrow> string run" where
  "sqlite_path dbdir dbname =
     (if dbdir = [] then Inl ReadPastEnd
      else let db_fullpath = (if last dbdir \<noteq> CHR ''/'' then dbdir @ ''/'' else dbdir)
           in strcpy_buf (length dbname + length dbdir + 2) (db_fullpath @ dbname))"

text \<open>
  Firebird: an empty option counts as none. The array has \<open>PATH_MAX\<close> bytes. Whether the default
  directory is empty as well or not, the byte in front of the array is read first.
\<close>

definition firebird_populate_db_string :: "nat \<Rightarrow> string \<Rightarrow> dbi_options \<Rightarrow> string \<Rightarrow> string run" where
  "firebird_populate_db_string path_max default_dbdir opts dbname =
     (let dbdir = (case get_option opts ''firebird_dbdir'' of
                     Some d \<Rightarrow> if d = [] then default_dbdir else d | None \<Rightarrow> default_dbdir) in
      run_bind (strcpy_buf path_max dbdir) (\<lambda>path.
        if path = [] then Inl ReadPastEnd
        else strcpy_buf path_max
               ((if last path \<noteq> CHR ''/'' then path @ ''/'' else path) @ dbname)))"

definition firebird_dbase :: "dbi_options \<Rightarrow> string \<Rightarrow> string" where
  "firebird_dbase opts db_fullpath =
     take 255 (case get_option opts ''host'' of
                 Some host \<Rightarrow> if host = [] then db_fullpath else host @ '':'' @ db_fullpath
               | None \<Rightarrow> db_fullpath)"

text \<open>
  The parameter block of a Firebird connection: tags, lengths and bytes in an array of 256
  bytes; user and password are taken without a test for \<open>NULL\<close>.
\<close>

datatype dpb_byte = Isc_dpb_version1 | Isc_dpb_num_buffers | Isc_dpb_user_name | Isc_dpb_password
  | Isc_dpb_lc_ctype | Byte char

definition dpb_string :: "dpb_byte \<Rightarrow> string \<Rightarrow> dpb_byte list" where
  "dpb_string tag s = tag # Byte (char_of (length s)) # map Byte s"

definition given :: "string option \<Rightarrow> string run" where
  "given p = (case p of None \<Rightarrow> Inl NullDeref | Some s \<Rightarrow> Inr s)"

definition firebird_encoding :: "dbi_options \<Rightarrow> string" where
  "firebird_encoding opts =
     (case get_option opts ''encoding'' of
        None \<Rightarrow> ''NONE'' | Some e \<Rightarrow> if e = [] then ''NONE'' else e)"

definition firebird_dpb :: "dbi_options \<Rightarrow> dpb_byte list run" where
  "firebird_dpb opts =
     run_bind (given (get_option opts ''username'')) (\<lambda>username.
     run_bind (given (get_option opts ''password'')) (\<lambda>password.
     run_bind (firebird_encoding_from_iana (firebird_encoding opts)) (\<lambda>fb_encoding.
       let dpb = [Isc_dpb_version1, Isc_dpb_num_buffers, Byte (char_of (1::nat)), Byte (char_of (90::nat))]
                 @ dpb_string Isc_dpb_user_name username @ dpb_string Isc_dpb_password password
                 @ dpb_string Isc_dpb_lc_ctype fb_encoding
       in if length dpb \<le> 256 then Inr dpb else Inl BufferOverflow)))"

section \<open>Numbers and flags\<close>

text \<open>The busy timeout in milliseconds, an \<open>int\<close> of 32 bits.\<close>

definition sqlite3_timeout :: "dbi_options \<Rightarrow> int" where
  "sqlite3_timeout opts =
     (let timeout = get_numeric opts ''sqlite3_timeout'' in
      if timeout = -1
      then (let timeout = signed_take_bit 31 (1000 * get_numeric opts ''timeout'')
            in if timeout = -1 then 0 else timeout)
      else timeout)"

definition sqlite_timeout :: "dbi_options \<Rightarrow> int" where
  "sqlite_timeout opts =
     (let timeout = get_numeric opts ''sqlite_timeout'' in
      if timeout = -1
      then (let timeout = signed_take_bit 31 (1000 * get_numeric opts ''timeout'')
            in if timeout = -1 then 0 else timeout)
      else timeout)"

datatype mysql_flag = CLIENT_COMPRESS | CLIENT_FOUND_ROWS | CLIENT_IGNORE_SPACE | CLIENT_INTERACTIVE
  | CLIENT_LOCAL_FILES | CLIENT_MULTI_STATEMENTS | CLIENT_MULTI_RESULTS | CLIENT_NO_SCHEMA | CLIENT_ODBC

definition mysql_flag_options :: "(string \<times> mysql_flag) list" where
  "mysql_flag_options =
     [(''mysql_compression'', CLIENT_COMPRESS), (''mysql_client_compress'', CLIENT_COMPRESS),
      (''mysql_client_found_rows'', CLIENT_FOUND_ROWS), (''mysql_client_ignore_SPACE'', CLIENT_IGNORE_SPACE),
      (''mysql_client_interactive'', CLIENT_INTERACTIVE), (''mysql_client_local_files'', CLIENT_LOCAL_FILES),
      (''mysql_client_multi_statements'', CLIENT_MULTI_STATEMENTS),
      (''mysql_client_multi_results'', CLIENT_MULTI_RESULTS), (''mysql_client_no_schema'', CLIENT_NO_SCHEMA),
      (''mysql_client_odbc'', CLIENT_ODBC)]"

definition mysql_client_flags :: "dbi_options \<Rightarrow> mysql_flag set" where
  "mysql_client_flags opts =
     set (map snd (filter (\<lambda>(n, f). 0 < get_numeric opts n) mysql_flag_options))"

datatype tds_version = CS_TDS_40 | CS_TDS_46 | CS_TDS_495 | CS_TDS_50 | CS_TDS_70 | CS_TDS_80

text \<open>\<open>str[2]\<close> of a string of one character is behind its NUL.\<close>

definition freetds_version :: "string \<Rightarrow> tds_version run" where
  "freetds_version str =
     (case str of [] \<Rightarrow> Inr CS_TDS_40
      | c # cs \<Rightarrow>
          (if c = CHR ''8'' then Inr CS_TDS_80
           else if c = CHR ''7'' then Inr CS_TDS_70
           else if c = CHR ''5'' then Inr CS_TDS_50
           else if c = CHR ''4'' then
             (case cs of [] \<Rightarrow> Inl ReadPastEnd
              | d # ds \<Rightarrow>
                  Inr (case ds of [] \<Rightarrow> CS_TDS_40
                       | e # es \<Rightarrow> if e = CHR ''6'' then CS_TDS_46
                                  else if e = CHR ''9'' then CS_TDS_495 else CS_TDS_40))
           else Inr CS_TDS_40))"

section \<open>What a connection string says\<close>

text \<open>
  The documented syntax of \<open>PQconnectdb\<close>: settings \<open>keyword = value\<close> separated by spaces, a value
  in single quotes, in which a backslash makes the next character an ordinary one.
\<close>

fun conn_value :: "string \<Rightarrow> (string \<times> string) option" where
  "conn_value [] = None"
| "conn_value (c # s) =
     (if c = quote then Some ([], s)
      else if c = backslash
      then (case s of [] \<Rightarrow> None | d # t \<Rightarrow> map_option (\<lambda>(v, r). (d # v, r)) (conn_value t))
      else map_option (\<lambda>(v, r). (c # v, r)) (conn_value s))"

lemma conn_value_less: "conn_value s = Some (v, r) \<Longrightarrow> length r < length s"
  by (induction s arbitrary: v rule: conn_value.induct) (force split: if_splits list.splits)+

lemma parse_conninfo_less:
  assumes "dropWhile P s = c # cs" and "dropWhile Q (c # cs) = e # q # v"
    and "conn_value v = Some (val, rest)"
  shows "length rest < length s"
proof -
  have "length (e # q # v) \<le> length (c # cs)" unfolding assms(2) [symmetric] by (rule length_dropWhile_le)
  moreover have "length (c # cs) \<le> length s" unfolding assms(1) [symmetric] by (rule length_dropWhile_le)
  ultimately show ?thesis using conn_value_less [OF assms(3)] by simp
qed

function parse_conninfo :: "string \<Rightarrow> (string \<times> string) list option" where
  "parse_conninfo s =
     (case dropWhile (\<lambda>c. c = CHR '' '') s of [] \<Rightarrow> Some []
      | c # cs \<Rightarrow>
          let key = takeWhile (\<lambda>c. c \<noteq> CHR ''='') (c # cs); r = dropWhile (\<lambda>c. c \<noteq> CHR ''='') (c # cs) in
          (case r of e # q # v \<Rightarrow>
             if q = quote
             then (case conn_value v of None \<Rightarrow> None
                   | Some (val, rest) \<Rightarrow> map_option (\<lambda>kvs. (key, val) # kvs) (parse_conninfo rest))
             else None
           | _ \<Rightarrow> None))"
  by pat_completeness auto
termination
  by (relation "measure length")
     (auto simp del: dropWhile.simps takeWhile.simps dest: parse_conninfo_less [OF _ sym])

declare parse_conninfo.simps [simp del]

definition escaped :: "string \<Rightarrow> string" where
  "escaped v = concat (map (\<lambda>c. if c = backslash \<or> c = quote then [backslash, c] else [c]) v)"

text \<open>The settings a connection string should have.\<close>

definition conninfo_setting :: "dbi_options \<Rightarrow> string \<Rightarrow> (string \<times> string) list" where
  "conninfo_setting opts n =
     (case pgsql_key n of None \<Rightarrow> []
      | Some k \<Rightarrow> [(k, case get_option opts n of Some v \<Rightarrow> v | None \<Rightarrow> show_int (get_numeric opts n))])"

definition conninfo_settings :: "dbi_options \<Rightarrow> string \<Rightarrow> (string \<times> string) list" where
  "conninfo_settings opts db =
     concat (map (conninfo_setting opts) (option_names opts))
     @ (case chosen_db opts db of None \<Rightarrow> [] | Some d \<Rightarrow> [(''dbname'', d)])"

definition plain_key :: "string \<Rightarrow> bool" where
  "plain_key k \<longleftrightarrow> k \<noteq> [] \<and> CHR ''='' \<notin> set k \<and> hd k \<noteq> CHR '' ''"

fun conninfo_text :: "(string \<times> string) list \<Rightarrow> string" where
  "conninfo_text [] = []"
| "conninfo_text ((k, v) # kvs) = k @ ''='' @ [quote] @ escaped v @ [quote] @
     (if kvs = [] then [] else '' '' @ conninfo_text kvs)"

lemma conn_value_escaped: "conn_value (escaped v @ quote # r) = Some (v, r)"
  by (induction v) (auto simp: escaped_def)

lemma parse_conninfo_item:
  assumes "plain_key k"
  shows "parse_conninfo (k @ ''='' @ [quote] @ escaped v @ [quote] @ r)
    = map_option (\<lambda>kvs. (k, v) # kvs) (parse_conninfo r)"
proof -
  obtain c cs where k: "k = c # cs" using assms by (cases k) (auto simp: plain_key_def)
  have c: "c \<noteq> CHR '' ''" "\<forall>x \<in> set k. x \<noteq> CHR ''=''" using assms k by (auto simp: plain_key_def)
  let ?tail = "CHR ''='' # quote # escaped v @ quote # r"
  have "dropWhile (\<lambda>c. c = CHR '' '') (k @ ?tail) = c # (cs @ ?tail)" using c by (simp add: k)
  moreover have "takeWhile (\<lambda>c. c \<noteq> CHR ''='') (c # (cs @ ?tail)) = k"
    and "dropWhile (\<lambda>c. c \<noteq> CHR ''='') (c # (cs @ ?tail)) = ?tail"
    using c by (simp_all add: k takeWhile_append dropWhile_append)
  ultimately have "parse_conninfo (k @ ?tail) = map_option (\<lambda>kvs. (k, v) # kvs) (parse_conninfo r)"
    by (subst parse_conninfo.simps) (simp only: list.case Let_def conn_value_escaped option.case
        prod.case if_True simp_thms)
  then show ?thesis by simp
qed

lemma parse_conninfo_space: "parse_conninfo ('' '' @ r) = parse_conninfo r"
  by (subst (1 2) parse_conninfo.simps) simp

lemma parse_conninfo_text: "list_all plain_key (map fst kvs) \<Longrightarrow> parse_conninfo (conninfo_text kvs) = Some kvs"
proof (induction kvs rule: conninfo_text.induct)
  case 1
  then show ?case by (subst parse_conninfo.simps) simp
next
  case (2 k v kvs)
  show ?case
  proof (cases "kvs = []")
    case True
    then show ?thesis
      using 2 parse_conninfo_item [of k v "[]"] by (simp add: parse_conninfo.simps [of "[]"])
  next
    case False
    then show ?thesis
      using 2 parse_conninfo_item [of k v "'' '' @ conninfo_text kvs"]
        parse_conninfo_space [of "conninfo_text kvs"] by simp
  qed
qed

definition text_of :: "(string \<times> string) list \<Rightarrow> string option" where
  "text_of kvs = (if kvs = [] then None else Some (conninfo_text kvs))"

lemma conninfo_append_text: "conninfo_append (text_of kvs) k (escaped v) = text_of (kvs @ [(k, v)])"
proof -
  have "conninfo_text (kvs @ [(k, v)])
      = (if kvs = [] then [] else conninfo_text kvs @ '' '') @ k @ ''='' @ [quote] @ escaped v @ [quote]"
    for kvs by (induction kvs rule: conninfo_text.induct) auto
  then show ?thesis by (simp add: conninfo_append_def text_of_def)
qed

lemma escaped_plain: "\<forall>c \<in> set s. c \<noteq> backslash \<and> c \<noteq> quote \<Longrightarrow> escaped s = s"
  by (induction s) (auto simp: escaped_def)

lemma escaped_show_int: "escaped (show_int i) = show_int i"
proof (rule escaped_plain)
  have "c \<noteq> backslash \<and> c \<noteq> quote" if "c \<in> set (show_nat n)" for c n
    using that show_nat_digits [of n] by (auto simp: isdigit_def uchar_def)
  then show "\<forall>c \<in> set (show_int i). c \<noteq> backslash \<and> c \<noteq> quote"
    by (auto simp: show_int_def)
qed

lemma conninfo_option_text:
  assumes "\<forall>v. escape v = escaped v"
  shows "conninfo_option escape opts (text_of kvs) n = text_of (kvs @ conninfo_setting opts n)"
proof (cases "pgsql_key n")
  case None
  then show ?thesis by (simp add: conninfo_option_def conninfo_setting_def)
next
  case (Some k)
  have "conninfo_append (text_of kvs) k (show_int i) = text_of (kvs @ [(k, show_int i)])" for i
    using conninfo_append_text [of kvs k "show_int i"] by (simp only: escaped_show_int)
  with Some show ?thesis
    by (simp add: conninfo_option_def conninfo_setting_def assms conninfo_append_text split: option.split)
qed

lemma conninfo_fold_text:
  assumes "\<forall>v. escape v = escaped v"
  shows "foldl (conninfo_option escape opts) (text_of kvs) ns
    = text_of (kvs @ concat (map (conninfo_setting opts) ns))"
  by (induction ns arbitrary: kvs) (simp_all add: conninfo_option_text [OF assms])

lemma pgsql_conninfo_text:
  assumes "\<forall>v. escape v = escaped v"
  shows "pgsql_conninfo escape opts db = conninfo_text (conninfo_settings opts db)"
proof -
  have start: "foldl (conninfo_option escape opts) None ns
      = text_of (concat (map (conninfo_setting opts) ns))" for ns
    using conninfo_fold_text [OF assms, of opts "[]" ns] by (simp add: text_of_def [of "[]"])
  have str: "(case text_of kvs of None \<Rightarrow> [] | Some c \<Rightarrow> c) = conninfo_text kvs" for kvs
    by (simp add: text_of_def)
  show ?thesis
    by (cases "chosen_db opts db")
       (simp_all add: pgsql_conninfo_def conninfo_settings_def Let_def start str assms
          conninfo_append_text)
qed

text \<open>
  C18: The connection string that the PostgreSQL driver builds, read by the rules of
  \<open>PQconnectdb\<close>, says exactly what the options say: one setting for every option that is not
  skipped, in order, under its keyword, then the database. No value can break out of its quotes,
  whatever characters it has.
\<close>

theorem pgsql_conninfo_parses:
  assumes "\<forall>v. escape v = escaped v"
    and "\<forall>n \<in> set (option_names opts). \<forall>k. pgsql_key n = Some k \<longrightarrow> plain_key k"
  shows "parse_conninfo (pgsql_conninfo escape opts db) = Some (conninfo_settings opts db)"
proof -
  have "\<forall>kv \<in> set (conninfo_setting opts n). plain_key (fst kv)" if "n \<in> set (option_names opts)" for n
    using assms(2) that by (auto simp: conninfo_setting_def split: option.splits)
  then have "list_all plain_key (map fst (conninfo_settings opts db))"
    by (auto simp: conninfo_settings_def list_all_iff plain_key_def split: option.splits)
  then show ?thesis by (simp add: pgsql_conninfo_text [OF assms(1)] parse_conninfo_text)
qed

theorem pgsql_conninfo_parses_witness:
  "parse_conninfo (pgsql_conninfo escaped
       \<lparr>option_names = [''username'', ''encoding'', ''port''],
        get_option = (\<lambda>n. if n = ''username'' then Some (''o'' @ [quote] @ ''x=1'') else None),
        get_numeric = (\<lambda>n. 5432)\<rparr> ''my db'')
    = Some [(''user'', ''o'' @ [quote] @ ''x=1''), (''port'', show_int 5432), (''dbname'', ''my db'')]"
proof -
  let ?o = "\<lparr>option_names = [''username'', ''encoding'', ''port''],
        get_option = (\<lambda>n. if n = ''username'' then Some (''o'' @ [quote] @ ''x=1'') else None),
        get_numeric = (\<lambda>n. 5432)\<rparr> :: dbi_options"
  have "\<forall>n \<in> set (option_names ?o). \<forall>k. pgsql_key n = Some k \<longrightarrow> plain_key k"
    by (simp add: pgsql_key_def plain_key_def)
  from pgsql_conninfo_parses [OF _ this, of escaped "''my db''"] show ?thesis
    by (simp add: conninfo_settings_def conninfo_setting_def pgsql_key_def chosen_db_def)
qed

end
