(* ===== verification/IngresSession.thy ===== *)
theory IngresSession
  imports IngresResults Options
begin

text \<open>
  Connections, transactions and queries of the Ingres driver. The OpenAPI hands out handles of
  connections and transactions; the state keeps, beside what the driver stores, the events of
  the transaction handles, so a handle that is used after its transaction has ended is seen.
  What the API answers is a parameter of every operation; a status is a number, ordered as the
  API documents.
\<close>

section \<open>The state\<close>

definition IIAPI_ST_SUCCESS :: nat where "IIAPI_ST_SUCCESS = 0"
definition IIAPI_ST_NO_DATA :: nat where "IIAPI_ST_NO_DATA = 3"
definition IIAPI_ST_ERROR :: nat where "IIAPI_ST_ERROR = 4"

lemmas status_defs = IIAPI_ST_SUCCESS_def IIAPI_ST_NO_DATA_def IIAPI_ST_ERROR_def

text \<open>A transaction handle is handed out, is passed to a call, or its transaction has ended.\<close>

datatype tran_event = Started nat | Passed nat | Finished nat

record ingres_conn =
  connHandle :: "nat option"
  currTran :: "nat option"
  autocommit :: bool

text \<open>
  A connection of libdbi: \<open>iconn\<close> is \<open>conn->connection\<close>. The connection that a program has opened
  holds a second one for the system catalogs besides, whose own is never used.
\<close>

record link =
  iconn :: "ingres_conn option"
  events :: "tran_event list"
  closed :: "nat list"

record ingres_session = link +
  sysConn :: "link option"

definition new_link :: link where
  "new_link = \<lparr>iconn = None, events = [], closed = []\<rparr>"

definition log :: "tran_event list \<Rightarrow> 'a link_scheme \<Rightarrow> 'a link_scheme" where
  "log es l = l\<lparr>events := events l @ es\<rparr>"

definition pass :: "nat option \<Rightarrow> 'a link_scheme \<Rightarrow> 'a link_scheme" where
  "pass t l = (case t of None \<Rightarrow> l | Some h \<Rightarrow> log [Passed h] l)"

definition finish :: "nat option \<Rightarrow> 'a link_scheme \<Rightarrow> 'a link_scheme" where
  "finish t l = (case t of None \<Rightarrow> l | Some h \<Rightarrow> log [Passed h, Finished h] l)"

definition set_tran :: "nat option \<Rightarrow> 'a link_scheme \<Rightarrow> 'a link_scheme" where
  "set_tran t l = l\<lparr>iconn := map_option (\<lambda>c. c\<lparr>currTran := t\<rparr>) (iconn l)\<rparr>"

section \<open>Connecting\<close>

text \<open>The settings made before connecting, in order; their status is not looked at.\<close>

datatype setting = Env_num string int | Con_num string int | Con_str string string

definition ingres_envoption_num :: "dbi_options \<Rightarrow> string \<Rightarrow> setting list" where
  "ingres_envoption_num opts name =
     (case get_option opts name of None \<Rightarrow> [] | Some opt \<Rightarrow> [Env_num name (atoi opt)])"

definition ingres_option_num :: "dbi_options \<Rightarrow> string \<Rightarrow> setting list" where
  "ingres_option_num opts name =
     (case get_option opts name of None \<Rightarrow> [] | Some opt \<Rightarrow> [Con_num name (atoi opt)])"

definition ingres_option_str :: "dbi_options \<Rightarrow> string \<Rightarrow> setting list" where
  "ingres_option_str opts name =
     (case get_option opts name of None \<Rightarrow> [] | Some opt \<Rightarrow> [Con_str name opt])"

definition ingres_settings :: "dbi_options \<Rightarrow> setting list" where
  "ingres_settings opts =
     ingres_envoption_num opts ''ingres_blobsegment''
     @ ingres_option_num opts ''ingres_century_bdry''
     @ ingres_option_num opts ''ingres_date_format''
     @ ingres_option_str opts ''ingres_decimal_char''
     @ ingres_option_num opts ''ingres_excl_lock''
     @ ingres_option_str opts ''ingres_money_sign''
     @ ingres_option_num opts ''ingres_money_prec''
     @ ingres_option_num opts ''ingres_money_lort''
     @ ingres_option_str opts ''ingres_native_lang''
     @ ingres_option_num opts ''ingres_native_lang_code''
     @ ingres_option_str opts ''ingres_num_treatment''
     @ ingres_option_str opts ''ingres_string_trunc''
     @ ingres_option_str opts ''ingres_timezone''"

text \<open>
  The answers: \<open>connects\<close> gives status and handle for the settings, database, user and password;
  \<open>enters\<close> and \<open>leaves\<close> are the status of \<open>IIapi_autocommit\<close>, the former with the handle of the
  transaction.
\<close>

record connect_answers =
  connects :: "setting list \<Rightarrow> string option \<Rightarrow> string option \<Rightarrow> string option \<Rightarrow> nat \<times> nat option"
  enters :: "nat \<times> nat option"
  leaves :: nat

text \<open>\<open>dbd_disconnect\<close>, the connection to the catalogs apart.\<close>

definition ingres_hang_up :: "nat \<Rightarrow> 'a link_scheme \<Rightarrow> 'a link_scheme" where
  "ingres_hang_up status l =
     (case iconn l of None \<Rightarrow> l
      | Some c \<Rightarrow>
          let l = (if autocommit c
                   then (if status < IIAPI_ST_ERROR then finish (currTran c) l else pass (currTran c) l)
                   else l);
              l = (case connHandle c of None \<Rightarrow> l | Some h \<Rightarrow> l\<lparr>closed := h # closed l\<rparr>)
          in l\<lparr>iconn := None\<rparr>)"

definition ingres_connect ::
    "connect_answers \<Rightarrow> dbi_options \<Rightarrow> string option \<Rightarrow> string option \<Rightarrow> 'a link_scheme \<Rightarrow> 'a link_scheme \<times> int" where
  "ingres_connect a opts db autocommit_opt l =
     (let target = (case db of None \<Rightarrow> get_option opts ''dbname'' | Some d \<Rightarrow> Some d);
          (status, handle) = connects a (ingres_settings opts) target
             (get_option opts ''username'') (get_option opts ''password'');
          c = \<lparr>connHandle = handle, currTran = None, autocommit = False\<rparr> in
      if status < IIAPI_ST_ERROR then
        (if autocommit_opt = None \<or> atoi (the autocommit_opt) \<noteq> 0
         then
           let (status, tran) = enters a in
           if status < IIAPI_ST_ERROR
           then ((case tran of None \<Rightarrow> l | Some t \<Rightarrow> log [Started t] l)
                   \<lparr>iconn := Some (c\<lparr>autocommit := True, currTran := tran\<rparr>)\<rparr>, 0)
           else (l\<lparr>iconn := Some (c\<lparr>autocommit := True\<rparr>)\<rparr>, 0)
         else (l\<lparr>iconn := Some c\<rparr>, 0))
      else (ingres_hang_up (leaves a) (l\<lparr>iconn := Some c\<rparr>), -1))"

definition ingres_dbd_connect ::
    "connect_answers \<Rightarrow> dbi_options \<Rightarrow> ingres_session \<Rightarrow> ingres_session \<times> int" where
  "ingres_dbd_connect a opts s =
     ingres_connect a opts None (get_option opts ''ingres_autocommit'') (s\<lparr>sysConn := None\<rparr>)"

text \<open>\<open>dbi_conn_close\<close> of libdbi takes the connection to the catalogs away.\<close>

definition ingres_disconnect :: "nat \<Rightarrow> ingres_session \<Rightarrow> ingres_session" where
  "ingres_disconnect status s =
     (if iconn s = None then s else ingres_hang_up status (s\<lparr>sysConn := None\<rparr>))"

definition ingres_select_db ::
    "connect_answers \<Rightarrow> dbi_options \<Rightarrow> string \<Rightarrow> ingres_session \<Rightarrow> ingres_session \<times> string option" where
  "ingres_select_db a opts db s =
     (if db = [] then (s, None)
      else
        let s = ingres_disconnect (leaves a) s;
            (s, r) = ingres_connect a opts (Some db) (get_option opts ''ingres_autocommit'') (s\<lparr>sysConn := None\<rparr>) in
        if r \<noteq> 0 then (s, None) else (s, Some db))"

section \<open>Queries\<close>

text \<open>
  A commit or a rollback ends the transaction when its status is below \<open>IIAPI_ST_ERROR\<close>: a message or a warning
  does not undo it. The driver takes only \<open>IIAPI_ST_SUCCESS\<close> for success.
\<close>

definition ingres_commit :: "nat \<Rightarrow> nat option \<Rightarrow> 'a link_scheme \<Rightarrow> bool \<times> 'a link_scheme" where
  "ingres_commit status tranHandle l =
     (status = IIAPI_ST_SUCCESS, (if status < IIAPI_ST_ERROR then finish tranHandle l else pass tranHandle l))"

definition ingres_rollback :: "nat \<Rightarrow> nat option \<Rightarrow> 'a link_scheme \<Rightarrow> bool \<times> 'a link_scheme" where
  "ingres_rollback status tranHandle l =
     (status = IIAPI_ST_SUCCESS, (if status < IIAPI_ST_ERROR then finish tranHandle l else pass tranHandle l))"

text \<open>
  The answers to a query: \<open>qa_end\<close> is the status of a commit or rollback, \<open>qa_query\<close> and \<open>qa_tran\<close>
  status and transaction of \<open>IIapi_query\<close>; the descriptors, the number of affected rows, if there
  is one, and the answers for the rows follow.
\<close>

record query_answers =
  qa_end :: nat
  qa_query :: nat
  qa_tran :: "nat option"
  qa_descr :: "nat \<times> descriptor list"
  qa_info :: "nat \<times> nat option"
  qa_columns :: "columns_answer list"

record dbi_result =
  res_affected :: nat
  res_fields :: "(string \<times> field_type) list"
  res_rows :: "slot list list"

definition bare_result :: "nat \<Rightarrow> dbi_result" where
  "bare_result affected = \<lparr>res_affected = affected, res_fields = [], res_rows = []\<rparr>"

text \<open>
  What comes after \<open>IIapi_query\<close>. \<open>None\<close> in front is a fetch that never ends, \<open>None\<close> inside a null
  result; what \<open>ingres_results\<close> returns is not looked at.
\<close>

definition ingres_describe ::
    "(descriptor \<Rightarrow> colval \<Rightarrow> string option) \<Rightarrow> query_answers \<Rightarrow> dbi_result option run option" where
  "ingres_describe convert a =
     (if \<not> qa_query a < IIAPI_ST_NO_DATA \<or> \<not> fst (qa_descr a) < IIAPI_ST_ERROR then Some (Inr None)
      else
        let desc = snd (qa_descr a) in
        if desc = [] then
          (let affectedRows = (case snd (qa_info a) of
               Some n \<Rightarrow> if fst (qa_info a) < IIAPI_ST_ERROR then n else 0 | None \<Rightarrow> 0) in
           Some (Inr (Some (bare_result affectedRows))))
        else
          map_option (\<lambda>r. run_bind r (\<lambda>(retval, rows). Inr (Some
              \<lparr>res_affected = 0,
               res_fields = map (\<lambda>d. (ds_columnName d, ingres_classify_field (ds_dataType d) (ds_length d))) desc,
               res_rows = rows\<rparr>)))
            (ingres_results convert Suc Suc desc (qa_columns a)))"

definition new_tran :: "nat option \<Rightarrow> nat option \<Rightarrow> 'a link_scheme \<Rightarrow> 'a link_scheme" where
  "new_tran old new l = (case new of None \<Rightarrow> l | Some t \<Rightarrow> if old = new then l else log [Started t] l)"

definition ingres_query ::
    "(descriptor \<Rightarrow> colval \<Rightarrow> string option) \<Rightarrow> query_answers \<Rightarrow> string \<Rightarrow> 'a link_scheme
       \<Rightarrow> (dbi_result option \<times> 'a link_scheme) run option" where
  "ingres_query convert a statement l =
     (case iconn l of None \<Rightarrow> Some (Inr (None, l))
      | Some c \<Rightarrow>
          if connHandle c = None then Some (Inr (None, l))
          else if starts_with statement ''COMMIT'' then
            (let (ok, l) = ingres_commit (qa_end a) (currTran c) l in
             Some (Inr (if ok then (Some (bare_result 0), set_tran None l) else (None, l))))
          else if starts_with statement ''ROLLBACK'' then
            (let (ok, l) = ingres_rollback (qa_end a) (currTran c) l in
             Some (Inr (if ok then (Some (bare_result 0), set_tran None l) else (None, l))))
          else
            (let l = set_tran (qa_tran a) (new_tran (currTran c) (qa_tran a) (pass (currTran c) l)) in
             map_option (\<lambda>r. run_bind r (\<lambda>res. Inr (res, l))) (ingres_describe convert a)))"

text \<open>
  \<open>dbi_result_next_row\<close> and \<open>dbi_result_get_int_idx(res, 1)\<close> of libdbi read the first column of the
  first row; \<open>get_int\<close> is the latter.
\<close>

definition ingres_number_of :: "(slot list \<Rightarrow> int) \<Rightarrow> dbi_result option \<Rightarrow> int" where
  "ingres_number_of get_int res =
     (case res of None \<Rightarrow> 0 | Some r \<Rightarrow> (case res_rows r of [] \<Rightarrow> 0 | row # rows \<Rightarrow> get_int row))"

definition ingres_ping ::
    "(descriptor \<Rightarrow> colval \<Rightarrow> string option) \<Rightarrow> (slot list \<Rightarrow> int) \<Rightarrow> query_answers \<Rightarrow> 'a link_scheme
       \<Rightarrow> (int \<times> 'a link_scheme) run option" where
  "ingres_ping convert get_int a l =
     map_option (\<lambda>r. run_bind r (\<lambda>(res, l). Inr (ingres_number_of get_int res, l)))
       (ingres_query convert a ''SELECT 1'' l)"

definition ingres_get_seq_last ::
    "(descriptor \<Rightarrow> colval \<Rightarrow> string option) \<Rightarrow> (slot list \<Rightarrow> int) \<Rightarrow> query_answers \<Rightarrow> string \<Rightarrow> 'a link_scheme
       \<Rightarrow> (int \<times> 'a link_scheme) run option" where
  "ingres_get_seq_last convert get_int a sequence l =
     map_option (\<lambda>r. run_bind r (\<lambda>(res, l).
         if (case res of None \<Rightarrow> True | Some r \<Rightarrow> res_rows r = []) \<and> iconn l = None
         then Inl NullDeref else Inr (ingres_number_of get_int res, l)))
       (ingres_query convert a (''SELECT CURRENT VALUE FOR '' @ sequence) l)"

definition ingres_get_seq_next ::
    "(descriptor \<Rightarrow> colval \<Rightarrow> string option) \<Rightarrow> (slot list \<Rightarrow> int) \<Rightarrow> query_answers \<Rightarrow> string \<Rightarrow> 'a link_scheme
       \<Rightarrow> (int \<times> 'a link_scheme) run option" where
  "ingres_get_seq_next convert get_int a sequence l =
     map_option (\<lambda>r. run_bind r (\<lambda>(res, l). Inr (ingres_number_of get_int res, l)))
       (ingres_query convert a (''SELECT NEXT VALUE FOR '' @ sequence) l)"

section \<open>The system catalogs\<close>

text \<open>
  The rollback afterwards does not reset \<open>currTran\<close>. A system connection that failed stays in
  place with a null \<open>connection\<close>.
\<close>

definition ingres_sys_query ::
    "(descriptor \<Rightarrow> colval \<Rightarrow> string option) \<Rightarrow> connect_answers \<Rightarrow> query_answers \<Rightarrow> nat \<Rightarrow> string
       \<Rightarrow> ingres_session \<Rightarrow> (dbi_result option \<times> ingres_session) run option" where
  "ingres_sys_query convert ca a rb sql s =
     (if iconn s = None then Some (Inl NullDeref)
      else
        let (sys, r) = (case sysConn s of Some sys \<Rightarrow> (sys, 0)
               | None \<Rightarrow> ingres_connect ca \<lparr>option_names = [], get_option = (\<lambda>n. None), get_numeric = (\<lambda>n. 0)\<rparr>
                           (Some ''iidbdb'') (Some ''0'') new_link) in
        if r < 0 then Some (Inr (None, s\<lparr>sysConn := Some sys\<rparr>))
        else
          map_option (\<lambda>q. run_bind q (\<lambda>(res, sys).
              case iconn sys of None \<Rightarrow> Inl NullDeref
              | Some c \<Rightarrow> Inr (res, s\<lparr>sysConn := Some (snd (ingres_rollback rb (currTran c) sys))\<rparr>)))
            (ingres_query convert a sql sys))"

definition ingres_list_dbs ::
    "(descriptor \<Rightarrow> colval \<Rightarrow> string option) \<Rightarrow> connect_answers \<Rightarrow> query_answers \<Rightarrow> nat \<Rightarrow> string option
       \<Rightarrow> ingres_session \<Rightarrow> (dbi_result option \<times> ingres_session) run option" where
  "ingres_list_dbs convert ca a rb pattern s =
     (let sql = ''SELECT database_name FROM iidatabase_info'' in
      ingres_sys_query convert ca a rb
        (case pattern of None \<Rightarrow> sql | Some p \<Rightarrow> sql @ '' WHERE database_name LIKE '' @ [quote] @ p @ [quote]) s)"

text \<open>The connection for the tables of a database is never closed; its link is given back.\<close>

definition ingres_list_tables ::
    "(descriptor \<Rightarrow> colval \<Rightarrow> string option) \<Rightarrow> connect_answers \<Rightarrow> query_answers \<Rightarrow> nat \<Rightarrow> string option
       \<Rightarrow> string option \<Rightarrow> (dbi_result option \<times> link) run option" where
  "ingres_list_tables convert ca a rb db pattern =
     (let sql = ''SELECT table_name FROM iitables WHERE table_name NOT LIKE '' @ [quote] @ ''ii%'' @ [quote];
          (new, r) = ingres_connect ca \<lparr>option_names = [], get_option = (\<lambda>n. None), get_numeric = (\<lambda>n. 0)\<rparr>
             db (Some ''0'') new_link in
      if r < 0 then Some (Inr (None, new))
      else
        map_option (\<lambda>q. run_bind q (\<lambda>(res, new).
            case iconn new of None \<Rightarrow> Inl NullDeref
            | Some c \<Rightarrow> Inr (res, snd (ingres_rollback rb (currTran c) new))))
          (ingres_query convert a
             (case pattern of None \<Rightarrow> sql
              | Some p \<Rightarrow> sql @ '' AND table_name LIKE '' @ [quote] @ p @ [quote]) new))"

section \<open>Transaction handles\<close>

text \<open>No handle is passed or handed out again once its transaction has ended.\<close>

primrec ended :: "tran_event list \<Rightarrow> nat list" where
  "ended [] = []"
| "ended (e # es) = (case e of Finished t \<Rightarrow> t # ended es | _ \<Rightarrow> ended es)"

primrec legal_from :: "nat list \<Rightarrow> tran_event list \<Rightarrow> bool" where
  "legal_from gone [] = True"
| "legal_from gone (e # es) =
     (case e of Started t \<Rightarrow> t \<notin> set gone \<and> legal_from gone es
      | Passed t \<Rightarrow> t \<notin> set gone \<and> legal_from gone es
      | Finished t \<Rightarrow> legal_from (t # gone) es)"

definition legal :: "tran_event list \<Rightarrow> bool" where
  "legal = legal_from []"

lemma ended_append [simp]: "ended (es @ fs) = ended es @ ended fs"
  by (induction es) (auto split: tran_event.splits)

lemma legal_from_cong: "set gone = set gone' \<Longrightarrow> legal_from gone es = legal_from gone' es"
proof (induction es arbitrary: gone gone')
  case (Cons e es)
  show ?case
  proof (cases e)
    case (Finished t)
    have "set (t # gone) = set (t # gone')" using Cons.prems by simp
    from Cons.IH [OF this] show ?thesis by (simp add: Finished)
  qed (use Cons.IH [OF Cons.prems] Cons.prems in simp_all)
qed simp

lemma legal_from_append: "legal_from gone (es @ fs) \<longleftrightarrow> legal_from gone es \<and> legal_from (gone @ ended es) fs"
proof (induction es arbitrary: gone)
  case (Cons e es)
  show ?case
  proof (cases e)
    case (Finished t)
    have "legal_from (t # gone @ ended es) fs = legal_from (gone @ t # ended es) fs"
      by (rule legal_from_cong) auto
    with Cons.IH [of "t # gone"] show ?thesis by (simp add: Finished)
  qed (simp_all add: Cons.IH conj_assoc)
qed simp

lemma legal_append: "legal (es @ fs) \<longleftrightarrow> legal es \<and> legal_from (ended es) fs"
  by (simp add: legal_def legal_from_append)

text \<open>
  What the API documents: a query without a transaction begins a new one, whose handle is new; a query in a
  transaction stays in it.
\<close>

definition new_handle :: "tran_event list \<Rightarrow> nat option \<Rightarrow> bool" where
  "new_handle es t \<longleftrightarrow> (\<forall>h. t = Some h \<longrightarrow> h \<notin> set (ended es))"

definition query_tran_ok :: "'a link_scheme \<Rightarrow> query_answers \<Rightarrow> bool" where
  "query_tran_ok l a \<longleftrightarrow>
     (\<forall>c. iconn l = Some c \<longrightarrow>
        (case currTran c of None \<Rightarrow> new_handle (events l) (qa_tran a) | Some t \<Rightarrow> qa_tran a = Some t))"

definition handles_ok :: "'a link_scheme \<Rightarrow> bool" where
  "handles_ok l \<longleftrightarrow> legal (events l)
     \<and> (\<forall>c t. iconn l = Some c \<longrightarrow> currTran c = Some t \<longrightarrow> t \<notin> set (ended (events l)))"

lemmas link_defs = log_def pass_def finish_def set_tran_def new_tran_def

lemma handles_ok_hang_up: "handles_ok l \<Longrightarrow> handles_ok (ingres_hang_up status l)"
  by (auto simp: handles_ok_def ingres_hang_up_def link_defs legal_append Let_def split: option.splits)

lemma handles_ok_connect:
  assumes "handles_ok l" and "new_handle (events l) (snd (enters a))"
    and "ingres_connect a opts db ac l = (l', r)"
  shows "handles_ok l'"
proof -
  obtain status handle where c: "connects a (ingres_settings opts)
      (case db of None \<Rightarrow> get_option opts ''dbname'' | Some d \<Rightarrow> Some d)
      (get_option opts ''username'') (get_option opts ''password'') = (status, handle)"
    by fastforce
  obtain st tran where e: "enters a = (st, tran)" by fastforce
  have failed: "handles_ok (ingres_hang_up (leaves a)
      (l\<lparr>iconn := Some \<lparr>connHandle = handle, currTran = None, autocommit = False\<rparr>\<rparr>))"
    using assms(1) by (intro handles_ok_hang_up) (simp add: handles_ok_def)
  show ?thesis
    using assms failed
    by (auto simp: ingres_connect_def Let_def c e handles_ok_def log_def legal_append new_handle_def
        split: option.splits if_splits)
qed

lemma handles_ok_ended:
  assumes "handles_ok l" and "iconn l = Some c"
  shows "handles_ok (pass (currTran c) l)" and "handles_ok (set_tran None (finish (currTran c) l))"
  using assms by (auto simp: handles_ok_def link_defs legal_append split: option.splits)

text \<open>The answers to a commit or rollback that the driver and the API understand alike.\<close>

definition clear_status :: "nat \<Rightarrow> bool" where
  "clear_status status \<longleftrightarrow> status = IIAPI_ST_SUCCESS \<or> IIAPI_ST_ERROR \<le> status"

lemma handles_ok_query:
  assumes "handles_ok l" and "query_tran_ok l a" and "clear_status (qa_end a)"
    and "ingres_query convert a statement l = Some (Inr (res, l'))"
  shows "handles_ok l'"
proof (cases "iconn l")
  case (Some c)
  note ended = handles_ok_ended [OF assms(1) Some]
  have run: "handles_ok (set_tran (qa_tran a) (new_tran (currTran c) (qa_tran a) (pass (currTran c) l)))"
    using assms(1,2) Some
    by (auto simp: handles_ok_def query_tran_ok_def new_handle_def link_defs legal_append split: option.splits)
  have "l' = l \<or> l' = pass (currTran c) l \<or> l' = set_tran None (finish (currTran c) l)
      \<or> l' = set_tran (qa_tran a) (new_tran (currTran c) (qa_tran a) (pass (currTran c) l))"
  proof (cases "connHandle c = None \<or> starts_with statement ''COMMIT'' \<or> starts_with statement ''ROLLBACK''")
    case True
    then show ?thesis using assms(3,4)
      by (auto simp: ingres_query_def Some ingres_commit_def ingres_rollback_def clear_status_def status_defs
          split: if_split_asm)
  next
    case False
    then show ?thesis using assms(4)
      by (auto simp: ingres_query_def Some Let_def run_bind_eq_Inr)
  qed
  then show ?thesis using assms(1) ended run by blast
qed (use assms in \<open>simp add: ingres_query_def\<close>)

lemma handles_ok_cong:
  fixes l :: "'a link_scheme" and l' :: "'b link_scheme"
  shows "iconn l = iconn l' \<Longrightarrow> events l = events l' \<Longrightarrow> handles_ok l = handles_ok l'"
  by (simp add: handles_ok_def)

section \<open>What a program can do\<close>

text \<open>
  One request of a program. \<open>dbd_connect\<close> is called for a connection that is not open; the API
  hands out new transactions and answers a commit or a rollback with a status in \<open>E\<close>.
\<close>

inductive ingres_step ::
    "(descriptor \<Rightarrow> colval \<Rightarrow> string option) \<Rightarrow> dbi_options \<Rightarrow> nat set \<Rightarrow> ingres_session \<Rightarrow> ingres_session \<Rightarrow> bool"
  for convert opts E where
  connect: "iconn s = None \<Longrightarrow> new_handle (events s) (snd (enters a)) \<Longrightarrow>
     ingres_dbd_connect a opts s = (s', r) \<Longrightarrow> ingres_step convert opts E s s'"
| select_db: "new_handle (events (ingres_disconnect (leaves a) s)) (snd (enters a)) \<Longrightarrow>
     ingres_select_db a opts db s = (s', d) \<Longrightarrow> ingres_step convert opts E s s'"
| query: "query_tran_ok s q \<Longrightarrow> qa_end q \<in> E \<Longrightarrow> ingres_query convert q statement s = Some (Inr (res, s')) \<Longrightarrow>
     ingres_step convert opts E s s'"
| list_dbs: "ingres_list_dbs convert a q status pattern s = Some (Inr (res, s')) \<Longrightarrow> ingres_step convert opts E s s'"
| disconnect: "ingres_disconnect status s = s' \<Longrightarrow> ingres_step convert opts E s s'"

definition fresh_ingres :: ingres_session where
  "fresh_ingres = \<lparr>iconn = None, events = [], closed = [], sysConn = None\<rparr>"

lemma ingres_disconnect_ok: "handles_ok s \<Longrightarrow> handles_ok (ingres_disconnect status s)"
  by (auto simp: ingres_disconnect_def intro!: handles_ok_hang_up) (simp add: handles_ok_def)

lemma sys_query_link:
  assumes "ingres_sys_query convert a q status sql s = Some (Inr (res, s'))"
  shows "iconn s' = iconn s \<and> events s' = events s"
proof -
  obtain sys r where "(case sysConn s of Some sys \<Rightarrow> (sys, 0)
      | None \<Rightarrow> ingres_connect a \<lparr>option_names = [], get_option = (\<lambda>n. None), get_numeric = (\<lambda>n. 0)\<rparr>
           (Some ''iidbdb'') (Some ''0'') new_link) = (sys, r)"
    by fastforce
  note new = this
  show ?thesis
  proof (cases "iconn s = None \<or> r < 0")
    case True
    then show ?thesis using assms by (auto simp: ingres_sys_query_def new split: if_split_asm)
  next
    case False
    then obtain q where "run_bind q (\<lambda>(res, sys). case iconn sys of None \<Rightarrow> Inl NullDeref
        | Some c \<Rightarrow> Inr (res, s\<lparr>sysConn := Some (snd (ingres_rollback status (currTran c) sys))\<rparr>)) = Inr (res, s')"
      using assms by (auto simp: ingres_sys_query_def new)
    then obtain res' sys' where "(case iconn sys' of None \<Rightarrow> Inl NullDeref
        | Some c \<Rightarrow> Inr (res', s\<lparr>sysConn := Some (snd (ingres_rollback status (currTran c) sys'))\<rparr>)) = Inr (res, s')"
      by (cases q) auto
    then show ?thesis by (cases "iconn sys'") auto
  qed
qed

lemma ingres_step_ok:
  assumes "ingres_step convert opts E s s'" and "handles_ok s" and "\<forall>st \<in> E. clear_status st"
  shows "handles_ok s'"
  using assms(1,2)
proof (induction rule: ingres_step.induct)
  case (connect s a s' r)
  have "handles_ok (s\<lparr>sysConn := None\<rparr>)" using connect.prems by (simp add: handles_ok_def)
  moreover have "new_handle (events (s\<lparr>sysConn := None\<rparr>)) (snd (enters a))" using connect.hyps(2) by simp
  ultimately show ?case
    using connect.hyps(3) unfolding ingres_dbd_connect_def by (rule handles_ok_connect)
next
  case (select_db a s db s' d)
  let ?s = "ingres_disconnect (leaves a) s\<lparr>sysConn := None\<rparr>"
  have "handles_ok (ingres_disconnect (leaves a) s)" using select_db.prems by (rule ingres_disconnect_ok)
  then have ok: "handles_ok ?s" by (simp add: handles_ok_def)
  obtain t r where t: "ingres_connect a opts (Some db) (get_option opts ''ingres_autocommit'') ?s = (t, r)"
    by fastforce
  have "handles_ok t" using select_db.hyps(1) by (intro handles_ok_connect [OF ok _ t]) simp
  moreover have "s' = s \<or> s' = t"
    using select_db.hyps(2) t by (auto simp: ingres_select_db_def Let_def split: if_splits)
  ultimately show ?case using select_db.prems by blast
next
  case (list_dbs a q status pattern s res s')
  then have "iconn s' = iconn s \<and> events s' = events s"
    by (auto simp: ingres_list_dbs_def Let_def dest: sys_query_link)
  then show ?case using list_dbs.prems by (simp add: handles_ok_def)
qed (use assms(3) handles_ok_query ingres_disconnect_ok in blast)+

text \<open>What the driver makes of a commit that succeeds with a message or a warning.\<close>

lemma unclear_end:
  assumes "iconn s = Some c" and "connHandle c \<noteq> None" and "currTran c = Some t"
    and "starts_with statement ''COMMIT'' \<or> starts_with statement ''ROLLBACK''"
    and "\<not> clear_status (qa_end a)"
  shows "ingres_query convert a statement s = Some (Inr (None, log [Passed t, Finished t] s))"
  using assms
  by (auto simp: ingres_query_def ingres_commit_def ingres_rollback_def clear_status_def status_defs finish_def)

lemma dead_handle_passed:
  assumes "iconn s = Some c" and "connHandle c \<noteq> None" and "currTran c = Some t" and "t \<in> set (ended (events s))"
    and "ingres_query convert a statement s = Some (Inr (res, s'))"
  shows "\<not> legal (events s')"
proof -
  have "\<exists>es. events s' = events s @ Passed t # es"
    using assms(1-3,5)
    by (auto simp: ingres_query_def ingres_commit_def ingres_rollback_def Let_def run_bind_eq_Inr link_defs
        split: if_split_asm option.splits)
  then show ?thesis using assms(4) by (auto simp: legal_append)
qed

section \<open>Properties\<close>

text \<open>
  C12: The transactions of the connection that a program has opened. As long as every commit and rollback is answered
  with success or with an error, whatever the program does, connecting, switching databases,
  queries, transactions, listing databases and disconnecting in any order, and whatever else the server answers,
  the connection never passes on the handle of a transaction that has ended, and the transaction it goes on with
  has not ended. But after a commit or a rollback that succeeds with a message or a warning, at
  any time, the program gets no result, the handle of the ended transaction is kept, and the next
  statement, whatever it is, passes it on. The connection to the system catalogs, which does use an ended
  handle again, is not meant here.
\<close>

theorem ingres_handles_legal:
  assumes "(ingres_step convert opts E)\<^sup>*\<^sup>* fresh_ingres s"
  shows "((\<forall>st \<in> E. st = IIAPI_ST_SUCCESS \<or> IIAPI_ST_ERROR \<le> st) \<longrightarrow>
      legal (events s) \<and> (\<forall>c t. iconn s = Some c \<longrightarrow> currTran c = Some t \<longrightarrow> t \<notin> set (ended (events s))))
    \<and> (\<forall>c t a statement. iconn s = Some c \<longrightarrow> connHandle c \<noteq> None \<longrightarrow> currTran c = Some t \<longrightarrow>
        starts_with statement ''COMMIT'' \<or> starts_with statement ''ROLLBACK'' \<longrightarrow>
        IIAPI_ST_SUCCESS < qa_end a \<longrightarrow> qa_end a < IIAPI_ST_ERROR \<longrightarrow>
        (\<exists>s'. ingres_query convert a statement s = Some (Inr (None, s'))
          \<and> iconn s' = Some c \<and> t \<in> set (ended (events s'))
          \<and> (\<forall>a' statement' res s''. ingres_query convert a' statement' s' = Some (Inr (res, s'')) \<longrightarrow>
                \<not> legal (events s''))))"
proof (intro conjI impI allI)
  assume clear: "\<forall>st \<in> E. st = IIAPI_ST_SUCCESS \<or> IIAPI_ST_ERROR \<le> st"
  have "handles_ok s" using assms
  proof (induction rule: rtranclp_induct)
    case base
    show ?case by (simp add: handles_ok_def fresh_ingres_def legal_def)
  next
    case (step s t)
    then show ?case using clear by (simp add: ingres_step_ok clear_status_def)
  qed
  then show "legal (events s)"
    and "iconn s = Some c \<Longrightarrow> currTran c = Some t \<Longrightarrow> t \<notin> set (ended (events s))" for c t
    by (simp_all add: handles_ok_def)
next
  fix c t statement and a :: query_answers
  let ?s = "log [Passed t, Finished t] s"
  assume c: "iconn s = Some c" "connHandle c \<noteq> None" "currTran c = Some t"
    and "starts_with statement ''COMMIT'' \<or> starts_with statement ''ROLLBACK''"
    and "IIAPI_ST_SUCCESS < qa_end a" "qa_end a < IIAPI_ST_ERROR"
  then have "ingres_query convert a statement s = Some (Inr (None, ?s))"
    by (intro unclear_end) (auto simp: clear_status_def)
  moreover have s: "iconn ?s = Some c" "t \<in> set (ended (events ?s))" by (simp_all add: log_def c(1))
  moreover note dead_handle_passed [OF s(1) c(2,3) s(2)]
  ultimately show "\<exists>s'. ingres_query convert a statement s = Some (Inr (None, s'))
      \<and> iconn s' = Some c \<and> t \<in> set (ended (events s'))
      \<and> (\<forall>a' statement' res s''. ingres_query convert a' statement' s' = Some (Inr (res, s'')) \<longrightarrow> \<not> legal (events s''))"
    by blast
qed

definition sample_connect :: connect_answers where
  "sample_connect = \<lparr>connects = (\<lambda>ss db u p. (0, Some 1)), enters = (0, Some 7), leaves = 0\<rparr>"

definition sample_query :: query_answers where
  "sample_query = \<lparr>qa_end = 0, qa_query = 0, qa_tran = Some 5, qa_descr = (0, []), qa_info = (0, None),
     qa_columns = []\<rparr>"

definition manual_options :: dbi_options where
  "manual_options = \<lparr>option_names = [],
     get_option = (\<lambda>n. if n = ''ingres_autocommit'' then Some ''0'' else None), get_numeric = (\<lambda>n. 0)\<rparr>"

text \<open>
  A manual transaction: after an insertion the handles are legal; a commit with a warning gives no result, and the
  commit that is tried again passes on a handle that is gone.
\<close>

theorem ingres_handles_legal_witness:
  "\<exists>s s1 s2. (ingres_step (\<lambda>d v. None) manual_options {0, 4})\<^sup>*\<^sup>* fresh_ingres s
    \<and> events s = [Started 5] \<and> legal (events s)
    \<and> ingres_query (\<lambda>d v. None) (sample_query\<lparr>qa_end := 2\<rparr>) ''commit work'' s = Some (Inr (None, s1))
    \<and> ingres_query (\<lambda>d v. None) sample_query ''commit work'' s1 = Some (Inr (Some (bare_result 0), s2))
    \<and> \<not> legal (events s2)"
proof -
  let ?step = "ingres_step (\<lambda>d v. None) manual_options {0, 4}"
  let ?c = "\<lparr>connHandle = Some 1, currTran = None, autocommit = False\<rparr>"
  let ?s1 = "fresh_ingres\<lparr>iconn := Some ?c\<rparr>"
  let ?s2 = "?s1\<lparr>iconn := Some (?c\<lparr>currTran := Some 5\<rparr>), events := [Started 5]\<rparr>"
  have zero: "atoi ''0'' = 0" by code_simp
  have words: "starts_with ''commit work'' ''COMMIT'' = True" "starts_with ''INSERT'' ''COMMIT'' = False"
    "starts_with ''INSERT'' ''ROLLBACK'' = False" by code_simp+
  have 1: "?step fresh_ingres ?s1"
    by (rule ingres_step.connect [of _ sample_connect _ _ 0])
      (simp_all add: fresh_ingres_def new_handle_def ingres_dbd_connect_def ingres_connect_def sample_connect_def
        manual_options_def status_defs zero)
  have 2: "?step ?s1 ?s2"
    by (rule ingres_step.query [of _ sample_query _ _ "''INSERT''" "Some (bare_result 0)"])
      (simp_all add: fresh_ingres_def new_handle_def query_tran_ok_def ingres_query_def ingres_describe_def
        sample_query_def status_defs words link_defs)
  have run: "?step\<^sup>*\<^sup>* fresh_ingres ?s2" using 1 2 by (meson converse_rtranclp_into_rtranclp r_into_rtranclp)
  note both = ingres_handles_legal [OF run]
  have "\<forall>st \<in> {0, 4}. st = IIAPI_ST_SUCCESS \<or> IIAPI_ST_ERROR \<le> st" by (simp add: status_defs)
  then have ok: "legal (events ?s2)" using both [THEN conjunct1] by blast
  have "iconn ?s2 = Some (?c\<lparr>currTran := Some 5\<rparr>)" "IIAPI_ST_SUCCESS < qa_end (sample_query\<lparr>qa_end := 2\<rparr>)"
    "qa_end (sample_query\<lparr>qa_end := 2\<rparr>) < IIAPI_ST_ERROR" "starts_with ''commit work'' ''COMMIT''"
    by (simp_all add: status_defs words)
  note mid = both [THEN conjunct2, rule_format, OF this(1) _ _ disjI1 [OF this(4)] this(2,3)]
  obtain s3 where s3: "ingres_query (\<lambda>d v. None) (sample_query\<lparr>qa_end := 2\<rparr>) ''commit work'' ?s2
      = Some (Inr (None, s3))" "iconn s3 = Some (?c\<lparr>currTran := Some 5\<rparr>)"
    "\<forall>a statement res s. ingres_query (\<lambda>d v. None) a statement s3 = Some (Inr (res, s)) \<longrightarrow> \<not> legal (events s)"
    using mid [of 5] by auto
  then obtain s4 where s4: "ingres_query (\<lambda>d v. None) sample_query ''commit work'' s3 = Some (Inr (Some (bare_result 0), s4))"
    by (simp add: ingres_query_def ingres_commit_def sample_query_def status_defs words)
  then have "\<not> legal (events s4)" using s3(3) by blast
  moreover have "events ?s2 = [Started 5]" by simp
  ultimately show ?thesis using run ok s3(1) s4 by blast
qed

lemma tolower_SC: "tolower CHR ''S'' = CHR ''s''" "tolower CHR ''C'' = CHR ''c''" "tolower CHR ''R'' = CHR ''r''"
  by code_simp+

lemma select_plain:
  "starts_with (CHR ''S'' # s) ''COMMIT'' = False" "starts_with (CHR ''S'' # s) ''ROLLBACK'' = False"
  by (simp_all add: starts_with_def tolower_SC)

text \<open>The query on the system connection, once there is one.\<close>

lemma list_dbs_on:
  assumes "iconn s = Some c" and "sysConn s = Some sys" and "iconn sys = Some k" and "connHandle k \<noteq> None"
    and "ingres_describe convert a = Some (Inr res)"
  shows "ingres_list_dbs convert ca a 0 pattern s = Some (Inr (res,
    s\<lparr>sysConn := Some (finish (qa_tran a) (set_tran (qa_tran a) (new_tran (currTran k) (qa_tran a) (pass (currTran k) sys))))\<rparr>))"
  using assms
  by (cases pattern)
    (auto simp: ingres_list_dbs_def ingres_sys_query_def ingres_query_def select_plain ingres_rollback_def
      status_defs Let_def link_defs split: option.splits)

lemma list_dbs_first:
  assumes "iconn s = Some c" and "sysConn s = None" and "\<And>ss db u p. connects ca ss db u p = (0, Some h)"
  shows "ingres_list_dbs convert ca a 0 pattern s = ingres_list_dbs convert ca a 0 pattern
    (s\<lparr>sysConn := Some (new_link\<lparr>iconn := Some \<lparr>connHandle = Some h, currTran = None, autocommit = False\<rparr>\<rparr>)\<rparr>)"
proof -
  have "atoi ''0'' = 0" by code_simp
  then show ?thesis
    using assms by (simp add: ingres_list_dbs_def ingres_sys_query_def ingres_connect_def status_defs Let_def
        cong: option.case_cong)
qed

text \<open>
  C36: Listing the databases twice. The system connection goes on with the transaction that was
  rolled back after the first list, so the second query uses a handle whose transaction has ended.
  When the system connection cannot be opened, the first list fails, and the second dereferences
  a null pointer.
\<close>

theorem ingres_second_list_dbs:
  assumes "iconn s = Some c" and "sysConn s = None"
    and "ingres_describe convert a = Some (Inr res)" and "ingres_describe convert b = Some (Inr res')"
    and "qa_tran a = Some t" and "qa_tran b = Some t"
  shows "(\<exists>s1 s2 sys. ingres_list_dbs convert \<lparr>connects = (\<lambda>ss db u p. (0, Some h)), enters = e, leaves = n\<rparr> a 0 pattern s
            = Some (Inr (res, s1))
          \<and> ingres_list_dbs convert ca b 0 pattern' s1 = Some (Inr (res', s2))
          \<and> sysConn s2 = Some sys \<and> events sys = [Started t, Passed t, Finished t, Passed t, Passed t, Finished t]
          \<and> \<not> legal (events sys))
    \<and> (\<exists>s1. ingres_list_dbs convert \<lparr>connects = (\<lambda>ss db u p. (4, None)), enters = e, leaves = n\<rparr> a 0 pattern s
            = Some (Inr (None, s1))
          \<and> ingres_list_dbs convert ca b 0 pattern' s1 = Some (Inl NullDeref))"
proof
  let ?ok = "\<lparr>connects = (\<lambda>ss db u p. (0, Some h)), enters = e, leaves = n\<rparr>"
  let ?k = "\<lparr>connHandle = Some h, currTran = Some t, autocommit = False\<rparr>"
  let ?sys = "\<lparr>iconn = Some ?k, events = [Started t, Passed t, Finished t], closed = []\<rparr>"
  have "ingres_list_dbs convert ?ok a 0 pattern s = Some (Inr (res, s\<lparr>sysConn := Some ?sys\<rparr>))"
    using list_dbs_first [OF assms(1,2), of ?ok h convert a pattern] assms
    by (simp add: list_dbs_on new_link_def link_defs)
  moreover have "ingres_list_dbs convert ca b 0 pattern' (s\<lparr>sysConn := Some ?sys\<rparr>)
      = Some (Inr (res', s\<lparr>sysConn := Some (?sys\<lparr>events := [Started t, Passed t, Finished t, Passed t, Passed t, Finished t]\<rparr>)\<rparr>))"
    using assms by (subst list_dbs_on [of _ c ?sys ?k]) (simp_all add: link_defs)
  ultimately show "\<exists>s1 s2 sys. ingres_list_dbs convert ?ok a 0 pattern s = Some (Inr (res, s1))
      \<and> ingres_list_dbs convert ca b 0 pattern' s1 = Some (Inr (res', s2))
      \<and> sysConn s2 = Some sys \<and> events sys = [Started t, Passed t, Finished t, Passed t, Passed t, Finished t]
      \<and> \<not> legal (events sys)"
    by (intro exI conjI) (assumption | simp add: legal_def)+
next
  show "\<exists>s1. ingres_list_dbs convert \<lparr>connects = (\<lambda>ss db u p. (4, None)), enters = e, leaves = n\<rparr> a 0 pattern s
        = Some (Inr (None, s1))
      \<and> ingres_list_dbs convert ca b 0 pattern' s1 = Some (Inl NullDeref)"
    using assms(1,2)
    by (simp add: ingres_list_dbs_def ingres_sys_query_def ingres_connect_def ingres_hang_up_def ingres_query_def
        new_link_def status_defs Let_def)
qed

definition sample_ingres :: ingres_session where
  "sample_ingres = fresh_ingres\<lparr>iconn := Some \<lparr>connHandle = Some 1, currTran = Some 3, autocommit = False\<rparr>,
     events := [Started 3]\<rparr>"

theorem ingres_second_list_dbs_witness:
  "\<exists>s1 s2 sys. ingres_list_dbs (\<lambda>d v. None) sample_connect sample_query 0 None sample_ingres
        = Some (Inr (Some (bare_result 0), s1))
      \<and> ingres_list_dbs (\<lambda>d v. None) sample_connect sample_query 0 None s1 = Some (Inr (Some (bare_result 0), s2))
      \<and> sysConn s2 = Some sys \<and> \<not> legal (events sys)"
proof -
  have "ingres_describe (\<lambda>d v. None) sample_query = Some (Inr (Some (bare_result 0)))"
    by (simp add: ingres_describe_def sample_query_def status_defs)
  from ingres_second_list_dbs [OF _ _ this this, where s = sample_ingres and t = 5 and h = 1 and e = "(0, Some 7)"
      and n = 0 and pattern = None and pattern' = None and ca = sample_connect, THEN conjunct1]
  show ?thesis
    by (fastforce simp: sample_ingres_def fresh_ingres_def sample_query_def sample_connect_def)
qed

text \<open>
  Disconnecting, and switching the database, in manual transaction mode neither commits nor
  rolls back: the open transaction has not ended afterwards. In autocommit mode its transaction has ended if
  the API ends it.
\<close>

theorem ingres_disconnect_transaction:
  assumes "iconn s = Some c" and "currTran c = Some t" and "t \<notin> set (ended (events s))"
  shows "iconn (ingres_disconnect status s) = None
    \<and> (t \<in> set (ended (events (ingres_disconnect status s))) \<longleftrightarrow> autocommit c \<and> status < IIAPI_ST_ERROR)
    \<and> (\<not> autocommit c \<longrightarrow> events (ingres_disconnect status s) = events s)"
  using assms
  by (auto simp: ingres_disconnect_def ingres_hang_up_def link_defs Let_def split: option.splits)

theorem ingres_disconnect_transaction_witness:
  "iconn (ingres_disconnect 0 sample_ingres) = None \<and> 3 \<notin> set (ended (events (ingres_disconnect 0 sample_ingres)))"
  using ingres_disconnect_transaction [of sample_ingres _ 3 0]
  by (simp add: sample_ingres_def)

text \<open>
  C35: A query whose rows the server sends: the result has the fields with the types that
  \<open>ingres_classify_field\<close> gives them, and exactly the rows sent, up to 39. When the server breaks
  off with an error, the result with the rows until then is returned just the same.
\<close>

theorem ingres_query_rows:
  assumes "iconn l = Some c" and "connHandle c \<noteq> None"
    and "\<not> starts_with statement ''COMMIT''" and "\<not> starts_with statement ''ROLLBACK''"
    and "qa_query a < IIAPI_ST_NO_DATA" and "qa_descr a = (st, desc)" and "st < IIAPI_ST_ERROR"
    and "desc \<noteq> []" and "list_all (list_all (fits convert)) rows" and "\<forall>r \<in> set rows. map fst r = desc"
    and "length rows \<le> 39" and "qa_columns a = concat (map row_answers rows) @ end_answers complete"
  shows "\<exists>l'. ingres_query convert a statement l = Some (Inr (Some
      \<lparr>res_affected = 0,
       res_fields = map (\<lambda>d. (ds_columnName d, ingres_classify_field (ds_dataType d) (ds_length d))) desc,
       res_rows = map (map (expected convert)) rows\<rparr>, l'))
    \<and> map_option currTran (iconn l') = Some (qa_tran a)"
proof -
  have "ingres_results convert Suc Suc desc (qa_columns a)
      = Some (Inr (end_value complete, map (map (expected convert)) rows))"
    using ingres_rows_stream [OF assms(8-10), of 0 10 11 complete "[]"] assms(11,12)
    by (simp add: ingres_results_def INITIAL_ROWS_def array_ok_def)
  then have "ingres_describe convert a = Some (Inr (Some
      \<lparr>res_affected = 0,
       res_fields = map (\<lambda>d. (ds_columnName d, ingres_classify_field (ds_dataType d) (ds_length d))) desc,
       res_rows = map (map (expected convert)) rows\<rparr>))"
    using assms(5-8) by (simp add: ingres_describe_def)
  then show ?thesis using assms(1-4)
    by (simp add: ingres_query_def Let_def) (auto simp: link_defs split: option.splits)
qed

theorem ingres_query_rows_witness:
  "let desc = [\<lparr>ds_columnName = ''b'', ds_dataType = IIAPI_LVCH_TYPE, ds_length = 3, ds_precision = 0\<rparr>];
       row = [(hd desc, Long False [(''abc'', ''''), (''de'', ''c'')])]
   in \<exists>l'. ingres_query (\<lambda>d v. None) (sample_query\<lparr>qa_descr := (0, desc),
          qa_columns := concat (map row_answers [row]) @ end_answers False\<rparr>) ''SELECT b FROM t'' sample_ingres
        = Some (Inr (Some \<lparr>res_affected = 0, res_fields = [(''b'', DBI_TYPE_STRING, {})],
            res_rows = [[Field (sized_cell ''abcde'' 5)]]\<rparr>, l'))"
proof -
  let ?d = "\<lparr>ds_columnName = ''b'', ds_dataType = IIAPI_LVCH_TYPE, ds_length = 3, ds_precision = 0\<rparr>"
  let ?row = "[(?d, Long False [(''abc'', ''''), (''de'', ''c'')])]"
  let ?a = "sample_query\<lparr>qa_descr := (0, [?d]), qa_columns := concat (map row_answers [?row]) @ end_answers False\<rparr>"
  have "list_all (list_all (fits (\<lambda>d v. None))) [?row]" by (simp add: is_blob_def)
  from ingres_query_rows [OF _ _ _ _ _ _ _ _ this, of sample_ingres _ "''SELECT b FROM t''" ?a 0 "[?d]" False]
  obtain l' where "ingres_query (\<lambda>d v. None) ?a ''SELECT b FROM t'' sample_ingres = Some (Inr (Some
      \<lparr>res_affected = 0,
       res_fields = map (\<lambda>d. (ds_columnName d, ingres_classify_field (ds_dataType d) (ds_length d))) [?d],
       res_rows = map (map (expected (\<lambda>d v. None))) [?row]\<rparr>, l'))"
    by (auto simp: sample_ingres_def fresh_ingres_def sample_query_def select_plain status_defs)
  then show ?thesis
    by (simp only: Let_def list.sel) (simp add: blob_slot_def ingres_classify_field_def)
qed

end
