(* ===== verification/Versions.thy ===== *)
theory Versions
  imports Prelude
begin

text \<open>
  The functions \<open>dbd_get_engine_version\<close>. The answer to the version query is \<open>None\<close> when the
  query fails, \<open>Some None\<close> when it has no row, else the string in its first column. \<open>vlen\<close> is
  \<open>VERSIONSTRING_LENGTH\<close> of libdbi, the size of the buffer for the result; the value is the string in
  the buffer.
\<close>

section \<open>The version as the server prints it\<close>

definition first_column :: "string option option \<Rightarrow> string option" where
  "first_column res = (case res of Some (Some s) \<Rightarrow> Some s | _ \<Rightarrow> None)"

definition mysql_get_engine_version :: "nat \<Rightarrow> string option option \<Rightarrow> string" where
  "mysql_get_engine_version vlen res =
     (case first_column res of None \<Rightarrow> [] | Some versioninfo \<Rightarrow> take (vlen - 1) versioninfo)"

definition sqlite3_get_engine_version :: "nat \<Rightarrow> string option option \<Rightarrow> string" where
  "sqlite3_get_engine_version vlen res =
     (case first_column res of None \<Rightarrow> [] | Some versioninfo \<Rightarrow> take (vlen - 1) versioninfo)"

definition sqlite_get_engine_version :: "nat \<Rightarrow> string option option \<Rightarrow> string" where
  "sqlite_get_engine_version vlen res =
     (case first_column res of None \<Rightarrow> [] | Some versioninfo \<Rightarrow> take (vlen - 1) versioninfo)"

definition ingres_get_engine_version :: "nat \<Rightarrow> string option option \<Rightarrow> string" where
  "ingres_get_engine_version vlen res =
     (case first_column res of None \<Rightarrow> ''0'' | Some s \<Rightarrow> take (vlen - 1) s)"

section \<open>The version inside a longer text\<close>

text \<open>\<open>while (start>versioninfo && isdigit((int)(*(start-1)))) start--;\<close> from index \<open>n\<close>.\<close>

fun digits_back :: "string \<Rightarrow> nat \<Rightarrow> nat" where
  "digits_back s 0 = 0"
| "digits_back s (Suc n) = (if isdigit (s ! n) then digits_back s n else Suc n)"

definition version_char :: "char \<Rightarrow> bool" where
  "version_char c \<longleftrightarrow> isdigit c \<or> c = CHR ''.''"

text \<open>
  \<open>stop - start\<close> behind the second loop, for a start inside the string. When the dot is the
  first character, \<open>start\<close> points in front of the string and the distance counts from there.
\<close>

definition version_span :: "string \<Rightarrow> nat \<Rightarrow> nat" where
  "version_span s start = length (takeWhile version_char (drop (start + 1) s))"

definition pgsql_get_engine_version :: "nat \<Rightarrow> string option option \<Rightarrow> string run" where
  "pgsql_get_engine_version vlen res =
     (case first_column res of None \<Rightarrow> Inr []
      | Some versioninfo \<Rightarrow>
          (case strchr (CHR ''.'') versioninfo of None \<Rightarrow> Inr []
           | Some dot \<Rightarrow>
               (let p = length versioninfo - length dot in
                if p = 0
                then (if length (takeWhile version_char versioninfo) < vlen then Inl ReadPastEnd else Inr [])
                else
                  let start = digits_back versioninfo (p - 1);
                      n = version_span versioninfo start in
                  if n < vlen then strcpy_buf vlen (take (n + 1) (drop start versioninfo)) else Inr [])))"

text \<open>The callback keeps the text of the first call for all connections.\<close>

definition MAXLEN :: nat where
  "MAXLEN = 1024"

definition get_firebird_version :: "nat \<times> string \<Rightarrow> string \<Rightarrow> nat \<times> string" where
  "get_firebird_version st vrs =
     (if fst st = 0 then (fst st + 1, take (MAXLEN - 1) vrs) else st)"

text \<open>\<open>versionstring\<close> is what the caller's buffer holds before.\<close>

definition firebird_get_engine_version :: "nat \<Rightarrow> string \<Rightarrow> string \<Rightarrow> string run" where
  "firebird_get_engine_version vlen version versionstring =
     (case strchr (CHR ''.'') version of None \<Rightarrow> Inr versionstring
      | Some dot \<Rightarrow>
          (let p = length version - length dot in
           if p = 0
           then (let n = length (takeWhile version_char version) in
                 if n < vlen then (if n = 1 then Inr [] else Inl ReadPastEnd) else Inr versionstring)
           else
             let start = digits_back version (p - 1);
                 n = version_span version start in
             if n < vlen then Inr (take (n - 1) (drop start version)) else Inr versionstring))"

text \<open>\<open>while (--start > versioninfo && isdigit((int) (*start)));\<close> from index \<open>n\<close>, and the \<open>++start\<close>.\<close>

fun freetds_start :: "string \<Rightarrow> nat \<Rightarrow> nat" where
  "freetds_start s 0 = 0"
| "freetds_start s (Suc n) = (if 0 < n \<and> isdigit (s ! n) then freetds_start s n else Suc n)"

definition freetds_get_engine_version :: "nat \<Rightarrow> string option option \<Rightarrow> string run" where
  "freetds_get_engine_version vlen res =
     (case first_column res of None \<Rightarrow> Inr []
      | Some versioninfo \<Rightarrow>
          (case strchr (CHR ''.'') versioninfo of None \<Rightarrow> Inr []
           | Some dot \<Rightarrow>
               (let start = freetds_start versioninfo (length versioninfo - length dot);
                    len = length (takeWhile version_char (drop start versioninfo)) in
                if len \<noteq> 0 \<and> len - 1 < vlen
                then strcpy_buf vlen (take (len - 1) (drop start versioninfo))
                else Inr [])))"

section \<open>Lemmas\<close>

lemma digits_back_run:
  assumes "\<forall>c \<in> set ds. isdigit c" and "pre = [] \<or> \<not> isdigit (last pre)"
  shows "digits_back (pre @ ds @ rest) (length pre + length ds) = length pre"
  using assms
proof (induction ds arbitrary: rest rule: rev_induct)
  case Nil
  then show ?case
    by (cases pre rule: rev_cases) (simp_all add: nth_append)
next
  case (snoc d ds)
  then show ?case using snoc.IH [of "d # rest"] by (simp add: nth_append)
qed

lemma freetds_start_run:
  assumes "\<forall>c \<in> set ds. isdigit c" and "pre \<noteq> []" and "\<not> isdigit (last pre)"
  shows "freetds_start (pre @ ds @ rest) (length pre + length ds) = length pre"
  using assms
proof (induction ds arbitrary: rest rule: rev_induct)
  case Nil
  then show ?case
    by (cases pre rule: rev_cases) (simp_all add: nth_append)
next
  case (snoc d ds)
  then show ?case using snoc.IH [of "d # rest"] by (simp add: nth_append)
qed

lemma takeWhile_version:
  assumes "\<forall>c \<in> set v. version_char c" and "rest = [] \<or> \<not> version_char (hd rest)"
  shows "takeWhile version_char (v @ rest) = v"
  using assms by (cases rest) (simp_all add: takeWhile_append)

section \<open>Property\<close>

text \<open>A version number in a text: digits, a dot, then digits and dots, as long as they go.\<close>

definition version_in :: "string \<Rightarrow> string \<Rightarrow> string \<Rightarrow> bool" where
  "version_in pre v rest \<longleftrightarrow>
     (\<exists>ds w. v = ds @ CHR ''.'' # w \<and> ds \<noteq> [] \<and> (\<forall>c \<in> set ds. isdigit c) \<and> (\<forall>c \<in> set w. version_char c))
     \<and> CHR ''.'' \<notin> set pre \<and> (pre = [] \<or> \<not> isdigit (last pre))
     \<and> (rest = [] \<or> \<not> version_char (hd rest))"

lemma isdigit_not_dot: "isdigit c \<Longrightarrow> c \<noteq> CHR ''.''"
  by (auto simp: isdigit_def uchar_def)

text \<open>What the functions find in such a text \<open>s\<close>: the dot, the start and the length.\<close>

lemma version_found:
  assumes "version_in pre v rest" and s: "s = pre @ v @ rest"
  obtains dot p where "strchr (CHR ''.'') s = Some dot" and "length s - length dot = Suc p"
    and "digits_back s p = length pre" and "pre \<noteq> [] \<Longrightarrow> freetds_start s (Suc p) = length pre"
    and "version_span s (length pre) = length v - 1" and "takeWhile version_char (drop (length pre) s) = v"
    and "\<And>k. k \<le> length v \<Longrightarrow> take k (drop (length pre) s) = take k v" and "1 < length v"
proof -
  from assms obtain ds w where v: "v = ds @ CHR ''.'' # w" and ds: "ds \<noteq> []" "\<forall>c \<in> set ds. isdigit c"
    and w: "\<forall>c \<in> set w. version_char c" and pre: "CHR ''.'' \<notin> set pre" "pre = [] \<or> \<not> isdigit (last pre)"
    and r: "rest = [] \<or> \<not> version_char (hd rest)"
    unfolding version_in_def by blast
  obtain es e where e: "ds = es @ [e]" using ds(1) by (cases ds rule: rev_cases) auto
  have all: "\<forall>c \<in> set v. version_char c" using ds w by (auto simp: v version_char_def)
  have "CHR ''.'' \<notin> set (pre @ ds)" using pre(1) ds(2) isdigit_not_dot by auto
  from strchr_append [OF this, of "w @ rest"]
  have 1: "strchr (CHR ''.'') s = Some (CHR ''.'' # w @ rest)" by (simp add: s v)
  have 2: "length s - length (CHR ''.'' # w @ rest) = Suc (length pre + length es)"
    by (simp add: s v e)
  have "\<forall>c \<in> set es. isdigit c" using ds(2) e by simp
  from digits_back_run [OF this pre(2), of "e # CHR ''.'' # w @ rest"]
  have 3: "digits_back s (length pre + length es) = length pre" by (simp add: s v e)
  have 4: "freetds_start s (Suc (length pre + length es)) = length pre" if "pre \<noteq> []"
    using freetds_start_run [OF ds(2) that, of "CHR ''.'' # w @ rest"] pre(2) that by (simp add: s v e)
  have "v \<noteq> []" by (simp add: v)
  then obtain c v' where c: "v = c # v'" by (cases v) auto
  have "takeWhile version_char (v' @ rest) = v'" using all r c by (intro takeWhile_version) auto
  then have 5: "version_span s (length pre) = length v - 1" by (simp add: version_span_def s c)
  have 6: "takeWhile version_char (drop (length pre) s) = v"
    using takeWhile_version [OF all r] by (simp add: s)
  have 7: "take k (drop (length pre) s) = take k v" if "k \<le> length v" for k
    using that by (simp add: s)
  have 8: "1 < length v" by (simp add: v e)
  show thesis by (rule that [OF 1 2 3 4 5 6 7 8])
qed

lemma pgsql_version:
  assumes "version_in pre v rest"
  shows "pgsql_get_engine_version vlen (Some (Some (pre @ v @ rest)))
    = (if length v < vlen then Inr v else if length v = vlen then Inl BufferOverflow else Inr [])"
proof -
  define s where "s = pre @ v @ rest"
  obtain dot p where f: "strchr (CHR ''.'') s = Some dot" "length s - length dot = Suc p"
    "digits_back s p = length pre" "version_span s (length pre) = length v - 1"
    "\<And>k. k \<le> length v \<Longrightarrow> take k (drop (length pre) s) = take k v" "1 < length v"
    by (rule version_found [OF assms s_def]) blast
  have "Suc (length v - 1) = length v" using f(6) by simp
  then show ?thesis
    unfolding s_def [symmetric]
    using f(6) by (simp add: pgsql_get_engine_version_def first_column_def f(1-5) strcpy_buf_def Let_def)
qed

lemma firebird_version:
  assumes "version_in pre v rest"
  shows "firebird_get_engine_version vlen (pre @ v @ rest) old
    = Inr (if length v \<le> vlen then take (length v - 2) v else old)"
proof -
  define s where "s = pre @ v @ rest"
  obtain dot p where f: "strchr (CHR ''.'') s = Some dot" "length s - length dot = Suc p"
    "digits_back s p = length pre" "version_span s (length pre) = length v - 1"
    "\<And>k. k \<le> length v \<Longrightarrow> take k (drop (length pre) s) = take k v" "1 < length v"
    by (rule version_found [OF assms s_def]) blast
  have "(length v - 1 < vlen) = (length v \<le> vlen)" "length v - 1 - 1 = length v - 2" using f(6) by auto
  then show ?thesis
    unfolding s_def [symmetric] by (simp add: firebird_get_engine_version_def f(1-5) Let_def)
qed

lemma freetds_version:
  assumes "version_in pre v rest" and "pre \<noteq> []"
  shows "freetds_get_engine_version vlen (Some (Some (pre @ v @ rest)))
    = Inr (if length v \<le> vlen then butlast v else [])"
proof -
  define s where "s = pre @ v @ rest"
  obtain dot p where f: "strchr (CHR ''.'') s = Some dot" "length s - length dot = Suc p"
    "freetds_start s (Suc p) = length pre" "takeWhile version_char (drop (length pre) s) = v"
    "\<And>k. k \<le> length v \<Longrightarrow> take k (drop (length pre) s) = take k v" "1 < length v"
    by (rule version_found [OF assms(1) s_def]) (use assms(2) in blast)
  have "(length v - 1 < vlen) = (length v \<le> vlen)" "length v \<noteq> 0" using f(6) by auto
  then show ?thesis
    unfolding s_def [symmetric]
    by (simp add: freetds_get_engine_version_def first_column_def f(1,2,4,5) f(3) [simplified]
        strcpy_buf_def Let_def butlast_conv_take)
qed

text \<open>
  C37: The version number in the text of the server, the digits and dots around the first dot:
  the PostgreSQL driver returns exactly it when it is shorter than the buffer, writes one byte
  behind the buffer when it has just its length, and returns nothing when it is longer. The
  Firebird driver drops its last two characters, the FreeTDS driver its last one, and they stay
  inside the buffer.
\<close>

theorem engine_version_extracted:
  assumes "version_in pre v rest"
  shows "pgsql_get_engine_version vlen (Some (Some (pre @ v @ rest)))
      = (if length v < vlen then Inr v else if length v = vlen then Inl BufferOverflow else Inr [])
    \<and> firebird_get_engine_version vlen (pre @ v @ rest) old
      = Inr (if length v \<le> vlen then take (length v - 2) v else old)
    \<and> (pre \<noteq> [] \<longrightarrow> freetds_get_engine_version vlen (Some (Some (pre @ v @ rest)))
      = Inr (if length v \<le> vlen then butlast v else []))"
  using pgsql_version [OF assms] firebird_version [OF assms] freetds_version [OF assms] by simp

theorem engine_version_extracted_witness:
  "pgsql_get_engine_version 32 (Some (Some ''PostgreSQL 8.0.1 on i386'')) = Inr ''8.0.1''
    \<and> firebird_get_engine_version 32 ''PostgreSQL 8.0.1 on i386'' [] = Inr ''8.0''
    \<and> freetds_get_engine_version 32 (Some (Some ''PostgreSQL 8.0.1 on i386'')) = Inr ''8.0.''"
proof -
  have "\<exists>ds w. ''8.0.1'' = ds @ CHR ''.'' # w \<and> ds \<noteq> [] \<and> (\<forall>c \<in> set ds. isdigit c)
      \<and> (\<forall>c \<in> set w. version_char c)"
    by (intro exI [of _ "''8''"] exI [of _ "''0.1''"])
       (simp add: version_char_def isdigit_def uchar_def)
  then have "version_in ''PostgreSQL '' ''8.0.1'' '' on i386''"
    by (simp add: version_in_def version_char_def isdigit_def uchar_def)
  from engine_version_extracted [OF this, of 32 "[]"] show ?thesis by simp
qed

end
