(* ===== verification/Sessions.thy ===== *)
theory Sessions
  imports Options
begin

text \<open>
  Connecting, switching the database, pinging and disconnecting. \<open>conn->connection\<close> points to a
  handle, a block of memory that the driver or its client library allocates; the state keeps the
  handles that are still allocated, so a handle that is released twice, or used after its
  release, is seen. What the client library answers is a parameter of every operation.
\<close>

section \<open>Handles\<close>

record session =
  connection :: "nat option"
  live :: "nat list"
  next_handle :: nat
  current_db :: "string option"
  client_encoding :: "string option"
  busy_timeout :: int

definition fresh_session :: session where
  "fresh_session = \<lparr>connection = None, live = [], next_handle = 0, current_db = None,
     client_encoding = None, busy_timeout = 0\<rparr>"

definition allocate :: "session \<Rightarrow> nat \<times> session" where
  "allocate s = (next_handle s, s\<lparr>live := next_handle s # live s, next_handle := Suc (next_handle s)\<rparr>)"

definition release :: "nat \<Rightarrow> session \<Rightarrow> session run" where
  "release h s = (if h \<in> set (live s) then Inr (s\<lparr>live := removeAll h (live s)\<rparr>) else Inl UseAfterFree)"

text \<open>The handle the connection points to, for a call that uses it.\<close>

definition use_handle :: "session \<Rightarrow> nat run" where
  "use_handle s =
     (case connection s of None \<Rightarrow> Inl NullDeref
      | Some h \<Rightarrow> if h \<in> set (live s) then Inr h else Inl UseAfterFree)"

text \<open>\<open>if (conn->connection) ...close(conn->connection);\<close>\<close>

definition close_connection :: "session \<Rightarrow> session run" where
  "close_connection s = (case connection s of None \<Rightarrow> Inr s | Some h \<Rightarrow> release h s)"

text \<open>
  What comes of the attempt to open a connection: it is open; there is a handle, but no
  connection; there is no handle either.
\<close>

datatype outcome = Opened | Refused | Unavailable

definition keep_db :: "string option \<Rightarrow> session \<Rightarrow> session" where
  "keep_db dbname s = (case dbname of None \<Rightarrow> s | Some d \<Rightarrow> s\<lparr>current_db := Some d\<rparr>)"

section \<open>PostgreSQL\<close>

definition pgsql_set_encoding :: "dbi_options \<Rightarrow> session \<Rightarrow> session run" where
  "pgsql_set_encoding opts s =
     (case get_option opts ''encoding'' of None \<Rightarrow> Inr s
      | Some e \<Rightarrow>
          if e = [] \<or> e = ''auto'' then Inr s
          else run_bind (pgsql_encoding_from_iana e) (\<lambda>enc. Inr (s\<lparr>client_encoding := Some enc\<rparr>)))"

text \<open>\<open>connectdb\<close> is \<open>PQconnectdb\<close> with \<open>PQstatus\<close>.\<close>

definition pgsql_real_connect ::
    "(string \<Rightarrow> outcome) \<Rightarrow> (string \<Rightarrow> string) \<Rightarrow> dbi_options \<Rightarrow> string \<Rightarrow> session \<Rightarrow> (session \<times> int) run" where
  "pgsql_real_connect connectdb escape opts db s =
     (case connectdb (pgsql_conninfo escape opts db) of
        Unavailable \<Rightarrow> Inr (s, -1)
      | Refused \<Rightarrow>
          (let (h, s) = allocate s in
           run_bind (release h (s\<lparr>connection := Some h\<rparr>)) (\<lambda>s. Inr (s\<lparr>connection := None\<rparr>, -2)))
      | Opened \<Rightarrow>
          (let (h, s) = allocate s in
           run_bind (pgsql_set_encoding opts (keep_db (chosen_db opts db) (s\<lparr>connection := Some h\<rparr>)))
             (\<lambda>s. Inr (s, 0))))"

definition pgsql_disconnect :: "session \<Rightarrow> session run" where
  "pgsql_disconnect s = close_connection s"

definition pgsql_select_db ::
    "(string \<Rightarrow> outcome) \<Rightarrow> (string \<Rightarrow> string) \<Rightarrow> dbi_options \<Rightarrow> string \<Rightarrow> session
       \<Rightarrow> (session \<times> string option) run" where
  "pgsql_select_db connectdb escape opts db s =
     (if db = [] then Inr (s, None)
      else run_bind (close_connection s) (\<lambda>s.
        run_bind (pgsql_real_connect connectdb escape opts db (s\<lparr>connection := None\<rparr>)) (\<lambda>(s, r).
          Inr (s, if r \<noteq> 0 then None else Some db))))"

text \<open>
  \<open>alive\<close> is the status after \<open>SELECT 1\<close>, \<open>reset\<close> the status after \<open>PQreset\<close>. The functions of the
  library take a null pointer for a connection that is down.
\<close>

definition pgsql_ping :: "bool \<Rightarrow> bool \<Rightarrow> session \<Rightarrow> (session \<times> int) run" where
  "pgsql_ping alive reset s =
     (if connection s = None then Inr (s, 0)
      else run_bind (use_handle s) (\<lambda>h. Inr (s, if alive then 1 else if reset then 1 else 0)))"

section \<open>MySQL\<close>

text \<open>
  \<open>dbd_get_encoding\<close>: an answer is \<open>None\<close> if the query fails, \<open>Some None\<close> without a row. The
  encoding points into the answer, which is freed before the function returns, so only an
  encoding that the array translates outlives it. Without an encoding, \<open>dbires1\<close> is freed a
  second time in place of \<open>dbires2\<close>.
\<close>

definition answer_text :: "string option option \<Rightarrow> string option" where
  "answer_text a = (case a of Some (Some s) \<Rightarrow> Some s | _ \<Rightarrow> None)"

definition schema_encoding :: "string \<Rightarrow> string option run" where
  "schema_encoding schema =
     (case strstr ''CHARACTER SET'' schema of None \<Rightarrow> Inr None
      | Some enc \<Rightarrow> if length enc < 14 then Inl ReadPastEnd else Inr (Some (drop 14 enc)))"

definition mysql_get_encoding ::
    "dbi_options \<Rightarrow> string option option \<Rightarrow> string option option \<Rightarrow> string option option \<Rightarrow> session
       \<Rightarrow> string option run" where
  "mysql_get_encoding opts dbires dbires1 dbires2 s =
     (if connection s = None then Inr None
      else run_bind
        (if get_option opts ''encoding'' = Some ''auto''
         then (case answer_text dbires of None \<Rightarrow> Inr None | Some schema \<Rightarrow> schema_encoding schema)
         else Inr None) (\<lambda>my_enc.
        let my_enc = (case my_enc of Some e \<Rightarrow> Some e
                      | None \<Rightarrow> (case answer_text dbires1 of Some e \<Rightarrow> Some e | None \<Rightarrow> answer_text dbires2))
        in case my_enc of
             None \<Rightarrow> if dbires1 \<noteq> None \<and> dbires2 \<noteq> None then Inl UseAfterFree else Inr None
           | Some e \<Rightarrow>
               run_bind (even_entries (prefix_hit e) mysql_encoding_hash) (\<lambda>iana_enc.
                 case iana_enc of None \<Rightarrow> Inl UseAfterFree | Some i \<Rightarrow> Inr (Some i))))"

definition mysql_set_encoding ::
    "dbi_options \<Rightarrow> string option option \<Rightarrow> string option option \<Rightarrow> string option option \<Rightarrow> session
       \<Rightarrow> session run" where
  "mysql_set_encoding opts a a1 a2 s =
     (let set_names = (\<lambda>e. run_bind (mysql_encoding_from_iana e) (\<lambda>enc. Inr (s\<lparr>client_encoding := Some enc\<rparr>)))
      in case get_option opts ''encoding'' of None \<Rightarrow> Inr s
         | Some e \<Rightarrow>
             if e = [] then Inr s
             else if e = ''auto''
             then run_bind (mysql_get_encoding opts a a1 a2 s) (\<lambda>enc.
               case enc of None \<Rightarrow> Inr s | Some e \<Rightarrow> set_names e)
             else set_names e)"

text \<open>\<open>server\<close> is \<open>mysql_init\<close> with \<open>mysql_real_connect\<close> for the flags of the client.\<close>

definition mysql_connect ::
    "(mysql_flag set \<Rightarrow> outcome) \<Rightarrow> dbi_options \<Rightarrow> string option option \<Rightarrow> string option option
       \<Rightarrow> string option option \<Rightarrow> session \<Rightarrow> (session \<times> int) run" where
  "mysql_connect server opts a a1 a2 s =
     (case server (mysql_client_flags opts) of
        Unavailable \<Rightarrow> Inr (s, -2)
      | Refused \<Rightarrow>
          (let (h, s) = allocate s in
           run_bind (release h (s\<lparr>connection := Some h\<rparr>)) (\<lambda>s. Inr (s\<lparr>connection := None\<rparr>, -2)))
      | Opened \<Rightarrow>
          (let (h, s) = allocate s in
           run_bind (mysql_set_encoding opts a a1 a2
               (keep_db (get_option opts ''dbname'') (s\<lparr>connection := Some h\<rparr>)))
             (\<lambda>s. Inr (s, 0))))"

definition mysql_disconnect :: "session \<Rightarrow> session run" where
  "mysql_disconnect s = close_connection s"

text \<open>A database that cannot be selected gives an empty string, not a null pointer.\<close>

definition mysql_select_db :: "bool \<Rightarrow> string \<Rightarrow> session \<Rightarrow> (session \<times> string option) run" where
  "mysql_select_db selected db s =
     run_bind (use_handle s) (\<lambda>h.
       if selected then Inr (s\<lparr>current_db := Some db\<rparr>, Some db) else Inr (s, Some []))"

definition mysql_ping :: "bool \<Rightarrow> session \<Rightarrow> (session \<times> int) run" where
  "mysql_ping alive s = run_bind (use_handle s) (\<lambda>h. Inr (s, if alive then 1 else 0))"

section \<open>mSQL\<close>

definition msql_connect :: "(string option \<Rightarrow> outcome) \<Rightarrow> dbi_options \<Rightarrow> session \<Rightarrow> (session \<times> int) run" where
  "msql_connect server opts s =
     (if server (get_option opts ''host'') = Opened
      then (let (h, s) = allocate s in
            Inr (keep_db (get_option opts ''dbname'') (s\<lparr>connection := Some h\<rparr>), 0))
      else Inr (s, -1))"

definition msql_disconnect :: "session \<Rightarrow> session run" where
  "msql_disconnect s = close_connection s"

definition msql_select_db :: "bool \<Rightarrow> string \<Rightarrow> session \<Rightarrow> (session \<times> string option) run" where
  "msql_select_db selected db s =
     run_bind (use_handle s) (\<lambda>h. Inr (s, Some (if selected then db else [])))"

definition msql_ping :: "session \<Rightarrow> (session \<times> int) run" where
  "msql_ping s = Inr (s, 1)"

section \<open>SQLite3 and SQLite\<close>

text \<open>
  \<open>open_db\<close> is \<open>sqlite3_open\<close> or, for an encoding other than UTF-8, \<open>sqlite3_open16\<close>, given the path.
  A connection that is refused has a handle all the same, which is never closed.
\<close>

definition sqlite3_real_connect ::
    "(bool \<Rightarrow> string \<Rightarrow> outcome) \<Rightarrow> string \<Rightarrow> dbi_options \<Rightarrow> string \<Rightarrow> session \<Rightarrow> (session \<times> int) run" where
  "sqlite3_real_connect open_db default_dbdir opts db s =
     (case chosen_db opts db of None \<Rightarrow> Inr (s, -1)
      | Some dbname \<Rightarrow>
          let encoding = default_to ''UTF-8'' (get_option opts ''encoding'') in
          run_bind (sqlite3_path (sqlite3_dbdir default_dbdir opts) dbname) (\<lambda>db_fullpath.
            case open_db (encoding = ''UTF-8'') db_fullpath of
              Unavailable \<Rightarrow> Inr (s, -1)
            | Refused \<Rightarrow> Inr (snd (allocate s), -1)
            | Opened \<Rightarrow>
                (let (h, s) = allocate s in
                 Inr (s\<lparr>connection := Some h, current_db := Some dbname,
                        busy_timeout := sqlite3_timeout opts\<rparr>, 0))))"

definition sqlite3_disconnect :: "session \<Rightarrow> session run" where
  "sqlite3_disconnect s = close_connection s"

text \<open>The old connection is closed, but \<open>conn->connection\<close> is not reset.\<close>

definition sqlite3_select_db ::
    "(bool \<Rightarrow> string \<Rightarrow> outcome) \<Rightarrow> string \<Rightarrow> dbi_options \<Rightarrow> string \<Rightarrow> session
       \<Rightarrow> (session \<times> string option) run" where
  "sqlite3_select_db open_db default_dbdir opts db s =
     (if db = [] then Inr (s, None)
      else run_bind (close_connection s) (\<lambda>s.
        run_bind (sqlite3_real_connect open_db default_dbdir opts db s) (\<lambda>(s, r).
          Inr (s, if r \<noteq> 0 then None else Some db))))"

text \<open>\<open>answered\<close>: whether \<open>dbd_query\<close> has a result for \<open>SELECT 1\<close>.\<close>

definition sqlite3_ping :: "bool \<Rightarrow> session \<Rightarrow> (session \<times> int) run" where
  "sqlite3_ping answered s = run_bind (use_handle s) (\<lambda>h. Inr (s, if answered then 1 else 0))"

definition sqlite_real_connect ::
    "(string \<Rightarrow> bool) \<Rightarrow> string \<Rightarrow> dbi_options \<Rightarrow> string \<Rightarrow> session \<Rightarrow> (session \<times> int) run" where
  "sqlite_real_connect open_db default_dbdir opts db s =
     (case chosen_db opts db of None \<Rightarrow> Inr (s, -1)
      | Some dbname \<Rightarrow>
          run_bind (sqlite_path (sqlite_dbdir default_dbdir opts) dbname) (\<lambda>db_fullpath.
            if open_db db_fullpath
            then (let (h, s) = allocate s in
                  Inr (s\<lparr>connection := Some h, current_db := Some dbname,
                         busy_timeout := sqlite_timeout opts\<rparr>, 0))
            else Inr (s, -1)))"

definition sqlite_disconnect :: "session \<Rightarrow> session run" where
  "sqlite_disconnect s = close_connection s"

definition sqlite_select_db ::
    "(string \<Rightarrow> bool) \<Rightarrow> string \<Rightarrow> dbi_options \<Rightarrow> string \<Rightarrow> session \<Rightarrow> (session \<times> string option) run" where
  "sqlite_select_db open_db default_dbdir opts db s =
     (if db = [] then Inr (s, None)
      else run_bind (close_connection s) (\<lambda>s.
        run_bind (sqlite_real_connect open_db default_dbdir opts db s) (\<lambda>(s, r).
          Inr (s, if r \<noteq> 0 then None else Some db))))"

definition sqlite_ping :: "bool \<Rightarrow> session \<Rightarrow> (session \<times> int) run" where
  "sqlite_ping answered s = run_bind (use_handle s) (\<lambda>h. Inr (s, if answered then 1 else 0))"

section \<open>Firebird\<close>

text \<open>
  The handle is the block \<open>iconn\<close>, allocated before anything else. When the database refuses the
  connection, the cleanup looks at \<open>iconn->charset\<close>, which has not been set yet.
\<close>

definition firebird_real_connect ::
    "(dpb_byte list \<Rightarrow> string \<Rightarrow> bool) \<Rightarrow> nat \<Rightarrow> string \<Rightarrow> dbi_options \<Rightarrow> session \<Rightarrow> (session \<times> int) run" where
  "firebird_real_connect attach path_max default_dbdir opts s =
     (let (iconn, s) = allocate s in
      run_bind (firebird_dpb opts) (\<lambda>dpb.
        case get_option opts ''dbname'' of None \<Rightarrow> Inr (s, -1)
        | Some dbname \<Rightarrow>
            run_bind (firebird_populate_db_string path_max default_dbdir opts dbname) (\<lambda>db_fullpath.
              let dbase = firebird_dbase opts db_fullpath in
              if attach dpb dbase
              then Inr (s\<lparr>connection := Some iconn, current_db := Some dbase\<rparr>, 0)
              else Inl UninitRead)))"

definition firebird_disconnect :: "session \<Rightarrow> session run" where
  "firebird_disconnect s = close_connection s"

definition firebird_select_db ::
    "(dpb_byte list \<Rightarrow> string \<Rightarrow> bool) \<Rightarrow> nat \<Rightarrow> string \<Rightarrow> dbi_options \<Rightarrow> string \<Rightarrow> session
       \<Rightarrow> (session \<times> string option) run" where
  "firebird_select_db attach path_max default_dbdir opts db s =
     (if db = [] then Inr (s, None)
      else run_bind (close_connection s) (\<lambda>s.
        let opts = opts\<lparr>get_option := (get_option opts)(''dbname'' \<mapsto> db)\<rparr> in
        run_bind (firebird_real_connect attach path_max default_dbdir opts s) (\<lambda>(s, r).
          Inr (s, if r \<noteq> 0 then None else Some db))))"

text \<open>\<open>alive\<close>: \<open>isc_database_info\<close> has succeeded.\<close>

definition firebird_ping ::
    "bool \<Rightarrow> (dpb_byte list \<Rightarrow> string \<Rightarrow> bool) \<Rightarrow> nat \<Rightarrow> string \<Rightarrow> dbi_options \<Rightarrow> session
       \<Rightarrow> (session \<times> int) run" where
  "firebird_ping alive attach path_max default_dbdir opts s =
     run_bind (use_handle s) (\<lambda>iconn.
       if alive then Inr (s, 1)
       else run_bind (release iconn s) (\<lambda>s.
         run_bind (firebird_real_connect attach path_max default_dbdir opts s) (\<lambda>(s, r).
           Inr (s, if r = 0 then 0 else 1))))"

section \<open>Oracle\<close>

text \<open>
  \<open>allocated\<close>: OCI has allocated its handles; \<open>logon\<close> is whether the login succeeds. When one of them
  fails the block is not freed. Name, password and database are passed on with their \<open>strlen\<close>.
\<close>

definition oracle_connect ::
    "bool \<Rightarrow> (string \<Rightarrow> string \<Rightarrow> string \<Rightarrow> bool) \<Rightarrow> string option \<Rightarrow> dbi_options \<Rightarrow> session
       \<Rightarrow> (session \<times> int) run" where
  "oracle_connect allocated logon oracle_sid opts s =
     (let (oconn, s) = allocate s;
          sid = (case get_option opts ''dbname'' of Some d \<Rightarrow> Some d | None \<Rightarrow> oracle_sid) in
      if \<not> allocated then Inr (s, -2)
      else
        run_bind (given (get_option opts ''username'')) (\<lambda>username.
        run_bind (given (get_option opts ''password'')) (\<lambda>password.
        run_bind (given sid) (\<lambda>sid.
          if logon username password sid
          then Inr (s\<lparr>connection := Some oconn, current_db := Some sid\<rparr>, 0)
          else Inr (s, -2)))))"

definition oracle_disconnect :: "session \<Rightarrow> session run" where
  "oracle_disconnect s = run_bind (close_connection s) (\<lambda>s. Inr (s\<lparr>connection := None\<rparr>))"

text \<open>\<open>answer\<close> is what the query \<open>SELECT 1 from dual\<close> gives, 0 when it fails.\<close>

definition oracle_ping ::
    "int \<Rightarrow> bool \<Rightarrow> (string \<Rightarrow> string \<Rightarrow> string \<Rightarrow> bool) \<Rightarrow> string option \<Rightarrow> dbi_options \<Rightarrow> session
       \<Rightarrow> (session \<times> int) run" where
  "oracle_ping answer allocated logon oracle_sid opts s =
     run_bind (use_handle s) (\<lambda>h.
       if answer = 0
       then run_bind (oracle_disconnect s) (\<lambda>s.
         run_bind (oracle_connect allocated logon oracle_sid opts s) (\<lambda>(s, retval).
           Inr (s, if retval \<noteq> 0 then 0 else retval)))
       else Inr (s, answer))"

section \<open>FreeTDS\<close>

text \<open>
  \<open>allocated\<close>: the structures of the client library are there; otherwise what has been allocated is
  freed again. \<open>server\<close> is whether the properties and the connection are accepted; otherwise
  \<open>conn->connection\<close> stays set.
\<close>

definition freetds_connect ::
    "bool \<Rightarrow> (tds_version option \<Rightarrow> bool) \<Rightarrow> dbi_options \<Rightarrow> session \<Rightarrow> (session \<times> int) run" where
  "freetds_connect allocated server opts s =
     (if \<not> allocated then Inr (s, -1)
      else
        let (h, s) = allocate s in
        run_bind (case get_option opts ''freetds_version'' of None \<Rightarrow> Inr None
                  | Some str \<Rightarrow> run_bind (freetds_version str) (\<lambda>v. Inr (Some v))) (\<lambda>version.
          Inr (s\<lparr>connection := Some h\<rparr>, if server version then 0 else -1)))"

text \<open>\<open>cancelled\<close>: \<open>ct_cancel\<close> has succeeded.\<close>

definition freetds_disconnect :: "bool \<Rightarrow> session \<Rightarrow> (session \<times> int) run" where
  "freetds_disconnect cancelled s =
     run_bind (use_handle s) (\<lambda>h.
       if cancelled then run_bind (release h s) (\<lambda>s. Inr (s, 0)) else Inr (s, 1))"

definition freetds_ping ::
    "bool \<Rightarrow> bool \<Rightarrow> bool \<Rightarrow> (tds_version option \<Rightarrow> bool) \<Rightarrow> dbi_options \<Rightarrow> session \<Rightarrow> (session \<times> int) run" where
  "freetds_ping answered cancelled allocated server opts s =
     run_bind (use_handle s) (\<lambda>h.
       if answered then Inr (s, 1)
       else run_bind (freetds_disconnect cancelled s) (\<lambda>(s, r).
         run_bind (freetds_connect allocated server opts s) (\<lambda>(s, res).
           Inr (s, if res \<noteq> 0 then 0 else res))))"

definition freetds_select_db :: "bool \<Rightarrow> string \<Rightarrow> session \<Rightarrow> (session \<times> string option) run" where
  "freetds_select_db answered db s =
     run_bind (use_handle s) (\<lambda>h. Inr (s, if answered then Some db else None))"

section \<open>The interface of a driver that keeps its handles in order\<close>

text \<open>At most the handle of the connection is allocated.\<close>

definition sound :: "session \<Rightarrow> bool" where
  "sound s \<longleftrightarrow> (case connection s of None \<Rightarrow> live s = [] | Some h \<Rightarrow> live s = [h])"

datatype request = Select string | Ping

fun serve ::
    "('e \<Rightarrow> string \<Rightarrow> session \<Rightarrow> (session \<times> string option) run)
       \<Rightarrow> ('e \<Rightarrow> session \<Rightarrow> (session \<times> int) run) \<Rightarrow> ('e \<times> request) list \<Rightarrow> session \<Rightarrow> session run" where
  "serve sel png [] s = Inr s"
| "serve sel png ((e, Select db) # rs) s = run_bind (sel e db s) (\<lambda>(s, r). serve sel png rs s)"
| "serve sel png ((e, Ping) # rs) s = run_bind (png e s) (\<lambda>(s, r). serve sel png rs s)"

text \<open>
  What a program does with a connection: connect, if that succeeds any requests, and disconnect
  in any case, which is what closing a libdbi connection does.
\<close>

definition whole_session ::
    "('e \<Rightarrow> session \<Rightarrow> (session \<times> int) run) \<Rightarrow> ('e \<Rightarrow> string \<Rightarrow> session \<Rightarrow> (session \<times> string option) run)
       \<Rightarrow> ('e \<Rightarrow> session \<Rightarrow> (session \<times> int) run) \<Rightarrow> (session \<Rightarrow> session run)
       \<Rightarrow> 'e \<Rightarrow> ('e \<times> request) list \<Rightarrow> session run" where
  "whole_session con sel png dis e rs =
     run_bind (con e fresh_session) (\<lambda>(s, r).
       if r = 0 then run_bind (serve sel png rs s) dis else dis s)"

locale session_driver =
  fixes con :: "'e \<Rightarrow> session \<Rightarrow> (session \<times> int) run"
    and sel :: "'e \<Rightarrow> string \<Rightarrow> session \<Rightarrow> (session \<times> string option) run"
    and png :: "'e \<Rightarrow> session \<Rightarrow> (session \<times> int) run"
    and dis :: "session \<Rightarrow> session run"
    and fits :: "'e \<Rightarrow> bool"
    and ready :: "session \<Rightarrow> bool"
  assumes con: "fits e \<Longrightarrow> connection s = None \<Longrightarrow> live s = [] \<Longrightarrow>
      \<exists>s' r. con e s = Inr (s', r) \<and> sound s' \<and> (r = 0 \<longrightarrow> ready s')"
    and sel: "fits e \<Longrightarrow> ready s \<Longrightarrow> \<exists>s' r. sel e db s = Inr (s', r) \<and> ready s'"
    and png: "fits e \<Longrightarrow> ready s \<Longrightarrow> \<exists>s' r. png e s = Inr (s', r) \<and> ready s'"
    and ready_sound: "ready s \<Longrightarrow> sound s"
    and dis: "sound s \<Longrightarrow> \<exists>s'. dis s = Inr s' \<and> live s' = []"
begin

lemma serve_ready:
  "list_all (\<lambda>(e, r). fits e) rs \<Longrightarrow> ready s \<Longrightarrow> \<exists>s'. serve sel png rs s = Inr s' \<and> ready s'"
proof (induction rs arbitrary: s)
  case (Cons x rs)
  obtain e q where x: "x = (e, q)" and e: "fits e" using Cons.prems(1) by (cases x) auto
  show ?case
  proof (cases q)
    case (Select db)
    then show ?thesis using Cons sel [OF e Cons.prems(2), of db] by (auto simp: x)
  next
    case Ping
    then show ?thesis using Cons png [OF e Cons.prems(2)] by (auto simp: x)
  qed
qed simp

lemma nothing_left:
  assumes "fits e" and "list_all (\<lambda>(e, r). fits e) rs"
  shows "\<exists>s'. whole_session con sel png dis e rs = Inr s' \<and> live s' = []"
proof -
  obtain s r where c: "con e fresh_session = Inr (s, r)" "sound s" "r = 0 \<longrightarrow> ready s"
    using con [OF assms(1), of fresh_session] by (auto simp: fresh_session_def)
  show ?thesis
  proof (cases "r = 0")
    case True
    then obtain t where "serve sel png rs s = Inr t" "ready t"
      using serve_ready [OF assms(2)] c(3) by blast
    then show ?thesis using dis [of t] ready_sound c(1) True by (auto simp: whole_session_def)
  next
    case False
    then show ?thesis using dis [of s] c by (auto simp: whole_session_def)
  qed
qed

end

section \<open>The drivers that do\<close>

text \<open>What the server and the library answer to one call of a PostgreSQL operation.\<close>

record pgsql_answers =
  pg_connectdb :: "string \<Rightarrow> outcome"
  pg_alive :: bool
  pg_reset :: bool

record mysql_answers =
  my_server :: "mysql_flag set \<Rightarrow> outcome"
  my_queries :: "string option option \<times> string option option \<times> string option option"
  my_selected :: bool
  my_alive :: bool

lemma pgsql_from_iana_total: "\<exists>x. pgsql_encoding_from_iana e = Inr x"
  using pgsql_enc.odd_total [of e]
  by (auto simp: pgsql_encoding_from_iana_def or_else_def run_bind_def defined_def split: sum.splits)

lemma mysql_from_iana_total: "\<exists>x. mysql_encoding_from_iana e = Inr x"
  using mysql_enc.odd_total [of e]
  by (auto simp: mysql_encoding_from_iana_def or_else_def run_bind_def defined_def split: sum.splits)

lemma pgsql_set_encoding_ok:
  "\<exists>s'. pgsql_set_encoding opts s = Inr s' \<and> connection s' = connection s \<and> live s' = live s"
proof (cases "get_option opts ''encoding''")
  case (Some e)
  obtain x where "pgsql_encoding_from_iana e = Inr x" using pgsql_from_iana_total by blast
  with Some show ?thesis by (simp add: pgsql_set_encoding_def)
qed (simp add: pgsql_set_encoding_def)

lemma keep_db_handles [simp]:
  "connection (keep_db d s) = connection s" "live (keep_db d s) = live s"
  by (auto simp: keep_db_def split: option.splits)

lemmas handle_defs = allocate_def release_def close_connection_def use_handle_def sound_def

lemma close_sound: "sound s \<Longrightarrow> \<exists>s'. close_connection s = Inr s' \<and> live s' = []"
  by (cases "connection s") (auto simp: handle_defs)

lemma pgsql_connect_ok:
  assumes "live s = []"
  shows "\<exists>s' r. pgsql_real_connect c escape opts db (s\<lparr>connection := None\<rparr>) = Inr (s', r) \<and> sound s'"
proof (cases "c (pgsql_conninfo escape opts db)")
  case Opened
  let ?s = "keep_db (chosen_db opts db) (snd (allocate (s\<lparr>connection := None\<rparr>))
      \<lparr>connection := Some (next_handle s)\<rparr>)"
  obtain t where "pgsql_set_encoding opts ?s = Inr t" "connection t = connection ?s" "live t = live ?s"
    using pgsql_set_encoding_ok by blast
  then show ?thesis using Opened assms by (simp add: pgsql_real_connect_def handle_defs)
qed (use assms in \<open>simp_all add: pgsql_real_connect_def handle_defs\<close>)

text \<open>
  A PostgreSQL session may lose its connection, when the database cannot be switched, and goes on
  without one.
\<close>

interpretation pgsql_session: session_driver
  "\<lambda>e. pgsql_real_connect (pg_connectdb e) escape opts []"
  "\<lambda>e. pgsql_select_db (pg_connectdb e) escape opts"
  "\<lambda>e. pgsql_ping (pg_alive e) (pg_reset e)"
  pgsql_disconnect "\<lambda>e. True" sound
proof unfold_locales
  fix e and s :: session assume c: "connection s = None" and l: "live s = []"
  have "s\<lparr>connection := None\<rparr> = s" using c by (cases s) simp
  then show "\<exists>s' r. pgsql_real_connect (pg_connectdb e) escape opts [] s = Inr (s', r) \<and> sound s'
      \<and> (r = 0 \<longrightarrow> sound s')"
    using pgsql_connect_ok [OF l, of "pg_connectdb e" escape opts "[]"] by auto
next
  fix e and s :: session and db assume s: "sound s"
  obtain t where t: "close_connection s = Inr t" "live t = []" using close_sound [OF s] by blast
  show "\<exists>s' r. pgsql_select_db (pg_connectdb e) escape opts db s = Inr (s', r) \<and> sound s'"
    using pgsql_connect_ok [OF t(2), of "pg_connectdb e" escape opts db] s t(1)
    by (auto simp: pgsql_select_db_def)
next
  fix e and s :: session assume "sound s"
  then show "\<exists>s' r. pgsql_ping (pg_alive e) (pg_reset e) s = Inr (s', r) \<and> sound s'"
    by (auto simp: pgsql_ping_def handle_defs split: option.splits)
qed (auto simp: pgsql_disconnect_def close_sound)

definition mysql_encoding_found ::
    "dbi_options \<Rightarrow> string option option \<times> string option option \<times> string option option \<Rightarrow> bool" where
  "mysql_encoding_found opts a =
     (case a of (a, a1, a2) \<Rightarrow> get_option opts ''encoding'' = Some ''auto'' \<longrightarrow>
        defined (mysql_get_encoding opts a a1 a2 (fresh_session\<lparr>connection := Some 0\<rparr>)))"

lemma mysql_set_encoding_ok:
  assumes "mysql_encoding_found opts (a, a1, a2)" and "connection s \<noteq> None"
  shows "\<exists>s'. mysql_set_encoding opts a a1 a2 s = Inr s' \<and> connection s' = connection s \<and> live s' = live s"
proof -
  have set: "\<exists>s'. run_bind (mysql_encoding_from_iana e) (\<lambda>enc. Inr (s\<lparr>client_encoding := Some enc\<rparr>)) = Inr s'
      \<and> connection s' = connection s \<and> live s' = live s" for e
    using mysql_from_iana_total [of e] by auto
  show ?thesis
  proof (cases "get_option opts ''encoding'' = Some ''auto''")
    case True
    then have "defined (mysql_get_encoding opts a a1 a2 (fresh_session\<lparr>connection := Some 0\<rparr>))"
      using assms(1) by (simp add: mysql_encoding_found_def)
    moreover have "mysql_get_encoding opts a a1 a2 (fresh_session\<lparr>connection := Some 0\<rparr>)
        = mysql_get_encoding opts a a1 a2 s"
    proof -
      from assms(2) obtain h where "connection s = Some h" by blast
      then show ?thesis by (simp add: mysql_get_encoding_def)
    qed
    ultimately obtain r where "mysql_get_encoding opts a a1 a2 s = Inr r"
      by (auto simp: defined_iff)
    then show ?thesis using True set by (cases r) (simp_all add: mysql_set_encoding_def)
  next
    case False
    then show ?thesis using set
      by (cases "get_option opts ''encoding''") (simp_all add: mysql_set_encoding_def Let_def)
  qed
qed

definition connected :: "session \<Rightarrow> bool" where
  "connected s \<longleftrightarrow> sound s \<and> connection s \<noteq> None"

lemma connected_use: "connected s \<Longrightarrow> \<exists>h. use_handle s = Inr h"
  by (auto simp: connected_def handle_defs)

interpretation mysql_session: session_driver
  "\<lambda>e. case my_queries e of (a, a1, a2) \<Rightarrow> mysql_connect (my_server e) opts a a1 a2"
  "\<lambda>e. mysql_select_db (my_selected e)" "\<lambda>e. mysql_ping (my_alive e)" mysql_disconnect
  "\<lambda>e. mysql_encoding_found opts (my_queries e)" connected
proof unfold_locales
  fix e and s :: session assume f: "mysql_encoding_found opts (my_queries e)" and s: "connection s = None" "live s = []"
  obtain a a1 a2 where a: "my_queries e = (a, a1, a2)" by (cases "my_queries e")
  let ?s = "keep_db (get_option opts ''dbname'') (snd (allocate s)\<lparr>connection := Some (next_handle s)\<rparr>)"
  have "connection ?s \<noteq> None" by simp
  then obtain t where t: "mysql_set_encoding opts a a1 a2 ?s = Inr t" "connection t = connection ?s" "live t = live ?s"
    using mysql_set_encoding_ok f a by (metis (no_types))
  show "\<exists>s' r. (case my_queries e of (a, a1, a2) \<Rightarrow> mysql_connect (my_server e) opts a a1 a2) s = Inr (s', r)
      \<and> sound s' \<and> (r = 0 \<longrightarrow> connected s')"
    using t s by (cases "my_server e (mysql_client_flags opts)")
      (simp_all add: a mysql_connect_def handle_defs connected_def)
next
  fix e and s :: session and db assume "connected s"
  with connected_use [OF this] show "\<exists>s' r. mysql_select_db (my_selected e) db s = Inr (s', r) \<and> connected s'"
    by (auto simp: mysql_select_db_def connected_def sound_def)
next
  fix e and s :: session assume "connected s"
  with connected_use [OF this] show "\<exists>s' r. mysql_ping (my_alive e) s = Inr (s', r) \<and> connected s'"
    by (auto simp: mysql_ping_def)
qed (auto simp: connected_def mysql_disconnect_def close_sound)

interpretation msql_session: session_driver
  "\<lambda>e. msql_connect (fst e) opts" "\<lambda>e. msql_select_db (snd e)" "\<lambda>e. msql_ping" msql_disconnect
  "\<lambda>e. True" connected
proof unfold_locales
  fix e :: "(string option \<Rightarrow> outcome) \<times> bool" and s :: session
  assume "connection s = None" and "live s = []"
  then show "\<exists>s' r. msql_connect (fst e) opts s = Inr (s', r) \<and> sound s' \<and> (r = 0 \<longrightarrow> connected s')"
    by (auto simp: msql_connect_def connected_def handle_defs)
next
  fix e :: "(string option \<Rightarrow> outcome) \<times> bool" and s :: session and db assume "connected s"
  with connected_use [OF this] show "\<exists>s' r. msql_select_db (snd e) db s = Inr (s', r) \<and> connected s'"
    by (auto simp: msql_select_db_def)
qed (auto simp: connected_def msql_disconnect_def msql_ping_def close_sound)

section \<open>Properties\<close>

text \<open>
  C8: PostgreSQL, MySQL and mSQL: whatever the server answers, a session that connects, switches
  the database and pings any number of times, also when connecting or switching fails, never
  uses or releases a handle that is gone, and when it has been closed no handle is left. For
  MySQL with the encoding \<open>auto\<close> this needs an encoding that the driver can find and translate.
\<close>

theorem sessions_leave_nothing_open:
  assumes "list_all (\<lambda>e. mysql_encoding_found opts (my_queries e)) (me # map fst mrs)"
  shows "(\<exists>s. whole_session (\<lambda>e. pgsql_real_connect (pg_connectdb e) escape opts [])
        (\<lambda>e. pgsql_select_db (pg_connectdb e) escape opts) (\<lambda>e. pgsql_ping (pg_alive e) (pg_reset e))
        pgsql_disconnect pe prs = Inr s \<and> live s = [])
    \<and> (\<exists>s. whole_session (\<lambda>e. case my_queries e of (a, a1, a2) \<Rightarrow> mysql_connect (my_server e) opts a a1 a2)
        (\<lambda>e. mysql_select_db (my_selected e)) (\<lambda>e. mysql_ping (my_alive e)) mysql_disconnect me mrs
      = Inr s \<and> live s = [])
    \<and> (\<exists>s. whole_session (\<lambda>e. msql_connect (fst e) opts) (\<lambda>e. msql_select_db (snd e)) (\<lambda>e. msql_ping)
        msql_disconnect te trs = Inr s \<and> live s = [])"
proof (intro conjI)
  have t: "list_all (\<lambda>(e, r). True) rs" for rs :: "('x \<times> request) list"
    by (simp add: list_all_iff)
  show "\<exists>s. whole_session (\<lambda>e. pgsql_real_connect (pg_connectdb e) escape opts [])
      (\<lambda>e. pgsql_select_db (pg_connectdb e) escape opts) (\<lambda>e. pgsql_ping (pg_alive e) (pg_reset e))
      pgsql_disconnect pe prs = Inr s \<and> live s = []"
    by (rule pgsql_session.nothing_left) (simp_all add: t)
  show "\<exists>s. whole_session (\<lambda>e. msql_connect (fst e) opts) (\<lambda>e. msql_select_db (snd e)) (\<lambda>e. msql_ping)
      msql_disconnect te trs = Inr s \<and> live s = []"
    by (rule msql_session.nothing_left) (simp_all add: t)
  show "\<exists>s. whole_session (\<lambda>e. case my_queries e of (a, a1, a2) \<Rightarrow> mysql_connect (my_server e) opts a a1 a2)
        (\<lambda>e. mysql_select_db (my_selected e)) (\<lambda>e. mysql_ping (my_alive e)) mysql_disconnect me mrs
      = Inr s \<and> live s = []"
    using assms by (intro mysql_session.nothing_left) (auto simp: list_all_iff)
qed

text \<open>A MySQL connection with the encoding \<open>auto\<close>, a switch that fails and a ping.\<close>

theorem sessions_leave_nothing_open_witness:
  "let opts = \<lparr>option_names = [], get_option = (\<lambda>n. if n = ''encoding'' then Some ''auto'' else None),
        get_numeric = (\<lambda>n. -1)\<rparr>;
      answers = \<lparr>my_server = (\<lambda>flags. Opened),
        my_queries = (Some (Some ''CREATE DATABASE d DEFAULT CHARACTER SET latin1 COLLATE x''), None, None),
        my_selected = False, my_alive = True\<rparr>
    in \<exists>s. whole_session (\<lambda>e. case my_queries e of (a, a1, a2) \<Rightarrow> mysql_connect (my_server e) opts a a1 a2)
        (\<lambda>e. mysql_select_db (my_selected e)) (\<lambda>e. mysql_ping (my_alive e)) mysql_disconnect
        answers [(answers, Select ''d2''), (answers, Ping)] = Inr s \<and> live s = []"
proof -
  let ?opts = "\<lparr>option_names = [], get_option = (\<lambda>n. if n = ''encoding'' then Some ''auto'' else None),
        get_numeric = (\<lambda>n. -1)\<rparr> :: dbi_options"
  let ?a = "\<lparr>my_server = (\<lambda>flags. Opened),
        my_queries = (Some (Some ''CREATE DATABASE d DEFAULT CHARACTER SET latin1 COLLATE x''), None, None),
        my_selected = False, my_alive = True\<rparr> :: mysql_answers"
  have "defined (even_entries (prefix_hit ''latin1 COLLATE x'') mysql_encoding_hash)
      \<and> even_entries (prefix_hit ''latin1 COLLATE x'') mysql_encoding_hash \<noteq> Inr None"
    by code_simp
  then have "list_all (\<lambda>e. mysql_encoding_found ?opts (my_queries e)) (?a # map fst [(?a, Select ''d2''), (?a, Ping)])"
    by (auto simp: mysql_encoding_found_def mysql_get_encoding_def answer_text_def schema_encoding_def
        fresh_session_def defined_iff)
  from sessions_leave_nothing_open [OF this, THEN conjunct2, THEN conjunct1]
  show ?thesis by (simp only: Let_def)
qed

text \<open>
  C38: SQLite3 and SQLite: when \<open>dbd_select_db\<close> cannot open the new database, it returns NULL, but
  \<open>conn->connection\<close> still points to the handle that it has closed, and closing the connection,
  or a ping, uses that handle. SQLite3 leaves the handle of the failed attempt open besides. In
  the Firebird driver every refused connection, the first one too, reads a pointer that was
  never set.
\<close>

theorem select_db_failure_dangles:
  assumes "sound s" and "connection s = Some h" and "db \<noteq> []" and "h \<noteq> next_handle s"
    and "sqlite3_path (sqlite3_dbdir dir opts) db = Inr path3" and "\<not> opens path3"
    and "sqlite_path (sqlite_dbdir dir opts) db = Inr path"
    and "firebird_dpb opts = Inr dpb" and "get_option opts ''dbname'' = Some d"
    and "firebird_populate_db_string n dir opts d = Inr fbpath"
  shows "(\<exists>s'. sqlite3_select_db (\<lambda>utf8 p. if opens p then Opened else Refused) dir opts db s = Inr (s', None)
        \<and> connection s' = Some h \<and> live s' = [next_handle s]
        \<and> sqlite3_disconnect s' = Inl UseAfterFree \<and> sqlite3_ping b s' = Inl UseAfterFree)
    \<and> (\<exists>s'. sqlite_select_db (\<lambda>p. False) dir opts db s = Inr (s', None)
        \<and> connection s' = Some h \<and> live s' = []
        \<and> sqlite_disconnect s' = Inl UseAfterFree \<and> sqlite_ping b s' = Inl UseAfterFree)
    \<and> firebird_real_connect (\<lambda>dpb dbase. False) n dir opts t = Inl UninitRead"
  using assms
  by (simp add: sqlite3_select_db_def sqlite3_real_connect_def sqlite_select_db_def sqlite_real_connect_def
      chosen_db_def handle_defs sqlite3_disconnect_def sqlite_disconnect_def sqlite3_ping_def sqlite_ping_def
      firebird_real_connect_def Let_def)

lemma firebird_none: "firebird_encoding_from_iana ''NONE'' = Inr ''NONE''"
  by code_simp

text \<open>Options for the examples.\<close>

definition sample_options :: dbi_options where
  "sample_options = \<lparr>option_names = [''username'', ''password'', ''dbname''],
     get_option = (\<lambda>n. if n = ''username'' then Some ''u'' else if n = ''password'' then Some ''p''
                    else if n = ''dbname'' then Some ''d'' else None),
     get_numeric = (\<lambda>n. -1)\<rparr>"

definition sample_session :: session where
  "sample_session = fresh_session\<lparr>connection := Some 0, live := [0], next_handle := 1\<rparr>"

lemma sample_dpb: "\<exists>dpb. firebird_dpb sample_options = Inr dpb"
  by (simp add: firebird_dpb_def sample_options_def given_def firebird_encoding_def firebird_none
      dpb_string_def Let_def)

lemma sample_path: "firebird_populate_db_string 4096 ''/db'' sample_options ''d'' = Inr ''/db/d''"
  by (simp add: firebird_populate_db_string_def sample_options_def strcpy_buf_def)

theorem select_db_failure_dangles_witness:
  "\<exists>s'. sqlite3_select_db (\<lambda>utf8 p. if p = ''/db/d'' then Opened else Refused) ''/db'' sample_options ''x''
      sample_session = Inr (s', None) \<and> sqlite3_disconnect s' = Inl UseAfterFree"
proof -
  obtain dpb where dpb: "firebird_dpb sample_options = Inr dpb" using sample_dpb by blast
  have paths: "sqlite3_path (sqlite3_dbdir ''/db'' sample_options) ''x'' = Inr ''/db/x''"
    "sqlite_path (sqlite_dbdir ''/db'' sample_options) ''x'' = Inr ''/db/x''"
    by (simp_all add: sqlite3_path_def sqlite_path_def sqlite3_dbdir_def sqlite_dbdir_def default_to_def
        sample_options_def strcpy_buf_def)
  have "sound sample_session" "connection sample_session = Some 0" "0 \<noteq> next_handle sample_session"
    "get_option sample_options ''dbname'' = Some ''d''"
    by (simp_all add: sound_def sample_session_def sample_options_def)
  from select_db_failure_dangles [OF this(1,2) _ this(3) paths(1) _ paths(2) dpb this(4) sample_path,
      of "\<lambda>p. p = ''/db/d''"]
  show ?thesis by auto
qed

text \<open>
  What a ping returns. PostgreSQL: 1 exactly when the connection works, if need be after a
  reset. Oracle and FreeTDS reconnect when the query fails and return 0 even if that succeeds.
  Firebird returns 1 for a working connection and 0 for one that it has just restored.
\<close>

theorem ping_results:
  assumes "sound s" and "connection s = Some h"
    and "get_option opts ''username'' = Some user" and "get_option opts ''password'' = Some pw"
    and "get_option opts ''dbname'' = Some d" and "get_option opts ''freetds_version'' = None"
    and "firebird_dpb opts = Inr dpb" and "firebird_populate_db_string n dir opts d = Inr fbpath"
  shows "pgsql_ping alive reset s = Inr (s, if alive \<or> reset then 1 else 0)
    \<and> (\<exists>s'. oracle_ping 0 True (\<lambda>u p sid. True) sid opts s = Inr (s', 0)
        \<and> connection s' \<noteq> None \<and> sound s')
    \<and> (\<exists>s'. freetds_ping False True True (\<lambda>v. True) opts s = Inr (s', 0)
        \<and> connection s' \<noteq> None \<and> sound s')
    \<and> firebird_ping True att n dir opts s = Inr (s, 1)
    \<and> (\<exists>s'. firebird_ping False (\<lambda>dpb dbase. True) n dir opts s = Inr (s', 0)
        \<and> connection s' \<noteq> None \<and> sound s')"
  using assms
  by (simp add: pgsql_ping_def oracle_ping_def oracle_disconnect_def oracle_connect_def freetds_ping_def
      freetds_disconnect_def freetds_connect_def firebird_ping_def firebird_real_connect_def given_def
      handle_defs Let_def)

theorem ping_results_witness:
  "pgsql_ping False True sample_session = Inr (sample_session, 1)
    \<and> (\<exists>s'. oracle_ping 0 True (\<lambda>u p sid. True) None sample_options sample_session = Inr (s', 0)
        \<and> connection s' \<noteq> None)"
proof -
  obtain dpb where dpb: "firebird_dpb sample_options = Inr dpb" using sample_dpb by blast
  have "sound sample_session" "connection sample_session = Some 0"
    "get_option sample_options ''username'' = Some ''u''" "get_option sample_options ''password'' = Some ''p''"
    "get_option sample_options ''dbname'' = Some ''d''" "get_option sample_options ''freetds_version'' = None"
    by (simp_all add: sound_def sample_session_def sample_options_def)
  from ping_results [OF this dpb sample_path, where alive = False and reset = True and sid = None
      and att = "\<lambda>dpb dbase. True"]
  show ?thesis by auto
qed

end
