(* ===== verification/Errors.thy ===== *)
theory Errors
  imports Quoting
begin

text \<open>
  What a program is told about an error: \<open>dbd_geterror\<close> of every driver, and how the Ingres driver
  waits for a request and collects the messages of the server into one text.
\<close>

section \<open>Waiting for a request\<close>

text \<open>
  \<open>ingres_wait\<close> calls \<open>IIapi_wait\<close> until the request is completed; if that never happens the loop does
  not end, which is the value \<open>None\<close>. The state of the API is of any type.
\<close>

partial_function (option) wait_loop :: "('s \<Rightarrow> bool) \<Rightarrow> ('s \<Rightarrow> 's) \<Rightarrow> 's \<Rightarrow> 's option" where
  "wait_loop completed api_wait s = (if completed s then Some s else wait_loop completed api_wait (api_wait s))"

definition ingres_wait :: "('s \<Rightarrow> bool) \<Rightarrow> ('s \<Rightarrow> nat) \<Rightarrow> ('s \<Rightarrow> 's) \<Rightarrow> 's \<Rightarrow> (nat \<times> 's) option" where
  "ingres_wait completed gp_status api_wait s =
     map_option (\<lambda>s. (gp_status s, s)) (wait_loop completed api_wait s)"

section \<open>The messages of Ingres\<close>

record einfo =
  ge_type :: nat
  ge_SQLSTATE :: string
  ge_errorCode :: "32 word"
  ge_message :: string

text \<open>\<open>%06X\<close>: hexadecimal digits, filled up with zeros to six.\<close>

fun hex_text :: "nat \<Rightarrow> string" where
  "hex_text n = (if n < 16 then [hex_digit n] else hex_text (n div 16) @ [hex_digit (n mod 16)])"

declare hex_text.simps [simp del]

definition code_text :: "32 word \<Rightarrow> string" where
  "code_text code = (let digits = hex_text (unat code) in replicate (6 - length digits) CHR ''0'' @ digits)"

definition typestr :: "string list" where
  "typestr = [''0'', ''ERROR'', ''WARNING'', ''MESSAGE'']"

text \<open>What \<open>snprintf\<close> would print with a buffer that is large enough; its value is the length of that.\<close>

definition error_line :: "einfo \<Rightarrow> string run" where
  "error_line e = run_bind (table_entry typestr (ge_type e)) (\<lambda>type.
     Inr (type @ '' SQLSTATE:'' @ ge_SQLSTATE e @ '' Code:'' @ code_text (ge_errorCode e) @ ''  ''
       @ ge_message e @ [CHR 0x0A]))"

text \<open>
  The array \<open>buf\<close> has 0x200 bytes. \<open>block\<close> are the bytes of \<open>*errmsg\<close> that have been written. The line
  is copied behind the \<open>count\<close> bytes that are there, but the NUL goes to \<open>p[n]\<close>, where \<open>n\<close> is the length
  of the line and not the new end.
\<close>

definition BUFSIZE :: nat where "BUFSIZE = 0x200"

record message_block =
  block :: string
  count :: nat
  capacity :: nat

definition put_nul :: "nat \<Rightarrow> string \<Rightarrow> string" where
  "put_nul n bytes = (if n < length bytes then bytes[n := NUL] else bytes @ [NUL])"

definition copy_line :: "string \<Rightarrow> message_block \<Rightarrow> message_block run" where
  "copy_line line m =
     (let n = length line;
          buf = take (BUFSIZE - 1) line @ [NUL];
          size = (if count m + n \<ge> capacity m then capacity m + n + BUFSIZE else capacity m) in
      if n > BUFSIZE then Inl ReadPastEnd
      else if count m + n > size \<or> n \<ge> size then Inl BufferOverflow
      else Inr \<lparr>block = put_nul n (take (count m) (block m) @ take n buf), count = count m + n, capacity = size\<rparr>)"

fun copy_messages :: "einfo list \<Rightarrow> int \<times> message_block \<Rightarrow> (int \<times> message_block) run" where
  "copy_messages [] (errno, m) = Inr (errno, m)"
| "copy_messages (e # es) (errno, m) =
     run_bind (error_line e) (\<lambda>line. run_bind (copy_line line m) (\<lambda>m.
       copy_messages es (sint (ge_errorCode e), m)))"

text \<open>
  \<open>ingres_error\<close> as \<open>SAVE_ERROR\<close> calls it: the error handle gives its messages one after the other,
  \<open>None\<close> is a null handle. The value has \<open>*errno\<close> and what is in the new block, if there is one.
\<close>

definition ingres_error :: "einfo list option \<Rightarrow> int \<Rightarrow> (int \<times> string option) run" where
  "ingres_error errorHandle errno =
     (case errorHandle of None \<Rightarrow> Inr (0, None)
      | Some es \<Rightarrow>
          run_bind (copy_messages es (errno, \<lparr>block = [], count = 0, capacity = BUFSIZE\<rparr>))
            (\<lambda>(errno, m). Inr (errno, Some (block m))))"

section \<open>dbd_geterror\<close>

text \<open>
  The value has what is returned, and what \<open>errno\<close> and \<open>errstr\<close> are set to, if they are. \<open>strdup\<close> reads
  up to the NUL.
\<close>

type_synonym told = "int \<times> int option \<times> string option"

definition ingres_geterror :: "bool \<Rightarrow> int \<times> string option \<Rightarrow> told run" where
  "ingres_geterror connected saved =
     (case saved of (errorCode, errorMsg) \<Rightarrow>
        if \<not> connected then Inr (0, None, None)
        else case errorMsg of None \<Rightarrow> Inr (0, None, None)
          | Some bytes \<Rightarrow> if NUL \<notin> set bytes then Inl UninitRead
                          else Inr (3, Some errorCode, Some (c_string bytes)))"

definition pgsql_geterror :: "string \<Rightarrow> told" where
  "pgsql_geterror errorMessage = (2, Some 0, Some errorMessage)"

definition mysql_geterror :: "int \<Rightarrow> string \<Rightarrow> told" where
  "mysql_geterror my_errno my_error =
     (if my_error = [] then (- 1, None, None) else (3, Some my_errno, Some my_error))"

definition sqlite3_geterror :: "int \<Rightarrow> string \<Rightarrow> told" where
  "sqlite3_geterror errcode errmsg = (3, Some errcode, Some errmsg)"

text \<open>\<open>error_number\<close> and \<open>error_message\<close> are those of the connection block.\<close>

definition sqlite_geterror :: "int \<Rightarrow> string option \<Rightarrow> told" where
  "sqlite_geterror error_number error_message =
     ((if error_number \<noteq> 0 then 1 else 0) + (if error_message \<noteq> None then 2 else 0),
      if error_number \<noteq> 0 then Some error_number else None, error_message)"

definition msql_geterror :: "string option \<Rightarrow> told" where
  "msql_geterror msqlErrMsg =
     (case msqlErrMsg of None \<Rightarrow> (- 1, None, None) | Some s \<Rightarrow> (2, Some 0, Some s))"

text \<open>
  What \<open>_checkerr\<close> of the Oracle driver writes to the standard error stream; \<open>error_get\<close> is the number
  and the text of \<open>OCIErrorGet\<close>.
\<close>

datatype oci_status = OCI_SUCCESS | OCI_SUCCESS_WITH_INFO | OCI_NEED_DATA | OCI_NO_DATA | OCI_ERROR
  | OCI_INVALID_HANDLE | OCI_STILL_EXECUTING | OCI_OTHER int

definition oracle_checkerr :: "32 word \<times> string \<Rightarrow> oci_status \<Rightarrow> string" where
  "oracle_checkerr error_get status = (case status of
       OCI_SUCCESS \<Rightarrow> []
     | OCI_SUCCESS_WITH_INFO \<Rightarrow> ''Error - OCI_SUCCESS_WITH_INFO'' @ [CHR 0x0A]
     | OCI_NEED_DATA \<Rightarrow> ''Error - OCI_NEED_DATA'' @ [CHR 0x0A]
     | OCI_NO_DATA \<Rightarrow> ''Error - OCI_NODATA'' @ [CHR 0x0A]
     | OCI_ERROR \<Rightarrow> ''Error - '' @ snd error_get @ '' Code: '' @ show_int (sint (fst error_get)) @ [CHR 0x0A]
     | OCI_INVALID_HANDLE \<Rightarrow> ''Error - OCI_INVALID_HANDLE'' @ [CHR 0x0A]
     | OCI_STILL_EXECUTING \<Rightarrow> ''Error - OCI_STILL_EXECUTE'' @ [CHR 0x0A]
     | OCI_OTHER code \<Rightarrow> [])"

text \<open>\<open>OCIErrorGet\<close> gives the number and the text, which fits the buffer of 1024 bytes.\<close>

definition oracle_geterror :: "(int \<times> string) option \<Rightarrow> told" where
  "oracle_geterror connection =
     (case connection of None \<Rightarrow> (2, Some 0, Some ''Unable to connect to database.'')
      | Some (errcode, errbuf) \<Rightarrow> (3, Some errcode, Some errbuf))"

definition firebird_geterror :: "int \<Rightarrow> string option \<Rightarrow> told" where
  "firebird_geterror error_number error_message = (1, Some error_number, error_message)"

definition freetds_geterror :: told where
  "freetds_geterror = (- 1, None, None)"

section \<open>The text of several messages\<close>

text \<open>\<open>punch cat ns\<close>: the text with a NUL at each of the positions.\<close>

definition punch :: "string \<Rightarrow> nat list \<Rightarrow> string" where
  "punch cat ns = foldl (\<lambda>bytes n. bytes[n := NUL]) cat ns"

lemma length_punch [simp]: "length (punch cat ns) = length cat"
  unfolding punch_def by (induction ns arbitrary: cat) auto

lemma punch_snoc: "punch cat (ns @ [n]) = (punch cat ns)[n := NUL]"
  by (simp add: punch_def)

lemma punch_append: "\<forall>n \<in> set ns. n < length cat \<Longrightarrow> punch (cat @ s) ns = punch cat ns @ s"
  unfolding punch_def by (induction ns arbitrary: cat) (auto simp: list_update_append)

lemma nth_punch: "i < length cat \<Longrightarrow> punch cat ns ! i = (if i \<in> set ns then NUL else cat ! i)"
proof (induction ns rule: rev_induct)
  case Nil
  then show ?case by (simp add: punch_def)
next
  case (snoc n ns)
  then show ?case by (cases "n = i") (auto simp: punch_snoc)
qed

lemma c_string_punch:
  assumes "ns \<noteq> []" and "\<forall>n \<in> set ns. n < length cat" and "NUL \<notin> set cat"
  shows "c_string (punch cat ns) = take (Min (set ns)) cat" "NUL \<in> set (punch cat ns)"
proof -
  define m where "m = Min (set ns)"
  have m: "m \<in> set ns" "\<forall>n \<in> set ns. m \<le> n" using assms(1) by (simp_all add: m_def)
  then have lt: "m < length cat" using assms(2) by blast
  have "takeWhile (\<lambda>c. c \<noteq> NUL) (punch cat ns) = take m (punch cat ns)"
  proof (rule takeWhile_eq_take_P_nth)
    fix i assume i: "i < m" "i < length (punch cat ns)"
    then have "i \<notin> set ns" using m(2) by auto
    moreover have "cat ! i \<noteq> NUL" using assms(3) i by (metis length_punch nth_mem)
    ultimately show "punch cat ns ! i \<noteq> NUL" using i by (simp add: nth_punch)
  next
    assume "m < length (punch cat ns)"
    then show "\<not> punch cat ns ! m \<noteq> NUL" using m(1) by (simp add: nth_punch)
  qed
  moreover have "take m (punch cat ns) = take m cat"
  proof (rule nth_equalityI)
    fix i assume "i < length (take m (punch cat ns))"
    then have "i < m" "i < length cat" by simp_all
    then show "take m (punch cat ns) ! i = take m cat ! i" using m(2) by (auto simp: nth_punch)
  qed simp
  ultimately show "c_string (punch cat ns) = take (Min (set ns)) cat"
    by (simp add: c_string_def m_def)
  show "NUL \<in> set (punch cat ns)"
    using lt m(1) by (metis length_punch nth_mem nth_punch)
qed

lemma length_le_concat: "x \<in> set xs \<Longrightarrow> length x \<le> length (concat xs)"
  by (induction xs) auto

definition fits :: "message_block \<Rightarrow> bool" where
  "fits m \<longleftrightarrow> BUFSIZE \<le> capacity m \<and> count m \<le> capacity m"

lemma copy_line_short:
  assumes "fits m" and "length line < BUFSIZE"
  shows "\<exists>m'. copy_line line m = Inr m' \<and> fits m' \<and> count m' = count m + length line
    \<and> block m' = put_nul (length line) (take (count m) (block m) @ line)"
  using assms by (auto simp: copy_line_def fits_def Let_def BUFSIZE_def)

lemma copy_messages_rest:
  assumes "es \<noteq> []" and "map error_line es = map Inr ls" and "\<forall>l \<in> set ls. length l < BUFSIZE"
    and "fits m" and "take (count m) (block m) = punch cat ns" and "count m = length cat"
    and "\<forall>n \<in> set ns. n < length cat" and "cat \<noteq> []"
  shows "\<exists>m'. copy_messages es (errno, m) = Inr (sint (ge_errorCode (last es)), m')
    \<and> block m' = punch (cat @ concat ls) (ns @ map length ls)"
  using assms
proof (induction es arbitrary: ls errno m cat ns)
  case (Cons e es)
  obtain l ls' where ls: "ls = l # ls'" "error_line e = Inr l" "map error_line es = map Inr ls'"
    using Cons.prems(2) by (cases ls) auto
  obtain m' where m': "copy_line l m = Inr m'" "fits m'" "count m' = length (cat @ l)"
      "block m' = put_nul (length l) (punch cat ns @ l)"
    using copy_line_short [OF Cons.prems(4), of l] Cons.prems(3,5,6) ls(1) by auto
  have block: "block m' = punch (cat @ l) (ns @ [length l])"
    using m'(4) Cons.prems(7,8) by (simp add: put_nul_def punch_snoc punch_append)
  have step: "copy_messages (e # es) (errno, m) = copy_messages es (sint (ge_errorCode e), m')"
    using ls(2) m'(1) by simp
  show ?case
  proof (cases "es = []")
    case True
    then show ?thesis using step block ls by simp
  next
    case False
    have "\<exists>m''. copy_messages es (sint (ge_errorCode e), m') = Inr (sint (ge_errorCode (last es)), m'')
      \<and> block m'' = punch ((cat @ l) @ concat ls') ((ns @ [length l]) @ map length ls')"
    proof (rule Cons.IH [OF False ls(3) _ m'(2)])
      show "take (count m') (block m') = punch (cat @ l) (ns @ [length l])"
        using m'(3) block by (metis length_punch order_refl take_all)
    qed (use Cons.prems(3,7,8) ls(1) m'(3) in auto)
    then show ?thesis using step False ls(1) by simp
  qed
qed simp

lemma error_line_ne: "error_line e = Inr l \<Longrightarrow> l \<noteq> []"
  by (auto simp: error_line_def run_bind_eq_Inr)

lemma ingres_error_block:
  assumes "es \<noteq> []" and "map error_line es = map Inr ls" and "\<forall>l \<in> set ls. length l < BUFSIZE"
  shows "ingres_error (Some es) errno = Inr (sint (ge_errorCode (last es)),
    Some (if tl ls = [] then hd ls @ [NUL] else punch (concat ls) (map length (tl ls))))"
proof -
  obtain e es' l ls' where es: "es = e # es'" "ls = l # ls'" "error_line e = Inr l" "map error_line es' = map Inr ls'"
    using assms(1,2) by (cases es; cases ls) auto
  let ?m = "\<lparr>block = [], count = 0, capacity = BUFSIZE\<rparr>"
  obtain m where m: "copy_line l ?m = Inr m" "fits m" "count m = length l" "block m = put_nul (length l) l"
    using copy_line_short [of ?m l] assms(3) es(2) by (auto simp: fits_def)
  show ?thesis
  proof (cases "es' = []")
    case True
    then show ?thesis using es m by (simp add: ingres_error_def put_nul_def)
  next
    case False
    have "take (count m) (block m) = punch l []" using m(3,4) by (simp add: punch_def put_nul_def)
    then obtain m' where "copy_messages es' (sint (ge_errorCode e), m) = Inr (sint (ge_errorCode (last es')), m')"
        "block m' = punch (l @ concat ls') ([] @ map length ls')"
      using copy_messages_rest [OF False es(4) _ m(2), of l "[]" "sint (ge_errorCode e)"] assms(3) es(2) m(3)
        error_line_ne [OF es(3)] by auto
    then show ?thesis using es m(1) False by (auto simp: ingres_error_def)
  qed
qed

text \<open>
  C24: What a program is told about an error of the Ingres server that comes with several messages,
  each of fewer than 512 characters: the code is that of the last message; with one message the text is
  that message, but with more of them the text is cut off at the length of the shortest message
  behind the first, because the NUL is written at the length of the message and not at the end of the
  text. A message of more than 512 characters that comes first is copied from behind the end of its
  buffer, and an error handle without messages leaves a text that was never written.
\<close>

theorem ingres_error_text:
  assumes "map error_line es = map Inr ls" and "\<forall>l \<in> set ls. NUL \<notin> set l"
  shows "(es \<noteq> [] \<and> (\<forall>l \<in> set ls. length l < BUFSIZE) \<longrightarrow>
      run_bind (ingres_error (Some es) errno) (ingres_geterror True)
        = Inr (3, Some (sint (ge_errorCode (last es))),
            Some (if tl ls = [] then hd ls else take (Min (length ` set (tl ls))) (concat ls))))
    \<and> (es \<noteq> [] \<and> BUFSIZE < length (hd ls) \<longrightarrow> ingres_error (Some es) errno = Inl ReadPastEnd)
    \<and> run_bind (ingres_error (Some []) errno) (ingres_geterror True) = Inl UninitRead"
proof (intro conjI impI)
  assume a: "es \<noteq> [] \<and> (\<forall>l \<in> set ls. length l < BUFSIZE)"
  then obtain l ls' where ls: "ls = l # ls'" "l \<noteq> []"
    using assms(1) error_line_ne by (cases es; cases ls) auto
  have block: "ingres_error (Some es) errno = Inr (sint (ge_errorCode (last es)),
      Some (if ls' = [] then l @ [NUL] else punch (concat ls) (map length ls')))"
    using ingres_error_block [OF _ assms(1)] a ls(1) by simp
  show "run_bind (ingres_error (Some es) errno) (ingres_geterror True)
    = Inr (3, Some (sint (ge_errorCode (last es))),
        Some (if tl ls = [] then hd ls else take (Min (length ` set (tl ls))) (concat ls)))"
  proof (cases "ls' = []")
    case True
    have "\<And>c. c \<in> set l \<Longrightarrow> c \<noteq> NUL" using assms(2) ls(1) by auto
    then have "c_string (l @ [NUL]) = l" by (simp add: c_string_def takeWhile_append2)
    then show ?thesis using True block ls by (simp add: ingres_geterror_def)
  next
    case False
    have "\<forall>n \<in> set (map length ls'). n < length (concat ls)"
    proof
      fix n assume "n \<in> set (map length ls')"
      then obtain x where "x \<in> set ls'" "n = length x" by auto
      then have "n \<le> length (concat ls')" by (simp add: length_le_concat)
      then show "n < length (concat ls)" using ls by (cases l) simp_all
    qed
    then show ?thesis
      using c_string_punch [of "map length ls'" "concat ls"] False assms(2) block ls(1)
      by (simp add: ingres_geterror_def)
  qed
next
  assume "es \<noteq> [] \<and> BUFSIZE < length (hd ls)"
  then show "ingres_error (Some es) errno = Inl ReadPastEnd"
    using assms(1) by (cases es; cases ls) (auto simp: ingres_error_def copy_line_def Let_def)
next
  show "run_bind (ingres_error (Some []) errno) (ingres_geterror True) = Inl UninitRead"
    by (simp add: ingres_error_def ingres_geterror_def)
qed

theorem ingres_error_text_witness:
  "run_bind (ingres_error (Some [\<lparr>ge_type = 1, ge_SQLSTATE = ''42500'', ge_errorCode = 2117, ge_message = ''table t does not exist''\<rparr>,
      \<lparr>ge_type = 3, ge_SQLSTATE = ''50000'', ge_errorCode = 0, ge_message = ''bye''\<rparr>]) 0) (ingres_geterror True)
    = Inr (3, Some 0, Some ''ERROR SQLSTATE:42500 Code:000845  table '')"
proof -
  let ?es = "[\<lparr>ge_type = 1, ge_SQLSTATE = ''42500'', ge_errorCode = 2117, ge_message = ''table t does not exist''\<rparr>,
      \<lparr>ge_type = 3, ge_SQLSTATE = ''50000'', ge_errorCode = 0, ge_message = ''bye''\<rparr>]"
  let ?l = "''ERROR SQLSTATE:42500 Code:000845  table t does not exist'' @ [CHR 0x0A]"
  let ?l' = "''MESSAGE SQLSTATE:50000 Code:000000  bye'' @ [CHR 0x0A]"
  have "map error_line ?es = map Inr [?l, ?l']" by code_simp
  from ingres_error_text [OF this, of 0, THEN conjunct1]
  have "run_bind (ingres_error (Some ?es) 0) (ingres_geterror True)
      = Inr (3, Some (sint (ge_errorCode (last ?es))),
          Some (if tl [?l, ?l'] = [] then hd [?l, ?l'] else take (Min (length ` set (tl [?l, ?l']))) (concat [?l, ?l'])))"
    by (simp add: BUFSIZE_def)
  then show ?thesis by simp
qed

definition announces :: "told \<Rightarrow> bool" where
  "announces t \<longleftrightarrow> (case t of (ret, errno, errstr) \<Rightarrow> errstr \<noteq> None \<longrightarrow> ret \<in> {2, 3})"

definition keeps_word :: "told \<Rightarrow> bool" where
  "keeps_word t \<longleftrightarrow> (case t of (ret, errno, errstr) \<Rightarrow>
     (ret \<in> {1, 3} \<longrightarrow> errno \<noteq> None) \<and> (ret \<in> {2, 3} \<longrightarrow> errstr \<noteq> None))"

text \<open>
  What \<open>dbd_geterror\<close> says by its result it has filled in, the drivers do fill in. The other way
  round a message that is there is announced by every driver but Firebird's, whose result 1 never
  announces the message that it has copied.
\<close>

theorem geterror_contract:
  "(\<forall>t \<in> {pgsql_geterror s, mysql_geterror n s, sqlite3_geterror n s, sqlite_geterror n msg, msql_geterror msg,
      oracle_geterror conn, freetds_geterror}. keeps_word t \<and> announces t)
    \<and> (case ingres_geterror connected saved of Inl e \<Rightarrow> e = UninitRead | Inr t \<Rightarrow> keeps_word t \<and> announces t)
    \<and> keeps_word (firebird_geterror n msg) \<and> (announces (firebird_geterror n msg) \<longleftrightarrow> msg = None)"
  by (auto simp: keeps_word_def announces_def pgsql_geterror_def mysql_geterror_def sqlite3_geterror_def
      sqlite_geterror_def msql_geterror_def oracle_geterror_def freetds_geterror_def firebird_geterror_def
      ingres_geterror_def split: option.splits prod.splits)
end
