(* ===== verification/Cursors.thy ===== *)
theory Cursors
  imports RowData
begin

text \<open>
  A result after its query: \<open>dbd_goto_row\<close>, \<open>dbd_fetch_row\<close> and \<open>dbd_free_query\<close> of every driver.
  libdbi seeks a row with the first two. The result that the client library keeps is a value
  of any type; its functions are parameters.
\<close>

section \<open>Results\<close>

datatype result_state = NOTHING_RETURNED | ROWS_RETURNED | GETTING_ROWS

text \<open>
  \<open>result_handle\<close> points to what the library keeps; once that is freed it still points there
  unless the driver resets it.
\<close>

record 'lib cursor =
  result_state :: result_state
  result_handle :: "'lib option"
  freed :: bool
  currowidx :: nat

definition kept :: "'lib cursor \<Rightarrow> 'lib run" where
  "kept c = (case result_handle c of None \<Rightarrow> Inl NullDeref
     | Some r \<Rightarrow> if freed c then Inl UseAfterFree else Inr r)"

definition open_result :: "'lib \<Rightarrow> 'lib cursor" where
  "open_result r = \<lparr>result_state = ROWS_RETURNED, result_handle = Some r, freed = False, currowidx = 0\<rparr>"

type_synonym 'lib fetched_row = "(int \<times> cell list option \<times> 'lib cursor) run"

text \<open>
  \<open>dbd_fetch_row\<close>: nothing is fetched without rows; \<open>none\<close> is what is returned then. A row is
  handed to libdbi.
\<close>

definition fetch_with :: "int \<Rightarrow> 'lib cursor \<Rightarrow> ('lib \<Rightarrow> (cell list \<times> 'lib) run) \<Rightarrow> 'lib fetched_row" where
  "fetch_with none c get =
     (if result_state c = NOTHING_RETURNED then Inr (none, None, c)
      else if result_state c = ROWS_RETURNED
      then run_bind (kept c) (\<lambda>r. run_bind (get r) (\<lambda>(cells, r).
        Inr (1, Some cells, c\<lparr>result_handle := Some r\<rparr>)))
      else Inr (1, None, c))"

section \<open>The drivers\<close>

definition sqlite3_fetch_row :: "(string \<Rightarrow> string) \<Rightarrow> field list \<Rightarrow> string option list cursor \<Rightarrow> nat
    \<Rightarrow> string option list fetched_row" where
  "sqlite3_fetch_row decode flds c rowidx =
     fetch_with 0 c (\<lambda>tbl. run_bind (sqlite3_get_row_data decode flds tbl rowidx) (\<lambda>cells. Inr (cells, tbl)))"

definition sqlite3_goto_row :: "'lib cursor \<Rightarrow> nat \<Rightarrow> ('lib cursor \<times> int) run" where
  "sqlite3_goto_row c rowidx = Inr (c\<lparr>currowidx := rowidx\<rparr>, 1)"

definition sqlite_fetch_row :: "(string \<Rightarrow> string) \<Rightarrow> field list \<Rightarrow> string option list cursor \<Rightarrow> nat
    \<Rightarrow> string option list fetched_row" where
  "sqlite_fetch_row decode flds c rowidx =
     fetch_with 0 c (\<lambda>tbl. run_bind (sqlite_get_row_data decode flds tbl rowidx) (\<lambda>cells. Inr (cells, tbl)))"

definition sqlite_goto_row :: "'lib cursor \<Rightarrow> nat \<Rightarrow> ('lib cursor \<times> int) run" where
  "sqlite_goto_row c rowidx = Inr (c\<lparr>currowidx := rowidx\<rparr>, 1)"

text \<open>\<open>getvalue\<close> is \<open>PQgetvalue\<close> with \<open>PQgetisnull\<close>: the columns of a row by its number.\<close>

definition pgsql_fetch_row :: "(string \<Rightarrow> string) \<Rightarrow> ('lib \<Rightarrow> nat \<Rightarrow> string option list) \<Rightarrow> field list
    \<Rightarrow> 'lib cursor \<Rightarrow> nat \<Rightarrow> 'lib fetched_row" where
  "pgsql_fetch_row unescape getvalue flds c rowidx =
     fetch_with 0 c (\<lambda>r. Inr (pgsql_get_row_data unescape flds (getvalue r rowidx), r))"

definition pgsql_goto_row :: "'lib cursor \<Rightarrow> nat \<Rightarrow> ('lib cursor \<times> int) run" where
  "pgsql_goto_row c rowidx = Inr (c, 1)"

text \<open>\<open>mysql_data_seek\<close> and \<open>mysql_fetch_row\<close>, which gives the row at the position and moves on.\<close>

definition mysql_fetch_row :: "int \<Rightarrow> ('lib \<Rightarrow> string option list option \<times> 'lib) \<Rightarrow> field list
    \<Rightarrow> 'lib cursor \<Rightarrow> nat \<Rightarrow> 'lib fetched_row" where
  "mysql_fetch_row trailing fetch flds c rowidx =
     fetch_with 0 c (\<lambda>r. case fetch r of
         (None, r) \<Rightarrow> if flds = [] then Inr ([], r) else Inl NullDeref
       | (Some row, r) \<Rightarrow> Inr (mysql_get_row_data trailing flds row, r))"

definition mysql_goto_row :: "('lib \<Rightarrow> nat \<Rightarrow> 'lib) \<Rightarrow> 'lib cursor \<Rightarrow> nat \<Rightarrow> ('lib cursor \<times> int) run" where
  "mysql_goto_row data_seek c rowidx =
     run_bind (kept c) (\<lambda>r. Inr (c\<lparr>result_handle := Some (data_seek r rowidx)\<rparr>, 1))"

text \<open>The mSQL driver seeks the row once more when it fetches it.\<close>

definition msql_fetch_row :: "('lib \<Rightarrow> nat \<Rightarrow> 'lib) \<Rightarrow> ('lib \<Rightarrow> string option list option \<times> 'lib) \<Rightarrow> field list
    \<Rightarrow> 'lib cursor \<Rightarrow> nat \<Rightarrow> 'lib fetched_row" where
  "msql_fetch_row data_seek fetch flds c rowidx =
     fetch_with 0 c (\<lambda>r. case fetch (data_seek r rowidx) of
         (None, r) \<Rightarrow> if flds = [] then Inr ([], r) else Inl NullDeref
       | (Some row, r) \<Rightarrow> run_bind (msql_get_row_data flds row) (\<lambda>cells. Inr (cells, r)))"

definition msql_goto_row :: "('lib \<Rightarrow> nat \<Rightarrow> 'lib) \<Rightarrow> 'lib cursor \<Rightarrow> nat \<Rightarrow> ('lib cursor \<times> int) run" where
  "msql_goto_row data_seek c rowidx =
     run_bind (kept c) (\<lambda>r. Inr (c\<lparr>result_handle := Some (data_seek r rowidx)\<rparr>, 1))"

text \<open>\<open>fetch_absolute\<close> fills the buffers of the columns with the row of that number.\<close>

definition oracle_fetch_row :: "int \<Rightarrow> ('lib \<Rightarrow> nat \<Rightarrow> (nat \<times> string) list) \<Rightarrow> field list
    \<Rightarrow> 'lib cursor \<Rightarrow> nat \<Rightarrow> 'lib fetched_row" where
  "oracle_fetch_row chop fetch_absolute flds c rowidx =
     fetch_with (-1) c (\<lambda>r. Inr (oracle_get_row_data chop flds (fetch_absolute r (rowidx + 1)), r))"

definition oracle_goto_row :: "'lib cursor \<Rightarrow> nat \<Rightarrow> ('lib cursor \<times> int) run" where
  "oracle_goto_row c rowidx = Inr (c, 1)"

text \<open>
  Firebird: \<open>dsql_fetch\<close> is the next row, if there is one, whatever row is asked for; without one the
  result is 0.
\<close>

definition firebird_fetch_row ::
    "(string \<Rightarrow> string) \<Rightarrow> (string \<Rightarrow> tm) \<Rightarrow> ('lib \<Rightarrow> xsqlvar list option \<times> 'lib) \<Rightarrow> field list
       \<Rightarrow> int \<Rightarrow> 'lib cursor \<Rightarrow> nat \<Rightarrow> (int \<times> cell list option \<times> int \<times> 'lib cursor) run" where
  "firebird_fetch_row decode broken_down dsql_fetch flds numrows c rowidx =
     (if result_state c = NOTHING_RETURNED then Inr (-1, None, numrows, c)
      else if result_state c = ROWS_RETURNED
      then run_bind (kept c) (\<lambda>r.
        let (row, r) = dsql_fetch r in
        run_bind (firebird_get_row_data decode broken_down flds row numrows) (\<lambda>(numrows, got, cells).
          Inr (if got = 0 then 0 else 1, if got = 0 then None else Some cells, numrows,
               c\<lparr>result_handle := Some r\<rparr>)))
      else Inr (1, None, numrows, c))"

definition firebird_goto_row :: "'lib cursor \<Rightarrow> nat \<Rightarrow> ('lib cursor \<times> int) run" where
  "firebird_goto_row c rowidx = Inr (c, 1)"

text \<open>FreeTDS has stored all rows in the query.\<close>

definition freetds_fetch_row :: "'lib cursor \<Rightarrow> nat \<Rightarrow> int" where
  "freetds_fetch_row c rownum =
     (if result_state c = NOTHING_RETURNED then -1 else if result_state c = ROWS_RETURNED then 1 else 0)"

definition freetds_goto_row :: "'lib cursor \<Rightarrow> nat \<Rightarrow> ('lib cursor \<times> int) run" where
  "freetds_goto_row c row = Inr (c, 1)"

section \<open>Freeing a result\<close>

definition free_kept :: "'lib cursor \<Rightarrow> 'lib cursor run" where
  "free_kept c = (case result_handle c of None \<Rightarrow> Inr c
     | Some r \<Rightarrow> if freed c then Inl UseAfterFree else Inr (c\<lparr>freed := True\<rparr>))"

definition sqlite3_free_query :: "'lib cursor \<Rightarrow> 'lib cursor run" where
  "sqlite3_free_query c = free_kept c"

definition sqlite_free_query :: "'lib cursor \<Rightarrow> 'lib cursor run" where
  "sqlite_free_query c = free_kept c"

definition mysql_free_query :: "'lib cursor \<Rightarrow> 'lib cursor run" where
  "mysql_free_query c = free_kept c"

definition msql_free_query :: "'lib cursor \<Rightarrow> 'lib cursor run" where
  "msql_free_query c = free_kept c"

text \<open>\<open>PQclear\<close> takes a null pointer.\<close>

definition pgsql_free_query :: "'lib cursor \<Rightarrow> 'lib cursor run" where
  "pgsql_free_query c = free_kept c"

definition oracle_free_query :: "'lib cursor \<Rightarrow> 'lib cursor run" where
  "oracle_free_query c = run_bind (free_kept c) (\<lambda>c. Inr (c\<lparr>result_handle := None\<rparr>))"

text \<open>Only a local variable is reset.\<close>

definition firebird_free_query :: "'lib cursor \<Rightarrow> 'lib cursor run" where
  "firebird_free_query c = free_kept c"

definition freetds_free_query :: "'lib cursor \<Rightarrow> 'lib cursor run" where
  "freetds_free_query c = Inr c"

text \<open>
  Ingres has stored all rows in the query; freeing a result closes its statement and forgets it.
\<close>

definition ingres_fetch_row :: "'lib cursor \<Rightarrow> nat \<Rightarrow> int" where
  "ingres_fetch_row c rowidx = (if result_state c = ROWS_RETURNED then 1 else 0)"

definition ingres_goto_row :: "'lib cursor \<Rightarrow> nat \<Rightarrow> ('lib cursor \<times> int) run" where
  "ingres_goto_row c rowidx = Inr (c, 1)"

definition ingres_free_query :: "'lib cursor \<Rightarrow> 'lib cursor run" where
  "ingres_free_query c = run_bind (free_kept c) (\<lambda>c. Inr (c\<lparr>result_handle := None\<rparr>))"

section \<open>Seeking rows\<close>

text \<open>What libdbi does to read rows: for each, \<open>dbd_goto_row\<close> and \<open>dbd_fetch_row\<close>.\<close>

fun seek_rows :: "('c \<Rightarrow> nat \<Rightarrow> ('c \<times> int) run) \<Rightarrow> ('c \<Rightarrow> nat \<Rightarrow> (int \<times> cell list option \<times> 'c) run)
    \<Rightarrow> 'c \<Rightarrow> nat list \<Rightarrow> (cell list option list \<times> 'c) run" where
  "seek_rows goto_row fetch_row c [] = Inr ([], c)"
| "seek_rows goto_row fetch_row c (i # is) =
     run_bind (goto_row c i) (\<lambda>(c, ok). run_bind (fetch_row c i) (\<lambda>(r, cells, c).
       run_bind (seek_rows goto_row fetch_row c is) (\<lambda>(rest, c). Inr (cells # rest, c))))"

text \<open>
  The contract of a result whose rows can be read in any order: seeking a row delivers that row,
  and the result is as ready as before.
\<close>

locale seekable =
  fixes goto_row :: "'c \<Rightarrow> nat \<Rightarrow> ('c \<times> int) run"
    and fetch_row :: "'c \<Rightarrow> nat \<Rightarrow> (int \<times> cell list option \<times> 'c) run"
    and ready :: "'c \<Rightarrow> bool"
    and row :: "nat \<Rightarrow> cell list"
    and rows :: nat
  assumes seek: "ready c \<Longrightarrow> i < rows \<Longrightarrow>
    \<exists>c1 c2. goto_row c i = Inr (c1, 1) \<and> fetch_row c1 i = Inr (1, Some (row i), c2) \<and> ready c2"
begin

lemma seek_rows_any:
  "ready c \<Longrightarrow> \<forall>i \<in> set is. i < rows \<Longrightarrow>
    \<exists>c'. seek_rows goto_row fetch_row c is = Inr (map (\<lambda>i. Some (row i)) is, c') \<and> ready c'"
proof (induction "is" arbitrary: c)
  case (Cons i "is")
  then obtain c1 c2 where "goto_row c i = Inr (c1, 1)" "fetch_row c1 i = Inr (1, Some (row i), c2)" "ready c2"
    using seek [of c i] by auto
  moreover then obtain c' where "seek_rows goto_row fetch_row c2 is = Inr (map (\<lambda>i. Some (row i)) is, c')" "ready c'"
    using Cons by auto
  ultimately show ?case by simp
qed simp

end

definition ready_with :: "('lib \<Rightarrow> bool) \<Rightarrow> 'lib cursor \<Rightarrow> bool" where
  "ready_with P c \<longleftrightarrow> result_state c = ROWS_RETURNED \<and> \<not> freed c
     \<and> (\<exists>r. result_handle c = Some r \<and> P r)"

lemma ready_open: "P r \<Longrightarrow> ready_with P (open_result r)"
  by (simp add: ready_with_def open_result_def)

lemma ready_goto [simp]: "ready_with P (c\<lparr>currowidx := i\<rparr>) = ready_with P c"
  by (simp add: ready_with_def)

lemma ready_kept: "ready_with P c \<Longrightarrow> \<exists>r. kept c = Inr r \<and> P r"
  by (auto simp: ready_with_def kept_def)

lemma fetch_ready:
  assumes "ready_with P c" and "\<And>r. P r \<Longrightarrow> \<exists>r'. get r = Inr (cells, r') \<and> P r'"
  shows "\<exists>c'. fetch_with none c get = Inr (1, Some cells, c') \<and> ready_with P c'"
proof -
  obtain r where r: "kept c = Inr r" "P r" using ready_kept [OF assms(1)] by blast
  with assms(2) obtain r' where "get r = Inr (cells, r')" "P r'" by blast
  with r assms(1) show ?thesis by (auto simp: fetch_with_def ready_with_def)
qed

definition sqlite_row :: "(field \<Rightarrow> string option \<Rightarrow> cell) \<Rightarrow> field list \<Rightarrow> string option list \<Rightarrow> nat \<Rightarrow> cell list" where
  "sqlite_row cell flds tbl i = map2 cell flds (take (length flds) (drop ((i + 1) * length flds) tbl))"

definition result_table_of :: "string option list \<Rightarrow> field list \<Rightarrow> nat \<Rightarrow> string option list \<Rightarrow> bool" where
  "result_table_of tbl flds numrows t \<longleftrightarrow> t = tbl \<and> length tbl = (numrows + 1) * length flds"

lemma fetch_table:
  assumes "ready_with (result_table_of tbl flds numrows) c" and "i < numrows"
  shows "\<exists>c'. fetch_with 0 c (\<lambda>tbl. run_bind
      (run_cells (\<lambda>curfield. run_bind (table_entry tbl (curfield + (i + 1) * length flds))
        (\<lambda>raw. Inr (cell (flds ! curfield) raw))) [0..<length flds]) (\<lambda>cells. Inr (cells, tbl)))
    = Inr (1, Some (sqlite_row cell flds tbl i), c') \<and> ready_with (result_table_of tbl flds numrows) c'"
proof (rule fetch_ready [OF assms(1)])
  fix t assume t: "result_table_of tbl flds numrows t"
  then have "length t = (numrows + 1) * length flds" by (simp add: result_table_of_def)
  from row_block_cells [OF assms(2) this] t
  show "\<exists>r'. run_bind (run_cells (\<lambda>curfield. run_bind (table_entry t (curfield + (i + 1) * length flds))
        (\<lambda>raw. Inr (cell (flds ! curfield) raw))) [0..<length flds]) (\<lambda>cells. Inr (cells, t))
      = Inr (sqlite_row cell flds tbl i, r') \<and> result_table_of tbl flds numrows r'"
    by (simp only: run_bind_simps sqlite_row_def) (simp add: result_table_of_def)
qed

interpretation sqlite3_rows: seekable sqlite3_goto_row "sqlite3_fetch_row decode flds"
  "ready_with (result_table_of tbl flds numrows)" "sqlite_row (sqlite3_cell decode) flds tbl" numrows
proof unfold_locales
  fix c :: "string option list cursor" and i
  assume "ready_with (result_table_of tbl flds numrows) c" and "i < numrows"
  then show "\<exists>c1 c2. sqlite3_goto_row c i = Inr (c1, 1)
      \<and> sqlite3_fetch_row decode flds c1 i = Inr (1, Some (sqlite_row (sqlite3_cell decode) flds tbl i), c2)
      \<and> ready_with (result_table_of tbl flds numrows) c2"
    using fetch_table [of tbl flds numrows "c\<lparr>currowidx := i\<rparr>" i "sqlite3_cell decode"]
    by (simp add: sqlite3_goto_row_def sqlite3_fetch_row_def sqlite3_get_row_data_def del: add_mult_distrib mult_Suc)
qed

interpretation sqlite_rows: seekable sqlite_goto_row "sqlite_fetch_row decode flds"
  "ready_with (result_table_of tbl flds numrows)" "sqlite_row (sqlite_cell decode) flds tbl" numrows
proof unfold_locales
  fix c :: "string option list cursor" and i
  assume "ready_with (result_table_of tbl flds numrows) c" and "i < numrows"
  then show "\<exists>c1 c2. sqlite_goto_row c i = Inr (c1, 1)
      \<and> sqlite_fetch_row decode flds c1 i = Inr (1, Some (sqlite_row (sqlite_cell decode) flds tbl i), c2)
      \<and> ready_with (result_table_of tbl flds numrows) c2"
    using fetch_table [of tbl flds numrows "c\<lparr>currowidx := i\<rparr>" i "sqlite_cell decode"]
    by (simp add: sqlite_goto_row_def sqlite_fetch_row_def sqlite_get_row_data_def del: add_mult_distrib mult_Suc)
qed

interpretation pgsql_rows: seekable pgsql_goto_row "pgsql_fetch_row unescape getvalue flds"
  "ready_with (\<lambda>r. r = res)" "\<lambda>i. pgsql_get_row_data unescape flds (getvalue res i)" numrows
  by unfold_locales (auto simp: pgsql_goto_row_def pgsql_fetch_row_def intro!: fetch_ready)

interpretation oracle_rows: seekable oracle_goto_row "oracle_fetch_row chop fetch_absolute flds"
  "ready_with (\<lambda>r. r = res)" "\<lambda>i. oracle_get_row_data chop flds (fetch_absolute res (i + 1))" numrows
  by unfold_locales (auto simp: oracle_goto_row_def oracle_fetch_row_def intro!: fetch_ready)

text \<open>
  What the MySQL and mSQL libraries promise of a stored result \<open>r\<close> with \<open>P r\<close>: after a seek inside
  the result the next row is the one sought, and it is still the same result.
\<close>

definition stored_result :: "('lib \<Rightarrow> bool) \<Rightarrow> ('lib \<Rightarrow> nat \<Rightarrow> 'lib) \<Rightarrow> ('lib \<Rightarrow> string option list option \<times> 'lib)
    \<Rightarrow> (nat \<Rightarrow> string option list) \<Rightarrow> nat \<Rightarrow> bool" where
  "stored_result P data_seek fetch row n \<longleftrightarrow>
     (\<forall>r i. P r \<longrightarrow> i < n \<longrightarrow> P (data_seek r i) \<and> (\<exists>r'. fetch (data_seek r i) = (Some (row i), r') \<and> P r'))"

lemma stored_resultD:
  "stored_result P data_seek fetch row n \<Longrightarrow> P r \<Longrightarrow> i < n \<Longrightarrow>
    P (data_seek r i) \<and> (\<exists>r'. fetch (data_seek r i) = (Some (row i), r') \<and> P r')"
  by (simp add: stored_result_def)

lemma mysql_seekable:
  assumes "stored_result P data_seek fetch row n"
  shows "seekable (mysql_goto_row data_seek) (mysql_fetch_row trailing fetch flds) (ready_with P)
    (\<lambda>i. mysql_get_row_data trailing flds (row i)) n"
proof (rule seekable.intro)
  fix c :: "'a cursor" and i assume c: "ready_with P c" and i: "i < n"
  obtain r where r: "kept c = Inr r" "P r" using ready_kept [OF c] by blast
  obtain r' where r': "P (data_seek r i)" "fetch (data_seek r i) = (Some (row i), r')" "P r'"
    using stored_resultD [OF assms r(2) i] by blast
  have "kept (c\<lparr>result_handle := Some (data_seek r i)\<rparr>) = Inr (data_seek r i)"
    using c by (simp add: kept_def ready_with_def)
  then show "\<exists>c1 c2. mysql_goto_row data_seek c i = Inr (c1, 1)
      \<and> mysql_fetch_row trailing fetch flds c1 i = Inr (1, Some (mysql_get_row_data trailing flds (row i)), c2)
      \<and> ready_with P c2"
    using c r r' by (simp add: mysql_goto_row_def mysql_fetch_row_def fetch_with_def ready_with_def)
qed

text \<open>Rows sought one after the other, as far as they can be read.\<close>

lemma msql_seek_cases:
  assumes "stored_result P data_seek fetch row n" and "ready_with P c" and "\<forall>i \<in> set is. i < n"
    and "\<And>i. i \<in> set is \<Longrightarrow> if bad i then msql_get_row_data flds (row i) = Inl NullDeref
      else \<exists>cells. msql_get_row_data flds (row i) = Inr cells \<and> good i cells"
  shows "if \<exists>i \<in> set is. bad i
    then seek_rows (msql_goto_row data_seek) (msql_fetch_row data_seek fetch flds) c is = Inl NullDeref
    else \<exists>rows c'. seek_rows (msql_goto_row data_seek) (msql_fetch_row data_seek fetch flds) c is
        = Inr (map Some rows, c') \<and> list_all2 good is rows"
  using assms(2-4)
proof (induction "is" arbitrary: c)
  case (Cons i "is")
  obtain r where r: "kept c = Inr r" "P r" using ready_kept [OF Cons(2)] by blast
  have P: "P (data_seek r i)" using stored_resultD [OF assms(1) r(2), of i] Cons(3) by simp
  obtain r' where r': "fetch (data_seek (data_seek r i) i) = (Some (row i), r')" "P r'"
    using stored_resultD [OF assms(1) P, of i] Cons(3) by auto
  let ?c = "c\<lparr>result_handle := Some (data_seek r i)\<rparr>" and ?c' = "c\<lparr>result_handle := Some r'\<rparr>"
  have kept: "kept ?c = Inr (data_seek r i)" "ready_with P ?c'"
    using Cons(2) r'(2) by (simp_all add: kept_def ready_with_def)
  have state: "result_state c = ROWS_RETURNED" using Cons(2) by (simp add: ready_with_def)
  have fetch: "msql_fetch_row data_seek fetch flds ?c i
      = run_bind (msql_get_row_data flds (row i)) (\<lambda>cells. Inr (1, Some cells, ?c'))"
    using state kept r' by (cases "msql_get_row_data flds (row i)") (simp_all add: msql_fetch_row_def fetch_with_def)
  have goto: "msql_goto_row data_seek c i = Inr (?c, 1)" using r by (simp add: msql_goto_row_def)
  show ?case
  proof (cases "bad i")
    case True
    then have "msql_get_row_data flds (row i) = Inl NullDeref" using Cons(4) [of i] by simp
    then show ?thesis using True by (simp add: goto fetch)
  next
    case False
    then obtain cells where "msql_get_row_data flds (row i) = Inr cells" "good i cells" using Cons(4) [of i] by auto
    then have step: "seek_rows (msql_goto_row data_seek) (msql_fetch_row data_seek fetch flds) c (i # is)
        = run_bind (seek_rows (msql_goto_row data_seek) (msql_fetch_row data_seek fetch flds) ?c' is)
            (\<lambda>(rest, c). Inr (Some cells # rest, c))" and good: "good i cells"
      by (simp_all add: goto fetch)
    have IH: "if \<exists>i \<in> set is. bad i
      then seek_rows (msql_goto_row data_seek) (msql_fetch_row data_seek fetch flds) ?c' is = Inl NullDeref
      else \<exists>rows c'. seek_rows (msql_goto_row data_seek) (msql_fetch_row data_seek fetch flds) ?c' is
          = Inr (map Some rows, c') \<and> list_all2 good is rows"
      using Cons(3,4) by (intro Cons(1) kept(2)) auto
    show ?thesis
    proof (cases "\<exists>i \<in> set is. bad i")
      case True
      then show ?thesis unfolding step using IH by simp
    next
      case none: False
      with IH obtain rows c' where "seek_rows (msql_goto_row data_seek) (msql_fetch_row data_seek fetch flds) ?c' is
          = Inr (map Some rows, c')" "list_all2 good is rows"
        by auto
      then show ?thesis unfolding step using False none good
        by simp (intro exI [of _ "cells # rows"], simp)
    qed
  qed
qed simp

section \<open>Properties\<close>

text \<open>
  C13: The rows of a result can be read in any order and any number of times: in SQLite3, SQLite,
  PostgreSQL, Oracle, MySQL and mSQL, seeking the rows \<open>is\<close> one after the other delivers exactly these rows, as the
  row readers decode them. In SQLite3 and SQLite the table of the library has a row of names and \<open>numrows\<close> rows; in
  MySQL and mSQL the library keeps its promise of a stored result; and the row reader of mSQL, which
  reads null pointers, is defined on the rows sought. Each driver needs only what is said of it.
\<close>

theorem rows_in_any_order:
  assumes "\<forall>i \<in> set is. i < numrows"
  shows "(length tbl = (numrows + 1) * length flds \<longrightarrow>
        (\<exists>c. seek_rows sqlite3_goto_row (sqlite3_fetch_row decode flds) (open_result tbl) is
          = Inr (map (\<lambda>i. Some (sqlite_row (sqlite3_cell decode) flds tbl i)) is, c))
        \<and> (\<exists>c. seek_rows sqlite_goto_row (sqlite_fetch_row decode flds) (open_result tbl) is
          = Inr (map (\<lambda>i. Some (sqlite_row (sqlite_cell decode) flds tbl i)) is, c)))
    \<and> (\<exists>c. seek_rows pgsql_goto_row (pgsql_fetch_row unescape getvalue flds) (open_result res) is
        = Inr (map (\<lambda>i. Some (pgsql_get_row_data unescape flds (getvalue res i))) is, c))
    \<and> (\<exists>c. seek_rows oracle_goto_row (oracle_fetch_row chop absolute flds) (open_result res) is
        = Inr (map (\<lambda>i. Some (oracle_get_row_data chop flds (absolute res (i + 1)))) is, c))
    \<and> (stored_result P data_seek fetch row numrows \<and> P res \<longrightarrow>
        (\<exists>c. seek_rows (mysql_goto_row data_seek) (mysql_fetch_row trailing fetch flds) (open_result res) is
          = Inr (map (\<lambda>i. Some (mysql_get_row_data trailing flds (row i))) is, c))
        \<and> ((\<forall>i \<in> set is. msql_get_row_data flds (row i) = Inr (cells i)) \<longrightarrow>
            (\<exists>c. seek_rows (msql_goto_row data_seek) (msql_fetch_row data_seek fetch flds) (open_result res) is
              = Inr (map (\<lambda>i. Some (cells i)) is, c))))"
proof (intro conjI impI)
  assume "length tbl = (numrows + 1) * length flds"
  then have tbl: "ready_with (result_table_of tbl flds numrows) (open_result tbl)"
    by (intro ready_open) (simp add: result_table_of_def)
  from sqlite3_rows.seek_rows_any [OF tbl assms, where decode = decode]
  show "\<exists>c. seek_rows sqlite3_goto_row (sqlite3_fetch_row decode flds) (open_result tbl) is
      = Inr (map (\<lambda>i. Some (sqlite_row (sqlite3_cell decode) flds tbl i)) is, c)" by blast
  from sqlite_rows.seek_rows_any [OF tbl assms, where decode = decode]
  show "\<exists>c. seek_rows sqlite_goto_row (sqlite_fetch_row decode flds) (open_result tbl) is
      = Inr (map (\<lambda>i. Some (sqlite_row (sqlite_cell decode) flds tbl i)) is, c)" by blast
next
  have res: "ready_with (\<lambda>r. r = res) (open_result res)" by (simp add: ready_open)
  from pgsql_rows.seek_rows_any [OF res assms, where unescape = unescape and getvalue = getvalue and flds = flds]
  show "\<exists>c. seek_rows pgsql_goto_row (pgsql_fetch_row unescape getvalue flds) (open_result res) is
      = Inr (map (\<lambda>i. Some (pgsql_get_row_data unescape flds (getvalue res i))) is, c)" by blast
  from oracle_rows.seek_rows_any [OF res assms, where chop = chop and fetch_absolute = absolute and flds = flds]
  show "\<exists>c. seek_rows oracle_goto_row (oracle_fetch_row chop absolute flds) (open_result res) is
      = Inr (map (\<lambda>i. Some (oracle_get_row_data chop flds (absolute res (i + 1)))) is, c)" by blast
next
  assume "stored_result P data_seek fetch row numrows \<and> P res"
  then have stored: "stored_result P data_seek fetch row numrows" and res: "ready_with P (open_result res)"
    by (simp_all add: ready_open)
  from seekable.seek_rows_any [OF mysql_seekable [OF stored, of trailing flds] res assms]
  show "\<exists>c. seek_rows (mysql_goto_row data_seek) (mysql_fetch_row trailing fetch flds) (open_result res) is
      = Inr (map (\<lambda>i. Some (mysql_get_row_data trailing flds (row i))) is, c)" by blast
  assume "\<forall>i \<in> set is. msql_get_row_data flds (row i) = Inr (cells i)"
  then obtain rows c where seek: "seek_rows (msql_goto_row data_seek) (msql_fetch_row data_seek fetch flds) (open_result res) is
      = Inr (map Some rows, c)" and rows: "list_all2 (\<lambda>i r. r = cells i) is rows"
    using msql_seek_cases [OF stored res assms, of "\<lambda>i. False" flds "\<lambda>i r. r = cells i"] by auto
  from rows have "map Some rows = map (\<lambda>i. Some (cells i)) is" by (induction rule: list_all2_induct) simp_all
  with seek show "\<exists>c. seek_rows (msql_goto_row data_seek) (msql_fetch_row data_seek fetch flds) (open_result res) is
      = Inr (map (\<lambda>i. Some (cells i)) is, c)"
    by simp
qed

text \<open>
  A result of two rows, of which the first has a null, read backwards by MySQL; and its second row read twice by mSQL,
  which cannot read the first. The library keeps the rows and a position.
\<close>

theorem rows_in_any_order_witness:
  "let flds = [make_field ''a'' (DBI_TYPE_STRING, {})]; rows = [[None], [Some ''y'']];
       seek = (\<lambda>p i. i); fetch = (\<lambda>p. (if p < 2 then Some (rows ! p) else None, p + 1))
   in (\<exists>c. seek_rows (mysql_goto_row seek) (mysql_fetch_row 0 fetch flds) (open_result (0 :: nat)) [1, 0]
        = Inr ([Some [sized_cell ''y'' 1], Some [null_cell]], c))
    \<and> (\<exists>c. seek_rows (msql_goto_row seek) (msql_fetch_row seek fetch flds) (open_result (0 :: nat)) [1, 1]
        = Inr ([Some [sized_cell ''y'' 1], Some [sized_cell ''y'' 1]], c))"
proof -
  let ?flds = "[make_field ''a'' (DBI_TYPE_STRING, {})]"
  let ?rows = "[[None], [Some ''y'']] :: string option list list"
  let ?seek = "\<lambda>(p :: nat) i. i"
  let ?fetch = "\<lambda>p. (if p < 2 then Some (?rows ! p) else None, p + 1)"
  have stored: "stored_result (\<lambda>p. True) ?seek ?fetch (\<lambda>i. ?rows ! i) 2 \<and> True"
    by (simp add: stored_result_def)
  have msql: "\<forall>i \<in> set [1, 1]. msql_get_row_data ?flds (?rows ! i) = Inr [sized_cell ''y'' 1]"
    by (simp add: msql_get_row_data_def msql_cell_def cell_defs Let_def)
  have "\<forall>i \<in> set [1, 0]. i < (2 :: nat)" "\<forall>i \<in> set [1, 1]. i < (2 :: nat)" by simp_all
  note rows_in_any_order [OF this(1), THEN conjunct2, THEN conjunct2, THEN conjunct2, rule_format, OF stored,
      THEN conjunct1, of 0 ?flds 0]
    and rows_in_any_order [OF this(2), THEN conjunct2, THEN conjunct2, THEN conjunct2, rule_format, OF stored,
      THEN conjunct2, rule_format, of ?flds "\<lambda>i. [sized_cell ''y'' 1]" 0]
  with msql show ?thesis
    by (simp add: mysql_get_row_data_def mysql_cell_def Let_def)
qed

text \<open>
  Firebird accepts every seek but only reads forward: which rows are asked for has no
  influence on what is fetched, the rows come in the order of the cursor.
\<close>

definition firebird_step ::
    "(string \<Rightarrow> string) \<Rightarrow> (string \<Rightarrow> tm) \<Rightarrow> ('lib \<Rightarrow> xsqlvar list option \<times> 'lib) \<Rightarrow> field list
       \<Rightarrow> int \<times> 'lib cursor \<Rightarrow> nat \<Rightarrow> (int \<times> cell list option \<times> int \<times> 'lib cursor) run" where
  "firebird_step decode broken_down dsql_fetch flds s i =
     firebird_fetch_row decode broken_down dsql_fetch flds (fst s) (snd s) i"

theorem firebird_ignores_goto_row:
  assumes "length is = length js"
  shows "seek_rows (\<lambda>(n, c) i. run_bind (firebird_goto_row c i) (\<lambda>(c, ok). Inr ((n, c), ok)))
      (firebird_step decode broken_down dsql_fetch flds) s is
    = seek_rows (\<lambda>(n, c) i. run_bind (firebird_goto_row c i) (\<lambda>(c, ok). Inr ((n, c), ok)))
      (firebird_step decode broken_down dsql_fetch flds) s js"
  using assms
proof (induction "is" js arbitrary: s rule: list_induct2)
  case (Cons i "is" j js)
  have "firebird_step decode broken_down dsql_fetch flds s i = firebird_step decode broken_down dsql_fetch flds s j" for s
    by (simp add: firebird_step_def firebird_fetch_row_def)
  with Cons show ?case by (cases s) (simp add: firebird_goto_row_def)
qed simp

text \<open>Asking for the second of two rows delivers the first.\<close>

theorem firebird_ignores_goto_row_witness:
  "let flds = [make_field ''n'' (DBI_TYPE_INTEGER, {DBI_INTEGER_SIZE2})];
       col = (\<lambda>b. \<lparr>fb_nullable = False, fb_sqlind = 0, fb_sqllen = 2, fb_sqldata = [b, CHR 0x00], fb_segments = []\<rparr>);
       fetch = (\<lambda>rs. case rs of [] \<Rightarrow> (None, []) | r # rest \<Rightarrow> (Some [col r], rest));
       goto = (\<lambda>(n, c) i. run_bind (firebird_goto_row c i) (\<lambda>(c, ok). Inr ((n, c), ok)));
       read = (\<lambda>is. seek_rows goto (firebird_step id (\<lambda>m. undefined) fetch flds)
                 (0, open_result [CHR 0x01, CHR 0x02]) is)
   in read [1] = read [0] \<and> (\<exists>s. read [1] = Inr ([Some [value_cell (D_short 1)]], s))"
proof -
  let ?flds = "[make_field ''n'' (DBI_TYPE_INTEGER, {DBI_INTEGER_SIZE2})]"
  let ?col = "\<lambda>b. \<lparr>fb_nullable = False, fb_sqlind = 0, fb_sqllen = 2, fb_sqldata = [b, CHR 0x00], fb_segments = []\<rparr> :: xsqlvar"
  let ?fetch = "\<lambda>rs. case rs of [] \<Rightarrow> (None, []) | r # rest \<Rightarrow> (Some [?col r], rest)"
  let ?goto = "\<lambda>(n, c) i. run_bind (firebird_goto_row c i) (\<lambda>(c, ok). Inr ((n :: int, c :: string cursor), ok))"
  let ?read = "\<lambda>is. seek_rows ?goto (firebird_step id (\<lambda>m. undefined) ?fetch ?flds)
     (0, open_result [CHR 0x01, CHR 0x02]) is"
  have same: "?read [1] = ?read [0]" by (rule firebird_ignores_goto_row) simp
  have "\<exists>s. ?read [0] = Inr ([Some [value_cell (D_short 1)]], s)"
    by (simp add: firebird_goto_row_def firebird_step_def firebird_fetch_row_def open_result_def kept_def
        firebird_get_row_data_def firebird_cell_def read_word_def le_word_def DBI_INTEGER_SIZEMASK_def Let_def)
  with same show ?thesis by (simp only: Let_def simp_thms)
qed

end
