(* ===== verification/Queries.thy ===== *)
theory Queries
  imports Cursors Encodings
begin

text \<open>
  \<open>dbd_query\<close> of the drivers whose client library stores the result or steps through it, the
  commands that list databases and tables, and sequences. What the server answers is a parameter.
\<close>

unbundle bit_operations_syntax

section \<open>PostgreSQL\<close>

record query_result =
  qr_numrows :: "64 word"
  qr_affected :: "64 word"
  qr_fields :: "field list"

datatype pg_status = PGRES_COMMAND_OK | PGRES_TUPLES_OK | PGRES_COPY_OUT | PGRES_COPY_IN | PGRES_OTHER nat

record pg_result =
  pg_status :: pg_status
  pg_ntuples :: nat
  pg_cmdTuples :: string
  pg_fields :: "(string \<times> nat) list"

text \<open>
  \<open>exec\<close> is \<open>PQexec\<close>, \<open>None\<close> for a null pointer; the value has the \<open>result_handle\<close> too.
\<close>

definition pgsql_query :: "(string \<Rightarrow> pg_result option) \<Rightarrow> string \<Rightarrow> (pg_result \<times> query_result) option" where
  "pgsql_query exec statement =
     (case exec statement of None \<Rightarrow> None
      | Some res \<Rightarrow>
          if pg_status res \<notin> {PGRES_COMMAND_OK, PGRES_TUPLES_OK, PGRES_COPY_OUT, PGRES_COPY_IN} then None
          else Some (res, \<lparr>qr_numrows = of_nat (pg_ntuples res), qr_affected = of_int (atoll (pg_cmdTuples res)),
                           qr_fields = pgsql_get_field_info (pg_fields res)\<rparr>))"

definition pgsql_list_dbs :: "(string \<Rightarrow> pg_result option) \<Rightarrow> string option \<Rightarrow> (pg_result \<times> query_result) option" where
  "pgsql_list_dbs exec pattern =
     (case pattern of None \<Rightarrow> pgsql_query exec ''SELECT datname FROM pg_database''
      | Some p \<Rightarrow> pgsql_query exec
          (''SELECT datname FROM pg_database WHERE datname LIKE '' @ quote # p @ [quote]))"

text \<open>\<open>queryf\<close> is \<open>dbi_conn_queryf\<close>, given the text with its arguments inserted.\<close>

definition pgsql_list_tables :: "(string \<Rightarrow> 'res option) \<Rightarrow> string option \<Rightarrow> string option \<Rightarrow> 'res option" where
  "pgsql_list_tables queryf db pattern =
     (case db of None \<Rightarrow> None
      | Some d \<Rightarrow>
          queryf (''SELECT relname FROM pg_class WHERE relname !~ '' @ quote # ''^pg_'' @ quote
            # (case pattern of None \<Rightarrow> [] | Some p \<Rightarrow> '' AND relname LIKE '' @ quote # p @ [quote])
            @ '' AND relkind = '' @ quote # ''r'' @ quote
            # '' AND relowner = (SELECT datdba FROM pg_database WHERE datname = '' @ quote # d @ quote
            # '') ORDER BY relname''))"

text \<open>\<open>getvalue\<close> is \<open>PQgetvalue(res, 0, 0)\<close>.\<close>

definition pgsql_get_seq :: "string \<Rightarrow> (string \<Rightarrow> pg_result option) \<Rightarrow> (pg_result \<Rightarrow> string option) \<Rightarrow> string \<Rightarrow> 64 word" where
  "pgsql_get_seq function exec getvalue sequence =
     (let sql = ''SELECT '' @ function @ ''('' @ quote # sequence @ quote # '')'' in
      case pgsql_query exec sql of None \<Rightarrow> 0
      | Some (res, result) \<Rightarrow>
          (case getvalue res of None \<Rightarrow> 0 | Some rawdata \<Rightarrow> of_int (atoll rawdata)))"

definition pgsql_get_seq_last :: "(string \<Rightarrow> pg_result option) \<Rightarrow> (pg_result \<Rightarrow> string option) \<Rightarrow> string \<Rightarrow> 64 word" where
  "pgsql_get_seq_last = pgsql_get_seq ''currval''"

definition pgsql_get_seq_next :: "(string \<Rightarrow> pg_result option) \<Rightarrow> (pg_result \<Rightarrow> string option) \<Rightarrow> string \<Rightarrow> 64 word" where
  "pgsql_get_seq_next = pgsql_get_seq ''nextval''"

text \<open>
  \<open>dbd_get_encoding\<close>: with the option \<open>encoding\<close>, whatever it is, the encoding of the client is asked
  for; \<open>shown\<close> is the number in the first row that the query of the database's encoding gives. Without a row
  the variable \<open>my_enc\<close> is read unset. \<open>encoding_name\<close> is \<open>pg_encoding_to_char\<close>.
\<close>

definition pgsql_get_encoding ::
    "bool \<Rightarrow> string option \<Rightarrow> int \<Rightarrow> (int \<Rightarrow> string option) \<Rightarrow> (string \<Rightarrow> int option) \<Rightarrow> string \<Rightarrow> string option run" where
  "pgsql_get_encoding connected encodingopt client encoding_name shown current_db =
     (if \<not> connected then Inr None
      else run_bind
        (case encodingopt of Some e \<Rightarrow> Inr (encoding_name client)
         | None \<Rightarrow>
             (case shown (''SELECT encoding FROM pg_database WHERE datname='' @ quote # current_db @ [quote]) of
                None \<Rightarrow> Inl UninitRead | Some n \<Rightarrow> Inr (encoding_name n)))
        (\<lambda>my_enc. case my_enc of None \<Rightarrow> Inr None
           | Some e \<Rightarrow> run_bind (pgsql_encoding_to_iana e) (\<lambda>i. Inr (Some i))))"

section \<open>MySQL\<close>

text \<open>
  \<open>run\<close> is \<open>mysql_query\<close> or \<open>mysql_real_query\<close>, true if it succeeds; the result that is stored, if
  the statement has one, is given by its number of rows and its fields.
\<close>

record mysql_answers =
  my_run :: "string \<Rightarrow> bool"
  my_stored :: "string \<Rightarrow> (nat \<times> mysql_field list) option"
  my_affected :: "string \<Rightarrow> 64 word"

definition mysql_query_null :: "mysql_answers \<Rightarrow> string \<Rightarrow> query_result option" where
  "mysql_query_null a statement =
     (if \<not> my_run a statement then None
      else Some (case my_stored a statement of
          None \<Rightarrow> \<lparr>qr_numrows = 0, qr_affected = my_affected a statement, qr_fields = []\<rparr>
        | Some (n, cols) \<Rightarrow> \<lparr>qr_numrows = of_nat n, qr_affected = my_affected a statement,
                            qr_fields = mysql_get_field_info cols\<rparr>))"

definition mysql_query :: "mysql_answers \<Rightarrow> string \<Rightarrow> query_result option" where
  "mysql_query a statement =
     (if \<not> my_run a (c_string statement) then None
      else Some (case my_stored a (c_string statement) of
          None \<Rightarrow> \<lparr>qr_numrows = 0, qr_affected = my_affected a (c_string statement), qr_fields = []\<rparr>
        | Some (n, cols) \<Rightarrow> \<lparr>qr_numrows = of_nat n, qr_affected = my_affected a (c_string statement),
                            qr_fields = mysql_get_field_info cols\<rparr>))"

definition mysql_list_dbs :: "mysql_answers \<Rightarrow> string option \<Rightarrow> query_result option" where
  "mysql_list_dbs a pattern =
     (case pattern of None \<Rightarrow> mysql_query a ''SHOW DATABASES''
      | Some p \<Rightarrow> mysql_query a (''SHOW DATABASES LIKE '' @ quote # p @ [quote]))"

definition mysql_list_tables :: "mysql_answers \<Rightarrow> string option \<Rightarrow> string option \<Rightarrow> query_result option" where
  "mysql_list_tables a db pattern =
     (case db of None \<Rightarrow> mysql_query a ''SHOW TABLES''
      | Some d \<Rightarrow>
          if d = [] then mysql_query a ''SHOW TABLES''
          else (case pattern of None \<Rightarrow> mysql_query a (''SHOW TABLES FROM '' @ d)
                | Some p \<Rightarrow> mysql_query a (''SHOW TABLES FROM '' @ d @ '' LIKE '' @ quote # p @ [quote])))"

section \<open>mSQL\<close>

text \<open>
  \<open>rows\<close> is what \<open>msqlQuery\<close> returns, \<open>stored\<close> the fields of \<open>msqlStoreResult\<close>. The fields are
  registered for a statement that begins with \<open>select\<close>.
\<close>

definition msql_query :: "int \<Rightarrow> (string \<times> msql_type) list option \<Rightarrow> string \<Rightarrow> query_result option run" where
  "msql_query rows stored statement =
     (if rows < 0 then Inr None
      else
        let result = \<lparr>qr_numrows = of_int (if rows > 0 then rows else 0), qr_affected = 0, qr_fields = []\<rparr> in
        if starts_with statement ''select'' then
          (case stored of None \<Rightarrow> Inl NullDeref
           | Some cols \<Rightarrow> Inr (Some (result\<lparr>qr_fields := msql_get_field_info cols\<rparr>)))
        else Inr (Some result))"

text \<open>\<open>msqlListDBs\<close> and \<open>msqlListTables\<close> give rows and fields; the pattern is not used.\<close>

definition msql_list :: "(nat \<times> (string \<times> msql_type) list) option \<Rightarrow> query_result option" where
  "msql_list listed =
     map_option (\<lambda>(n, cols). \<lparr>qr_numrows = of_nat n, qr_affected = 0, qr_fields = msql_get_field_info cols\<rparr>) listed"

section \<open>Oracle\<close>

text \<open>
  \<open>parses\<close> and \<open>executes\<close> say whether \<open>OCIStmtPrepare\<close> and \<open>OCIStmtExecute\<close> succeed; \<open>selected\<close> is, for a
  select, the number of rows that a fetch of the last one shows and the columns. The value has the
  number of rows to prefetch, if it is set.
\<close>

record oci_answers =
  oci_parses :: "string \<Rightarrow> bool"
  oci_executes :: "string \<Rightarrow> bool"
  oci_selected :: "string \<Rightarrow> (nat \<times> (string \<times> oracle_type \<times> int) list) option"

definition oracle_query_null :: "oci_answers \<Rightarrow> int \<Rightarrow> string \<Rightarrow> (query_result \<times> nat option) option" where
  "oracle_query_null a prefetch statement =
     (if \<not> oci_parses a statement then None
      else if \<not> oci_executes a statement then None
      else Some (case oci_selected a statement of
          None \<Rightarrow> (\<lparr>qr_numrows = 0, qr_affected = 0, qr_fields = []\<rparr>, None)
        | Some (numrows, cols) \<Rightarrow>
            (\<lparr>qr_numrows = of_nat numrows, qr_affected = 0, qr_fields = oracle_get_field_info cols\<rparr>,
             if prefetch \<noteq> 0 then Some (numrows div 5) else None)))"

definition oracle_query :: "oci_answers \<Rightarrow> int \<Rightarrow> string \<Rightarrow> (query_result \<times> nat option) option" where
  "oracle_query a prefetch statement = oracle_query_null a prefetch (c_string statement)"

definition oracle_list_tables :: "oci_answers \<Rightarrow> int \<Rightarrow> string option \<Rightarrow> (query_result \<times> nat option) option" where
  "oracle_list_tables a prefetch pattern =
     (case pattern of None \<Rightarrow> oracle_query a prefetch ''SELECT table_name FROM user_tables''
      | Some p \<Rightarrow> oracle_query a prefetch
          (''SELECT table_name FROM user_tables WHERE table_name LIKE '' @ quote # p @ [quote]))"

text \<open>
  \<open>val\<close> is a \<open>sword\<close> of 32 bits, 0 at first; \<open>defined_as\<close> is what it holds after the query has been
  executed and fetched. The conversion extends its sign.
\<close>

definition oracle_query_to_longlong :: "(string \<Rightarrow> 32 word \<Rightarrow> 32 word) \<Rightarrow> string \<Rightarrow> 64 word" where
  "oracle_query_to_longlong defined_as query = (let val = defined_as query 0 in if val \<noteq> 0 then scast val else 0)"

definition oracle_get_seq_last :: "(string \<Rightarrow> 32 word \<Rightarrow> 32 word) \<Rightarrow> string option \<Rightarrow> 64 word" where
  "oracle_get_seq_last defined_as sequence =
     (case sequence of None \<Rightarrow> 0
      | Some s \<Rightarrow> oracle_query_to_longlong defined_as (''SELECT '' @ s @ ''.currval FROM dual''))"

definition oracle_get_seq_next :: "(string \<Rightarrow> 32 word \<Rightarrow> 32 word) \<Rightarrow> string option \<Rightarrow> 64 word" where
  "oracle_get_seq_next defined_as sequence =
     (case sequence of None \<Rightarrow> 0
      | Some s \<Rightarrow> oracle_query_to_longlong defined_as (''SELECT '' @ s @ ''.nextval FROM dual''))"

section \<open>Sequences without a sequence\<close>

text \<open>
  MySQL, SQLite3 and SQLite give the number of the last row inserted, whatever sequence is asked for; a
  next number cannot be had.
\<close>

definition mysql_get_seq_last :: "64 word \<Rightarrow> string \<Rightarrow> 64 word" where
  "mysql_get_seq_last insert_id sequence = insert_id"

definition sqlite3_get_seq_last :: "64 word \<Rightarrow> string \<Rightarrow> 64 word" where
  "sqlite3_get_seq_last last_insert_rowid sequence = last_insert_rowid"

definition sqlite_get_seq_last :: "32 word \<Rightarrow> string \<Rightarrow> 64 word" where
  "sqlite_get_seq_last last_insert_rowid sequence = scast last_insert_rowid"

end
