(* ===== verification/FirebirdQuery.thy ===== *)
theory FirebirdQuery
  imports Queries
begin

text \<open>
  \<open>dbd_query\<close> of the Firebird driver: how the buffer for a row is laid out, the transaction that a
  statement runs in, and what is left of the buffer when the query returns; the sequences and the
  list of tables that rest on it; and the step relation \<open>fb_step\<close> of a program's requests, with what it keeps.
\<close>

unbundle bit_operations_syntax

section \<open>The layout of a row\<close>

text \<open>
  \<open>FB_ALIGN(n, b)\<close> does not use \<open>b\<close>. \<open>length\<close> and \<open>offset\<close> are of type \<open>short\<close>: a value that is
  stored there loses its high bits.
\<close>

definition FB_ALIGN :: "int \<Rightarrow> int" where
  "FB_ALIGN n = (n + 1) AND NOT 1"

definition short :: "int \<Rightarrow> int" where
  "short n = signed_take_bit 15 n"

text \<open>The columns with type and \<open>sqllen\<close>; the value has the offsets of \<open>sqldata\<close> and \<open>sqlind\<close>.\<close>

fun firebird_layout :: "(fb_sqltype \<times> int) list \<Rightarrow> int \<Rightarrow> (int \<times> int) list" where
  "firebird_layout [] offset = []"
| "firebird_layout ((ty, sqllen) # cols) offset =
     (let len = (if ty = SQL_VARYING then short (sqllen + 3) else sqllen);
          sqldata = short (FB_ALIGN offset);
          sqlind = short (FB_ALIGN (short (sqldata + len)))
      in (sqldata, sqlind) # firebird_layout cols (short (sqlind + 2)))"

definition buffer_size :: "nat \<Rightarrow> nat" where
  "buffer_size num_cols = 32768 * num_cols"

section \<open>The query\<close>

text \<open>
  The answers of the library. Each call succeeds or not; the statement's type is \<open>None\<close> when
  \<open>isc_dsql_sql_info\<close> fails, and then the variable is not set. \<open>fb_sqlda\<close> has the columns. \<open>fb_effect\<close> is what executing
  a statement without columns does to the transaction handle that is passed by reference: \<open>COMMIT\<close> and
  \<open>ROLLBACK\<close> end the transaction and clear it, \<open>SET TRANSACTION\<close> sets it.
\<close>

datatype tran_effect = Keeps_tran | Ends_tran | Sets_tran

record firebird_answers =
  fb_allocates :: bool
  fb_prepares :: bool
  fb_is_ddl :: "bool option"
  fb_sqlda :: "(string \<times> fb_sqltype \<times> int) list"
  fb_describes :: bool
  fb_executes :: bool
  fb_effect :: tran_effect
  fb_commits :: bool
  fb_starts :: bool

text \<open>
  The state of the connection: \<open>fb_trans\<close> is \<open>iconn->trans\<close>; transactions are numbered as they are started, \<open>fb_started\<close> have
  been, and \<open>fb_done\<close> are those that have ended. \<open>fb_statements\<close> statements are allocated; \<open>fb_buffers\<close>
  buffers for rows have been, of which \<open>fb_freed\<close> are freed.
\<close>

record firebird_conn =
  fb_trans :: "nat option"
  fb_started :: nat
  fb_done :: "nat list"
  fb_statements :: nat
  fb_buffers :: nat
  fb_freed :: "nat list"

text \<open>\<open>fr_buffer\<close> is the buffer that \<open>sqldata\<close> and \<open>sqlind\<close> of the columns point into, if they have been set.\<close>

record firebird_result =
  fr_numrows :: nat
  fr_fields :: "field list"
  fr_layout :: "(int \<times> int) list"
  fr_buffer :: "nat option"

definition drop_statement :: "firebird_conn \<Rightarrow> firebird_conn" where
  "drop_statement c = c\<lparr>fb_statements := fb_statements c - 1\<rparr>"

definition start_tran :: "firebird_conn \<Rightarrow> firebird_conn" where
  "start_tran c = c\<lparr>fb_trans := Some (fb_started c), fb_started := Suc (fb_started c)\<rparr>"

definition end_tran :: "firebird_conn \<Rightarrow> firebird_conn" where
  "end_tran c = (case fb_trans c of None \<Rightarrow> c | Some t \<Rightarrow> c\<lparr>fb_trans := None, fb_done := t # fb_done c\<rparr>)"

definition executed :: "tran_effect \<Rightarrow> firebird_conn \<Rightarrow> firebird_conn" where
  "executed e c =
     (case e of Keeps_tran \<Rightarrow> c | Ends_tran \<Rightarrow> end_tran c
      | Sets_tran \<Rightarrow> if fb_trans c = None then start_tran c else c)"

definition firebird_query :: "firebird_answers \<Rightarrow> firebird_conn \<Rightarrow> (firebird_result option \<times> firebird_conn) run" where
  "firebird_query a c =
     (if \<not> fb_allocates a then Inr (None, c)
      else
        let c = c\<lparr>fb_statements := fb_statements c + 1\<rparr>;
            fields = firebird_get_field_info (map (\<lambda>(name, ty, len). (name, ty)) (fb_sqlda a)) in
        if \<not> fb_prepares a then Inr (None, drop_statement c)
        else if fb_sqlda a = [] then
          (if \<not> fb_executes a then Inr (None, drop_statement c)
           else
             let c = executed (fb_effect a) c;
                 res = Some \<lparr>fr_numrows = 0, fr_fields = fields, fr_layout = [], fr_buffer = None\<rparr> in
             if fb_trans c = None then Inr (res, c)
             else case fb_is_ddl a of None \<Rightarrow> Inl UninitRead
             | Some ddl \<Rightarrow>
                 if \<not> ddl then Inr (res, c)
                 else if \<not> fb_commits a then Inr (None, drop_statement c)
                 else
                   let c = end_tran c in
                   Inr (res, if fb_starts a then start_tran c else c))
        else
          let buffer = fb_buffers c; c = c\<lparr>fb_buffers := Suc buffer\<rparr> in
          if 1 < length (fb_sqlda a) \<and> \<not> fb_describes a then Inr (None, drop_statement c)
          else if \<not> fb_executes a then Inr (None, drop_statement c)
          else
            Inr (Some \<lparr>fr_numrows = 1, fr_fields = fields,
                       fr_layout = firebird_layout (map snd (fb_sqlda a)) 0, fr_buffer = Some buffer\<rparr>,
                 c\<lparr>fb_freed := buffer # fb_freed c\<rparr>))"

definition firebird_list_tables :: "string option \<Rightarrow> string" where
  "firebird_list_tables pattern =
     ''SELECT RDB$RELATION_NAME FROM RDB$RELATIONS WHERE RDB$SYSTEM_FLAG = 0''
     @ (case pattern of None \<Rightarrow> [] | Some p \<Rightarrow> ''  AND RDB$RELATION_NAME LIKE '' @ quote # p @ [quote])"

text \<open>
  The driver reads the first column, which the library has set to \<open>n\<close>, through the pointer \<open>sqlvar[0].sqldata\<close>; without columns it
  has never been set.
\<close>

definition first_column :: "firebird_conn \<Rightarrow> firebird_result \<Rightarrow> int \<Rightarrow> int run" where
  "first_column c r n =
     (case fr_buffer r of None \<Rightarrow> Inl UninitRead
      | Some b \<Rightarrow> if b \<in> set (fb_freed c) then Inl UseAfterFree else Inr n)"

text \<open>
  \<open>return_generator_value\<close> does not look whether there is a result; \<open>fetched\<close> is the number that a fetch
  delivers in the first column, \<open>None\<close> if there is no row or the fetch fails.
\<close>

definition return_generator_value ::
    "(string \<Rightarrow> firebird_answers) \<Rightarrow> int option \<Rightarrow> string \<Rightarrow> nat \<Rightarrow> firebird_conn
       \<Rightarrow> (64 word \<times> firebird_conn) run" where
  "return_generator_value answers fetched sequence type c =
     run_bind (firebird_query (answers (''SELECT GEN_ID( '' @ sequence @ '' ,'' @ show_nat type @ '' ) FROM RDB$DATABASE'')) c)
       (\<lambda>(result, c). case result of None \<Rightarrow> Inl NullDeref
        | Some r \<Rightarrow>
            run_bind (case fetched of None \<Rightarrow> Inr 0 | Some n \<Rightarrow> first_column c r n) (\<lambda>n.
              Inr (of_int n, drop_statement c)))"

definition firebird_get_seq_last ::
    "(string \<Rightarrow> firebird_answers) \<Rightarrow> int option \<Rightarrow> string \<Rightarrow> firebird_conn \<Rightarrow> (64 word \<times> firebird_conn) run" where
  "firebird_get_seq_last answers fetched sequence c = return_generator_value answers fetched sequence 0 c"

definition firebird_get_seq_next ::
    "(string \<Rightarrow> firebird_answers) \<Rightarrow> int option \<Rightarrow> string \<Rightarrow> firebird_conn \<Rightarrow> (64 word \<times> firebird_conn) run" where
  "firebird_get_seq_next answers fetched sequence c = return_generator_value answers fetched sequence 1 c"

section \<open>What the layout should be\<close>

text \<open>Data and indicator of every column one after the other, each at an even offset.\<close>

definition data_size :: "fb_sqltype \<times> int \<Rightarrow> int" where
  "data_size col = (let n = (if fst col = SQL_VARYING then snd col + 3 else snd col) in n + n mod 2)"

fun layout_from :: "(fb_sqltype \<times> int) list \<Rightarrow> int \<Rightarrow> (int \<times> int) list" where
  "layout_from [] p = []"
| "layout_from (col # cols) p = (p, p + data_size col) # layout_from cols (p + data_size col + 2)"

definition row_size :: "(fb_sqltype \<times> int) list \<Rightarrow> int" where
  "row_size cols = (\<Sum>col \<leftarrow> cols. data_size col + 2)"

lemma FB_ALIGN_eq: "FB_ALIGN n = n + n mod 2"
proof -
  have "m - (m AND 1) = m AND NOT (m AND 1)" for m :: int
    by (rule disjunctive_diff) (simp add: bit_and_iff)
  moreover have "m AND NOT (m AND 1) = m AND NOT 1" for m :: int
    by (rule bit_eqI) (simp only: bit_and_iff bit_not_iff, blast)
  ultimately have "m AND NOT 1 = m - m mod 2" for m :: int by (metis and_one_eq)
  from this [of "n + 1"] show ?thesis unfolding FB_ALIGN_def by presburger
qed

lemma short_id: "- 32768 \<le> n \<Longrightarrow> n < 32768 \<Longrightarrow> short n = n"
  by (simp add: short_def signed_take_bit_int_eq_self)

lemma row_size_nonneg: "\<forall>(ty, len) \<in> set cols. 0 \<le> len \<Longrightarrow> 0 \<le> row_size cols"
  by (induction cols) (auto simp: row_size_def data_size_def Let_def add_nonneg_nonneg)

lemma even_sum:
  assumes "p mod 2 = 0"
  shows "p + n + (p + n) mod 2 = p + (n + n mod 2)" and "(p + (n + n mod 2) + 2) mod 2 = (0 :: int)"
  using assms by presburger+

lemma firebird_layout_eq:
  "\<forall>(ty, len) \<in> set cols. 0 \<le> len \<Longrightarrow> 0 \<le> p \<Longrightarrow> p mod 2 = 0 \<Longrightarrow> p + row_size cols \<le> 32766 \<Longrightarrow>
    firebird_layout cols p = layout_from cols p"
proof (induction cols arbitrary: p)
  case (Cons col cols)
  obtain ty len where col: "col = (ty, len)" by (cases col)
  let ?n = "if ty = SQL_VARYING then len + 3 else len"
  have size: "data_size col = ?n + ?n mod 2" by (simp add: col data_size_def Let_def)
  have "0 \<le> row_size cols" using Cons.prems(1) by (intro row_size_nonneg) auto
  moreover have sum: "row_size (col # cols) = data_size col + 2 + row_size cols" by (simp add: row_size_def)
  ultimately have bound: "p + data_size col + 2 \<le> 32766" using Cons.prems(4) by simp
  have n: "0 \<le> ?n" "p + ?n + ?n mod 2 + 2 \<le> 32766"
    using Cons.prems(1) bound unfolding size by (auto simp: col)
  have p: "short (FB_ALIGN p) = p" using Cons.prems(2,3) n by (simp add: FB_ALIGN_eq short_id)
  have "short ?n = ?n" "short (p + ?n) = p + ?n" using n Cons.prems(2) by (simp_all add: short_id)
  moreover have "FB_ALIGN (p + ?n) = p + data_size col"
    unfolding FB_ALIGN_eq size by (rule even_sum(1) [OF Cons.prems(3)])
  moreover have "short (p + data_size col) = p + data_size col" "short (p + data_size col + 2) = p + data_size col + 2"
    using n Cons.prems(2) by (simp_all add: size short_id)
  moreover have "(p + data_size col + 2) mod 2 = 0" unfolding size by (rule even_sum(2) [OF Cons.prems(3)])
  moreover have "firebird_layout cols (p + data_size col + 2) = layout_from cols (p + data_size col + 2)"
  proof (rule Cons.IH)
    show "\<forall>(ty, len) \<in> set cols. 0 \<le> len" using Cons.prems(1) by simp
    show "0 \<le> p + data_size col + 2" using n(1) Cons.prems(2) unfolding size by simp
    show "p + data_size col + 2 + row_size cols \<le> 32766" using Cons.prems(4) sum by simp
  qed fact
  ultimately show ?case using p by (simp add: col Let_def split: if_splits)
qed simp

lemma layout_from_bounds:
  "\<forall>(ty, len) \<in> set cols. 0 \<le> len \<Longrightarrow>
    sorted (concat (map (\<lambda>(d, i). [d, i]) (layout_from cols p)))
    \<and> (\<forall>(d, i) \<in> set (layout_from cols p). p \<le> d \<and> d \<le> i \<and> i + 2 \<le> p + row_size cols)"
proof (induction cols arbitrary: p)
  case (Cons col cols)
  let ?q = "p + data_size col + 2"
  have cols: "\<forall>(ty, len) \<in> set cols. 0 \<le> len" using Cons.prems by simp
  have col: "0 \<le> data_size col" "row_size (col # cols) = data_size col + 2 + row_size cols" "0 \<le> row_size cols"
    using Cons.prems row_size_nonneg [OF cols] by (auto simp: data_size_def Let_def row_size_def split: prod.splits)
  have rest: "sorted (concat (map (\<lambda>(d, i). [d, i]) (layout_from cols ?q)))"
    "\<forall>(d, i) \<in> set (layout_from cols ?q). ?q \<le> d \<and> d \<le> i \<and> i + 2 \<le> ?q + row_size cols"
    using Cons.IH [OF cols, of ?q] by auto
  have "?q \<le> x" if "x \<in> set (concat (map (\<lambda>(d, i). [d, i]) (layout_from cols ?q)))" for x
    using that rest(2) by fastforce
  then have "sorted (concat (map (\<lambda>(d, i). [d, i]) (layout_from (col # cols) p)))"
    using rest(1) col(1) by fastforce
  moreover have "p \<le> d \<and> d \<le> i \<and> i + 2 \<le> p + row_size (col # cols)"
    if "(d, i) \<in> set (layout_from (col # cols) p)" for d i
  proof (cases "(d, i) = (p, p + data_size col)")
    case False
    with that have "(d, i) \<in> set (layout_from cols ?q)" by auto
    with rest(2) have "?q \<le> d \<and> d \<le> i \<and> i + 2 \<le> ?q + row_size cols" by blast
    then show ?thesis using col by simp
  qed (use col in simp)
  ultimately show ?case by blast
qed simp

lemma short_wraps: "32768 \<le> k \<Longrightarrow> k < 98304 \<Longrightarrow> short k = k - 65536"
proof -
  assume "32768 \<le> k" "k < 98304"
  then have "(k - 32768 + 65536) mod 65536 = k - 32768"
    by (simp only: mod_add_self2) (simp add: mod_pos_pos_trivial)
  then have "(k + 32768) mod 65536 = k - 32768" by (simp add: algebra_simps)
  then show "short k = k - 65536"
    by (simp add: short_def signed_take_bit_eq_take_bit_shift take_bit_eq_mod)
qed

lemma firebird_layout_wraps:
  assumes "16384 \<le> n" and "n \<le> 32764"
  shows "snd (firebird_layout [(SQL_TEXT, n), (SQL_TEXT, n)] 0 ! 1) < 0"
proof -
  let ?e = "n + n mod 2"
  have e: "?e mod 2 = 0" "16384 \<le> ?e" "?e \<le> 32764" using assms by presburger+
  have "short (?e + 2 + n) = ?e + 2 + n - 65536"
    using assms e(2,3) by (intro short_wraps) simp_all
  moreover have "short (FB_ALIGN m) < 0" if "- 32768 \<le> m" "m < - 1" for m
  proof -
    have "0 \<le> m mod 2" "m mod 2 \<le> 1" by simp_all
    with that show ?thesis by (simp add: FB_ALIGN_eq short_id)
  qed
  moreover have "- 32768 \<le> ?e + 2 + n - 65536" "?e + 2 + n - 65536 < - 1" using assms e(2,3) by linarith+
  moreover have "FB_ALIGN 0 = 0" "FB_ALIGN (short n) = ?e" "short (?e + 2) = ?e + 2" "FB_ALIGN (?e + 2) = ?e + 2"
    "short ?e = ?e" "short 0 = 0"
    using assms e by (simp_all add: FB_ALIGN_eq short_id)
  ultimately show ?thesis by (simp add: Let_def)
qed

section \<open>What a program can do\<close>

text \<open>
  The requests that use the transaction and the statements of a connection: a query, which may
  give a result, a number from a sequence, and \<open>dbd_free_query\<close> for one of the \<open>opened\<close> results that
  the program has. A request that is undefined makes no step; a sequence makes one only if its fetch gives no row.
\<close>

inductive fb_step :: "firebird_conn \<times> nat \<Rightarrow> firebird_conn \<times> nat \<Rightarrow> bool" where
  answered: "firebird_query a c = Inr (Some r, c') \<Longrightarrow> fb_step (c, opened) (c', Suc opened)"
| failed: "firebird_query a c = Inr (None, c') \<Longrightarrow> fb_step (c, opened) (c', opened)"
| numbered: "return_generator_value answers fetched sequence type c = Inr (n, c') \<Longrightarrow> fb_step (c, opened) (c', opened)"
| released: "fb_step (c, Suc opened) (drop_statement c, opened)"

text \<open>A new connection, whose first transaction may have been started or not.\<close>

definition fresh_firebird :: "bool \<Rightarrow> firebird_conn" where
  "fresh_firebird starts =
     (let c = \<lparr>fb_trans = None, fb_started = 0, fb_done = [], fb_statements = 0, fb_buffers = 0, fb_freed = []\<rparr> in
      if starts then start_tran c else c)"

text \<open>
  Every result has its statement and no other statement is left; the transactions started before the
  current one, or all of them if there is none, have ended, each once.
\<close>

definition fb_accounted :: "firebird_conn \<times> nat \<Rightarrow> bool" where
  "fb_accounted s \<longleftrightarrow> fb_statements (fst s) = snd s
     \<and> (case fb_trans (fst s) of
           Some t \<Rightarrow> fb_started (fst s) = Suc t \<and> fb_done (fst s) = rev [0..<t]
         | None \<Rightarrow> fb_done (fst s) = rev [0..<fb_started (fst s)])"

lemmas tran_defs = start_tran_def end_tran_def executed_def

lemma fb_accounted_tran:
  assumes "fb_accounted (c, opened)"
  shows "fb_accounted (end_tran c, opened)" "fb_trans c = None \<Longrightarrow> fb_accounted (start_tran c, opened)"
    "fb_accounted (executed e c, opened)" "fb_trans (end_tran c) = None"
  using assms by (auto simp: fb_accounted_def tran_defs split: option.splits tran_effect.splits)

lemma fb_accounted_statement:
  "fb_accounted (c, opened) \<Longrightarrow> fb_accounted (c\<lparr>fb_statements := Suc (fb_statements c)\<rparr>, Suc opened)"
  "fb_accounted (c, Suc opened) \<Longrightarrow> fb_accounted (drop_statement c, opened)"
  "fb_accounted (c\<lparr>fb_buffers := n\<rparr>, opened) = fb_accounted (c, opened)"
  "fb_accounted (c\<lparr>fb_freed := bs\<rparr>, opened) = fb_accounted (c, opened)"
  by (simp_all add: fb_accounted_def drop_statement_def split: option.splits)

lemma firebird_query_accounted:
  assumes "firebird_query a c = Inr (res, c')" and "fb_accounted (c, opened)"
  shows "fb_accounted (c', if res = None then opened else Suc opened)"
proof -
  let ?c = "c\<lparr>fb_statements := Suc (fb_statements c)\<rparr>"
  have "fb_accounted (?c, Suc opened)" using assms(2) by (rule fb_accounted_statement)
  moreover from this have "fb_accounted (executed (fb_effect a) ?c, Suc opened)" by (rule fb_accounted_tran)
  ultimately show ?thesis using assms
    by (auto simp: firebird_query_def Let_def fb_accounted_statement fb_accounted_tran
        split: if_split_asm option.split_asm intro!: fb_accounted_tran fb_accounted_statement)
qed

lemma generator_query:
  assumes "return_generator_value answers fetched sequence type c = Inr (n, c')"
  obtains a r c1 where "firebird_query a c = Inr (Some r, c1)" and "c' = drop_statement c1"
proof -
  let ?a = "answers (''SELECT GEN_ID( '' @ sequence @ '' ,'' @ show_nat type @ '' ) FROM RDB$DATABASE'')"
  obtain x where x: "firebird_query ?a c = Inr x"
    and step: "(case x of (result, c) \<Rightarrow> case result of None \<Rightarrow> Inl NullDeref
        | Some r \<Rightarrow> run_bind (case fetched of None \<Rightarrow> Inr 0 | Some n \<Rightarrow> first_column c r n) (\<lambda>n.
            Inr (of_int n, drop_statement c))) = Inr (n, c')"
    using assms unfolding return_generator_value_def run_bind_eq_Inr by blast
  obtain result c1 where result: "x = (result, c1)" by (cases x)
  with x have q: "firebird_query ?a c = Inr (result, c1)" by simp
  from step have rest: "(case result of None \<Rightarrow> Inl NullDeref
        | Some r \<Rightarrow> run_bind (case fetched of None \<Rightarrow> Inr 0 | Some n \<Rightarrow> first_column c1 r n) (\<lambda>n.
            Inr (of_int n, drop_statement c1))) = Inr (n, c')"
    by (simp only: result prod.case)
  from rest obtain r where "result = Some r" "c' = drop_statement c1"
    by (cases result) (auto simp: run_bind_eq_Inr)
  with q that show thesis by blast
qed

lemma fb_step_accounted: "fb_step s s' \<Longrightarrow> fb_accounted s \<Longrightarrow> fb_accounted s'"
proof (induction rule: fb_step.induct)
  case (numbered answers fetched sequence type c n c' opened)
  from numbered.hyps obtain a r c1 where "firebird_query a c = Inr (Some r, c1)" "c' = drop_statement c1"
    by (rule generator_query)
  then show ?case using firebird_query_accounted [of a c "Some r" c1] numbered.prems fb_accounted_statement(2) by simp
qed (auto dest: firebird_query_accounted fb_accounted_statement(2))

lemma fb_reachable_accounted: "fb_step\<^sup>*\<^sup>* s s' \<Longrightarrow> fb_accounted s \<Longrightarrow> fb_accounted s'"
  by (induction rule: rtranclp_induct) (auto intro: fb_step_accounted)

text \<open>The calls that make a query fail, in the order of the code, on the connection with the statement executed.\<close>

definition query_fails :: "firebird_answers \<Rightarrow> firebird_conn \<Rightarrow> bool" where
  "query_fails a c \<longleftrightarrow> \<not> fb_allocates a \<or> \<not> fb_prepares a \<or> \<not> fb_executes a
     \<or> (1 < length (fb_sqlda a) \<and> \<not> fb_describes a)
     \<or> (fb_sqlda a = [] \<and> fb_trans (executed (fb_effect a) c) \<noteq> None \<and> fb_is_ddl a = Some True \<and> \<not> fb_commits a)"

lemma executed_statements:
  "executed e (c\<lparr>fb_statements := n\<rparr>) = (executed e c)\<lparr>fb_statements := n\<rparr>"
  "fb_statements (executed e c) = fb_statements c"
  by (simp_all add: tran_defs split: tran_effect.split option.split)

lemma firebird_query_fails:
  "(\<exists>c'. firebird_query a c = Inr (None, c')) \<longleftrightarrow> query_fails a c"
  "firebird_query a c = Inr (None, c') \<Longrightarrow> fb_statements c' = fb_statements c"
  by (auto simp: firebird_query_def query_fails_def drop_statement_def executed_statements Let_def
      split: if_split_asm option.split_asm option.splits)

section \<open>Properties\<close>

text \<open>
  C30: The row buffer of a Firebird result. While the columns take up at most 32766 bytes, data and
  indicators lie one behind the other at even offsets inside the buffer, in the order of the
  columns; but the offset is a \<open>short\<close>: for two columns of 16384 bytes or more the second
  indicator is placed before the buffer, although there is room for it.
\<close>

theorem firebird_row_layout:
  assumes "\<forall>(ty, len) \<in> set cols. 0 \<le> len" and "row_size cols \<le> 32766" and "cols \<noteq> []"
    and "16384 \<le> n" and "n \<le> 32764"
  shows "firebird_layout cols 0 = layout_from cols 0
    \<and> sorted (concat (map (\<lambda>(d, i). [d, i]) (firebird_layout cols 0)))
    \<and> (\<forall>(d, i) \<in> set (firebird_layout cols 0). 0 \<le> d \<and> d \<le> i \<and> i + 2 \<le> int (buffer_size (length cols)))
    \<and> snd (firebird_layout [(SQL_TEXT, n), (SQL_TEXT, n)] 0 ! 1) < 0
    \<and> row_size [(SQL_TEXT, n), (SQL_TEXT, n)] \<le> int (buffer_size 2)"
proof -
  have eq: "firebird_layout cols 0 = layout_from cols 0"
    using firebird_layout_eq [OF assms(1), of 0] assms(2) by simp
  have "1 \<le> length cols" using assms(3) by (simp add: Suc_leI)
  then have size: "row_size cols \<le> int (buffer_size (length cols))"
    using assms(2) by (simp add: buffer_size_def)
  have "row_size [(SQL_TEXT, n), (SQL_TEXT, n)] \<le> int (buffer_size 2)"
    using assms(5) by (simp add: row_size_def data_size_def buffer_size_def)
  then show ?thesis
    using layout_from_bounds [OF assms(1), of 0] firebird_layout_wraps [OF assms(4,5)] size
    by (fastforce simp: eq)
qed

theorem firebird_row_layout_witness:
  "firebird_layout [(SQL_VARYING, 10), (SQL_LONG, 4)] 0 = [(0, 14), (16, 20)]
    \<and> snd (firebird_layout [(SQL_TEXT, 20000), (SQL_TEXT, 20000)] 0 ! 1) < 0"
proof -
  have "\<forall>(ty, len) \<in> set [(SQL_VARYING, 10), (SQL_LONG, 4)]. 0 \<le> (len :: int)"
    "row_size [(SQL_VARYING, 10), (SQL_LONG, 4)] \<le> 32766"
    by (simp_all add: row_size_def data_size_def)
  from firebird_row_layout [OF this _, of 20000] show ?thesis by (simp add: data_size_def)
qed

text \<open>
  C19: What a query of the Firebird driver comes to. It fails exactly when the statement cannot be allocated, prepared, described or
  executed, or when a change of the schema cannot be committed; then no statement is kept, and a sequence whose query
  fails is read through a null pointer. A select that succeeds has one statement more and the columns
  point into a buffer that has been freed: reading the number of a sequence from there uses freed memory. A
  statement that changes the schema commits the transaction with everything that was done in it before, and the
  connection goes on with a new one, or with none if it cannot be started. If the type of a
  statement without columns cannot be found out in a transaction, the variable is read without having been set.
\<close>

theorem firebird_query_outcomes:
  shows "((\<exists>c'. firebird_query a c = Inr (None, c')) \<longleftrightarrow> query_fails a c)
    \<and> (\<forall>c'. firebird_query a c = Inr (None, c') \<longrightarrow> fb_statements c' = fb_statements c
          \<and> firebird_get_seq_next (\<lambda>sql. a) fetched sequence c = Inl NullDeref)
    \<and> (\<not> query_fails a c \<and> fb_sqlda a \<noteq> [] \<longrightarrow>
        (\<exists>r c'. firebird_query a c = Inr (Some r, c') \<and> fr_numrows r = 1
          \<and> fb_statements c' = Suc (fb_statements c) \<and> the (fr_buffer r) \<in> set (fb_freed c'))
        \<and> firebird_get_seq_next (\<lambda>sql. a) (Some n) sequence c = Inl UseAfterFree)
    \<and> (\<not> query_fails a c \<and> fb_sqlda a = [] \<and> fb_effect a = Keeps_tran \<and> fb_trans c = Some t \<longrightarrow>
        (case fb_is_ddl a of
           None \<Rightarrow> firebird_query a c = Inl UninitRead
         | Some ddl \<Rightarrow> \<exists>r c'. firebird_query a c = Inr (Some r, c') \<and> fb_statements c' = Suc (fb_statements c)
             \<and> (if ddl then fb_done c' = t # fb_done c \<and> fb_trans c' = (if fb_starts a then Some (fb_started c) else None)
                else fb_done c' = fb_done c \<and> fb_trans c' = Some t)))"
proof (intro conjI allI impI)
  show "(\<exists>c'. firebird_query a c = Inr (None, c')) \<longleftrightarrow> query_fails a c" by (rule firebird_query_fails)
next
  fix c' assume "firebird_query a c = Inr (None, c')"
  then show "fb_statements c' = fb_statements c" "firebird_get_seq_next (\<lambda>sql. a) fetched sequence c = Inl NullDeref"
    by (simp_all add: firebird_query_fails(2) firebird_get_seq_next_def return_generator_value_def)
next
  assume "\<not> query_fails a c \<and> fb_sqlda a \<noteq> []"
  then obtain r c' where "firebird_query a c = Inr (Some r, c')" "fr_numrows r = 1"
    "fb_statements c' = Suc (fb_statements c)" "fr_buffer r = Some (fb_buffers c)" "fb_buffers c \<in> set (fb_freed c')"
    by (auto simp: firebird_query_def query_fails_def Let_def)
  then show "\<exists>r c'. firebird_query a c = Inr (Some r, c') \<and> fr_numrows r = 1
      \<and> fb_statements c' = Suc (fb_statements c) \<and> the (fr_buffer r) \<in> set (fb_freed c')"
    and "firebird_get_seq_next (\<lambda>sql. a) (Some n) sequence c = Inl UseAfterFree"
    by (auto simp: firebird_get_seq_next_def return_generator_value_def first_column_def)
next
  assume "\<not> query_fails a c \<and> fb_sqlda a = [] \<and> fb_effect a = Keeps_tran \<and> fb_trans c = Some t"
  then show "case fb_is_ddl a of
           None \<Rightarrow> firebird_query a c = Inl UninitRead
         | Some ddl \<Rightarrow> \<exists>r c'. firebird_query a c = Inr (Some r, c') \<and> fb_statements c' = Suc (fb_statements c)
             \<and> (if ddl then fb_done c' = t # fb_done c \<and> fb_trans c' = (if fb_starts a then Some (fb_started c) else None)
                else fb_done c' = fb_done c \<and> fb_trans c' = Some t)"
    by (cases "fb_is_ddl a") (auto simp: firebird_query_def query_fails_def tran_defs Let_def)
qed

definition sample_select :: firebird_answers where
  "sample_select = \<lparr>fb_allocates = True, fb_prepares = True, fb_is_ddl = Some False, fb_sqlda = [(''n'', SQL_LONG, 4)],
     fb_describes = True, fb_executes = True, fb_effect = Keeps_tran, fb_commits = True, fb_starts = True\<rparr>"

text \<open>A sequence; a statement that cannot be prepared; a table whose creation cannot be committed; and one that can.\<close>

theorem firebird_query_outcomes_witness:
  "let create = sample_select\<lparr>fb_sqlda := [], fb_is_ddl := Some True\<rparr>; c = fresh_firebird True
   in firebird_get_seq_next (\<lambda>sql. sample_select) (Some 7) ''s'' c = Inl UseAfterFree
    \<and> firebird_get_seq_next (\<lambda>sql. sample_select\<lparr>fb_prepares := False\<rparr>) (Some 7) ''s'' c = Inl NullDeref
    \<and> (\<exists>c'. firebird_query (create\<lparr>fb_commits := False\<rparr>) c = Inr (None, c') \<and> fb_statements c' = 0)
    \<and> (\<exists>r c'. firebird_query (create\<lparr>fb_starts := False\<rparr>) c = Inr (Some r, c') \<and> fb_done c' = [0] \<and> fb_trans c' = None)"
proof -
  let ?create = "sample_select\<lparr>fb_sqlda := [], fb_is_ddl := Some True\<rparr>" and ?c = "fresh_firebird True"
  have fails: "query_fails sample_select ?c = False" "query_fails (sample_select\<lparr>fb_prepares := False\<rparr>) ?c = True"
    "query_fails (?create\<lparr>fb_commits := False\<rparr>) ?c = True" "query_fails (?create\<lparr>fb_starts := False\<rparr>) ?c = False"
    and c: "fb_trans ?c = Some 0" "fb_done ?c = []" "fb_statements ?c = 0"
    and cols: "fb_sqlda sample_select \<noteq> []" "fb_effect sample_select = Keeps_tran"
    by (simp_all add: query_fails_def sample_select_def fresh_firebird_def tran_defs)
  note out = firebird_query_outcomes [where sequence = "''s''" and c = ?c and fetched = "Some 7" and n = 7 and t = 0]
  have 1: "firebird_get_seq_next (\<lambda>sql. sample_select) (Some 7) ''s'' ?c = Inl UseAfterFree"
    using out [of sample_select] fails(1) cols by simp
  have 2: "firebird_get_seq_next (\<lambda>sql. sample_select\<lparr>fb_prepares := False\<rparr>) (Some 7) ''s'' ?c = Inl NullDeref"
    using out [of "sample_select\<lparr>fb_prepares := False\<rparr>"] fails(2) by blast
  have 3: "\<exists>c'. firebird_query (?create\<lparr>fb_commits := False\<rparr>) ?c = Inr (None, c') \<and> fb_statements c' = 0"
    using out [of "?create\<lparr>fb_commits := False\<rparr>"] fails(3) c(3) by metis
  have 4: "\<exists>r c'. firebird_query (?create\<lparr>fb_starts := False\<rparr>) ?c = Inr (Some r, c') \<and> fb_done c' = [0] \<and> fb_trans c' = None"
    using out [of "?create\<lparr>fb_starts := False\<rparr>"] fails(4) c cols by auto
  show ?thesis unfolding Let_def using 1 2 3 4 by blast
qed

text \<open>
  C20: A Firebird connection, however many queries, sequences and freed results there are and
  whichever of the calls to the server fail, as long as nothing undefined happens: the connection has one statement for
  every result that is open and no other; no transaction that has ended is the current one; and all that have been
  started before it, or all if there is none, have ended, each once and in the order in which they began. A
  sequence whose query gives no row leaves this as it was.
\<close>

theorem firebird_statements_accounted:
  assumes "fb_step\<^sup>*\<^sup>* (fresh_firebird starts, 0) (c, opened)"
  shows "fb_statements c = opened
    \<and> (case fb_trans c of
          Some t \<Rightarrow> t \<notin> set (fb_done c) \<and> fb_started c = Suc t \<and> fb_done c = rev [0..<t]
        | None \<Rightarrow> fb_done c = rev [0..<fb_started c])"
proof -
  have "fb_accounted (fresh_firebird starts, 0)"
    by (simp add: fresh_firebird_def fb_accounted_def start_tran_def Let_def)
  from fb_reachable_accounted [OF assms this] show ?thesis
    by (auto simp: fb_accounted_def split: option.splits)
qed

text \<open>
  A table is created, but no transaction can be started afterwards; \<open>SET TRANSACTION\<close> starts one; a select fails to execute,
  another one succeeds, and a sequence has no row.
\<close>

theorem firebird_statements_accounted_witness:
  "\<exists>c. fb_step\<^sup>*\<^sup>* (fresh_firebird True, 0) (c, 3)
     \<and> fb_statements c = 3 \<and> fb_trans c = Some 1 \<and> fb_done c = [0]"
proof -
  let ?ddl = "sample_select\<lparr>fb_sqlda := [], fb_is_ddl := Some True, fb_starts := False\<rparr>"
  let ?set = "sample_select\<lparr>fb_sqlda := [], fb_effect := Sets_tran\<rparr>"
  let ?c = "\<lambda>t n s b bs. \<lparr>fb_trans = t, fb_started = n, fb_done = [0], fb_statements = s, fb_buffers = b, fb_freed = bs\<rparr>"
  have ddl: "\<exists>r. firebird_query ?ddl (fresh_firebird True) = Inr (Some r, ?c None 1 1 0 [])"
    by (simp add: firebird_query_def fresh_firebird_def sample_select_def tran_defs)
  have sets: "\<exists>r. firebird_query ?set (?c None 1 1 0 []) = Inr (Some r, ?c (Some 1) 2 2 0 [])"
    by (simp add: firebird_query_def sample_select_def tran_defs)
  have refused: "firebird_query (sample_select\<lparr>fb_executes := False\<rparr>) (?c (Some 1) 2 2 0 []) = Inr (None, ?c (Some 1) 2 2 1 [])"
    by (simp add: firebird_query_def sample_select_def drop_statement_def)
  have select: "\<exists>r. firebird_query sample_select (?c (Some 1) 2 2 1 []) = Inr (Some r, ?c (Some 1) 2 3 2 [1])"
    by (simp add: firebird_query_def sample_select_def)
  have number: "return_generator_value (\<lambda>sql. sample_select) None ''s'' 1 (?c (Some 1) 2 3 2 [1]) = Inr (0, ?c (Some 1) 2 3 3 [2, 1])"
    by (simp add: return_generator_value_def firebird_query_def sample_select_def drop_statement_def)
  have "fb_step (fresh_firebird True, 0) (?c None 1 1 0 [], Suc 0)" using ddl fb_step.answered by blast
  moreover have "fb_step (?c None 1 1 0 [], Suc 0) (?c (Some 1) 2 2 0 [], Suc (Suc 0))" using sets fb_step.answered by blast
  moreover have "fb_step (?c (Some 1) 2 2 0 [], Suc (Suc 0)) (?c (Some 1) 2 2 1 [], Suc (Suc 0))"
    using refused by (rule fb_step.failed)
  moreover have "fb_step (?c (Some 1) 2 2 1 [], Suc (Suc 0)) (?c (Some 1) 2 3 2 [1], Suc (Suc (Suc 0)))"
    using select fb_step.answered by blast
  moreover have "fb_step (?c (Some 1) 2 3 2 [1], Suc (Suc (Suc 0))) (?c (Some 1) 2 3 3 [2, 1], Suc (Suc (Suc 0)))"
    using number by (rule fb_step.numbered)
  ultimately have run: "fb_step\<^sup>*\<^sup>* (fresh_firebird True, 0) (?c (Some 1) 2 3 3 [2, 1], Suc (Suc (Suc 0)))"
    by (meson rtranclp.intros)
  from firebird_statements_accounted [OF this] run show ?thesis
    by (intro exI [of _ "?c (Some 1) 2 3 3 [2, 1]"]) (simp add: numeral_3_eq_3)
qed

end
