(* ===== verification/FreetdsQuery.thy ===== *)
theory FreetdsQuery
  imports Queries
begin

text \<open>
  \<open>dbd_query\<close> of the FreeTDS driver, which works through the results that \<open>ct_results\<close> reports one
  after the other, binds the columns of a row before it is fetched and converts each row when it binds
  the next. The answers of the library are a parameter.
\<close>

section \<open>Answers\<close>

text \<open>
  A row that is fetched has put bytes into the block of every column, none if the column is null. The rest of the
  block is as \<open>malloc\<close> returned it.
\<close>

datatype fetch_answer = Fetched "string list" | Row_fail | Fetch_end | Fetch_error

datatype tds_answer = Rowfmt_result | Cmd_succeed | Cmd_done | Cmd_fail
  | Row_result bool "(string \<times> cs_datafmt) option list" "fetch_answer list"
  | Compute_result | Status_result | Other_result

text \<open>
  \<open>money\<close> and \<open>date\<close> are \<open>cs_convert\<close> to a \<open>CS_NUMERIC\<close> and to text, \<open>decode\<close> is \<open>_dbd_decode_binary\<close>.
\<close>

record tds_conversions =
  cv_money :: "string \<Rightarrow> string"
  cv_date :: "string \<Rightarrow> string"
  cv_decode :: "string \<Rightarrow> string"

section \<open>A column\<close>

text \<open>
  An amount is converted from its block, which a null has left unwritten, into one of \<open>sizeof(CS_NUMERIC_TYPE)\<close>
  bytes, the size of an \<open>int\<close>. The block of a text or of binary data has one byte more than \<open>maxlength\<close>. A date is converted in the union, which has been cleared. The
  indicator of a null value is bound, but not looked at.
\<close>

definition freetds_money :: "tds_conversions \<Rightarrow> nat \<Rightarrow> string \<Rightarrow> string run" where
  "freetds_money cv maxlen raw =
     (if length raw < maxlen then Inl UninitRead
      else if length (cv_money cv raw) \<le> 4 then Inr (cv_money cv raw)
      else Inl BufferOverflow)"

definition decoded_cell :: "tds_conversions \<Rightarrow> string \<Rightarrow> cell" where
  "decoded_cell cv s = sized_cell (cv_decode cv s) (length (cv_decode cv s))"

definition freetds_cell :: "tds_conversions \<Rightarrow> cs_datafmt \<Rightarrow> field_type \<Rightarrow> string \<Rightarrow> cell run" where
  "freetds_cell cv datafmt ty raw =
     (let size = nat (maxlength datafmt);
          kept = \<lparr>c_value = (if fst ty \<in> {DBI_TYPE_BINARY, DBI_TYPE_STRING} then D_string raw else raw_member ty raw),
                  c_size = size, c_null = False\<rparr>;
          money = run_bind (freetds_money cv size raw) (\<lambda>m. Inr (kept\<lparr>c_value := D_string m\<rparr>));
          date = Inr (kept\<lparr>c_value := D_datetime (Some (cv_date cv raw)) {DBI_DATETIME_TIME, DBI_DATETIME_DATE}\<rparr>);
          decoded = run_bind (block_string (size + 1) raw) (\<lambda>s. Inr (decoded_cell cv s));
          chars = run_bind (block_string (size + 1) raw) (\<lambda>s. Inr (sized_cell s (length s))) in
      case datatype_of datafmt of
        CS_MONEY_TYPE \<Rightarrow> money
      | CS_MONEY4_TYPE \<Rightarrow> money
      | CS_DATETIME_TYPE \<Rightarrow> date
      | CS_DATETIME4_TYPE \<Rightarrow> date
      | CS_UNIQUE_TYPE \<Rightarrow> decoded
      | CS_IMAGE_TYPE \<Rightarrow> decoded
      | CS_BINARY_TYPE \<Rightarrow> decoded
      | CS_VARBINARY_TYPE \<Rightarrow> decoded
      | CS_UNICHAR_TYPE \<Rightarrow> decoded
      | CS_CHAR_TYPE \<Rightarrow> chars
      | CS_TEXT_TYPE \<Rightarrow> chars
      | CS_VARCHAR_TYPE \<Rightarrow> chars
      | _ \<Rightarrow> Inr kept)"

definition freetds_row :: "tds_conversions \<Rightarrow> (cs_datafmt \<times> field_type) list \<Rightarrow> string list \<Rightarrow> cell list run" where
  "freetds_row cv cols raws =
     run_cells (\<lambda>idx. freetds_cell cv (fst (cols ! idx)) (snd (cols ! idx)) (raws ! idx)) [0..<length cols]"

section \<open>The query\<close>

text \<open>
  \<open>binds\<close> says whether \<open>ct_bind\<close> succeeds for a column. Every row that is fetched goes to the result
  and is converted when the columns are bound for the next; a null result in between gives up.
\<close>

fun freetds_fetch ::
    "tds_conversions \<Rightarrow> (cs_datafmt \<Rightarrow> bool) \<Rightarrow> (cs_datafmt \<times> field_type) list \<Rightarrow> fetch_answer list
       \<Rightarrow> cell list list \<Rightarrow> cell list list option run" where
  "freetds_fetch cv binds cols [] rows = Inr (Some rows)"
| "freetds_fetch cv binds cols (Fetch_end # as) rows = Inr (Some rows)"
| "freetds_fetch cv binds cols (Row_fail # as) rows = Inr None"
| "freetds_fetch cv binds cols (Fetch_error # as) rows = Inr None"
| "freetds_fetch cv binds cols (Fetched raws # as) rows =
     run_bind (freetds_row cv cols raws) (\<lambda>cells.
       if list_all (\<lambda>(datafmt, ty). binds datafmt) cols then freetds_fetch cv binds cols as (rows @ [cells])
       else Inr None)"

record tds_result =
  tr_state :: result_state
  tr_fields :: "field list"
  tr_rows :: "cell list list"

definition described :: "(string \<times> cs_datafmt) option list \<Rightarrow> (string \<times> cs_datafmt \<times> field_type) list" where
  "described descs = map (\<lambda>d. (fst (the d), translate_freetds_type (snd (the d)))) descs"

text \<open>
  The loop over \<open>ct_results\<close>. \<open>gone\<close>: the array \<open>datafmt\<close> has been freed after a first result with columns; a
  second one enlarges it, or, if it has no columns, frees it again. \<open>ends\<close>: the loop ends with \<open>CS_END_RESULTS\<close>.
\<close>

fun freetds_results ::
    "tds_conversions \<Rightarrow> (cs_datafmt \<Rightarrow> bool) \<Rightarrow> bool \<Rightarrow> bool \<Rightarrow> tds_answer list \<Rightarrow> tds_result option
       \<Rightarrow> tds_result option run" where
  "freetds_results cv binds ends gone [] result = Inr (if ends then result else None)"
| "freetds_results cv binds ends gone (Row_result info_ok descs fetches # as) result =
     (if \<not> info_ok then Inr None
      else if gone \<and> descs \<noteq> [] then Inl UseAfterFree
      else if None \<in> set descs then Inr None
      else
        let cols = map snd (described descs) in
        if \<not> list_all (\<lambda>(datafmt, ty). binds datafmt) cols then Inr None
        else run_bind (freetds_fetch cv binds cols fetches []) (\<lambda>r.
          case r of None \<Rightarrow> Inr None
          | Some rows \<Rightarrow> if gone then Inl UseAfterFree else freetds_results cv binds ends (descs \<noteq> []) as
              (Some \<lparr>tr_state = ROWS_RETURNED,
                 tr_fields = map (\<lambda>(name, datafmt, ty). make_field name ty) (described descs), tr_rows = rows\<rparr>)))"
| "freetds_results cv binds ends gone (Cmd_succeed # as) result =
     freetds_results cv binds ends gone as
       (if result = None then Some \<lparr>tr_state = NOTHING_RETURNED, tr_fields = [], tr_rows = []\<rparr> else result)"
| "freetds_results cv binds ends gone (Rowfmt_result # as) result = freetds_results cv binds ends gone as result"
| "freetds_results cv binds ends gone (Cmd_done # as) result = freetds_results cv binds ends gone as result"
| "freetds_results cv binds ends gone (Status_result # as) result = freetds_results cv binds ends gone as result"
| "freetds_results cv binds ends gone (Cmd_fail # as) result = Inr None"
| "freetds_results cv binds ends gone (Compute_result # as) result = Inr None"
| "freetds_results cv binds ends gone (Other_result # as) result = Inr None"

text \<open>\<open>sends\<close>: \<open>ct_command\<close> and \<open>ct_send\<close> succeed; \<open>answers\<close> are the results of the statement.\<close>

definition freetds_query ::
    "tds_conversions \<Rightarrow> (cs_datafmt \<Rightarrow> bool) \<Rightarrow> (string \<Rightarrow> bool) \<Rightarrow> (string \<Rightarrow> tds_answer list \<times> bool) \<Rightarrow> string
       \<Rightarrow> tds_result option run" where
  "freetds_query cv binds sends answers statement =
     (if \<not> sends statement then Inr None
      else case answers statement of (as, ends) \<Rightarrow> freetds_results cv binds ends False as None)"

section \<open>Databases and tables\<close>

definition text_lines :: "string list \<Rightarrow> string" where
  "text_lines ls = concat (map (\<lambda>l. l @ [CHR 0x0A]) ls)"

definition column_line :: "string \<Rightarrow> string" where
  "column_line s = [CHR 0x09, CHR 0x09] @ ''    '' @ s"

definition freetds_list_dbs :: "string option \<Rightarrow> string" where
  "freetds_list_dbs pattern =
     (case pattern of None \<Rightarrow> ''exec sp_databases''
      | Some p \<Rightarrow>
          text_lines ['' create table #t ('', column_line ''DATABASE_NAME sysname NOT NULL,'',
            column_line ''DATABASE_SIZE int NOT NULL,'', column_line ''REMARKS varchar(254)'',
            [CHR 0x09, CHR 0x09] @ ''  )'', '' Insert Into #t exec sp_databases'',
            '' Select * From #t Where DATABASE_NAME Like '' @ quote # ''%'' @ p @ ''%'' @ [quote]]
          @ '' Drop table #t'')"

definition tables_text :: "string option \<Rightarrow> string" where
  "tables_text pattern =
     text_lines [''create table #t ('', column_line ''TABLE_QUALIFIER sysname,'',
       column_line ''TABLE_OWNER sysname,'', column_line ''TABLE_NAME sysname NOT NULL,'',
       column_line ''TABLE_TYPE sysname,'', column_line ''REMARKS varchar(254)'',
       [CHR 0x09, CHR 0x09] @ ''   )'', ''Insert Into #t exec sp_tables'',
       ''Select TABLE_NAME From #t Where TABLE_TYPE='' @ quote # ''TABLE'' @ quote
         # (case pattern of None \<Rightarrow> [] | Some p \<Rightarrow> '' And TABLE_NAME Like '' @ quote # ''%'' @ p @ ''%'' @ [quote]),
       ''Drop table #t'']"

text \<open>
  The statements sent, in order; the result is that of the one \<open>exec\<close> or \<open>create\<close> statement. Whether the
  database could be selected is not looked at.
\<close>

definition freetds_list_tables :: "string option \<Rightarrow> string option \<Rightarrow> string option \<Rightarrow> string list" where
  "freetds_list_tables current_db db pattern =
     (case db of None \<Rightarrow> [''EXEC sp_tables'']
      | Some d \<Rightarrow>
          if d = [] then [''EXEC sp_tables'']
          else (''USE '' @ d @ '' '') # tables_text pattern
            # (case current_db of None \<Rightarrow> [] | Some c \<Rightarrow> [''USE '' @ c @ '' '']))"

section \<open>Properties\<close>

definition silent :: "tds_answer \<Rightarrow> bool" where
  "silent a \<longleftrightarrow> a \<in> {Rowfmt_result, Cmd_succeed, Cmd_done, Status_result}"

lemma silent_before:
  "list_all silent pre \<Longrightarrow>
    \<exists>r'. \<forall>as. freetds_results cv binds ends gone (pre @ as) r = freetds_results cv binds ends gone as r'"
proof (induction pre arbitrary: r)
  case (Cons a pre)
  then have pre: "list_all silent pre" and a: "silent a" by simp_all
  let ?r1 = "if a = Cmd_succeed \<and> r = None then Some \<lparr>tr_state = NOTHING_RETURNED, tr_fields = [], tr_rows = []\<rparr> else r"
  have "freetds_results cv binds ends gone (a # as) r = freetds_results cv binds ends gone as ?r1" for as
    using a by (auto simp: silent_def)
  with Cons.IH [OF pre, of ?r1] show ?case by simp
qed auto

lemma silent_after:
  "list_all silent post \<Longrightarrow> freetds_results cv binds ends gone post (Some r) = Inr (if ends then Some r else None)"
  by (induction post) (auto simp: silent_def)

lemma freetds_fetch_append:
  "list_all (\<lambda>(datafmt, ty). binds datafmt) cols \<Longrightarrow>
   list_all2 (\<lambda>raws cells. freetds_row cv cols raws = Inr cells) raws rows \<Longrightarrow>
   freetds_fetch cv binds cols (map Fetched raws @ tail) acc = freetds_fetch cv binds cols tail (acc @ rows)"
proof (induction raws arbitrary: rows acc)
  case (Cons r raws)
  then obtain cells rest where "rows = cells # rest" "freetds_row cv cols r = Inr cells"
    "list_all2 (\<lambda>raws cells. freetds_row cv cols raws = Inr cells) raws rest"
    by (auto simp: list_all2_Cons1)
  with Cons.IH [OF Cons.prems(1) this(3), of "acc @ [cells]"] Cons.prems(1) show ?case by simp
qed simp

lemma freetds_cell_not_null: "freetds_cell cv datafmt ty raw = Inr c \<Longrightarrow> \<not> c_null c"
  by (cases "datatype_of datafmt")
    (auto simp: freetds_cell_def decoded_cell_def sized_cell_def Let_def run_bind_eq_Inr)

text \<open>The types whose block is read up to a NUL.\<close>

definition string_types :: "cs_type set" where
  "string_types = {CS_UNIQUE_TYPE, CS_IMAGE_TYPE, CS_BINARY_TYPE, CS_VARBINARY_TYPE, CS_UNICHAR_TYPE,
     CS_CHAR_TYPE, CS_TEXT_TYPE, CS_VARCHAR_TYPE}"

lemma freetds_cell_unterminated:
  "datatype_of datafmt \<in> string_types \<Longrightarrow> CHR 0x00 \<notin> set raw \<Longrightarrow>
    freetds_cell cv datafmt ty raw = Inl (if length raw < nat (maxlength datafmt) + 1 then UninitRead else ReadPastEnd)"
  by (auto simp: string_types_def freetds_cell_def block_string_def Let_def)

lemma run_cells_member: "run_cells step idxs = Inr cs \<Longrightarrow> c \<in> set cs \<Longrightarrow> \<exists>i \<in> set idxs. step i = Inr c"
proof (induction idxs arbitrary: cs)
  case (Cons i idxs)
  then obtain x xs where "step i = Inr x" "run_cells step idxs = Inr xs" "cs = x # xs"
    by (auto simp: run_bind_eq_Inr)
  with Cons.IH [of xs] Cons.prems(2) show ?case by auto
qed simp

lemma freetds_row_not_null:
  assumes "freetds_row cv cols raws = Inr cells" and "c \<in> set cells"
  shows "\<not> c_null c"
proof -
  obtain i where "freetds_cell cv (fst (cols ! i)) (snd (cols ! i)) (raws ! i) = Inr c"
    using run_cells_member assms unfolding freetds_row_def by blast
  then show ?thesis by (rule freetds_cell_not_null)
qed

lemma run_cells_undefined: "i \<in> set idxs \<Longrightarrow> step i = Inl e \<Longrightarrow> \<exists>e. run_cells step idxs = Inl e"
proof (induction idxs)
  case (Cons j idxs)
  show ?case
  proof (cases "step j")
    case (Inr x)
    with Cons show ?thesis by auto
  qed simp
qed simp



end
