(* ===== verification/Typing.thy ===== *)
theory Typing
  imports IngresResults FreetdsQuery
begin

text \<open>
  Type correctness of the drivers: the type translation registers a type for a column, the row
  reader writes a member of the union, and libdbi reads the member that belongs to the registered
  type.
\<close>

section \<open>The member of the union\<close>

text \<open>The member of the union \<open>dbi_data_t\<close> that a program reads, with the function for the type of the field.\<close>

definition reads :: "field_type \<Rightarrow> dbi_data \<Rightarrow> bool" where
  "reads ty d \<longleftrightarrow>
     (case d of
        D_unset \<Rightarrow> False
      | D_char w \<Rightarrow> fst ty = DBI_TYPE_INTEGER \<and> DBI_INTEGER_SIZE1 \<in> snd ty
      | D_short w \<Rightarrow> fst ty = DBI_TYPE_INTEGER \<and> DBI_INTEGER_SIZE2 \<in> snd ty
      | D_long w \<Rightarrow> fst ty = DBI_TYPE_INTEGER \<and> (DBI_INTEGER_SIZE3 \<in> snd ty \<or> DBI_INTEGER_SIZE4 \<in> snd ty)
      | D_longlong w \<Rightarrow> fst ty = DBI_TYPE_INTEGER \<and> DBI_INTEGER_SIZE8 \<in> snd ty
      | D_float s \<Rightarrow> fst ty = DBI_TYPE_DECIMAL \<and> DBI_DECIMAL_SIZE4 \<in> snd ty
      | D_float_bits w \<Rightarrow> fst ty = DBI_TYPE_DECIMAL \<and> DBI_DECIMAL_SIZE4 \<in> snd ty
      | D_double s \<Rightarrow> fst ty = DBI_TYPE_DECIMAL \<and> DBI_DECIMAL_SIZE8 \<in> snd ty
      | D_double_bits w \<Rightarrow> fst ty = DBI_TYPE_DECIMAL \<and> DBI_DECIMAL_SIZE8 \<in> snd ty
      | D_string s \<Rightarrow> fst ty \<in> {DBI_TYPE_STRING, DBI_TYPE_BINARY}
      | _ \<Rightarrow> fst ty = DBI_TYPE_DATETIME)"

lemma reads_simps [simp]:
  "reads (ty, a) (D_string s) \<longleftrightarrow> ty \<in> {DBI_TYPE_STRING, DBI_TYPE_BINARY}"
  "reads (ty, a) (D_datetime r p) \<longleftrightarrow> ty = DBI_TYPE_DATETIME"
  "reads (ty, a) (D_mktime t) \<longleftrightarrow> ty = DBI_TYPE_DATETIME"
  "reads (ty, a) (D_timegm t) \<longleftrightarrow> ty = DBI_TYPE_DATETIME"
  by (simp_all add: reads_def)

lemma decode_integer_reads: "one_int_size a \<Longrightarrow> reads (DBI_TYPE_INTEGER, a) (decode_integer a raw)"
  by (auto simp: one_int_size_def decode_integer_def reads_def Let_def DBI_INTEGER_SIZEMASK_def)

lemma decode_decimal_reads: "one_dec_size a \<Longrightarrow> reads (DBI_TYPE_DECIMAL, a) (decode_decimal a raw)"
  by (auto simp: one_dec_size_def decode_decimal_def reads_def Let_def DBI_DECIMAL_SIZEMASK_def)

context type_translation
begin

lemma text_reads:
  "(\<exists>a. trans t = (DBI_TYPE_INTEGER, a) \<and> reads (trans t) (decode_integer a s))
   \<or> (\<exists>a. trans t = (DBI_TYPE_DECIMAL, a) \<and> reads (trans t) (decode_decimal a s))
   \<or> fst (trans t) \<in> {DBI_TYPE_STRING, DBI_TYPE_BINARY, DBI_TYPE_DATETIME, DBI_TYPE_NONE}"
  using integer_sized [of t] decimal_sized [of t] decode_integer_reads decode_decimal_reads
  by (cases "trans t"; cases "fst (trans t)") auto

end

lemma typed_translations:
  "fst (translate_sqlite3_type e) \<noteq> DBI_TYPE_NONE" "fst (translate_sqlite_type e) \<noteq> DBI_TYPE_NONE"
  "fst (mysql_field_type m) \<noteq> DBI_TYPE_NONE" "fst (translate_postgresql_type oid) \<noteq> DBI_TYPE_NONE"
  "fst (translate_msql_type t) \<noteq> DBI_TYPE_NONE"
     apply (cases e; simp)
    apply (cases e; simp)
   apply (simp add: mysql_field_type_def translate_mysql_type_def Let_def split: mysql_type.splits)
  apply (simp add: translate_postgresql_type_def)
  apply (cases t; simp add: translate_msql_type_def)
  done

text \<open>The widths of numbers that the documentation of the OpenAPI names.\<close>

definition native_width :: "descriptor \<Rightarrow> bool" where
  "native_width d \<longleftrightarrow> (ds_dataType d = IIAPI_INT_TYPE \<longrightarrow> ds_length d \<in> {1, 2, 4, 8})
     \<and> (ds_dataType d = IIAPI_FLT_TYPE \<longrightarrow> ds_length d \<in> {4, 8})"

lemma raw_member_reads:
  "fst ty = DBI_TYPE_INTEGER \<Longrightarrow> snd ty \<in> {{DBI_INTEGER_SIZE1}, {DBI_INTEGER_SIZE2}, {DBI_INTEGER_SIZE4}, {DBI_INTEGER_SIZE8}}
    \<Longrightarrow> reads ty (raw_member ty raw)"
  "fst ty = DBI_TYPE_DECIMAL \<Longrightarrow> snd ty \<in> {{DBI_DECIMAL_SIZE4}, {DBI_DECIMAL_SIZE8}} \<Longrightarrow> reads ty (raw_member ty raw)"
  by (auto simp: raw_member_def reads_def)

lemma sqlite3_cell_reads: "reads (translate_sqlite3_type e) (c_value (sqlite3_cell dec (make_field n (translate_sqlite3_type e)) (Some s)))"
  using sqlite3_types.text_reads [of e s] typed_translations(1) [of e]
  by (cases "translate_sqlite3_type e") (auto simp: sqlite3_cell_def decode_datetime_def)

lemma sqlite_cell_reads: "reads (translate_sqlite_type e) (c_value (sqlite_cell dec (make_field n (translate_sqlite_type e)) (Some s)))"
  using sqlite_types.text_reads [of e s] typed_translations(2) [of e]
  by (cases "translate_sqlite_type e") (auto simp: sqlite_cell_def decode_datetime_def)

lemma mysql_cell_reads: "reads (mysql_field_type m) (c_value (mysql_cell k (make_field n (mysql_field_type m)) (Some s)))"
  using mysql_types.text_reads [of m "c_string s"] typed_translations(3) [of m]
  by (cases "mysql_field_type m") (auto simp: mysql_cell_def decode_datetime_def)

lemma pgsql_cell_reads: "reads (translate_postgresql_type oid) (c_value (pgsql_cell u (make_field n (translate_postgresql_type oid)) (Some s)))"
  using pgsql_types.text_reads [of oid s] typed_translations(4) [of oid]
  by (cases "translate_postgresql_type oid") (auto simp: pgsql_cell_def decode_datetime_def)

lemma msql_cell_reads:
  "\<exists>c. msql_cell (make_field n (translate_msql_type t)) (Some s) = Inr c \<and> reads (translate_msql_type t) (c_value c)"
  using msql_types.text_reads [of t s] typed_translations(5) [of t] msql_types.integer_set [of t "[]"]
    msql_types.decimal_set [of t "[]"]
  by (cases "translate_msql_type t") (auto simp: msql_cell_def decode_datetime_def Let_def)

lemma oracle_cell_reads:
  "reads (translate_oracle_type ty scale) (c_value (oracle_cell chop (make_field n (translate_oracle_type ty scale)) len col))"
  by (rule oracle_type_cases [of ty scale]) (auto simp: oracle_cell_def reads_def Let_def)

lemma firebird_cell_reads:
  assumes "firebird_cell dec parts (make_field n (translate_firebird_type b)) var = Inr c"
  shows "c_null c \<or> fst (translate_firebird_type b) = DBI_TYPE_NONE \<or> reads (translate_firebird_type b) (c_value c)"
  using assms
  by (cases b) (auto simp: firebird_cell_def Let_def run_bind_eq_Inr reads_def sized_defs decode_datetime_def split: if_splits)

lemma freetds_cell_reads:
  assumes "translate_freetds_type desc = (datafmt, ty)" and "freetds_cell cv datafmt ty raw = Inr c"
  shows "reads ty (c_value c)"
  using assms
  by (cases "datatype_of desc")
    (auto simp: translate_freetds_type_def freetds_cell_def decoded_cell_def sized_cell_def run_bind_eq_Inr Let_def reads_def raw_member_def split: if_splits)

lemma ingres_field_reads:
  assumes "native_width d" and "ingres_field convert d v = Inr (c, 1)"
  shows "c_value c = D_unset \<or> reads (ingres_classify_field (ds_dataType d) (ds_length d)) (c_value c)"
  using assms
  by (cases "ds_dataType d")
    (auto simp: ingres_field_def ingres_converted_def ingres_classify_field_def native_width_def Let_def run_bind_eq_Inr
      raw_member_def reads_def split: if_splits option.splits)

text \<open>
  C7: Every driver stores a value in the member of the union that libdbi reads for the type that
  the driver has registered for the column. Null values are left out; so are Firebird columns whose type the driver does
  not know and registers as \<open>DBI_TYPE_NONE\<close>, and Ingres dates that cannot be read, for which nothing is stored. Of
  Firebird, FreeTDS and Ingres only values are meant whose reading is defined; Ingres numbers have one of the widths that its documentation names.
\<close>

theorem values_have_their_type:
  assumes "native_width d"
  shows "reads (translate_sqlite3_type e) (c_value (sqlite3_cell dec (make_field n (translate_sqlite3_type e)) (Some s)))
    \<and> reads (translate_sqlite_type e) (c_value (sqlite_cell dec (make_field n (translate_sqlite_type e)) (Some s)))
    \<and> reads (mysql_field_type m) (c_value (mysql_cell k (make_field n (mysql_field_type m)) (Some s)))
    \<and> reads (translate_postgresql_type oid) (c_value (pgsql_cell u (make_field n (translate_postgresql_type oid)) (Some s)))
    \<and> (\<exists>c. msql_cell (make_field n (translate_msql_type t)) (Some s) = Inr c \<and> reads (translate_msql_type t) (c_value c))
    \<and> reads (translate_oracle_type ty scale) (c_value (oracle_cell chop (make_field n (translate_oracle_type ty scale)) len s))
    \<and> (\<forall>c. firebird_cell dec parts (make_field n (translate_firebird_type b)) var = Inr c \<longrightarrow>
          c_null c \<or> fst (translate_firebird_type b) = DBI_TYPE_NONE \<or> reads (translate_firebird_type b) (c_value c))
    \<and> (\<forall>c. freetds_cell cv (fst (translate_freetds_type desc)) (snd (translate_freetds_type desc)) s = Inr c \<longrightarrow>
          reads (snd (translate_freetds_type desc)) (c_value c))
    \<and> (\<forall>c. ingres_field convert d v = Inr (c, 1) \<longrightarrow>
          c_value c = D_unset \<or> reads (ingres_classify_field (ds_dataType d) (ds_length d)) (c_value c))"
  by (intro conjI allI impI sqlite3_cell_reads sqlite_cell_reads mysql_cell_reads pgsql_cell_reads msql_cell_reads
      oracle_cell_reads firebird_cell_reads freetds_cell_reads ingres_field_reads assms) (auto simp: prod_eq_iff)

theorem values_have_their_type_witness:
  "let d = \<lparr>ds_columnName = ''n'', ds_dataType = IIAPI_INT_TYPE, ds_length = 4, ds_precision = 0\<rparr>;
       v = \<lparr>dv_null = False, dv_length = 4, dv_value = replicate 8 CHR ''x''\<rparr>
   in \<exists>c. ingres_field (\<lambda>d v. None) d v = Inr (c, 1) \<and> reads (DBI_TYPE_INTEGER, {DBI_INTEGER_SIZE4}) (c_value c)"
proof -
  let ?d = "\<lparr>ds_columnName = ''n'', ds_dataType = IIAPI_INT_TYPE, ds_length = 4, ds_precision = 0\<rparr>"
  let ?v = "\<lparr>dv_null = False, dv_length = 4, dv_value = replicate 8 CHR ''x''\<rparr>"
  have "native_width ?d" by (simp add: native_width_def)
  then have typed: "\<forall>c. ingres_field (\<lambda>d v. None) ?d ?v = Inr (c, 1) \<longrightarrow>
      c_value c = D_unset \<or> reads (ingres_classify_field (ds_dataType ?d) (ds_length ?d)) (c_value c)"
    by (rule values_have_their_type [THEN conjunct2, THEN conjunct2, THEN conjunct2, THEN conjunct2,
          THEN conjunct2, THEN conjunct2, THEN conjunct2, THEN conjunct2])
  obtain c where c: "ingres_field (\<lambda>d v. None) ?d ?v = Inr (c, 1)" "c_value c = D_long (le_word (replicate 4 CHR ''x''))"
    by (simp add: ingres_field_def raw_member_def ingres_classify_field_def)
  then have "c_value c \<noteq> D_unset" by simp
  then show ?thesis using typed c by (simp add: ingres_classify_field_def)
qed
end
