(* ===== verification/ReservedWords.thy ===== *)
theory ReservedWords
  imports Prelude
begin

text \<open>
  The constant tables of the header files: the reserved words of every driver and the names of the
  library functions that five drivers offer to programs. A table is an array of pointers that ends
  with a null pointer, which is \<open>None\<close>; a table of more than 150 words is put together from parts
  in the order of the header, cut where the first letter changes.
\<close>

definition null_terminated :: "string list \<Rightarrow> string option list" where
  "null_terminated ws = map Some ws @ [None]"

section \<open>Firebird\<close>

definition firebird_words_1 :: "string list" where
  "firebird_words_1 =
    [''ACTION'', ''ACTIVE'', ''ADD'', ''ADMIN'', ''AFTER'', ''ALL'', ''ALTER'', ''AND'', ''ANY'', ''ARE'',
     ''AS'', ''ASC'', ''ASCENDING'', ''AT'', ''AUTO'', ''AUTODDL'', ''AVG'', ''BASED'', ''BASENAME'',
     ''BASE_NAME'', ''BEFORE'', ''BEGIN'', ''BETWEEN'', ''BLOB'', ''BLOBEDIT'', ''BUFFER'', ''BY'',
     ''CACHE'', ''CASCADE'', ''CAST'', ''CHAR'', ''CHARACTER'', ''CHAR_LENGTH'', ''CHARACTER_LENGTH'',
     ''CHECK'', ''CHECK_POINT_LEN'', ''CHECK_POINT_LENGTH'', ''CLOSE'', ''COLLATE'', ''COLLATION'',
     ''COLUMN'', ''COMMIT'', ''COMMITTED'', ''COMPILETIME'', ''COMPUTED'', ''CONDITIONAL'', ''CONNECT'',
     ''CONSTRAINT'', ''CONTAINING'', ''CONTINUE'', ''COUNT'', ''CREATE'', ''CSTRING'', ''CURRENT'',
     ''CURRENT_DATE'', ''CURRENT_TIME'', ''CURRENT_TIMESTAMP'', ''DATABASE'', ''DATE'', ''DAY'', ''DB_KEY'',
     ''DEBUG'', ''DEC'', ''DECIMAL'', ''DECLARE'', ''DEFAULT'', ''DELETE'', ''DESCENDING'', ''DESCRIBE'',
     ''DESCRIPTOR'', ''DISCONNECT'', ''DISPLAY'', ''DISTINCT'', ''DO'', ''DOMAIN'', ''DOUBLE'', ''DROP'',
     ''ECHO'', ''EDIT'', ''ELSE'', ''END'', ''ENTRY_POINT'', ''ESCAPE'', ''EVENT'', ''EXCEPTION'', ''EXEC'',
     ''EXECUTE'', ''EXISTS'', ''EXIT'', ''EXTERN'', ''EXTERNAL'', ''EXTRACT'', ''FETCH'', ''FILE'',
     ''FILTER'', ''FLOAT'', ''FOR'', ''FOREIGN'', ''FOUND'', ''FREE_IT'', ''FROM'', ''FULL'', ''FUNCTION'',
     ''GDSCODE'', ''GENERATOR'', ''GEN_ID'', ''GLOBAL'', ''GOTO'', ''GRANT'', ''GROUP'',
     ''GROUP_COMMIT_WAIT'', ''GROUP_COMMIT_WAIT_TIME'', ''HAVING'', ''HELP'', ''HOUR'', ''IF'',
     ''IMMEDIATE'', ''IN'', ''INACTIVE'', ''INDEX'', ''INDICATOR'', ''INNER'', ''INPUT'', ''INPUT_TYPE'',
     ''INSERT'', ''INT'', ''INTEGER'', ''INTO'', ''IS'', ''ISOLATION'', ''ISQL'', ''JOIN'', ''KEY'',
     ''LC_MESSAGES'', ''LC_TYPE'', ''LEFT'', ''LENGTH'', ''LEV'', ''LEVEL'', ''LIKE'', ''LOGFILE'',
     ''LOG_BUF_SIZE'', ''LONG'']"

definition firebird_words_2 :: "string list" where
  "firebird_words_2 =
    [''MANUAL'', ''MAX'', ''MAXIMUM'', ''MAXIMUM_SEGMENT'', ''MAX_SEGMENT'', ''MERGE'', ''MESSAGE'',
     ''MIN'', ''MINIMUM'', ''MINUTE'', ''MODULE_NAME'', ''MONTH'', ''NAMES'', ''NATIONAL'', ''NATURAL'',
     ''NCHAR'', ''NO'', ''NOAUTO'', ''NOT'', ''NULL'', ''NUM_LOG_BUFS'', ''NUM_LOG_BUFFERS'', ''NUMERIC'',
     ''OCTET_LENGTH'', ''OF'', ''ON'', ''ONLY'', ''OPEN'', ''OPTION'', ''OR'', ''ORDER'', ''OUTER'',
     ''OUTPUT'', ''OUTPUT_TYPE'', ''OVERFLOW'', ''PAGE'', ''PAGELENGTH'', ''PAGES'', ''PAGE_SIZE'',
     ''PARAMETER'', ''PASSWORD'', ''PLAN'', ''POSITION'', ''POST_EVENT'', ''PRECISION'', ''PREPARE'',
     ''PRIMARY'', ''PRIVILEGES'', ''PROCEDURE'', ''PUBLIC'', ''QUIT'', ''RAW_PARTITIONS'', ''RDB$DB_KEY'',
     ''READ'', ''REAL'', ''RECORD_VERSION'', ''REFERENCES'', ''RELEASE'', ''RESERV'', ''RESERVING'',
     ''RESTRICT'', ''RETAIN'', ''RETURN'', ''RETURNING_VALUES'', ''RETURNS'', ''REVOKE'', ''RIGHT'',
     ''ROLE'', ''ROLLBACK'', ''RUNTIME'', ''SCHEMA'', ''SECOND'', ''SELECT'', ''SET'', ''SHADOW'',
     ''SHARED'', ''SHELL'', ''SHOW'', ''SINGULAR'', ''SIZE'', ''SMALLINT'', ''SNAPSHOT'', ''SOME'',
     ''SORT'', ''SQL'', ''SQLCODE'', ''SQLERROR'', ''SQLWARNING'', ''STABILITY'', ''STARTING'', ''STARTS'',
     ''STATEMENT'', ''STATIC'', ''STATISTICS'', ''SUB_TYPE'', ''SUM'', ''SUSPEND'', ''TABLE'',
     ''TERMINATOR'', ''THEN'', ''TIME'', ''TIMESTAMP'', ''TO'', ''TRANSACTION'', ''TRANSLATE'',
     ''TRANSLATION'', ''TRIGGER'', ''TRIM'', ''TRUE'', ''TYPE'', ''UNCOMMITTED'', ''UNION'', ''UNIQUE'',
     ''UPDATE'', ''UPPER'', ''USER'', ''USING'', ''VALUE'', ''VALUES'', ''VARCHAR'', ''VARIABLE'',
     ''VARYING'', ''VERSION'', ''VIEW'', ''WAIT'', ''WEEKDAY'', ''WHEN'', ''WHENEVER'', ''WHERE'',
     ''WHILE'', ''WITH'', ''WORK'', ''WRITE'', ''YEAR'', ''YEARDAY'']"

definition firebird_reserved_words :: "string option list" where
  "firebird_reserved_words = null_terminated (firebird_words_1 @ firebird_words_2)"

definition firebird_custom_functions :: "string option list" where
  "firebird_custom_functions = null_terminated
    [''isc_add_user'', ''isc_array_get_slice'', ''isc_array_lookup_bounds'', ''isc_array_lookup_desc'',
     ''isc_array_put_slice'', ''isc_array_set_desc'', ''isc_attach_database'', ''isc_blob_default_desc'',
     ''isc_blob_gen_bpb'', ''isc_blob_info'', ''isc_blob_lookup_desc'', ''isc_blob_set_desc'',
     ''isc_cancel_blob'', ''isc_cancel_events'', ''isc_close_blob'', ''isc_commit_retaining'',
     ''isc_commit_transaction'', ''isc_create_blob2'', ''isc_create_database'', ''isc_database_info'',
     ''isc_decode_sql_data'', ''isc_decode_sql_time'', ''isc_decode_timestamp'', ''isc_delete_user'',
     ''isc_detach_database'', ''isc_drop_database'', ''isc_dsql_allocate_statement'',
     ''isc_dsql_alloc_statement2'', ''isc_dsql_describe'', ''isc_dsql_describe_bind'', ''isc_dsql_execute'',
     ''isc_dsql_execute2'', ''isc_dsql_execute_immediate'', ''isc_dsql_exec_immed2'', ''isc_dsql_fetch'',
     ''isc_dsql_free_statement'', ''isc_dsql_prepare'', ''isc_dsql_set_cursor_name'', ''isc_dsql_sql_info'',
     ''isc_encode_sql_date'', ''isc_encode_sql_time'', ''isc_encode_timestamp'', ''isc_event_block'',
     ''isc_event_counts'', ''isc_expand_dpb'', ''isc_get_segment'', ''isc_interprete'', ''isc_modify_user'',
     ''isc_open_blob2'', ''isc_prepare_transaction'', ''isc_prepare_transaction2'', ''isc_print_sqlerror'',
     ''isc_print_status'', ''isc_put_segment'', ''isc_que_events'', ''isc_rollback_retaining'',
     ''isc_rollback_transaction'', ''isc_service_attach'', ''isc_service_detach'', ''isc_service_query'',
     ''isc_service_start'', ''isc_sqlcode'', ''isc_sql_interprete'', ''isc_start_multiple'',
     ''isc_start_transaction'', ''isc_transaction_info'', ''isc_vax_integer'', ''isc_version'',
     ''isc_wait_for_event'']"

section \<open>FreeTDS\<close>

definition freetds_words_1 :: "string list" where
  "freetds_words_1 =
    [''ADD'', ''ALL'', ''ALTER'', ''AND'', ''ANY'', ''AS'', ''ASC'', ''AUTHORIZATION'', ''AVG'', ''BACKUP'',
     ''BEGIN'', ''BETWEEN'', ''BREAK'', ''BROWSE'', ''BULK'', ''BY'', ''CASCADE'', ''CASE'', ''CHECK'',
     ''CHECKPOINT'', ''CLOSE'', ''CLUSTERED'', ''COALESCE'', ''COLUMN'', ''COMMIT'', ''COMMITED'',
     ''COMPUTE'', ''CONFIRM'', ''CONSTRAINT'', ''CONTINUE'', ''CONTROLROW'', ''CONVERT'', ''COUNT'',
     ''CREATE'', ''CROSS'', ''CURRENT'', ''CURRENT_DATE'', ''CURRENT_TIMESTAMP'', ''CURRENT_USER'',
     ''CURSOR'', ''DATABASE'', ''DBCC'', ''DEALLOCATE'', ''DECLARE'', ''DEFAULT'', ''DELETE'', ''DESC'',
     ''DISK'', ''DISTINCT'', ''DISTRIBUTED'', ''DOUBLE'', ''DROP'', ''DUMMY'', ''DUMP'', ''ELSE'', ''END'',
     ''ERRLVL'', ''ERROREXIT'', ''ESCAPE'', ''EXCEPT'', ''EXECUTE'', ''EXIT'', ''FETCH'', ''FILE'',
     ''FILLFACTOR'', ''FLOPPY'', ''FOR'', ''FOREIGN'', ''FROM'', ''FULL'', ''GOTO'', ''GRANT'', ''GROUP'',
     ''HAVING'', ''HOLDLOCK'', ''IDENTITY'', ''IDENTITY_INSERT'', ''IDENTITYCOL'', ''IF'', ''IN'',
     ''INDEX'', ''INNER'', ''INSERT'', ''INSERTSECT'', ''INTO'', ''IS'', ''ISOLATION'', ''JOIN'', ''KEY'',
     ''KILL'']"

definition freetds_words_2 :: "string list" where
  "freetds_words_2 =
    [''LEFT'', ''LEVEL'', ''LIKE'', ''LINENO'', ''MAX'', ''MIN'', ''MIRROREXIT'', ''NOCHECK'',
     ''NONCLUSTERED'', ''NOT'', ''NULL'', ''NULLIF'', ''OF'', ''OFF'', ''OFFSETS'', ''ON'', ''ONCE'',
     ''ONLY'', ''OPEN'', ''OPENQUERY'', ''OPENROWSET'', ''OPTION'', ''OR'', ''ORDER'', ''OUTER'', ''OVER'',
     ''PERCENT'', ''PERMANENT'', ''PIPE'', ''PLAN'', ''PRECISION'', ''PREPARE'', ''PRINT'', ''PRIVILEGES'',
     ''PROCEDURE'', ''PROCESSEXIT'', ''PUBLIC'', ''RAISERROR'', ''READ'', ''READTEXT'', ''RECONFIGURE'',
     ''REFERENCES'', ''REPEATABLE'', ''REPLICATION'', ''RESTRICT'', ''RETURN'', ''REVOKE'', ''RIGTH'',
     ''ROLLBACK'', ''ROWCOUNT'', ''ROWGUIDCOL'', ''RULE'', ''SAVE'', ''SCHEMA'', ''SELECT'',
     ''SERIALIZABLE'', ''SESSION_USER'', ''SET'', ''SETUSER'', ''SHUTDOWN'', ''STATISTICS'', ''SUM'',
     ''SYSTEM_USER'', ''TABLE'', ''TAPE'', ''TEMPORARY'', ''TEXTSIZE'', ''THEN'', ''TO'', ''TOP'',
     ''TRANSACTION'', ''TRIGGER'', ''TRUNCATE'', ''TSEQUAL'', ''UNCOMMITED'', ''UNION'', ''UNIQUE'',
     ''UPDATE'', ''UPDATETEXT'', ''USE'', ''USER'', ''VALUES'', ''VARYING'', ''VIEW'', ''WAITFOR'',
     ''WHEN'', ''WHERE'', ''WHILE'', ''WITH'', ''WORK'', ''WRITETEXT'']"

definition freetds_reserved_words :: "string option list" where
  "freetds_reserved_words = null_terminated (freetds_words_1 @ freetds_words_2)"

section \<open>Ingres\<close>

definition ingres_words_1 :: "string list" where
  "ingres_words_1 =
    [''ABORT'', ''ADD'', ''ALL'', ''ALTER'', ''AND'', ''ANY'', ''AS'', ''ASC'', ''ASYMMETRIC'', ''AT'',
     ''AUTHORIZATION'', ''AVG'', ''BEGIN'', ''BETWEEN'', ''BY'', ''BYREF'', ''CACHE'', ''CALLPROC'',
     ''CASCADE'', ''CASE'', ''CAST'', ''CHECK'', ''CLOSE'', ''COALESCE'', ''COLLATE'', ''COLUMN'',
     ''COMMIT'', ''COMMITTED'', ''CONSTRAINT'', ''CONTINUE'', ''COPY'', ''COPY_FROM'', ''COPY_INTO'',
     ''COUNT'', ''CREATE'', ''CURRENT'', ''CURRENT_USER'', ''CURRVAL'', ''CURSOR'', ''CYCLE'', ''DECLARE'',
     ''DEFAULT'', ''DEFINE'', ''DELETE'', ''DESCRIBE'', ''DISTINCT'', ''DO'', ''DROP'', ''ELSE'',
     ''ELSEIF'', ''END'', ''ENDFOR'', ''ENDIF'', ''ENDLOOP'', ''ENDREPEAT'', ''ENDWHILE'', ''ESCAPE'',
     ''EXCEPT'', ''EXCLUDING'', ''EXECUTE'', ''EXISTS'', ''FETCH'', ''FIRST'', ''FOR'', ''FROM'', ''FULL'',
     ''GLOBAL'', ''GRANT'', ''GROUP'', ''HAVING'', ''IF'', ''IMMEDIATE'', ''IMPORT'', ''IN'', ''INCREMENT'',
     ''INDEX'', ''INITIAL_USER'', ''INSERT'', ''INTEGRITY'', ''INTERSECT'', ''INTO'', ''IS'', ''ISOLATION'',
     ''JOIN'', ''LEAVE'', ''LEVEL'', ''LIKE'', ''LOCAL'']"

definition ingres_words_2 :: "string list" where
  "ingres_words_2 =
    [''MAX'', ''MAXVALUE'', ''MESSAGE'', ''MIN'', ''MINVALUE'', ''MODIFY'', ''MODULE'', ''NATURAL'',
     ''NEXT'', ''NEXTVAL'', ''NOCACHE'', ''NOCYCLE'', ''NOMAXVALUE'', ''NOMINVALUE'', ''NOORDER'', ''NOT'',
     ''NULL'', ''NULLIF'', ''OF'', ''ON'', ''ONLY'', ''OPEN'', ''OPTION'', ''OR'', ''ORDER'', ''OUTER'',
     ''PERMIT'', ''PREPARE'', ''PRESERVE'', ''PRIVILEGES'', ''PROCEDURE'', ''PUBLIC'', ''RAISE'',
     ''RAWPCT'', ''READ'', ''REFERENCES'', ''REFERENCING'', ''REGISTER'', ''RELOCATE'', ''REMOVE'',
     ''REPEAT'', ''REPEATABLE'', ''RESTART'', ''RESTRICT'', ''RETURN'', ''REVOKE'', ''ROLLBACK'', ''ROW'',
     ''ROWS'', ''SAVE'', ''SAVEPOINT'', ''SCHEMA'', ''SELECT'', ''SERIALIZABLE'', ''SESSION'',
     ''SESSION_USER'', ''SET'', ''SOME'', ''SQL'', ''START'', ''SUBSTRING'', ''SUM'', ''SYMMETRIC'',
     ''SYSTEM_MAINTAINED'', ''SYSTEM_USER'', ''TABLE'', ''TEMPORARY'', ''THEN'', ''TO'', ''UNCOMMITTED'',
     ''UNION'', ''UNIQUE'', ''UNTIL'', ''UPDATE'', ''USER'', ''USING'', ''VALUES'', ''VIEW'', ''WHEN'',
     ''WHERE'', ''WHILE'', ''WITH'', ''WORK'', ''WRITE'']"

definition ingres_reserved_words :: "string option list" where
  "ingres_reserved_words = null_terminated (ingres_words_1 @ ingres_words_2)"

section \<open>mSQL\<close>

definition msql_reserved_words :: "string option list" where
  "msql_reserved_words = null_terminated []"

section \<open>MySQL\<close>

definition mysql_words_1 :: "string list" where
  "mysql_words_1 =
    [''ACTION'', ''ADD'', ''AGGREGATE'', ''ALL'', ''ALTER'', ''AFTER'', ''AND'', ''AS'', ''ASC'', ''AVG'',
     ''AVG_ROW_LENGTH'', ''AUTO_INCREMENT'', ''BETWEEN'', ''BIGINT'', ''BIT'', ''BINARY'', ''BLOB'',
     ''BOOL'', ''BOTH'', ''BY'', ''CASCADE'', ''CASE'', ''CHAR'', ''CHARACTER'', ''CHANGE'', ''CHECK'',
     ''CHECKSUM'', ''COLUMN'', ''COLUMNS'', ''COMMENT'', ''CONSTRAINT'', ''CREATE'', ''CROSS'',
     ''CURRENT_DATE'', ''CURRENT_TIME'', ''CURRENT_TIMESTAMP'', ''DATA'', ''DATABASE'', ''DATABASES'',
     ''DATE'', ''DATETIME'', ''DAY'', ''DAY_HOUR'', ''DAY_MINUTE'', ''DAY_SECOND'', ''DAYOFMONTH'',
     ''DAYOFWEEK'', ''DAYOFYEAR'', ''DEC'', ''DECIMAL'', ''DEFAULT'', ''DELAYED'', ''DELAY_KEY_WRITE'',
     ''DELETE'', ''DESC'', ''DESCRIBE'', ''DISTINCT'', ''DISTINCTROW'', ''DOUBLE'', ''DROP'', ''END'',
     ''ELSE'', ''ESCAPE'', ''ESCAPED'', ''ENCLOSED'', ''ENUM'', ''EXPLAIN'', ''EXISTS'', ''FIELDS'',
     ''FILE'', ''FIRST'', ''FLOAT'', ''FLOAT4'', ''FLOAT8'', ''FLUSH'', ''FOREIGN'', ''FROM'', ''FOR'',
     ''FULL'', ''FUNCTION'', ''GLOBAL'', ''GRANT'', ''GRANTS'', ''GROUP'', ''HAVING'', ''HEAP'',
     ''HIGH_PRIORITY'', ''HOUR'', ''HOUR_MINUTE'', ''HOUR_SECOND'', ''HOSTS'', ''IDENTIFIED'', ''IGNORE'',
     ''IN'', ''INDEX'', ''INFILE'', ''INNER'', ''INSERT'', ''INSERT_ID'', ''INT'', ''INTEGER'',
     ''INTERVAL'', ''INT1'', ''INT2'', ''INT3'', ''INT4'', ''INT8'', ''INTO'', ''IF'', ''IS'', ''ISAM'',
     ''JOIN'', ''KEY'', ''KEYS'', ''KILL'']"

definition mysql_words_2 :: "string list" where
  "mysql_words_2 =
    [''LAST_INSERT_ID'', ''LEADING'', ''LEFT'', ''LENGTH'', ''LIKE'', ''LINES'', ''LIMIT'', ''LOAD'',
     ''LOCAL'', ''LOCK'', ''LOGS'', ''LONG'', ''LONGBLOB'', ''LONGTEXT'', ''LOW_PRIORITY'', ''MAX'',
     ''MAX_ROWS'', ''MATCH'', ''MEDIUMBLOB'', ''MEDIUMTEXT'', ''MEDIUMINT'', ''MIDDLEINT'', ''MIN_ROWS'',
     ''MINUTE'', ''MINUTE_SECOND'', ''MODIFY'', ''MONTH'', ''MONTHNAME'', ''MYISAM'', ''NATURAL'',
     ''NUMERIC'', ''NO'', ''NOT'', ''NULL'', ''ON'', ''OPTIMIZE'', ''OPTION'', ''OPTIONALLY'', ''OR'',
     ''ORDER'', ''OUTER'', ''OUTFILE'', ''PACK_KEYS'', ''PARTIAL'', ''PASSWORD'', ''PRECISION'',
     ''PRIMARY'', ''PROCEDURE'', ''PROCESS'', ''PROCESSLIST'', ''PRIVILEGES'', ''READ'', ''REAL'',
     ''REFERENCES'', ''RELOAD'', ''REGEXP'', ''RENAME'', ''REPLACE'', ''RESTRICT'', ''RETURNS'', ''REVOKE'',
     ''RLIKE'', ''ROW'', ''ROWS'', ''SECOND'', ''SELECT'', ''SET'', ''SHOW'', ''SHUTDOWN'', ''SMALLINT'',
     ''SONAME'', ''SQL_BIG_TABLES'', ''SQL_BIG_SELECTS'', ''SQL_LOW_PRIORITY_UPDATES'', ''SQL_LOG_OFF'',
     ''SQL_LOG_UPDATE'', ''SQL_SELECT_LIMIT'', ''SQL_SMALL_RESULT'', ''SQL_BIG_RESULT'', ''SQL_WARNINGS'',
     ''STRAIGHT_JOIN'', ''STARTING'', ''STATUS'', ''STRING'', ''TABLE'', ''TABLES'', ''TEMPORARY'',
     ''TERMINATED'', ''TEXT'', ''THEN'', ''TIME'', ''TIMESTAMP'', ''TINYBLOB'', ''TINYTEXT'', ''TINYINT'',
     ''TRAILING'', ''TO'', ''TYPE'', ''USE'', ''USING'', ''UNIQUE'', ''UNLOCK'', ''UNSIGNED'', ''UPDATE'',
     ''USAGE'', ''VALUES'', ''VARCHAR'', ''VARIABLES'', ''VARYING'', ''VARBINARY'', ''WITH'', ''WRITE'',
     ''WHEN'', ''WHERE'', ''YEAR'', ''YEAR_MONTH'', ''ZEROFILL'']"

definition mysql_reserved_words :: "string option list" where
  "mysql_reserved_words = null_terminated (mysql_words_1 @ mysql_words_2)"

definition mysql_custom_functions :: "string option list" where
  "mysql_custom_functions = null_terminated
    [''my_init'', ''mysql_affected_rows'', ''mysql_autocommit'', ''mysql_change_user'',
     ''mysql_character_set_name'', ''mysql_close'', ''mysql_commit'', ''mysql_connect'',
     ''mysql_create_db'', ''mysql_data_seek'', ''mysql_debug'', ''mysql_drop_db'',
     ''mysql_dump_debug_info'', ''mysql_eof'', ''mysql_errno'', ''mysql_error'', ''mysql_escape_string'',
     ''mysql_fetch_field'', ''mysql_fetch_field_direct'', ''mysql_fetch_fields'', ''mysql_fetch_lengths'',
     ''mysql_fetch_row'', ''mysql_field_count'', ''mysql_field_seek'', ''mysql_field_tell'',
     ''mysql_free_result'', ''mysql_get_character_set_info'', ''mysql_get_client_info'',
     ''mysql_get_client_version'', ''mysql_get_host_info'', ''mysql_get_proto_info'',
     ''mysql_get_server_info'', ''mysql_get_server_version'', ''mysql_get_ssl_cipher'',
     ''mysql_hex_string'', ''mysql_info'', ''mysql_init'', ''mysql_insert_id'', ''mysql_kill'',
     ''mysql_library_end'', ''mysql_library_init'', ''mysql_list_dbs'', ''mysql_list_fields'',
     ''mysql_list_processes'', ''mysql_list_tables'', ''mysql_more_results'', ''mysql_next_result'',
     ''mysql_num_fields'', ''mysql_num_rows'', ''mysql_options'', ''mysql_ping'', ''mysql_query'',
     ''mysql_real_connect'', ''mysql_real_escape_string'', ''mysql_real_query'', ''mysql_refresh'',
     ''mysql_reload'', ''mysql_rollback'', ''mysql_row_seek'', ''mysql_row_tell'', ''mysql_select_db'',
     ''mysql_server_end'', ''mysql_server_init'', ''mysql_set_character_set'',
     ''mysql_set_local_infile_default'', ''mysql_set_local_infile_handler'', ''mysql_set_server_option'',
     ''mysql_sqlstate'', ''mysql_shutdown'', ''mysql_ssl_set'', ''mysql_stat'', ''mysql_store_result'',
     ''mysql_thread_end'', ''mysql_thread_id'', ''mysql_thread_init'', ''mysql_thread_safe'',
     ''mysql_use_result'', ''mysql_warning_count'']"

section \<open>Oracle\<close>

definition oracle_words_1 :: "string list" where
  "oracle_words_1 =
    [''ALL'', ''ALTER'', ''AND'', ''ANY'', ''ARRAY'', ''AS'', ''ASC'', ''AT'', ''AUTHID'', ''AVG'',
     ''BEGIN'', ''BETWEEN'', ''BINARY_INTEGER'', ''BODY'', ''BOOLEAN'', ''BULK'', ''BY'', ''CASE'',
     ''CHAR'', ''CHAR_BASE'', ''CHECK'', ''CLOSE'', ''CLUSTER'', ''COALESCE'', ''COLLECT'', ''COMMENT'',
     ''COMMIT'', ''COMPRESS'', ''CONNECT'', ''CONSTANT'', ''CREATE'', ''CURRENT'', ''CURRVAL'', ''CURSOR'',
     ''DATE'', ''DAY'', ''DECLARE'', ''DECIMAL'', ''DEFAULT'', ''DELETE'', ''DESC'', ''DISTINCT'', ''DO'',
     ''DROP'', ''ELSE'', ''ELSIF'', ''END'', ''EXCEPTION'', ''EXCLUSIVE'', ''EXECUTE'', ''EXISTS'',
     ''EXIT'', ''EXTENDS'', ''EXTRACT'', ''FALSE'', ''FETCH'', ''FLOAT'', ''FOR'', ''FORALL'', ''FROM'',
     ''FUNCTION'', ''GOTO'', ''GROUP'', ''HAVING'', ''HEAP'', ''HOUR'', ''IF'', ''IMMEDIATE'', ''IN'',
     ''INDEX'', ''INDICATOR'', ''INSERT'', ''INTEGER'', ''INTERFACE'', ''INTERSECT'', ''INTERVAL'',
     ''INTO'', ''IS'', ''ISOLATION'', ''JAVA'', ''LEVEL'', ''LIKE'', ''LIMITED'', ''LOCK'', ''LONG'',
     ''LOOP'', ''MAX'', ''MIN'', ''MINUS'', ''MINUTE'', ''MLSLABEL'', ''MOD'', ''MODE'', ''MONTH'',
     ''NATURAL'', ''NATURALN'', ''NEW'', ''NEXTVAL'', ''NOCOPY'', ''NOT'', ''NOWAIT'', ''NULL'', ''NULLIF'',
     ''NUMBER'', ''NUMBER_BASE'', ''OCIROWID'', ''OF'', ''ON'', ''OPAQUE'', ''OPEN'', ''OPERATOR'',
     ''OPTION'', ''OR'', ''ORDER'', ''ORGANIZATION'', ''OTHERS'', ''OUT'']"

definition oracle_words_2 :: "string list" where
  "oracle_words_2 =
    [''PACKAGE'', ''PARTITION'', ''PLS_INTEGER'', ''POSITIVE'', ''POSITIVEN'', ''PRAGMA'', ''PRIOR'',
     ''PRIVATE'', ''PROCEDURE'', ''PUBLIC'', ''RAISE'', ''RANGE'', ''RAW'', ''REAL'', ''RECORD'', ''REF'',
     ''RELEASE'', ''RETURN'', ''REVERSE'', ''ROLLBACK'', ''ROW'', ''ROWNUM'', ''ROWTYPE'', ''SAVEPOINT'',
     ''SECOND'', ''SELECT'', ''SEPARATE'', ''SET'', ''SHARE'', ''SMALLINT'', ''SPACE'', ''SQL'',
     ''SQLCODE'', ''SQLERRM'', ''START'', ''STDDEV'', ''SUBTYPE'', ''SUCCESSFUL'', ''SUM'', ''SYNONYM'',
     ''SYSDATE'', ''TABLE'', ''THEN'', ''TIME'', ''TIMESTAMP'', ''TIMEZONE_REGION'', ''TIMEZONE_ABBR'',
     ''TIMEZONE_MINUTE'', ''TIMEZONE_HOUR'', ''TO'', ''TRIGGER'', ''TRUE'', ''TYPE'', ''UI'', ''AS'',
     ''ASC'', ''AUDIT'', ''AUTHORIZATION'', ''AVG'', ''BETWEEN'', ''ACCESS'', ''BY'', ''ADD'', ''ALL'',
     ''ALTER'', ''CHAR'', ''ANY'', ''CHECK'', ''DATE'', ''CLUSTER'', ''COLUMN'', ''COMMENT'', ''DECIMAL'',
     ''DEFAULT'', ''COMPRESS'', ''DELETE'', ''CONNECT'', ''DESC'', ''DISTINCT'', ''DROP'', ''CREATE'',
     ''CURRENT'', ''ELSE'', ''CURSOR'', ''ESTIMATE'', ''GRANT'', ''GROUP'', ''EXCLUSIVE'', ''EXISTS'',
     ''HAVING'', ''IDENTIFIED'', ''IMMEDIATE'', ''NOCOMPRESS'', ''MAXEXTENTS'', ''NOT'', ''NOTFOUND'',
     ''NOWAIT'', ''NULL'', ''NUMBER'', ''PCTFREE'', ''REVOKE'', ''SMALLINT'', ''ROW'', ''ROWID'',
     ''ROWLABEL'', ''ROWNUM'', ''SQLBUF'', ''ROWS'', ''START'', ''STATEMENT_ID'']"

definition oracle_reserved_words :: "string option list" where
  "oracle_reserved_words = null_terminated (oracle_words_1 @ oracle_words_2)"

section \<open>PostgreSQL\<close>

definition pgsql_words_1 :: "string list" where
  "pgsql_words_1 =
    [''ABORT'', ''ABS'', ''ABSOLUTE'', ''ACCESS'', ''ACTION'', ''ADA'', ''ADD'', ''ADMIN'', ''AFTER'',
     ''AGGREGATE'', ''ALIAS'', ''ALL'', ''ALLOCATE'', ''ALTER'', ''ANALYSE'', ''ANALYZE'', ''AND'', ''ANY'',
     ''ARE'', ''ARRAY'', ''AS'', ''ASC'', ''ASENSITIVE'', ''ASSERTION'', ''ASSIGNMENT'', ''ASYMMETRIC'',
     ''AT'', ''ATOMIC'', ''AUTHORIZATION'', ''AVG'', ''BACKWARD'', ''BEFORE'', ''BEGIN'', ''BETWEEN'',
     ''BINARY'', ''BIT'', ''BITVAR'', ''BIT_LENGTH'', ''BLOB'', ''BOOLEAN'', ''BOTH'', ''BREADTH'', ''BY'',
     ''C'', ''CACHE'', ''CALL'', ''CALLED'', ''CARDINALITY'', ''CASCADE'', ''CASCADED'', ''CASE'', ''CAST'',
     ''CATALOG'', ''CATALOG_NAME'', ''CHAIN'', ''CHAR'', ''CHARACTER'', ''CHARACTERISTICS'',
     ''CHARACTER_LENGTH'', ''CHARACTER_SET_CATALOG'', ''CHARACTER_SET_NAME'', ''CHARACTER_SET_SCHEMA'',
     ''CHAR_LENGTH'', ''CHECK'', ''CHECKED'', ''CHECKPOINT'', ''CLASS'', ''CLASS_ORIGIN'', ''CLOB'',
     ''CLOSE'', ''CLUSTER'', ''COALESCE'', ''COBOL'', ''COLLATE'', ''COLLATION'', ''COLLATION_CATALOG'',
     ''COLLATION_NAME'', ''COLLATION_SCHEMA'', ''COLUMN'', ''COLUMN_NAME'', ''COMMAND_FUNCTION'',
     ''COMMAND_FUNCTION_CODE'', ''COMMENT'', ''COMMIT'', ''COMMITTED'', ''COMPLETION'',
     ''CONDITION_NUMBER'', ''CONNECT'', ''CONNECTION'', ''CONNECTION_NAME'', ''CONSTRAINT'',
     ''CONSTRAINTS'', ''CONSTRAINT_CATALOG'', ''CONSTRAINT_NAME'', ''CONSTRAINT_SCHEMA'', ''CONSTRUCTOR'',
     ''CONTAINS'', ''CONTINUE'', ''CONVERT'', ''COPY'', ''CORRESPONDING'', ''COUNT'', ''CREATE'',
     ''CREATEDB'', ''CREATEUSER'', ''CROSS'', ''CUBE'', ''CURRENT'', ''CURRENT_DATE'', ''CURRENT_PATH'',
     ''CURRENT_ROLE'', ''CURRENT_TIME'', ''CURRENT_TIMESTAMP'', ''CURRENT_USER'', ''CURSOR'',
     ''CURSOR_NAME'', ''CYCLE'']"

definition pgsql_words_2 :: "string list" where
  "pgsql_words_2 =
    [''DATA'', ''DATABASE'', ''DATE'', ''DATETIME_INTERVAL_CODE'', ''DATETIME_INTERVAL_PRECISION'', ''DAY'',
     ''DEALLOCATE'', ''DEC'', ''DECIMAL'', ''DECLARE'', ''DEFAULT'', ''DEFERRABLE'', ''DEFERRED'',
     ''DEFINED'', ''DEFINER'', ''DELETE'', ''DELIMITERS'', ''DEPTH'', ''DEREF'', ''DESC'', ''DESCRIBE'',
     ''DESCRIPTOR'', ''DESTROY'', ''DESTRUCTOR'', ''DETERMINISTIC'', ''DIAGNOSTICS'', ''DICTIONARY'',
     ''DISCONNECT'', ''DISPATCH'', ''DISTINCT'', ''DO'', ''DOMAIN'', ''DOUBLE'', ''DROP'', ''DYNAMIC'',
     ''DYNAMIC_FUNCTION'', ''DYNAMIC_FUNCTION_CODE'', ''EACH'', ''ELSE'', ''ENCODING'', ''END'', ''EQUALS'',
     ''ESCAPE'', ''EVERY'', ''EXCEPT'', ''EXCEPTION'', ''EXCLUSIVE'', ''EXEC'', ''EXECUTE'', ''EXISTING'',
     ''EXISTS'', ''EXPLAIN'', ''EXTEND'', ''EXTERNAL'', ''EXTRACT'', ''FALSE'', ''FETCH'', ''FINAL'',
     ''FIRST'', ''FLOAT'', ''FOR'', ''FORCE'', ''FOREIGN'', ''FORTRAN'', ''FORWARD'', ''FOUND'', ''FREE'',
     ''FROM'', ''FULL'', ''FUNCTION'', ''G'', ''GENERAL'', ''GENERATED'', ''GET'', ''GLOBAL'', ''GO'',
     ''GOTO'', ''GRANT'', ''GRANTED'', ''GROUP'', ''GROUPING'', ''HANDLER'', ''HAVING'', ''HIERARCHY'',
     ''HOLD'', ''HOST'', ''HOUR'', ''IDENTITY'', ''IGNORE'', ''ILIKE'', ''IMMEDIATE'', ''IMPLEMENTATION'',
     ''IN'', ''INCREMENT'', ''INDEX'', ''INDICATOR'', ''INFIX'', ''INHERITS'', ''INITIALIZE'',
     ''INITIALLY'', ''INNER'', ''INOUT'', ''INPUT'', ''INSENSITIVE'', ''INSERT'', ''INSTANCE'',
     ''INSTANTIABLE'', ''INSTEAD'', ''INT'', ''INTEGER'', ''INTERSECT'', ''INTERVAL'', ''INTO'',
     ''INVOKER'', ''IS'', ''ISNULL'', ''ISOLATION'', ''ITERATE'', ''JOIN'', ''K'', ''KEY'', ''KEY_MEMBER'',
     ''KEY_TYPE'']"

definition pgsql_words_3 :: "string list" where
  "pgsql_words_3 =
    [''LANCOMPILER'', ''LANGUAGE'', ''LARGE'', ''LAST'', ''LATERAL'', ''LEADING'', ''LEFT'', ''LENGTH'',
     ''LESS'', ''LEVEL'', ''LIKE'', ''LIMIT'', ''LISTEN'', ''LOAD'', ''LOCAL'', ''LOCALTIME'',
     ''LOCALTIMESTAMP'', ''LOCATION'', ''LOCATOR'', ''LOCK'', ''LOWER'', ''M'', ''MAP'', ''MATCH'', ''MAX'',
     ''MAXVALUE'', ''MESSAGE_LENGTH'', ''MESSAGE_OCTET_LENGTH'', ''MESSAGE_TEXT'', ''METHOD'', ''MIN'',
     ''MINUTE'', ''MINVALUE'', ''MOD'', ''MODE'', ''MODIFIES'', ''MODIFY'', ''MODULE'', ''MONTH'', ''MORE'',
     ''MOVE'', ''MUMPS'', ''NAME'', ''NAMES'', ''NATIONAL'', ''NATURAL'', ''NCHAR'', ''NCLOB'', ''NEW'',
     ''NEXT'', ''NO'', ''NOCREATEDB'', ''NOCREATEUSER'', ''NONE'', ''NOT'', ''NOTHING'', ''NOTIFY'',
     ''NOTNULL'', ''NULL'', ''NULLABLE'', ''NULLIF'', ''NUMBER'', ''NUMERIC'', ''OBJECT'', ''OCTET_LENGTH'',
     ''OF'', ''OFF'', ''OFFSET'', ''OIDS'', ''OLD'', ''ON'', ''ONLY'', ''OPEN'', ''OPERATION'',
     ''OPERATOR'', ''OPTION'', ''OPTIONS'', ''OR'', ''ORDER'', ''ORDINALITY'', ''OUT'', ''OUTER'',
     ''OUTPUT'', ''OVERLAPS'', ''OVERLAY'', ''OVERRIDING'', ''OWNER'', ''PAD'', ''PARAMETER'',
     ''PARAMETERS'', ''PARAMETER_MODE'', ''PARAMETER_NAME'', ''PARAMETER_ORDINAL_POSITION'',
     ''PARAMETER_SPECIFIC_CATALOG'', ''PARAMETER_SPECIFIC_NAME'', ''PARAMETER_SPECIFIC_SCHEMA'',
     ''PARTIAL'', ''PASCAL'', ''PASSWORD'', ''PATH'', ''PENDANT'', ''PLI'', ''POSITION'', ''POSTFIX'',
     ''PRECISION'', ''PREFIX'', ''PREORDER'', ''PREPARE'', ''PRESERVE'', ''PRIMARY'', ''PRIOR'',
     ''PRIVILEGES'', ''PROCEDURAL'', ''PROCEDURE'', ''PUBLIC'']"

definition pgsql_words_4 :: "string list" where
  "pgsql_words_4 =
    [''READ'', ''READS'', ''REAL'', ''RECURSIVE'', ''REF'', ''REFERENCES'', ''REFERENCING'', ''REINDEX'',
     ''RELATIVE'', ''RENAME'', ''REPEATABLE'', ''RESET'', ''RESTRICT'', ''RESULT'', ''RETURN'',
     ''RETURNED_LENGTH'', ''RETURNED_OCTET_LENGTH'', ''RETURNED_SQLSTATE'', ''RETURNS'', ''REVOKE'',
     ''RIGHT'', ''ROLE'', ''ROLLBACK'', ''ROLLUP'', ''ROUTINE'', ''ROUTINE_CATALOG'', ''ROUTINE_NAME'',
     ''ROUTINE_SCHEMA'', ''ROW'', ''ROWS'', ''ROW_COUNT'', ''RULE'', ''SAVEPOINT'', ''SCALE'', ''SCHEMA'',
     ''SCHEMA_NAME'', ''SCOPE'', ''SCROLL'', ''SEARCH'', ''SECOND'', ''SECTION'', ''SECURITY'', ''SELECT'',
     ''SELF'', ''SENSITIVE'', ''SEQUENCE'', ''SERIAL'', ''SERIALIZABLE'', ''SERVER_NAME'', ''SESSION'',
     ''SESSION_USER'', ''SET'', ''SETOF'', ''SETS'', ''SHARE'', ''SHOW'', ''SIMILAR'', ''SIMPLE'', ''SIZE'',
     ''SMALLINT'', ''SOME'', ''SOURCE'', ''SPACE'', ''SPECIFIC'', ''SPECIFICTYPE'', ''SPECIFIC_NAME'',
     ''SQL'', ''SQLCODE'', ''SQLERROR'', ''SQLEXCEPTION'', ''SQLSTATE'', ''SQLWARNING'', ''START'',
     ''STATE'', ''STATEMENT'', ''STATIC'', ''STDIN'', ''STDOUT'', ''STRUCTURE'', ''STYLE'',
     ''SUBCLASS_ORIGIN'', ''SUBLIST'', ''SUBSTRING'', ''SUM'', ''SYMMETRIC'', ''SYSID'', ''SYSTEM'',
     ''SYSTEM_USER'', ''TABLE'', ''TABLE_NAME'', ''TEMP'', ''TEMPLATE'', ''TEMPORARY'', ''TERMINATE'',
     ''THAN'', ''THEN'', ''TIME'', ''TIMESTAMP'', ''TIMEZONE_HOUR'', ''TIMEZONE_MINUTE'', ''TO'', ''TOAST'',
     ''TRAILING'', ''TRANSACTION'', ''TRANSACTIONS_COMMITTED'', ''TRANSACTIONS_ROLLED_BACK'',
     ''TRANSACTION_ACTIVE'', ''TRANSFORM'', ''TRANSFORMS'', ''TRANSLATE'', ''TRANSLATION'', ''TREAT'',
     ''TRIGGER'', ''TRIGGER_CATALOG'', ''TRIGGER_NAME'', ''TRIGGER_SCHEMA'', ''TRIM'', ''TRUE'',
     ''TRUNCATE'', ''TRUSTED'', ''TYPE'', ''UNCOMMITTED'', ''UNDER'', ''UNION'', ''UNIQUE'', ''UNKNOWN'',
     ''UNLISTEN'', ''UNNAMED'', ''UNNEST'', ''UNTIL'', ''UPDATE'', ''UPPER'', ''USAGE'', ''USER'',
     ''USER_DEFINED_TYPE_CATALOG'', ''USER_DEFINED_TYPE_NAME'', ''USER_DEFINED_TYPE_SCHEMA'', ''USING'',
     ''VACUUM'', ''VALID'', ''VALUE'', ''VALUES'', ''VARCHAR'', ''VARIABLE'', ''VARYING'', ''VERBOSE'',
     ''VERSION'', ''VIEW'']"

definition pgsql_words_5 :: "string list" where
  "pgsql_words_5 =
    [''WHEN'', ''WHENEVER'', ''WHERE'', ''WITH'', ''WITHOUT'', ''WORK'', ''WRITE'', ''YEAR'', ''ZONE'']"

definition pgsql_reserved_words :: "string option list" where
  "pgsql_reserved_words = null_terminated (pgsql_words_1 @ pgsql_words_2 @ pgsql_words_3 @ pgsql_words_4 @ pgsql_words_5)"

definition pgsql_custom_functions :: "string option list" where
  "pgsql_custom_functions = null_terminated
    [''PQconnectdb'', ''PQsetdbLogin'', ''PQsetdb'', ''PQconnectStart'', ''PQconnectPoll'',
     ''PQconndefaults'', ''PQfinish'', ''PQreset'', ''PQresetStart'', ''PQresetPoll'', ''PQdb'', ''PQuser'',
     ''PQpass'', ''PQhost'', ''PQport'', ''PQtty'', ''PQoptions'', ''PQstatus'', ''PQtransactionStatus'',
     ''PQparameterStatus'', ''PQprotocolVersion'', ''PQserverVersion'', ''PQerrorMessage'', ''PQsocket'',
     ''PQbackendPID'', ''PQgetssl'', ''PQexec'', ''PQexecParams'', ''PQprepare'', ''PQexecPrepared'',
     ''PQresultStatus'', ''PQresStatus'', ''PQresultErrorMessage'', ''PQresultErrorField'', ''PQclear'',
     ''PQmakeEmptyPGresult'', ''PQntuples'', ''PQnfields'', ''PQfname'', ''PQfnumber'', ''PQftable'',
     ''PQftablecol'', ''PQfformat'', ''PQftype'', ''PQfmod'', ''PQfsize'', ''PQbinaryTuples'',
     ''PQgetvalue'', ''PQgetisnull'', ''PQgetlength'', ''PQprint'', ''PQcmdStatus'', ''PQcmdTuples'',
     ''PQoidValue'', ''PQoidStatus'', ''PQescapeString'', ''PQescapeBytea'', ''PQunescapeBytea'',
     ''PQfreemem'', ''PQsendQuery'', ''PQsendQueryParams'', ''PQsendPrepare'', ''PQsendQueryPrepared'',
     ''PQgetResult'', ''PQconsumeInput'', ''PQisBusy'', ''PQsetnonblocking'', ''PQisnonblocking'',
     ''PQflush'', ''PQgetCancel'', ''PQfreeCancel'', ''PQcancel'', ''PQrequestCancel'', ''PQfn'',
     ''PQnotifies'', ''PQputCopyData'', ''PQputCopyEnd'', ''PQgetCopyData'', ''PQgetline'',
     ''PQgetlineAsync'', ''PQputline'', ''PQputnbytes'', ''PQendcopy'', ''PQsetErrorVerbosity'',
     ''PQtrace'', ''PQuntrace'']"

section \<open>SQLite\<close>

definition sqlite_words_1 :: "string list" where
  "sqlite_words_1 =
    [''ACTION'', ''ADD'', ''AGGREGATE'', ''ALL'', ''ALTER'', ''AFTER'', ''AND'', ''AS'', ''ASC'', ''AVG'',
     ''AVG_ROW_LENGTH'', ''AUTO_INCREMENT'', ''BETWEEN'', ''BIGINT'', ''BIT'', ''BINARY'', ''BLOB'',
     ''BOOL'', ''BOTH'', ''BY'', ''CASCADE'', ''CASE'', ''CHAR'', ''CHARACTER'', ''CHANGE'', ''CHECK'',
     ''CHECKSUM'', ''COLUMN'', ''COLUMNS'', ''COMMENT'', ''CONSTRAINT'', ''CREATE'', ''CROSS'',
     ''CURRENT_DATE'', ''CURRENT_TIME'', ''CURRENT_TIMESTAMP'', ''DATA'', ''DATABASE'', ''DATABASES'',
     ''DATE'', ''DATETIME'', ''DAY'', ''DAY_HOUR'', ''DAY_MINUTE'', ''DAY_SECOND'', ''DAYOFMONTH'',
     ''DAYOFWEEK'', ''DAYOFYEAR'', ''DEC'', ''DECIMAL'', ''DEFAULT'', ''DELAYED'', ''DELAY_KEY_WRITE'',
     ''DELETE'', ''DESC'', ''DESCRIBE'', ''DISTINCT'', ''DISTINCTROW'', ''DOUBLE'', ''DROP'', ''END'',
     ''ELSE'', ''ESCAPE'', ''ESCAPED'', ''ENCLOSED'', ''ENUM'', ''EXPLAIN'', ''EXISTS'', ''FIELDS'',
     ''FILE'', ''FIRST'', ''FLOAT'', ''FLOAT4'', ''FLOAT8'', ''FLUSH'', ''FOREIGN'', ''FROM'', ''FOR'',
     ''FULL'', ''FUNCTION'', ''GLOBAL'', ''GRANT'', ''GRANTS'', ''GROUP'', ''HAVING'', ''HEAP'',
     ''HIGH_PRIORITY'', ''HOUR'', ''HOUR_MINUTE'', ''HOUR_SECOND'', ''HOSTS'', ''IDENTIFIED'', ''IGNORE'',
     ''IN'', ''INDEX'', ''INFILE'', ''INNER'', ''INSERT'', ''INSERT_ID'', ''INT'', ''INTEGER'',
     ''INTERVAL'', ''INT1'', ''INT2'', ''INT3'', ''INT4'', ''INT8'', ''INTO'', ''IF'', ''IS'', ''ISAM'',
     ''JOIN'', ''KEY'', ''KEYS'', ''KILL'']"

definition sqlite_words_2 :: "string list" where
  "sqlite_words_2 =
    [''LAST_INSERT_ID'', ''LEADING'', ''LEFT'', ''LENGTH'', ''LIKE'', ''LINES'', ''LIMIT'', ''LOAD'',
     ''LOCAL'', ''LOCK'', ''LOGS'', ''LONG'', ''LONGBLOB'', ''LONGTEXT'', ''LOW_PRIORITY'', ''MAX'',
     ''MAX_ROWS'', ''MATCH'', ''MEDIUMBLOB'', ''MEDIUMTEXT'', ''MEDIUMINT'', ''MIDDLEINT'', ''MIN_ROWS'',
     ''MINUTE'', ''MINUTE_SECOND'', ''MODIFY'', ''MONTH'', ''MONTHNAME'', ''MYISAM'', ''NATURAL'',
     ''NUMERIC'', ''NO'', ''NOT'', ''NULL'', ''ON'', ''OPTIMIZE'', ''OPTION'', ''OPTIONALLY'', ''OR'',
     ''ORDER'', ''OUTER'', ''OUTFILE'', ''PACK_KEYS'', ''PARTIAL'', ''PASSWORD'', ''PRECISION'',
     ''PRIMARY'', ''PROCEDURE'', ''PROCESS'', ''PROCESSLIST'', ''PRIVILEGES'', ''READ'', ''REAL'',
     ''REFERENCES'', ''RELOAD'', ''REGEXP'', ''RENAME'', ''REPLACE'', ''RESTRICT'', ''RETURNS'', ''REVOKE'',
     ''RLIKE'', ''ROW'', ''ROWS'', ''SECOND'', ''SELECT'', ''SET'', ''SHOW'', ''SHUTDOWN'', ''SMALLINT'',
     ''SONAME'', ''SQL_BIG_TABLES'', ''SQL_BIG_SELECTS'', ''SQL_LOW_PRIORITY_UPDATES'', ''SQL_LOG_OFF'',
     ''SQL_LOG_UPDATE'', ''SQL_SELECT_LIMIT'', ''SQL_SMALL_RESULT'', ''SQL_BIG_RESULT'', ''SQL_WARNINGS'',
     ''STRAIGHT_JOIN'', ''STARTING'', ''STATUS'', ''STRING'', ''TABLE'', ''TABLES'', ''TEMPORARY'',
     ''TERMINATED'', ''TEXT'', ''THEN'', ''TIME'', ''TIMESTAMP'', ''TINYBLOB'', ''TINYTEXT'', ''TINYINT'',
     ''TRAILING'', ''TO'', ''TYPE'', ''USE'', ''USING'', ''UNIQUE'', ''UNLOCK'', ''UNSIGNED'', ''UPDATE'',
     ''USAGE'', ''VALUES'', ''VARCHAR'', ''VARIABLES'', ''VARYING'', ''VARBINARY'', ''WITH'', ''WRITE'',
     ''WHEN'', ''WHERE'', ''YEAR'', ''YEAR_MONTH'', ''ZEROFILL'']"

definition sqlite_reserved_words :: "string option list" where
  "sqlite_reserved_words = null_terminated (sqlite_words_1 @ sqlite_words_2)"

definition sqlite_custom_functions :: "string option list" where
  "sqlite_custom_functions = null_terminated
    [''sqlite_open'', ''sqlite_close'', ''sqlite_exec'', ''sqlite_last_insert_rowid'', ''sqlite_changes'',
     ''sqlite_get_table'', ''sqlite_free_table'', ''sqlite_interrupt'', ''sqlite_complete'',
     ''sqlite_busy_handler'', ''sqlite_busy_timeout'', ''sqlite_libversion'', ''sqlite_encoding'',
     ''sqlite_exec_printf'', ''sqlite_exec_vprintf'', ''sqlite_get_table_printf'',
     ''sqlite_get_table_vprintf'', ''sqlite_mprintf'', ''sqlite_vmprintf'', ''sqlite_freemem'']"

section \<open>SQLite3\<close>

definition sqlite3_words_1 :: "string list" where
  "sqlite3_words_1 =
    [''ACTION'', ''ADD'', ''AGGREGATE'', ''ALL'', ''ALTER'', ''AFTER'', ''AND'', ''AS'', ''ASC'', ''AVG'',
     ''AVG_ROW_LENGTH'', ''AUTO_INCREMENT'', ''BETWEEN'', ''BIGINT'', ''BIT'', ''BINARY'', ''BLOB'',
     ''BOOL'', ''BOTH'', ''BY'', ''CASCADE'', ''CASE'', ''CHAR'', ''CHARACTER'', ''CHANGE'', ''CHECK'',
     ''CHECKSUM'', ''COLUMN'', ''COLUMNS'', ''COMMENT'', ''CONSTRAINT'', ''CREATE'', ''CROSS'',
     ''CURRENT_DATE'', ''CURRENT_TIME'', ''CURRENT_TIMESTAMP'', ''DATA'', ''DATABASE'', ''DATABASES'',
     ''DATE'', ''DATETIME'', ''DAY'', ''DAY_HOUR'', ''DAY_MINUTE'', ''DAY_SECOND'', ''DAYOFMONTH'',
     ''DAYOFWEEK'', ''DAYOFYEAR'', ''DEC'', ''DECIMAL'', ''DEFAULT'', ''DELAYED'', ''DELAY_KEY_WRITE'',
     ''DELETE'', ''DESC'', ''DESCRIBE'', ''DISTINCT'', ''DISTINCTROW'', ''DOUBLE'', ''DROP'', ''END'',
     ''ELSE'', ''ESCAPE'', ''ESCAPED'', ''ENCLOSED'', ''ENUM'', ''EXPLAIN'', ''EXISTS'', ''FIELDS'',
     ''FILE'', ''FIRST'', ''FLOAT'', ''FLOAT4'', ''FLOAT8'', ''FLUSH'', ''FOREIGN'', ''FROM'', ''FOR'',
     ''FULL'', ''FUNCTION'', ''GLOBAL'', ''GRANT'', ''GRANTS'', ''GROUP'', ''HAVING'', ''HEAP'',
     ''HIGH_PRIORITY'', ''HOUR'', ''HOUR_MINUTE'', ''HOUR_SECOND'', ''HOSTS'', ''IDENTIFIED'', ''IGNORE'',
     ''IN'', ''INDEX'', ''INFILE'', ''INNER'', ''INSERT'', ''INSERT_ID'', ''INT'', ''INTEGER'',
     ''INTERVAL'', ''INT1'', ''INT2'', ''INT3'', ''INT4'', ''INT8'', ''INTO'', ''IF'', ''IS'', ''ISAM'',
     ''JOIN'', ''KEY'', ''KEYS'', ''KILL'']"

definition sqlite3_words_2 :: "string list" where
  "sqlite3_words_2 =
    [''LAST_INSERT_ID'', ''LEADING'', ''LEFT'', ''LENGTH'', ''LIKE'', ''LINES'', ''LIMIT'', ''LOAD'',
     ''LOCAL'', ''LOCK'', ''LOGS'', ''LONG'', ''LONGBLOB'', ''LONGTEXT'', ''LOW_PRIORITY'', ''MAX'',
     ''MAX_ROWS'', ''MATCH'', ''MEDIUMBLOB'', ''MEDIUMTEXT'', ''MEDIUMINT'', ''MIDDLEINT'', ''MIN_ROWS'',
     ''MINUTE'', ''MINUTE_SECOND'', ''MODIFY'', ''MONTH'', ''MONTHNAME'', ''MYISAM'', ''NATURAL'',
     ''NUMERIC'', ''NO'', ''NOT'', ''NULL'', ''ON'', ''OPTIMIZE'', ''OPTION'', ''OPTIONALLY'', ''OR'',
     ''ORDER'', ''OUTER'', ''OUTFILE'', ''PACK_KEYS'', ''PARTIAL'', ''PASSWORD'', ''PRECISION'',
     ''PRIMARY'', ''PROCEDURE'', ''PROCESS'', ''PROCESSLIST'', ''PRIVILEGES'', ''READ'', ''REAL'',
     ''REFERENCES'', ''RELOAD'', ''REGEXP'', ''RENAME'', ''REPLACE'', ''RESTRICT'', ''RETURNS'', ''REVOKE'',
     ''RLIKE'', ''ROW'', ''ROWS'', ''SECOND'', ''SELECT'', ''SET'', ''SHOW'', ''SHUTDOWN'', ''SMALLINT'',
     ''SONAME'', ''SQL_BIG_TABLES'', ''SQL_BIG_SELECTS'', ''SQL_LOW_PRIORITY_UPDATES'', ''SQL_LOG_OFF'',
     ''SQL_LOG_UPDATE'', ''SQL_SELECT_LIMIT'', ''SQL_SMALL_RESULT'', ''SQL_BIG_RESULT'', ''SQL_WARNINGS'',
     ''STRAIGHT_JOIN'', ''STARTING'', ''STATUS'', ''STRING'', ''TABLE'', ''TABLES'', ''TEMPORARY'',
     ''TERMINATED'', ''TEXT'', ''THEN'', ''TIME'', ''TIMESTAMP'', ''TINYBLOB'', ''TINYTEXT'', ''TINYINT'',
     ''TRAILING'', ''TO'', ''TYPE'', ''USE'', ''USING'', ''UNIQUE'', ''UNLOCK'', ''UNSIGNED'', ''UPDATE'',
     ''USAGE'', ''VALUES'', ''VARCHAR'', ''VARIABLES'', ''VARYING'', ''VARBINARY'', ''WITH'', ''WRITE'',
     ''WHEN'', ''WHERE'', ''YEAR'', ''YEAR_MONTH'', ''ZEROFILL'']"

definition sqlite3_reserved_words :: "string option list" where
  "sqlite3_reserved_words = null_terminated (sqlite3_words_1 @ sqlite3_words_2)"

definition sqlite3_custom_functions :: "string option list" where
  "sqlite3_custom_functions = null_terminated
    [''sqlite3_aggregate_context'', ''sqlite3_aggregate_count'', ''sqlite3_bind_blob'',
     ''sqlite3_bind_double'', ''sqlite3_bind_int'', ''sqlite3_bind_int64'', ''sqlite3_bind_null'',
     ''sqlite3_bind_parameter_count'', ''sqlite3_bind_parameter_index'', ''sqlite3_bind_parameter_name'',
     ''sqlite3_bind_text'', ''sqlite3_bind_text16'', ''sqlite3_busy_handler'', ''sqlite3_busy_timeout'',
     ''sqlite3_changes'', ''sqlite3_close'', ''sqlite3_collation_needed'', ''sqlite3_collation_needed16'',
     ''sqlite3_column_blob'', ''sqlite3_column_bytes'', ''sqlite3_column_bytes16'',
     ''sqlite3_column_count'', ''sqlite3_column_decltype'', ''sqlite3_column_double'',
     ''sqlite3_column_int'', ''sqlite3_column_int64'', ''sqlite3_column_name'', ''sqlite3_column_name16'',
     ''sqlite3_column_text'', ''sqlite3_column_text16'', ''sqlite3_column_type'', ''sqlite3_commit_hook'',
     ''sqlite3_complete'', ''sqlite3_complete16'', ''sqlite3_create_collation'',
     ''sqlite3_create_collation16'', ''sqlite3_create_function'', ''sqlite3_create_function16'',
     ''sqlite3_data_count'', ''sqlite3_errcode'', ''sqlite3_errmsg'', ''sqlite3_errmsg16'',
     ''sqlite3_exec'', ''sqlite3_finalize'', ''sqlite3_free'', ''sqlite3_free_table'',
     ''sqlite3_get_table'', ''sqlite3_interrupt'', ''sqlite3_last_insert_rowid'', ''sqlite3_libversion'',
     ''sqlite3_mprintf'', ''sqlite3_open'', ''sqlite3_open16'', ''sqlite3_prepare'', ''sqlite3_prepare16'',
     ''sqlite3_progress_handler'', ''sqlite3_reset'', ''sqlite3_result_blob'', ''sqlite3_result_double'',
     ''sqlite3_result_error'', ''sqlite3_result_error16'', ''sqlite3_result_int'', ''sqlite3_result_int64'',
     ''sqlite3_result_null'', ''sqlite3_result_text'', ''sqlite3_result_text16'',
     ''sqlite3_result_text16be'', ''sqlite3_result_text16le'', ''sqlite3_result_value'',
     ''sqlite3_set_authorizer'', ''sqlite3_step'', ''sqlite3_total_changes'', ''sqlite3_trace'',
     ''sqlite3_user_data'', ''sqlite3_value_blob'', ''sqlite3_value_bytes'', ''sqlite3_value_bytes16'',
     ''sqlite3_value_double'', ''sqlite3_value_int'', ''sqlite3_value_int64'', ''sqlite3_value_text'',
     ''sqlite3_value_text16'', ''sqlite3_value_text16be'', ''sqlite3_value_text16le'',
     ''sqlite3_value_type'', ''sqlite3_vmprintf'']"

end
