(* ===== verification/Registration.thy ===== *)
theory Registration
  imports ReservedWords SqlTables
begin

text \<open>
  What a driver tells libdbi when it is loaded: \<open>dbd_register_driver\<close>, \<open>dbd_initialize\<close> and
  \<open>dbd_get_socket\<close>. The version and the date are set by the build.
\<close>

section \<open>Information\<close>

record dbi_info =
  info_name :: string
  info_description :: string
  info_maintainer :: string
  info_url :: string
  info_version :: string
  info_date :: string

definition firebird_driver_info :: "string \<Rightarrow> string \<Rightarrow> dbi_info" where
  "firebird_driver_info version date =
     \<lparr>info_name = ''firebird'', info_description = ''Firebird/Interbase database support'',
      info_maintainer = ''Christian M. Stamgren <cms@cention.se>'', info_url = ''http://libdbi-drivers.sourceforge.net'',
      info_version = ''dbd_firebird v'' @ version, info_date = date\<rparr>"

definition freetds_driver_info :: "string \<Rightarrow> string \<Rightarrow> dbi_info" where
  "freetds_driver_info version date =
     \<lparr>info_name = ''freetds'', info_description = ''MS SQL and Sybase databases support (using libct)'',
      info_maintainer = ''Vadym Kononenko <konan_v@users.sourceforge.net>'', info_url = ''http://libdbi.sourceforge.net'',
      info_version = ''dbd_freetds v'' @ version, info_date = date\<rparr>"

definition ingres_driver_info :: "string \<Rightarrow> string \<Rightarrow> dbi_info" where
  "ingres_driver_info version date =
     \<lparr>info_name = ''ingres'', info_description = ''Ingres database support'',
      info_maintainer = ''Toby Thain <qu1j0t3@sourceforge.net>'', info_url = ''http://libdbi-drivers.sourceforge.net'',
      info_version = ''dbd_ingres v'' @ version, info_date = date\<rparr>"

definition msql_driver_info :: "string \<Rightarrow> string \<Rightarrow> dbi_info" where
  "msql_driver_info version date =
     \<lparr>info_name = ''msql'', info_description = ''Mini SQL (mSQL) database support'',
      info_maintainer = ''Christian M. Stamgren <christian@centiongroup.com>'', info_url = ''libdbi-drivers.sourceforge.net'',
      info_version = ''dbd_msql v'' @ version, info_date = date\<rparr>"

definition mysql_driver_info :: "string \<Rightarrow> string \<Rightarrow> dbi_info" where
  "mysql_driver_info version date =
     \<lparr>info_name = ''mysql'', info_description = ''MySQL database support (using libmysqlclient)'',
      info_maintainer = ''Mark M. Tobenkin <mark@brentwoodradio.com>'', info_url = ''http://libdbi-drivers.sourceforge.net'',
      info_version = ''dbd_mysql v'' @ version, info_date = date\<rparr>"

definition oracle_driver_info :: "string \<Rightarrow> string \<Rightarrow> dbi_info" where
  "oracle_driver_info version date =
     \<lparr>info_name = ''Oracle'', info_description = ''Oracle database support (using Oracle Call Interface)'',
      info_maintainer = ''Ashish Ranjan <ashishwave@yahoo.com>'', info_url = ''http://libdbi-drivers.sourceforge.net'',
      info_version = ''dbd_Oracle v'' @ version, info_date = date\<rparr>"

definition pgsql_driver_info :: "string \<Rightarrow> string \<Rightarrow> dbi_info" where
  "pgsql_driver_info version date =
     \<lparr>info_name = ''pgsql'', info_description = ''PostgreSQL database support (using libpq)'',
      info_maintainer = ''David A. Parker <david@neongoat.com>'', info_url = ''http://libdbi-drivers.sourceforge.net'',
      info_version = ''dbd_pgsql v'' @ version, info_date = date\<rparr>"

definition sqlite_driver_info :: "string \<Rightarrow> string \<Rightarrow> dbi_info" where
  "sqlite_driver_info version date =
     \<lparr>info_name = ''sqlite'', info_description = ''SQLite database support (using libsqlite)'',
      info_maintainer = ''Markus Hoenicka <mhoenicka@users.sourceforge.net>'', info_url = ''http://libdbi-drivers.sourceforge.net'',
      info_version = ''dbd_sqlite v'' @ version, info_date = date\<rparr>"

definition sqlite3_driver_info :: "string \<Rightarrow> string \<Rightarrow> dbi_info" where
  "sqlite3_driver_info version date =
     \<lparr>info_name = ''sqlite3'', info_description = ''SQLite3 database support (using libsqlite3)'',
      info_maintainer = ''Markus Hoenicka <mhoenicka@users.sourceforge.net>'', info_url = ''http://libdbi-drivers.sourceforge.net'',
      info_version = ''dbd_sqlite3 v'' @ version, info_date = date\<rparr>"

section \<open>The drivers\<close>

datatype driver = Firebird | FreeTDS | Ingres | MSQL | MySQL | Oracle | PostgreSQL | SQLite | SQLite3

text \<open>\<open>dbd_register_driver\<close> hands out three pointers to constants.\<close>

type_synonym registration = "dbi_info \<times> string option list \<times> string option list"

definition firebird_register_driver :: "string \<Rightarrow> string \<Rightarrow> registration" where
  "firebird_register_driver version date =
     (firebird_driver_info version date, firebird_custom_functions, firebird_reserved_words)"

definition freetds_register_driver :: "string \<Rightarrow> string \<Rightarrow> registration" where
  "freetds_register_driver version date =
     (freetds_driver_info version date, [None], freetds_reserved_words)"

definition ingres_register_driver :: "string \<Rightarrow> string \<Rightarrow> registration" where
  "ingres_register_driver version date =
     (ingres_driver_info version date, [None], ingres_reserved_words)"

definition msql_register_driver :: "string \<Rightarrow> string \<Rightarrow> registration" where
  "msql_register_driver version date =
     (msql_driver_info version date, [None], msql_reserved_words)"

definition mysql_register_driver :: "string \<Rightarrow> string \<Rightarrow> registration" where
  "mysql_register_driver version date =
     (mysql_driver_info version date, mysql_custom_functions, mysql_reserved_words)"

definition oracle_register_driver :: "string \<Rightarrow> string \<Rightarrow> registration" where
  "oracle_register_driver version date =
     (oracle_driver_info version date, [None], oracle_reserved_words)"

definition pgsql_register_driver :: "string \<Rightarrow> string \<Rightarrow> registration" where
  "pgsql_register_driver version date =
     (pgsql_driver_info version date, pgsql_custom_functions, pgsql_reserved_words)"

definition sqlite_register_driver :: "string \<Rightarrow> string \<Rightarrow> registration" where
  "sqlite_register_driver version date =
     (sqlite_driver_info version date, sqlite_custom_functions, sqlite_reserved_words)"

definition sqlite3_register_driver :: "string \<Rightarrow> string \<Rightarrow> registration" where
  "sqlite3_register_driver version date =
     (sqlite3_driver_info version date, sqlite3_custom_functions, sqlite3_reserved_words)"

definition register_driver :: "driver \<Rightarrow> string \<Rightarrow> string \<Rightarrow> registration" where
  "register_driver d = (case d of
       Firebird \<Rightarrow> firebird_register_driver | FreeTDS \<Rightarrow> freetds_register_driver
     | Ingres \<Rightarrow> ingres_register_driver | MSQL \<Rightarrow> msql_register_driver
     | MySQL \<Rightarrow> mysql_register_driver | Oracle \<Rightarrow> oracle_register_driver
     | PostgreSQL \<Rightarrow> pgsql_register_driver | SQLite \<Rightarrow> sqlite_register_driver
     | SQLite3 \<Rightarrow> sqlite3_register_driver)"

text \<open>Reading a table up to its null pointer.\<close>

fun read_words :: "string option list \<Rightarrow> string list run" where
  "read_words [] = Inl ReadPastEnd"
| "read_words (None # ws) = Inr []"
| "read_words (Some w # ws) = run_bind (read_words ws) (\<lambda>rest. Inr (w # rest))"

definition listed :: "string option list \<Rightarrow> string \<Rightarrow> bool" where
  "listed table w = (case read_words table of Inl e \<Rightarrow> False | Inr ws \<Rightarrow> map toupper w \<in> set ws)"

section \<open>Initialisation\<close>

text \<open>
  What \<open>dbd_initialize\<close> does: the capabilities that it registers, in order, and its result; libdbi
  drops a driver whose result is -1.
\<close>

type_synonym initialised = "(string \<times> int) list \<times> int"

definition firebird_initialize :: initialised where
  "firebird_initialize = ([(''safe_dlclose'', 0)], 0)"

definition freetds_initialize :: initialised where
  "freetds_initialize = ([(''safe_dlclose'', 1)], 0)"

definition msql_initialize :: initialised where
  "msql_initialize = ([(''safe_dlclose'', 1)], 0)"

definition mysql_initialize :: initialised where
  "mysql_initialize = ([(''safe_dlclose'', 1)], 0)"

definition pgsql_initialize :: initialised where
  "pgsql_initialize = ([(''safe_dlclose'', 1)], 0)"

definition sqlite_initialize :: initialised where
  "sqlite_initialize = ([(''safe_dlclose'', 1)], 0)"

definition sqlite3_initialize :: initialised where
  "sqlite3_initialize = ([(''safe_dlclose'', 1)], 0)"

text \<open>\<open>oci_result\<close> is what \<open>OCIInitialize\<close> returns.\<close>

definition oracle_initialize :: "int \<Rightarrow> initialised" where
  "oracle_initialize oci_result = ([(''safe_dlclose'', 1)], oci_result)"

text \<open>
  The Ingres driver keeps the handle of the environment and the instance of libdbi in global
  variables; \<open>init\<close> is the status and the handle that \<open>IIapi_initialize\<close> gives, \<open>st_error\<close> is
  \<open>IIAPI_ST_ERROR\<close>. The text goes to the standard error stream.
\<close>

record ('h, 'i) ingres_globals =
  env_handle :: "'h option"
  instance_ref :: "'i option"

definition ingres_initialize ::
    "int \<Rightarrow> int \<times> 'h \<Rightarrow> 'i \<Rightarrow> ('h, 'i) ingres_globals \<Rightarrow> ('h, 'i) ingres_globals \<times> string \<times> int" where
  "ingres_initialize st_error init inst g =
     (if fst init < st_error
      then (g\<lparr>env_handle := Some (snd init), instance_ref := Some inst\<rparr>, [], 0)
      else (g, ''failed to initialise Ingres driver'' @ [CHR 0x0A], -1))"

section \<open>Sockets\<close>

text \<open>A connection is \<open>None\<close> when its pointer is null; the number is the one of the library.\<close>

definition mysql_get_socket :: "'conn option \<Rightarrow> ('conn \<Rightarrow> int) \<Rightarrow> int" where
  "mysql_get_socket conn fd = (case conn of None \<Rightarrow> -1 | Some c \<Rightarrow> fd c)"

definition pgsql_get_socket :: "'conn option \<Rightarrow> ('conn \<Rightarrow> int) \<Rightarrow> int" where
  "pgsql_get_socket conn PQsocket = (case conn of None \<Rightarrow> -1 | Some c \<Rightarrow> PQsocket c)"

text \<open>mSQL: the handle of the connection is itself a number, and 0 is taken for no connection.\<close>

definition msql_get_socket :: "int \<Rightarrow> int" where
  "msql_get_socket conn = (if conn = 0 then -1 else conn)"

section \<open>Properties\<close>

lemma read_null_terminated [simp]: "read_words (null_terminated ws) = Inr ws"
  by (induction ws) (simp_all add: null_terminated_def)

lemma listed_null_terminated [simp]: "listed (null_terminated ws) w \<longleftrightarrow> map toupper w \<in> set ws"
  by (simp add: listed_def)

text \<open>Whatever the driver, its two tables are read to their ends and no further.\<close>

theorem registered_tables_readable:
  "\<exists>info funs words. register_driver d version date = (info, funs, words)
     \<and> defined (read_words funs) \<and> defined (read_words words)"
  by (cases d) (simp_all add: register_driver_def firebird_register_driver_def freetds_register_driver_def
    ingres_register_driver_def msql_register_driver_def mysql_register_driver_def oracle_register_driver_def
    pgsql_register_driver_def sqlite_register_driver_def sqlite3_register_driver_def
    firebird_custom_functions_def mysql_custom_functions_def pgsql_custom_functions_def
    sqlite_custom_functions_def sqlite3_custom_functions_def firebird_reserved_words_def
    freetds_reserved_words_def ingres_reserved_words_def msql_reserved_words_def mysql_reserved_words_def
    oracle_reserved_words_def pgsql_reserved_words_def sqlite_reserved_words_def sqlite3_reserved_words_def)

lemma sqlite3_words_mysql: "sqlite3_reserved_words = mysql_reserved_words" "sqlite_reserved_words = mysql_reserved_words"
  by (simp_all only: sqlite3_reserved_words_def sqlite_reserved_words_def mysql_reserved_words_def
    sqlite3_words_1_def sqlite3_words_2_def sqlite_words_1_def sqlite_words_2_def mysql_words_1_def mysql_words_2_def)

text \<open>The keywords of \<open>getTables\<close> in capital letters, as the tables have them.\<close>

lemma upper_keywords:
  "map (map toupper) (endwords @ nottables) =
     [''WHERE'', ''GROUP'', ''HAVING'', ''UNION'', ''INTERSECT'', ''EXCEPT'', ''ORDER'', ''LIMIT'',
      ''NATURAL'', ''LEFT'', ''RIGHT'', ''FULL'', ''OUTER'', ''INNER'', ''CROSS'', ''JOIN'', ''AS'']"
  by code_simp

lemma mysql_words_keywords:
  "map (\<lambda>w. w \<in> set (mysql_words_1 @ mysql_words_2)) (map (map toupper) (endwords @ nottables)) =
     [True, True, True, False, False, False, True, True, True, True, False, True, True, True, True, True, True]"
  unfolding upper_keywords by (simp add: mysql_words_1_def mysql_words_2_def)

lemma pgsql_words_keywords:
  "list_all (\<lambda>w. w \<in> set (pgsql_words_1 @ pgsql_words_2 @ pgsql_words_3 @ pgsql_words_4 @ pgsql_words_5))
     (map (map toupper) (endwords @ nottables))"
  unfolding upper_keywords
  by (simp add: pgsql_words_1_def pgsql_words_2_def pgsql_words_3_def pgsql_words_4_def pgsql_words_5_def)

lemma filter_marked:
  assumes "map P (map f ws) = marks"
  shows "[w \<leftarrow> ws. \<not> P (f w)] = map fst [x \<leftarrow> zip ws marks. \<not> snd x]"
  unfolding assms [symmetric] by (induction ws) auto

lemma mysql_unlisted:
  "[w \<leftarrow> endwords @ nottables. \<not> listed mysql_reserved_words w] = [''union'', ''intersect'', ''except'', ''right'']"
proof -
  have "[w \<leftarrow> endwords @ nottables. \<not> listed mysql_reserved_words w]
      = map fst [x \<leftarrow> zip (endwords @ nottables) [True, True, True, False, False, False, True, True, True, True,
          False, True, True, True, True, True, True]. \<not> snd x]"
    unfolding mysql_reserved_words_def listed_null_terminated by (rule filter_marked [OF mysql_words_keywords])
  then show ?thesis by (simp add: endwords_def nottables_def)
qed

lemma pgsql_all_listed: "[w \<leftarrow> endwords @ nottables. \<not> listed pgsql_reserved_words w] = []"
  using pgsql_words_keywords
  unfolding pgsql_reserved_words_def listed_null_terminated filter_empty_conv list_all_iff by force

text \<open>
  C40: The SQLite drivers register the reserved words of MySQL, entry for entry. Whatever the statement, the
  SQLite3 driver's own \<open>getTables\<close> reports no table with the name of one of its keywords, in any
  case of the letters; but four of these are not among the words that the driver registers. The
  PostgreSQL driver registers all of them.
\<close>

theorem sqlite_unlisted_keywords:
  assumes "getTables [] statement = Inr ts"
  shows "snd (snd (sqlite_register_driver version date)) = snd (snd (mysql_register_driver version date))
   \<and> snd (snd (sqlite3_register_driver version date)) = snd (snd (mysql_register_driver version date))
   \<and> (\<forall>t \<in> set ts. map tolower t \<notin> set (endwords @ nottables))
   \<and> [w \<leftarrow> endwords @ nottables. \<not> listed (snd (snd (sqlite3_register_driver version date))) w]
       = [''union'', ''intersect'', ''except'', ''right'']
   \<and> [w \<leftarrow> endwords @ nottables. \<not> listed (snd (snd (pgsql_register_driver version date))) w] = []"
  using getTables_no_keyword [OF assms]
  unfolding sqlite_register_driver_def sqlite3_register_driver_def mysql_register_driver_def pgsql_register_driver_def
    snd_conv sqlite3_words_mysql mysql_unlisted pgsql_all_listed no_keyword_def by blast

text \<open>A table of the name \<open>union\<close> ends the list.\<close>

theorem sqlite_unlisted_keywords_witness:
  "getTables [] ''select a from t,Union,u'' = Inr [''t'']
    \<and> \<not> listed (snd (snd (sqlite3_register_driver ''0.8.3'' ''Jan 1 2008''))) ''union''"
proof -
  have tables: "getTables [] ''select a from t,Union,u'' = Inr [''t'']" by code_simp
  let ?unlisted = "[w \<leftarrow> endwords @ nottables.
    \<not> listed (snd (snd (sqlite3_register_driver ''0.8.3'' ''Jan 1 2008''))) w]"
  have "?unlisted = [''union'', ''intersect'', ''except'', ''right'']"
    using sqlite_unlisted_keywords [OF tables, of "''0.8.3''" "''Jan 1 2008''"] by blast
  then have "''union'' \<in> set ?unlisted" by (simp only: list.set_intros)
  then show ?thesis using tables by (simp only: set_filter mem_Collect_eq simp_thms)
qed

end
