(* ===== verification/Spec2Isabelle.thy ===== *)
theory Spec2Isabelle
  imports SqliteLegacy SqliteCatalog IngresSession Versions Sessions Errors FirebirdQuery Typing Registration
begin

text \<open>
  The libdbi drivers: a model of the code under \<open>src/drivers\<close> and what is proved of it.

  The program. libdbi gives a C program one interface to many database servers. For every server there
  is a driver, a set of functions named \<open>dbd_...\<close> that libdbi calls and that call the client
  library of the server: nine drivers in \<open>src/drivers\<close>, for SQLite3, SQLite, MySQL, PostgreSQL,
  mSQL, Oracle, Firebird, FreeTDS (Sybase and SQL Server) and Ingres. A program sets options and
  connects; it quotes values and sends a statement; the driver finds the type of each column of
  the result, and for each row that is asked for it turns the text or the bytes that the client
  library delivers into a member of the union \<open>dbi_data_t\<close>. libdbi and the client libraries are not in
  the repository. They are parameters of the definitions, with their answers as arguments, and what a
  theorem needs to know of them is one of its assumptions.

  How C is modelled. What C leaves undefined is a value: an operation that can go wrong returns a
  \<open>run\<close>, an error \<open>ub\<close> (a write behind a buffer, a read behind the end, a null pointer, an unset
  variable, freed memory) or a result; so a theorem that a \<open>run\<close> is \<open>Inr\<close> says that none of these happens. A
  pointer into a string is the suffix that begins there. Machine integers that overflow are words, the
  casts of \<open>atol\<close> and \<open>atoll\<close> included; signedness of \<open>char\<close> is written out where the code depends on it. Loops are
  recursive functions with termination proofs; the loops that depend on the client library to end, waiting for a request
  of Ingres and fetching its rows, are \<open>partial_function\<close>s, for which not returning is the value \<open>None\<close>. No definition
  takes fuel. Memory from \<open>malloc\<close> that nothing has written is told from memory that has been where it is read as a
  string. The allocator is assumed to succeed, except where a
  parameter \<open>alloc\<close> says whether it does.

  The theories, in the order in which they build on each other:

  \<^item> \<open>Prelude\<close>: \<open>run\<close>, C strings and the functions of the C library, \<open>atol\<close> and its like, with their
    lemmas. \<open>DbiTypes\<close>: the types, attributes, fields and cells of libdbi, numbers from text.
  \<^item> \<open>Wildcard\<close>: \<open>wild_case_compare\<close> of the SQLite drivers, and the meaning of an SQL pattern that it is
    proved to compute.
  \<^item> \<open>Quoting\<close>: \<open>dbd_quote_string\<close> and \<open>dbd_quote_binary\<close> of all drivers, and a reader of SQL literals
    that says what a server understands.
  \<^item> \<open>Encodings\<close>: the arrays of encoding names and the searches in both directions. The locale
    \<open>encoding_table\<close> says what makes the directions inverse; the arrays of MySQL and PostgreSQL are
    interpretations.
  \<^item> \<open>TypeTranslation\<close>: \<open>_translate_..._type\<close> and \<open>_get_field_info\<close>. The locale \<open>type_translation\<close> is the
    contract between the type of a field and the row readers, interpreted for every driver.
  \<^item> \<open>RowData\<close>: \<open>_get_row_data\<close> of seven drivers. \<open>Typing\<close>: all drivers write the member of the union that
    their types name.
  \<^item> \<open>SqlTables\<close>, \<open>SqliteTypes\<close>: how the SQLite3 driver finds out the type of a column by reading
    the statement: \<open>getTables\<close>, \<open>find_result_field_types\<close>, \<open>get_field_type\<close>, \<open>dbd_query\<close>. \<open>SqliteLegacy\<close>: the same
    of the SQLite driver, which reads CREATE TABLE commands. \<open>SqliteCatalog\<close>: the lists of databases and tables.
  \<^item> \<open>Options\<close>: what the drivers make of the connection options. \<open>Sessions\<close>: connect, switch the
    database, ping and disconnect of eight drivers over a state with the handles that are allocated.
  \<^item> \<open>Cursors\<close>: seeking, fetching and freeing rows; the locale \<open>seekable\<close> is what libdbi relies on when it
    goes to a row, interpreted for the drivers that keep it. \<open>Queries\<close>: the queries of PostgreSQL, MySQL,
    mSQL and Oracle. \<open>FirebirdQuery\<close>, \<open>FreetdsQuery\<close>: those of the other two, which are longer.
  \<^item> \<open>IngresDate\<close>, \<open>IngresResults\<close>, \<open>IngresSession\<close>: dates with the perfect hash of the month names, the fetch loop with
    its growing row array, and connections with their transactions.
  \<^item> \<open>Versions\<close>: \<open>dbd_get_engine_version\<close>. \<open>Errors\<close>: \<open>dbd_geterror\<close>, and the messages of Ingres.
  \<^item> \<open>ReservedWords\<close>: the tables of the header files. \<open>Registration\<close>: \<open>dbd_register_driver\<close>, which hands
    them to libdbi, \<open>dbd_initialize\<close> and \<open>dbd_get_socket\<close>.
  \<^item> This theory: properties of a whole query, from the statement to the values.

  A definition has the name of the C function that it models, with the driver in front of it where
  several drivers have a function of that name (\<open>dbd_fetch_row\<close> of PostgreSQL is \<open>pgsql_fetch_row\<close>). A
  parameter that is a struct is a record; output parameters and changed members are part of the result.

  What the properties show. Functional correctness: pattern matching computes the meaning of the pattern;
  a statement's tables, its columns' types and Ingres dates are read as meant; rows come back as the
  server sent them, in any order, for whole queries of SQLite3, SQLite, MySQL,
  PostgreSQL and mSQL. Round trips: integers of the signed and the unsigned range through every text driver, encoding names,
  the connection string of PostgreSQL. Safety and bounds: quoted strings are single complete literals; the
  blocks of quoting, rows and results are large enough, or exactly when they are not. Invariants: in a
  session no handle is used after its end and none is left open; the connection of an Ingres program uses no ended transaction
  unless a commit succeeds with a warning; a Firebird connection has one statement for each open result and ends every
  transaction once. Termination: a fetch of Ingres comes to an end with the answer that says so, wherever it comes. Errors: which
  inputs make a driver read or write where it must not, blobs of Firebird and unterminated columns of FreeTDS among them. Where code does not do what it means to, the theorem
  states what it does.

  Bounds. The tables of a statement are limited to \<open>MAX_TABLES_IN_QUERY\<close> and names to \<open>MAX_IDENT_LENGTH\<close>, as in
  the code; the theorems about statements assume names that fit and say what happens beyond. Alignment and the layout
  of the Firebird row buffer use the width of \<open>short\<close>. Numbers in memory are read with the least
  significant byte first.

  Not modelled. The texts of the messages that drivers pass to libdbi's error handler; entry points that only pass
  their arguments on, such as \<open>dbd_conn_quote_string\<close> of most drivers, or that return a constant because the server
  cannot do what is asked, such as \<open>dbd_query_null\<close> and \<open>dbd_get_socket\<close> of most drivers; what libdbi does with the
  tables that it is given; the conversion
  of times by the C library; floating-point values beyond the text or the bits that they are made of; the
  test programs under \<open>src/tests\<close>.
\<close>

section \<open>From the query to the value\<close>

lemma sqlite3_fields_plain:
  assumes "serves table_info cat" and "list_all plain_token (tokens statement)"
    and "getTables [] statement = Inr ts" and "\<forall>t \<in> set ts. length t < MAX_IDENT_LENGTH"
    and "list_all (\<lambda>n. length n < MAX_IDENT_LENGTH \<and> CHR ''.'' \<notin> set n) names"
    and "\<forall>i \<in> set idxs. i < length names"
  shows "sqlite3_fields stale table_info (map Some names @ data) statement idxs
    = Inr (map (\<lambda>i. make_field (names ! i)
        (translate_sqlite3_type (declared_type (first_type cat (names ! i) ts)))) idxs)"
  using assms(6)
proof (induction idxs)
  case (Cons i idxs)
  then have i: "i < length names" by simp
  then have name: "length (names ! i) < MAX_IDENT_LENGTH" "CHR ''.'' \<notin> set (names ! i)"
    using assms(5) by (auto simp: list_all_iff)
  have "find_result_field_types stale table_info (names ! i) statement = Inr (declared_type (first_type cat (names ! i) ts))"
    by (rule find_plain [OF assms(1-4) name(1) _ name(2), where tbl = "''t''", THEN conjunct1])
      (simp_all add: MAX_IDENT_LENGTH_def)
  moreover have "after_dot (names ! i) = names ! i"
    using name(2) by (simp add: after_dot_def strchr_None [THEN iffD2])
  ultimately show ?case
    using Cons i by (simp add: table_entry_def nth_append not_null_def)
qed simp

text \<open>
  C2: A query of the SQLite3 driver from the statement to the values. For a statement without
  aliases and parentheses, on tables and columns with names that fit the buffers, the result has a
  field for every column with the libdbi type that its declaration gets, and reading rows by their
  numbers in any order, libdbi gets each time the cells of that row of the table that
  \<open>sqlite3_get_table\<close> returned, converted by these types.
\<close>

theorem sqlite3_select:
  assumes "serves table_info cat" and "list_all plain_token (tokens statement)"
    and "getTables [] statement = Inr ts" and "\<forall>t \<in> set ts. length t < MAX_IDENT_LENGTH"
    and "list_all (\<lambda>n. length n < MAX_IDENT_LENGTH \<and> CHR ''.'' \<notin> set n) names"
    and "get_table statement = (0, numrows, length names, map Some names @ data)"
    and "length data = numrows * length names" and "\<forall>i \<in> set is. i < numrows"
    and "flds = map (\<lambda>n. make_field n (translate_sqlite3_type (declared_type (first_type cat n ts)))) names"
  shows "\<exists>r c. sqlite3_query stale table_info get_table changes statement = Inr (Some r)
    \<and> sr_rows r = numrows \<and> sr_fields r = flds
    \<and> seek_rows sqlite3_goto_row (sqlite3_fetch_row decode (sr_fields r)) (open_result (sr_table r)) is
      = Inr (map (\<lambda>i. Some (map2 (sqlite3_cell decode) flds (take (length names) (drop (i * length names) data)))) is, c)"
proof -
  let ?tbl = "map Some names @ data"
  let ?r = "\<lparr>sr_rows = numrows, sr_changed = changes, sr_fields = flds, sr_table = ?tbl\<rparr>"
  have "sqlite3_fields stale table_info ?tbl statement [0..<length names] = Inr flds"
    using sqlite3_fields_plain [OF assms(1-5), of "[0..<length names]" stale data]
    by (simp add: assms(9)) (rule nth_equalityI, simp_all)
  then have query: "sqlite3_query stale table_info get_table changes statement = Inr (Some ?r)"
    by (simp add: sqlite3_query_def assms(6))
  have "ready_with (result_table_of ?tbl flds numrows) (open_result ?tbl)"
    by (rule ready_open) (simp add: result_table_of_def assms(7,9))
  from sqlite3_rows.seek_rows_any [OF this assms(8)]
  obtain c where "seek_rows sqlite3_goto_row (sqlite3_fetch_row decode flds) (open_result ?tbl) is
      = Inr (map (\<lambda>i. Some (sqlite_row (sqlite3_cell decode) flds ?tbl i)) is, c)"
    by blast
  moreover have "sqlite_row (sqlite3_cell decode) flds ?tbl i
      = map2 (sqlite3_cell decode) flds (take (length names) (drop (i * length names) data))" for i
    by (simp add: sqlite_row_def assms(9))
  ultimately show ?thesis using query by (intro exI [of _ ?r] exI [of _ c]) simp
qed

theorem sqlite3_select_witness:
  "\<exists>r c. sqlite3_query (\<lambda>item. Inl UseAfterFree) (table_info_of ''t'' [(''a'', ''integer'')])
      (\<lambda>s. (0, 2, 1, [Some ''a'', Some ''7'', Some ''8''])) 0 ''select a from t'' = Inr (Some r)
    \<and> sr_fields r = [make_field ''a'' (DBI_TYPE_INTEGER, {DBI_INTEGER_SIZE4})]
    \<and> seek_rows sqlite3_goto_row (sqlite3_fetch_row id (sr_fields r)) (open_result (sr_table r)) [1, 0]
      = Inr ([Some [value_cell (D_long 8)], Some [value_cell (D_long 7)]], c)"
proof -
  let ?info = "table_info_of ''t'' [(''a'', ''integer'')]" and ?cat = "one_table ''t'' [(''a'', ''integer'')]"
  have serves: "serves ?info ?cat" by (rule serves_one_column) (simp add: MAX_IDENT_LENGTH_def)
  have plain: "list_all plain_token (tokens ''select a from t'')" by code_simp
  have tables: "getTables [] ''select a from t'' = Inr [''t'']" by code_simp
  have "declared_type (first_type ?cat ''a'' [''t'']) = FIELD_TYPE_LONG" by code_simp
  then have ty: "translate_sqlite3_type (declared_type (first_type ?cat ''a'' [''t''])) = (DBI_TYPE_INTEGER, {DBI_INTEGER_SIZE4})"
    by simp
  have value7: "decode_integer {DBI_INTEGER_SIZE4} ''7'' = D_long 7" by code_simp
  have value8: "decode_integer {DBI_INTEGER_SIZE4} ''8'' = D_long 8" by code_simp
  let ?f = "make_field ''a'' (DBI_TYPE_INTEGER, {DBI_INTEGER_SIZE4})"
  have cells: "sqlite3_cell id ?f (Some ''7'') = value_cell (D_long 7)" "sqlite3_cell id ?f (Some ''8'') = value_cell (D_long 8)"
    by (simp_all add: sqlite3_cell_def value7 value8)
  have fields: "[?f] = map (\<lambda>n. make_field n (translate_sqlite3_type (declared_type (first_type ?cat n [''t''])))) [''a'']"
    by (simp only: list.map ty)
  have "\<exists>r c. sqlite3_query (\<lambda>item. Inl UseAfterFree) ?info (\<lambda>s. (0, 2, 1, [Some ''a'', Some ''7'', Some ''8''])) 0 ''select a from t'' = Inr (Some r)
    \<and> sr_rows r = 2 \<and> sr_fields r = [?f]
    \<and> seek_rows sqlite3_goto_row (sqlite3_fetch_row id (sr_fields r)) (open_result (sr_table r)) [1, 0]
      = Inr (map (\<lambda>i. Some (map2 (sqlite3_cell id) [?f]
          (take (length [''a'']) (drop (i * length [''a'']) [Some ''7'', Some ''8''])))) [1, 0], c)"
    by (rule sqlite3_select [OF serves plain tables _ _ _ _ _ fields]) (simp_all add: MAX_IDENT_LENGTH_def)
  moreover have "map (\<lambda>i. Some (map2 (sqlite3_cell id) [?f] (take (length [''a'']) (drop (i * length [''a'']) [Some ''7'', Some ''8''])))) [1, 0]
    = [Some [value_cell (D_long 8)], Some [value_cell (D_long 7)]]"
    by (simp del: id_apply add: cells)
  ultimately show ?thesis by (simp only:) blast
qed

lemma pgsql_query_seek:
  assumes "exec statement = Some res" and "pg_status res = PGRES_TUPLES_OK" and "\<forall>i \<in> set is. i < numrows"
  obtains result c where "pgsql_query exec statement = Some (res, result)"
    and "qr_numrows result = of_nat (pg_ntuples res)" and "qr_fields result = pgsql_get_field_info (pg_fields res)"
    and "seek_rows pgsql_goto_row (pgsql_fetch_row unescape getvalue (qr_fields result)) (open_result res) is
      = Inr (map (\<lambda>i. Some (pgsql_get_row_data unescape (pgsql_get_field_info (pg_fields res)) (getvalue res i))) is, c)"
proof -
  let ?flds = "pgsql_get_field_info (pg_fields res)"
  have "ready_with (\<lambda>r. r = res) (open_result res)" by (simp add: ready_open)
  from pgsql_rows.seek_rows_any [OF this assms(3), where unescape = unescape and getvalue = getvalue and flds = ?flds]
  show thesis using that by (fastforce simp: pgsql_query_def assms(1,2))
qed

text \<open>
  A query of the PostgreSQL driver whose columns are all of integer type: the numbers that
  the server printed are, whichever rows are asked for and in whatever order, the numbers that the
  program reads, provided that each fits the type its column is declared with.
\<close>

theorem pgsql_select_integers:
  assumes "exec statement = Some res" and "pg_status res = PGRES_TUPLES_OK"
    and "\<forall>i < numrows. getvalue res i = map (Some \<circ> show_int) (vals i)"
    and "\<forall>i < numrows. list_all2 (\<lambda>(name, oid) v. fst (translate_postgresql_type oid) = DBI_TYPE_INTEGER
           \<and> in_signed_range (snd (translate_postgresql_type oid)) v) (pg_fields res) (vals i)"
    and "\<forall>i \<in> set is. i < numrows"
  shows "\<exists>result rows c. pgsql_query exec statement = Some (res, result)
    \<and> seek_rows pgsql_goto_row (pgsql_fetch_row unescape getvalue (qr_fields result)) (open_result res) is
      = Inr (map Some rows, c)
    \<and> map (map (signed_value \<circ> c_value)) rows = map (\<lambda>i. map Some (vals i)) is"
proof -
  let ?flds = "pgsql_get_field_info (pg_fields res)"
  let ?row = "\<lambda>i. pgsql_get_row_data unescape ?flds (getvalue res i)"
  obtain result c where query: "pgsql_query exec statement = Some (res, result)"
    "seek_rows pgsql_goto_row (pgsql_fetch_row unescape getvalue (qr_fields result)) (open_result res) is
      = Inr (map (\<lambda>i. Some (?row i)) is, c)"
    by (rule pgsql_query_seek [where exec = exec and statement = statement, OF assms(1,2,5)])
  have "map (signed_value \<circ> c_value) (?row i) = map Some (vals i)" if "i < numrows" for i
  proof -
    have "list_all2 (\<lambda>(name, oid) v. fst (translate_postgresql_type oid) = DBI_TYPE_INTEGER
        \<and> in_signed_range (snd (translate_postgresql_type oid)) v) (pg_fields res) (vals i)"
      using assms(4) that by blast
    then have "map (signed_value \<circ> c_value) (map2 (pgsql_cell unescape) ?flds (map (Some \<circ> show_int) (vals i))) = map Some (vals i)"
      by (induction rule: list_all2_induct)
        (auto simp: pgsql_get_field_info_def pgsql_cell_def value_cell_def pgsql_types.signed_roundtrip)
    then show ?thesis using assms(3) that by (simp add: pgsql_get_row_data_def)
  qed
  then have "map (map (signed_value \<circ> c_value)) (map ?row is) = map (\<lambda>i. map Some (vals i)) is"
    using assms(5) by simp
  then show ?thesis using query
    by (intro exI [of _ result] exI [of _ "map ?row is"] exI [of _ c]) (simp add: comp_def)
qed

theorem pgsql_select_integers_witness:
  "let res = \<lparr>pg_status = PGRES_TUPLES_OK, pg_ntuples = 2, pg_cmdTuples = [], pg_fields = [(''n'', 20)]\<rparr>
   in \<exists>result rows c. pgsql_query (\<lambda>s. Some res) ''SELECT n FROM t'' = Some (res, result)
    \<and> seek_rows pgsql_goto_row (pgsql_fetch_row id (\<lambda>r i. [Some (show_int (int i - 1))]) (qr_fields result)) (open_result res) [1, 0]
      = Inr (map Some rows, c)
    \<and> map (map (signed_value \<circ> c_value)) rows = [[Some 0], [Some (- 1)]]"
proof -
  let ?res = "\<lparr>pg_status = PGRES_TUPLES_OK, pg_ntuples = 2, pg_cmdTuples = [], pg_fields = [(''n'', 20)]\<rparr>"
  have "fst (translate_postgresql_type 20) = DBI_TYPE_INTEGER \<and> in_signed_range (snd (translate_postgresql_type 20)) (int i - 1)"
    if "i < 2" for i
    using that by (simp add: translate_postgresql_type_def in_signed_range_def int_bits_def)
  with pgsql_select_integers [of "\<lambda>s. Some ?res" "''SELECT n FROM t''" ?res 2 "\<lambda>r i. [Some (show_int (int i - 1))]"
      "\<lambda>i. [int i - 1]" "[1, 0]" id]
  show ?thesis by (simp add: Let_def)
qed

text \<open>
  What a program gets for a column of type \<open>ty\<close> when the server sent \<open>raw\<close>; \<open>binary\<close> is what the
  driver makes of binary data and its size. Integers are those that the server prints without padding;
  \<open>integer_read\<close> says what is read in the signed range of the type, and for a type registered as unsigned in
  its unsigned range. A string is the text up to its first NUL, with the length of the whole.
\<close>

definition delivers :: "(string \<Rightarrow> string \<times> nat) \<Rightarrow> field_type \<Rightarrow> string option \<Rightarrow> cell \<Rightarrow> bool" where
  "delivers binary ty raw c \<longleftrightarrow>
     (case raw of None \<Rightarrow> c_null c
      | Some s \<Rightarrow> \<not> c_null c
          \<and> (fst ty = DBI_TYPE_INTEGER \<longrightarrow> (\<forall>v. s = show_int v \<longrightarrow> integer_read ty v (c_value c)))
          \<and> (fst ty = DBI_TYPE_STRING \<longrightarrow> c_value c = D_string (c_string s) \<and> c_size c = length s)
          \<and> (fst ty = DBI_TYPE_BINARY \<longrightarrow> c_value c = D_string (fst (binary s)) \<and> c_size c = snd (binary s))
          \<and> (fst ty = DBI_TYPE_DECIMAL \<and> CHR 0x00 \<notin> set s \<longrightarrow>
               c_value c = (if DBI_DECIMAL_SIZE4 \<in> snd ty then D_float s else D_double s))
          \<and> (fst ty = DBI_TYPE_DATETIME \<and> CHR 0x00 \<notin> set s \<longrightarrow>
               c_value c = D_datetime (Some s) (snd ty \<inter> {DBI_DATETIME_DATE, DBI_DATETIME_TIME})))"

lemma decode_decimal_sized:
  "one_dec_size a \<Longrightarrow> decode_decimal a s = (if DBI_DECIMAL_SIZE4 \<in> a then D_float s else D_double s)"
  by (auto simp: one_dec_size_def decode_decimal_def DBI_DECIMAL_SIZEMASK_def Let_def)

lemma mysql_delivers:
  "delivers (\<lambda>s. (s, if trailing = 1 then length s + 1 else length s)) (mysql_field_type m) raw
    (mysql_cell trailing (make_field n (mysql_field_type m)) raw)"
  using mysql_types.integer_read [of m] decode_decimal_sized [OF mysql_types.decimal_sized [of m]]
  by (cases "fst (mysql_field_type m)")
    (auto simp: delivers_def mysql_cell_def decode_datetime_def DBI_DATETIME_MASK_def split: option.split)

lemma pgsql_delivers:
  "delivers (\<lambda>s. (unescape s, length (unescape s))) (translate_postgresql_type oid) raw
    (pgsql_cell unescape (make_field n (translate_postgresql_type oid)) raw)"
  using pgsql_types.integer_read [of oid] decode_decimal_sized [OF pgsql_types.decimal_sized [of oid]]
  by (cases "fst (translate_postgresql_type oid)")
    (auto simp: delivers_def pgsql_cell_def decode_datetime_def DBI_DATETIME_MASK_def split: option.split)

lemma delivered_row:
  assumes "\<And>t raw. delivers b (ty t) raw (cell (make_field (name t) (ty t)) raw)" and "length raws = length ts"
  shows "list_all2 (\<lambda>(t, raw). delivers b (ty t) raw) (zip ts raws)
    (map2 cell (map (\<lambda>t. make_field (name t) (ty t)) ts) raws)"
  using assms by (auto simp: list_all2_conv_all_nth)

text \<open>
  C3: A query of the MySQL driver from the statement to the values. libdbi is told the number of
  rows; and whichever rows a program seeks, in whatever order, it gets for every column what the server
  sent: a null is flagged and nothing else is; an integer in the signed range of its type is the
  number, and so is one in the unsigned range of a column that is declared unsigned, except that of an unsigned
  BIGINT nothing above \<open>2 ^ 63 - 1\<close> is read, greater numbers being replaced by that one; a string is its text up to
  the first NUL, with the length of the whole; binary data are copied whole, with a length that is one greater on
  request; and a decimal number or a time is read from the text sent, at the width or with the
  parts of its type.
\<close>

theorem mysql_select:
  assumes "my_run a (c_string statement)" and "my_stored a (c_string statement) = Some (n, cols)"
    and "stored_result P data_seek fetch row n" and "P res"
    and "\<forall>i < n. length (row i) = length cols" and "\<forall>i \<in> set is. i < n"
  shows "\<exists>result rows c. mysql_query a statement = Some result \<and> qr_numrows result = of_nat n
    \<and> seek_rows (mysql_goto_row data_seek) (mysql_fetch_row trailing fetch (qr_fields result)) (open_result res) is
      = Inr (map Some rows, c)
    \<and> list_all2 (\<lambda>i. list_all2 (\<lambda>(col, raw). delivers (\<lambda>s. (s, if trailing = 1 then length s + 1 else length s))
          (mysql_field_type col) raw) (zip cols (row i))) is rows"
proof -
  let ?flds = "mysql_get_field_info cols" and ?b = "\<lambda>s. (s, if trailing = 1 then length s + 1 else length s)"
  let ?row = "\<lambda>i. mysql_get_row_data trailing ?flds (row i)"
  have "ready_with P (open_result res)" using assms(4) by (simp add: ready_open)
  from seekable.seek_rows_any [OF mysql_seekable [OF assms(3), of trailing ?flds] this assms(6)]
  obtain c where seek: "seek_rows (mysql_goto_row data_seek) (mysql_fetch_row trailing fetch ?flds) (open_result res) is
      = Inr (map (\<lambda>i. Some (?row i)) is, c)"
    by blast
  have "list_all2 (\<lambda>(col, raw). delivers ?b (mysql_field_type col) raw) (zip cols (row i)) (?row i)" if "i \<in> set is" for i
    unfolding mysql_get_row_data_def mysql_get_field_info_def
    using that assms(5,6) by (intro delivered_row mysql_delivers) simp
  then have "list_all2 (\<lambda>i. list_all2 (\<lambda>(col, raw). delivers ?b (mysql_field_type col) raw) (zip cols (row i))) is (map ?row is)"
    by (simp add: list_all2_map2 list_all2_same)
  with seek assms(1,2) show ?thesis
    by (simp add: mysql_query_def) (intro exI [of _ "map ?row is"] exI [of _ c], simp add: comp_def)
qed

text \<open>A column of numbers and one of text, the last row first; the text of that row is null.\<close>

theorem mysql_select_witness:
  "let number = \<lparr>my_name = ''n'', my_type = MYSQL_SHORT, my_charsetnr = 63, my_unsigned = False\<rparr>;
       note = \<lparr>my_name = ''t'', my_type = MYSQL_VAR_STRING, my_charsetnr = 33, my_unsigned = False\<rparr>;
       a = \<lparr>my_run = (\<lambda>s. True), my_stored = (\<lambda>s. Some (2, [number, note])), my_affected = (\<lambda>s. 0)\<rparr>;
       table = [[Some (show_int (- 5)), Some ''x''], [Some (show_int 7), None]];
       fetch = (\<lambda>p. (if p < 2 then Some (table ! p) else None, p + 1))
   in \<exists>result last first c. mysql_query a ''SELECT n, t FROM u'' = Some result \<and> qr_numrows result = 2
     \<and> seek_rows (mysql_goto_row (\<lambda>p i. i)) (mysql_fetch_row 0 fetch (qr_fields result)) (open_result (0 :: nat)) [1, 0]
       = Inr ([Some last, Some first], c)
     \<and> signed_value (c_value (last ! 0)) = Some 7 \<and> c_null (last ! 1)
     \<and> signed_value (c_value (first ! 0)) = Some (- 5) \<and> c_value (first ! 1) = D_string ''x''"
proof -
  let ?number = "\<lparr>my_name = ''n'', my_type = MYSQL_SHORT, my_charsetnr = 63, my_unsigned = False\<rparr>"
  let ?note = "\<lparr>my_name = ''t'', my_type = MYSQL_VAR_STRING, my_charsetnr = 33, my_unsigned = False\<rparr>"
  let ?a = "\<lparr>my_run = (\<lambda>s. True), my_stored = (\<lambda>s. Some (2, [?number, ?note])), my_affected = (\<lambda>s. 0)\<rparr>"
  let ?table = "[[Some (show_int (- 5)), Some ''x''], [Some (show_int 7), None]]"
  let ?fetch = "\<lambda>p. (if p < 2 then Some (?table ! p) else None, p + 1)"
  let ?b = "\<lambda>s :: string. (s, if (0 :: int) = 1 then length s + 1 else length s)"
  have types: "mysql_field_type ?number = (DBI_TYPE_INTEGER, {DBI_INTEGER_SIZE2})"
    "mysql_field_type ?note = (DBI_TYPE_STRING, {})"
    by (simp_all add: mysql_field_type_def translate_mysql_type_def)
  have range: "in_signed_range {DBI_INTEGER_SIZE2} v" if "v = 7 \<or> v = - 5" for v
    using that by (auto simp: in_signed_range_def int_bits_def)
  have "stored_result (\<lambda>p. True) (\<lambda>p i. i) ?fetch (\<lambda>i. ?table ! i) 2" by (simp add: stored_result_def)
  moreover have "\<forall>i < 2. length (?table ! i) = 2" by (simp add: less_Suc_eq numeral_2_eq_2)
  ultimately obtain result rows c where got: "mysql_query ?a ''SELECT n, t FROM u'' = Some result" "qr_numrows result = 2"
    "seek_rows (mysql_goto_row (\<lambda>p i. i)) (mysql_fetch_row 0 ?fetch (qr_fields result)) (open_result 0) [1, 0]
      = Inr (map Some rows, c)"
    "list_all2 (\<lambda>i. list_all2 (\<lambda>(col, raw). delivers ?b (mysql_field_type col) raw) (zip [?number, ?note] (?table ! i))) [1, 0] rows"
    using mysql_select [of ?a "''SELECT n, t FROM u''" 2 "[?number, ?note]" "\<lambda>p. True" "\<lambda>p i. i" ?fetch "\<lambda>i. ?table ! i" 0 "[1, 0]" 0]
    by auto
  obtain x y z w where "rows = [[x, y], [z, w]]" "delivers ?b (DBI_TYPE_INTEGER, {DBI_INTEGER_SIZE2}) (Some (show_int 7)) x"
    "delivers ?b (DBI_TYPE_STRING, {}) None y" "delivers ?b (DBI_TYPE_INTEGER, {DBI_INTEGER_SIZE2}) (Some (show_int (- 5))) z"
    "delivers ?b (DBI_TYPE_STRING, {}) (Some ''x'') w"
    using got(4) by (auto simp: list_all2_Cons1 types)
  with got(1-3) range show ?thesis
    unfolding Let_def
    by (intro exI [of _ result] exI [of _ "[x, y]"] exI [of _ "[z, w]"] exI [of _ c]) (simp add: delivers_def integer_read_def c_string_def)
qed

text \<open>The mSQL driver reads a null column of any type but a time, and then there is no value.\<close>

definition null_read :: "field_type \<Rightarrow> string option \<Rightarrow> bool" where
  "null_read ty raw \<longleftrightarrow> raw = None \<and> fst ty \<noteq> DBI_TYPE_DATETIME"

lemma msql_delivers:
  assumes "\<And>s. raw = Some s \<Longrightarrow> CHR 0x00 \<notin> set s"
  shows "if null_read (translate_msql_type t) raw
   then msql_cell (make_field n (translate_msql_type t)) raw = Inl NullDeref
   else \<exists>c. msql_cell (make_field n (translate_msql_type t)) raw = Inr c
     \<and> delivers (\<lambda>s. (s, length s)) (translate_msql_type t) raw c"
  using msql_types.integer_read [of t] decode_decimal_sized [OF msql_types.decimal_sized [of t]]
    msql_types.integer_set [of t "[]"] msql_types.decimal_set [of t "[]"] typed_translations(5) [of t]
  by (cases "fst (translate_msql_type t)"; cases raw)
    (use assms in \<open>auto simp: null_read_def delivers_def msql_cell_def decode_datetime_def DBI_DATETIME_MASK_def Let_def\<close>)

lemma bex_zip:
  "length xs = length ys \<Longrightarrow> (\<exists>(x, y) \<in> set (zip xs ys). Q x y) \<longleftrightarrow> (\<exists>k < length xs. Q (xs ! k) (ys ! k))"
  by (induction rule: list_induct2) (simp_all add: Ex_less_Suc2)

lemma msql_row_cases:
  assumes "length raws = length cols" and "\<forall>s. Some s \<in> set raws \<longrightarrow> CHR 0x00 \<notin> set s"
  shows "if \<exists>(col, raw) \<in> set (zip cols raws). null_read (translate_msql_type (snd col)) raw
    then msql_get_row_data (msql_get_field_info cols) raws = Inl NullDeref
    else \<exists>cells. msql_get_row_data (msql_get_field_info cols) raws = Inr cells
      \<and> list_all2 (\<lambda>(col, raw). delivers (\<lambda>s. (s, length s)) (translate_msql_type (snd col)) raw) (zip cols raws) cells"
proof -
  let ?ty = "\<lambda>k. translate_msql_type (snd (cols ! k))" and ?flds = "msql_get_field_info cols"
  let ?good = "\<lambda>k. delivers (\<lambda>s. (s, length s)) (?ty k) (raws ! k)"
  have "if null_read (?ty k) (raws ! k) then msql_cell (?flds ! k) (raws ! k) = Inl NullDeref
      else \<exists>c. msql_cell (?flds ! k) (raws ! k) = Inr c \<and> ?good k c" if "k \<in> set [0..<length ?flds]" for k
  proof -
    have k: "k < length cols" using that by (simp add: msql_get_field_info_def)
    then have "?flds ! k = make_field (fst (cols ! k)) (?ty k)"
      by (simp add: msql_get_field_info_def case_prod_beta)
    moreover have "CHR 0x00 \<notin> set s" if "raws ! k = Some s" for s
      using assms k that by (metis nth_mem)
    ultimately show ?thesis using msql_delivers [of "raws ! k" "snd (cols ! k)"] by presburger
  qed
  note run_cells_cases [of "[0..<length ?flds]" "\<lambda>k. null_read (?ty k) (raws ! k)", OF this]
  moreover have "list_all2 ?good [0..<length ?flds] cells \<Longrightarrow>
      list_all2 (\<lambda>(col, raw). delivers (\<lambda>s. (s, length s)) (translate_msql_type (snd col)) raw) (zip cols raws) cells" for cells
    using assms(1) by (auto simp: list_all2_conv_all_nth msql_get_field_info_def)
  moreover have "(\<exists>k \<in> set [0..<length ?flds]. null_read (?ty k) (raws ! k))
      \<longleftrightarrow> (\<exists>(col, raw) \<in> set (zip cols raws). null_read (translate_msql_type (snd col)) raw)"
    unfolding bex_zip [OF assms(1) [symmetric]] by (auto simp: msql_get_field_info_def)
  ultimately show ?thesis unfolding msql_get_row_data_def by (auto split: if_splits)
qed

text \<open>
  C10: A query of the mSQL driver from the statement to the values, for a statement that begins with
  \<open>select\<close>. The number of rows is passed on. If a row that is sought has a null in a column of any
  type but a date or a time, a null pointer is read; otherwise, whichever rows are sought, in whatever order, every
  column is delivered: an integer in the signed range of its type is the number, and so is one in the
  unsigned range of an unsigned type, except that a \<open>UINT64\<close> above \<open>2 ^ 63 - 1\<close> is replaced by that
  number; a string, which has no NUL, is its text with its length; and a decimal number or a time is read from the
  text sent, at the width or with the parts of its type.
\<close>

theorem msql_select:
  assumes "starts_with statement ''select''" and "stored_result P data_seek fetch row n" and "P res"
    and "\<forall>i < n. length (row i) = length cols \<and> (\<forall>s. Some s \<in> set (row i) \<longrightarrow> CHR 0x00 \<notin> set s)"
    and "\<forall>i \<in> set is. i < n"
  shows "\<exists>result. msql_query (int n) (Some cols) statement = Inr (Some result) \<and> qr_numrows result = of_nat n
    \<and> (let seek = seek_rows (msql_goto_row data_seek) (msql_fetch_row data_seek fetch (qr_fields result)) (open_result res) is in
       if \<exists>i \<in> set is. \<exists>(col, raw) \<in> set (zip cols (row i)). null_read (translate_msql_type (snd col)) raw
       then seek = Inl NullDeref
       else \<exists>rows c. seek = Inr (map Some rows, c)
         \<and> list_all2 (\<lambda>i. list_all2 (\<lambda>(col, raw). delivers (\<lambda>s. (s, length s)) (translate_msql_type (snd col)) raw)
             (zip cols (row i))) is rows)"
proof -
  let ?flds = "msql_get_field_info cols"
  let ?result = "\<lparr>qr_numrows = of_nat n, qr_affected = 0, qr_fields = ?flds\<rparr>"
  let ?bad = "\<lambda>i. \<exists>(col, raw) \<in> set (zip cols (row i)). null_read (translate_msql_type (snd col)) raw"
  let ?good = "\<lambda>i. list_all2 (\<lambda>(col, raw). delivers (\<lambda>s. (s, length s)) (translate_msql_type (snd col)) raw) (zip cols (row i))"
  have query: "msql_query (int n) (Some cols) statement = Inr (Some ?result)"
    using assms(1) by (simp add: msql_query_def)
  have "ready_with P (open_result res)" using assms(3) by (rule ready_open)
  moreover have "if ?bad i then msql_get_row_data ?flds (row i) = Inl NullDeref
      else \<exists>cells. msql_get_row_data ?flds (row i) = Inr cells \<and> ?good i cells" if "i \<in> set is" for i
    using assms(4,5) that by (intro msql_row_cases) auto
  ultimately have "if \<exists>i \<in> set is. ?bad i
      then seek_rows (msql_goto_row data_seek) (msql_fetch_row data_seek fetch ?flds) (open_result res) is = Inl NullDeref
      else \<exists>rows c. seek_rows (msql_goto_row data_seek) (msql_fetch_row data_seek fetch ?flds) (open_result res) is
        = Inr (map Some rows, c) \<and> list_all2 ?good is rows"
    by (rule msql_seek_cases [OF assms(2) _ assms(5)])
  then show ?thesis using query by (intro exI [of _ ?result]) (simp only: query_result.simps Let_def simp_thms)
qed

text \<open>Two rows of a number and a time: the time of the last row is null, then the number of the first.\<close>

theorem msql_select_witness:
  "let table = [[None, Some ''12:00:00''], [Some (show_int 7), None]];
       fetch = (\<lambda>p. (if p < 2 then Some (table ! p) else None, p + 1)); cols = [(''n'', INT_TYPE), (''t'', TIME_TYPE)]
   in \<exists>result row c. msql_query 2 (Some cols) ''SELECT n, t FROM u'' = Inr (Some result)
     \<and> seek_rows (msql_goto_row (\<lambda>p i. i)) (msql_fetch_row (\<lambda>p i. i) fetch (qr_fields result)) (open_result (0 :: nat)) [1]
       = Inr ([Some row], c)
     \<and> signed_value (c_value (row ! 0)) = Some 7 \<and> c_null (row ! 1)
     \<and> seek_rows (msql_goto_row (\<lambda>p i. i)) (msql_fetch_row (\<lambda>p i. i) fetch (qr_fields result)) (open_result 0) [1, 0]
       = Inl NullDeref"
proof -
  let ?table = "[[None, Some ''12:00:00''], [Some (show_int 7), None]]" and ?cols = "[(''n'', INT_TYPE), (''t'', TIME_TYPE)]"
  let ?fetch = "\<lambda>p. (if p < 2 then Some (?table ! p) else None, p + 1)"
  have sel: "starts_with ''SELECT n, t FROM u'' ''select''" by code_simp
  have stored: "stored_result (\<lambda>p :: nat. True) (\<lambda>p i. i) ?fetch (\<lambda>i. ?table ! i) 2" by (simp add: stored_result_def)
  have rows: "\<forall>i < 2. length (?table ! i) = length ?cols \<and> (\<forall>s. Some s \<in> set (?table ! i) \<longrightarrow> CHR 0x00 \<notin> set s)"
    by (auto simp: less_Suc_eq numeral_2_eq_2 show_int_no_nul)
  have types: "translate_msql_type INT_TYPE = (DBI_TYPE_INTEGER, {DBI_INTEGER_SIZE3})"
    "translate_msql_type TIME_TYPE = (DBI_TYPE_DATETIME, {DBI_DATETIME_TIME})"
    by (simp_all add: translate_msql_type_def)
  have range: "in_signed_range {DBI_INTEGER_SIZE3} 7" by (simp add: in_signed_range_def int_bits_def)
  note two = msql_select [OF sel stored TrueI rows, where res = 0]
  have "\<forall>i \<in> set [1]. i < (2 :: nat)" "\<forall>i \<in> set [1, 0]. i < (2 :: nat)" by simp_all
  from two [OF this(1)] two [OF this(2)] show ?thesis
    using range unfolding Let_def
    by (auto simp: types null_read_def delivers_def integer_read_def list_all2_Cons1)
qed

text \<open>
  C9: A query of the PostgreSQL driver from the statement to the values: the number of rows is passed
  on, and whichever rows are sought, in whatever order, a null is flagged and nothing else is, an
  integer that fits its type is the number, a string is its text up to the first NUL with its length,
  binary data are what the library makes of their escaped form, and a decimal number or a time is read from the
  text sent, at the width or with the parts of its type.
\<close>

theorem pgsql_select:
  assumes "exec statement = Some res" and "pg_status res = PGRES_TUPLES_OK"
    and "\<forall>i < pg_ntuples res. length (getvalue res i) = length (pg_fields res)"
    and "\<forall>i \<in> set is. i < pg_ntuples res"
  shows "\<exists>result rows c. pgsql_query exec statement = Some (res, result)
    \<and> qr_numrows result = of_nat (pg_ntuples res)
    \<and> seek_rows pgsql_goto_row (pgsql_fetch_row unescape getvalue (qr_fields result)) (open_result res) is
      = Inr (map Some rows, c)
    \<and> list_all2 (\<lambda>i. list_all2 (\<lambda>(col, raw). delivers (\<lambda>s. (unescape s, length (unescape s)))
          (translate_postgresql_type (snd col)) raw) (zip (pg_fields res) (getvalue res i))) is rows"
proof -
  let ?flds = "pgsql_get_field_info (pg_fields res)" and ?b = "\<lambda>s. (unescape s, length (unescape s))"
  let ?row = "\<lambda>i. pgsql_get_row_data unescape ?flds (getvalue res i)"
  have flds: "?flds = map (\<lambda>col. make_field (fst col) (translate_postgresql_type (snd col))) (pg_fields res)"
    by (simp add: pgsql_get_field_info_def case_prod_beta)
  have "list_all2 (\<lambda>(col, raw). delivers ?b (translate_postgresql_type (snd col)) raw)
      (zip (pg_fields res) (getvalue res i)) (?row i)" if "i \<in> set is" for i
    unfolding pgsql_get_row_data_def flds using that assms(3,4) by (intro delivered_row pgsql_delivers) simp
  then have "list_all2 (\<lambda>i. list_all2 (\<lambda>(col, raw). delivers ?b (translate_postgresql_type (snd col)) raw)
      (zip (pg_fields res) (getvalue res i))) is (map ?row is)"
    by (simp add: list_all2_map2 list_all2_same)
  moreover obtain result c where "pgsql_query exec statement = Some (res, result)"
    "qr_numrows result = of_nat (pg_ntuples res)"
    "seek_rows pgsql_goto_row (pgsql_fetch_row unescape getvalue (qr_fields result)) (open_result res) is
      = Inr (map (\<lambda>i. Some (?row i)) is, c)"
    by (rule pgsql_query_seek [where exec = exec and statement = statement, OF assms(1,2,4)])
  ultimately show ?thesis
    by (intro exI [of _ result] exI [of _ "map ?row is"] exI [of _ c]) (simp add: comp_def)
qed

text \<open>Two rows of a \<open>bigint\<close> and a \<open>text\<close>; the text of the second is null.\<close>

theorem pgsql_select_witness:
  "let res = \<lparr>pg_status = PGRES_TUPLES_OK, pg_ntuples = 2, pg_cmdTuples = [], pg_fields = [(''n'', 20), (''t'', 25)]\<rparr>;
       table = [[Some (show_int (- 5)), Some ''x''], [Some (show_int 7), None]]
   in \<exists>result last first c. pgsql_query (\<lambda>s. Some res) ''SELECT n, t FROM u'' = Some (res, result) \<and> qr_numrows result = 2
     \<and> seek_rows pgsql_goto_row (pgsql_fetch_row id (\<lambda>r i. table ! i) (qr_fields result)) (open_result res) [1, 0]
       = Inr ([Some last, Some first], c)
     \<and> signed_value (c_value (last ! 0)) = Some 7 \<and> c_null (last ! 1)
     \<and> signed_value (c_value (first ! 0)) = Some (- 5) \<and> c_value (first ! 1) = D_string ''x''"
proof -
  let ?res = "\<lparr>pg_status = PGRES_TUPLES_OK, pg_ntuples = 2, pg_cmdTuples = [], pg_fields = [(''n'', 20), (''t'', 25)]\<rparr>"
  let ?table = "[[Some (show_int (- 5)), Some ''x''], [Some (show_int 7), None]]"
  let ?b = "\<lambda>s :: string. (id s, length (id s))"
  have types: "translate_postgresql_type 20 = (DBI_TYPE_INTEGER, {DBI_INTEGER_SIZE8})"
    "translate_postgresql_type 25 = (DBI_TYPE_STRING, {})"
    by (simp_all add: translate_postgresql_type_def)
  have range: "in_signed_range {DBI_INTEGER_SIZE8} v" if "v = 7 \<or> v = - 5" for v
    using that by (auto simp: in_signed_range_def int_bits_def)
  have "\<forall>i < 2. length (?table ! i) = 2" by (simp add: less_Suc_eq numeral_2_eq_2)
  then obtain result rows c where got: "pgsql_query (\<lambda>s. Some ?res) ''SELECT n, t FROM u'' = Some (?res, result)"
    "qr_numrows result = 2"
    "seek_rows pgsql_goto_row (pgsql_fetch_row id (\<lambda>r i. ?table ! i) (qr_fields result)) (open_result ?res) [1, 0]
      = Inr (map Some rows, c)"
    "list_all2 (\<lambda>i. list_all2 (\<lambda>(col, raw). delivers ?b (translate_postgresql_type (snd col)) raw)
      (zip [(''n'', 20), (''t'', 25)] (?table ! i))) [1, 0] rows"
    using pgsql_select [of "\<lambda>s. Some ?res" "''SELECT n, t FROM u''" ?res "\<lambda>r i. ?table ! i" "[1, 0]" id] by auto
  obtain x y z w where "rows = [[x, y], [z, w]]" "delivers ?b (DBI_TYPE_INTEGER, {DBI_INTEGER_SIZE8}) (Some (show_int 7)) x"
    "delivers ?b (DBI_TYPE_STRING, {}) None y" "delivers ?b (DBI_TYPE_INTEGER, {DBI_INTEGER_SIZE8}) (Some (show_int (- 5))) z"
    "delivers ?b (DBI_TYPE_STRING, {}) (Some ''x'') w"
    using got(4) by (auto simp: list_all2_Cons1 types)
  with got(1-3) range show ?thesis
    unfolding Let_def
    by (intro exI [of _ result] exI [of _ "[x, y]"] exI [of _ "[z, w]"] exI [of _ c]) (simp add: delivers_def integer_read_def c_string_def)
qed

lemma sqlite_fields_found:
  assumes "\<And>name. name \<in> set names \<Longrightarrow>
      sqlite_find_result_field_types get_info name statement = Inr (legacy_type cols name)"
    and "\<forall>name \<in> set names. CHR ''.'' \<notin> set name" and "\<forall>i \<in> set idxs. i < length names"
  shows "sqlite_fields get_info (map Some names @ data) statement idxs
    = Inr (map (\<lambda>i. make_field (names ! i) (translate_sqlite_type (legacy_type cols (names ! i)))) idxs)"
  using assms(3)
proof (induction idxs)
  case (Cons i idxs)
  then have "names ! i \<in> set names" by simp
  then have "after_dot (names ! i) = names ! i"
    and "sqlite_find_result_field_types get_info (names ! i) statement = Inr (legacy_type cols (names ! i))"
    using assms(1,2) by (simp_all add: after_dot_id)
  then show ?case using Cons by (simp add: table_entry_def nth_append not_null_def)
qed simp

text \<open>
  C26: A query of the SQLite driver from the statement to the values. For a statement on one table
  that selects plain column names, the result has a field for every column with the libdbi type of
  its declaration in the CREATE TABLE command that \<open>sqlite_master\<close> keeps, the last one read with the closing
  parenthesis, and string if it is not there; and rows read in any order have the cells of the
  table that the library returned, converted by these types.
\<close>

theorem sqlite_select:
  assumes "from_position statement = Some from" and "first_from_table from = t"
    and "length t < MAX_IDENT_LENGTH" and "t \<notin> {''sqlite_master'', ''sqlite_temp_master''}"
    and "CHR ''.'' \<notin> set (take (length statement - length from) statement)"
    and "\<forall>name \<in> set names. CHR ''.'' \<notin> set name \<and> CHR ''('' \<notin> set name \<and> length name < MAX_IDENT_LENGTH"
    and "get_info (master_command t) = (0, Suc k, tbl)" and "3 < length tbl"
    and "tbl ! 3 = Some (head @ CHR ''('' # column_list cols)" and "CHR ''('' \<notin> set head" and "cols \<noteq> []"
    and "\<forall>(n, ty) \<in> set cols. column_name n \<and> declared ty \<and> ty \<noteq> []"
    and "get_table statement = (0, numrows, length names, map Some names @ data)"
    and "length data = numrows * length names" and "\<forall>i \<in> set is. i < numrows"
    and "flds = map (\<lambda>n. make_field n (translate_sqlite_type (legacy_type cols n))) names"
  shows "\<exists>r c. sqlite_query get_info get_table changes statement = Inr (Some r)
    \<and> sr_rows r = numrows \<and> sr_fields r = flds
    \<and> seek_rows sqlite_goto_row (sqlite_fetch_row decode (sr_fields r)) (open_result (sr_table r)) is
      = Inr (map (\<lambda>i. Some (map2 (sqlite_cell decode) flds (take (length names) (drop (i * length names) data)))) is, c)"
proof -
  let ?tbl = "map Some names @ data"
  let ?r = "\<lparr>sr_rows = numrows, sr_changed = changes, sr_fields = flds, sr_table = ?tbl\<rparr>"
  have "sqlite_find_result_field_types get_info name statement = Inr (legacy_type cols name)" if "name \<in> set names" for name
    using that assms(6) by (intro legacy_found [where get_info = get_info and t = t and head = head, OF assms(1-5) _ _ _ assms(7-12)]) auto
  then have "sqlite_fields get_info ?tbl statement [0..<length names]
      = Inr (map (\<lambda>i. make_field (names ! i) (translate_sqlite_type (legacy_type cols (names ! i)))) [0..<length names])"
    using assms(6) by (intro sqlite_fields_found) auto
  moreover have "map (\<lambda>i. make_field (names ! i) (translate_sqlite_type (legacy_type cols (names ! i)))) [0..<length names] = flds"
    unfolding assms(16) by (rule nth_equalityI) simp_all
  ultimately have query: "sqlite_query get_info get_table changes statement = Inr (Some ?r)"
    by (simp add: sqlite_query_def assms(13))
  have "ready_with (result_table_of ?tbl flds numrows) (open_result ?tbl)"
    by (rule ready_open) (simp add: result_table_of_def assms(14,16))
  from sqlite_rows.seek_rows_any [OF this assms(15)]
  obtain c where "seek_rows sqlite_goto_row (sqlite_fetch_row decode flds) (open_result ?tbl) is
      = Inr (map (\<lambda>i. Some (sqlite_row (sqlite_cell decode) flds ?tbl i)) is, c)"
    by blast
  moreover have "sqlite_row (sqlite_cell decode) flds ?tbl i
      = map2 (sqlite_cell decode) flds (take (length names) (drop (i * length names) data))" for i
    by (simp add: sqlite_row_def assms(16))
  ultimately show ?thesis using query by (intro exI [of _ ?r] exI [of _ c]) simp
qed

text \<open>Two columns of one row; the second is declared last.\<close>

theorem sqlite_select_witness:
  "\<exists>r c. sqlite_query (\<lambda>sql. (0, 1, [None, None, Some ''t'', Some ''create table t (a smallint, b text)'']))
      (\<lambda>s. (0, 1, 2, [Some ''a'', Some ''b'', Some ''7'', Some ''x''])) 0 ''select a,b from t'' = Inr (Some r)
    \<and> seek_rows sqlite_goto_row (sqlite_fetch_row id (sr_fields r)) (open_result (sr_table r)) [0]
      = Inr ([Some [value_cell (D_short 7), sized_cell ''x'' 1]], c)"
proof -
  let ?create = "''create table t '' @ CHR ''('' # column_list [(''a'', ''smallint''), (''b'', ''text'')]"
  let ?info = "\<lambda>sql :: string. (0 :: int, 1, [None, None, Some ''t'', Some ?create])"
  let ?fa = "make_field ''a'' (DBI_TYPE_INTEGER, {DBI_INTEGER_SIZE2})" and ?fb = "make_field ''b'' (DBI_TYPE_STRING, {})"
  let ?cols = "[(''a'', ''smallint''), (''b'', ''text'')]"
  let ?tbl = "[None, None, Some ''t'', Some ?create]"
  have tbl: "3 < length ?tbl" "?tbl ! 3 = Some ?create" by (simp_all add: eval_nat_numeral)
  have parts: "from_position ''select a,b from t'' = Some '' from t''" "first_from_table '' from t'' = ''t''"
    "CHR ''.'' \<notin> set (take (length ''select a,b from t'' - length '' from t'') ''select a,b from t'')"
    by code_simp+
  have "translate_sqlite_type (legacy_type ?cols ''a'') = (DBI_TYPE_INTEGER, {DBI_INTEGER_SIZE2})"
    "translate_sqlite_type (legacy_type ?cols ''b'') = (DBI_TYPE_STRING, {})"
    unfolding legacy_type_def by code_simp+
  then have flds: "[?fa, ?fb] = map (\<lambda>n. make_field n (translate_sqlite_type (legacy_type ?cols n))) [''a'', ''b'']"
    by (simp only: list.map)
  have "\<exists>r c. sqlite_query ?info (\<lambda>s. (0, 1, 2, [Some ''a'', Some ''b'', Some ''7'', Some ''x''])) 0 ''select a,b from t'' = Inr (Some r)
    \<and> sr_rows r = 1 \<and> sr_fields r = [?fa, ?fb]
    \<and> seek_rows sqlite_goto_row (sqlite_fetch_row id (sr_fields r)) (open_result (sr_table r)) [0]
      = Inr (map (\<lambda>i. Some (map2 (sqlite_cell id) [?fa, ?fb]
          (take (length [''a'', ''b'']) (drop (i * length [''a'', ''b'']) [Some ''7'', Some ''x''])))) [0], c)"
    by (rule sqlite_select [OF parts(1,2) _ _ parts(3) _ _ tbl _ _ _ _ _ _ flds, where k = 0])
      (simp_all add: MAX_IDENT_LENGTH_def column_name_def name_char_def item_char_def blank_def declared_def eval_nat_numeral)
  moreover have "decode_integer {DBI_INTEGER_SIZE2} ''7'' = D_short 7" by code_simp
  ultimately show ?thesis by (simp add: sqlite_cell_def) blast
qed

end
